(* ===== verification/Prelude.thy ===== *)
theory Prelude
  imports Complex_Main
begin

text \<open>
  Shared vocabulary of the development.

  A Python exception is a value of type \<open>exc\<close>; a call that may raise returns \<open>'a res\<close>, a sum
  whose left side is the exception.  \<open>bindR\<close> sequences two such calls, \<open>checks\<close> is the
  chain of guarded \<open>raise ValueError(code)\<close> statements with which every pydantic model
  validator of the program is written, and \<open>foldR\<close> is a \<open>for\<close> loop whose body may raise.
  The lemmas below are collected in \<open>res_simps\<close> (rewriting a successful run into the success
  of its parts) and are what the component proofs are built on.
\<close>

section \<open>Exceptions and results\<close>

datatype exc =
    ValueError string
  | DecimalException
  | ZeroDivisionError
  | KeyError
  | IndexError
  | StopIteration
  | AssertionError
  | TypeError
  | InterruptedError string

type_synonym 'a res = "exc + 'a"

named_theorems res_simps \<open>rewriting successful runs into the success of their parts\<close>

definition bindR :: "'a res \<Rightarrow> ('a \<Rightarrow> 'b res) \<Rightarrow> 'b res" where
  "bindR m f = (case m of Inl e \<Rightarrow> Inl e | Inr x \<Rightarrow> f x)"

lemma bindR_simps [simp]:
  "bindR (Inl e) f = Inl e"
  "bindR (Inr x) f = f x"
  by (simp_all add: bindR_def)

lemma bindR_Inr_iff [res_simps]: "bindR m f = Inr y \<longleftrightarrow> (\<exists>x. m = Inr x \<and> f x = Inr y)"
  by (cases m) auto

lemma bindR_Inl_iff: "bindR m f = Inl e \<longleftrightarrow> m = Inl e \<or> (\<exists>x. m = Inr x \<and> f x = Inl e)"
  by (cases m) auto

lemma bindR_assoc: "bindR (bindR m f) g = bindR m (\<lambda>x. bindR (f x) g)"
  by (cases m) auto

lemma bindR_cong [fundef_cong]:
  "m = m' \<Longrightarrow> (\<And>x. m' = Inr x \<Longrightarrow> f x = f' x) \<Longrightarrow> bindR m f = bindR m' f'"
  by (cases m') auto

text \<open>A validator: the first condition that holds raises its code.\<close>

primrec checks :: "(bool \<times> string) list \<Rightarrow> unit res" where
  "checks [] = Inr ()"
| "checks (c # cs) = (if fst c then Inl (ValueError (snd c)) else checks cs)"

lemma checks_Inr_iff [res_simps]: "checks cs = Inr u \<longleftrightarrow> (\<forall>c \<in> set cs. \<not> fst c)"
  by (induction cs) auto

declare checks.simps(2) [simp del]

lemma checks_Inl_ValueError: "checks cs = Inl e \<Longrightarrow> \<exists>c \<in> set cs. fst c \<and> e = ValueError (snd c)"
  by (induction cs) (auto simp: checks.simps split: if_splits)

text \<open>A loop whose body may raise.\<close>

primrec foldR :: "('a \<Rightarrow> 's \<Rightarrow> 's res) \<Rightarrow> 'a list \<Rightarrow> 's \<Rightarrow> 's res" where
  "foldR f [] s = Inr s"
| "foldR f (x # xs) s = bindR (f x s) (foldR f xs)"

lemma foldR_append: "foldR f (xs @ ys) s = bindR (foldR f xs s) (foldR f ys)"
proof (induction xs arbitrary: s)
  case (Cons x xs)
  then have "foldR f (xs @ ys) = (\<lambda>u. bindR (foldR f xs u) (foldR f ys))" by (rule ext)
  then show ?case by (simp add: bindR_assoc)
qed simp

lemma foldR_snoc [simp]: "foldR f (xs @ [x]) s = bindR (foldR f xs s) (f x)"
  by (simp add: foldR_append) (cases "foldR f xs s"; auto simp: bindR_def split: sum.splits)

lemma foldR_cong [fundef_cong]:
  "xs = ys \<Longrightarrow> s = t \<Longrightarrow> (\<And>x u. x \<in> set ys \<Longrightarrow> f x u = g x u) \<Longrightarrow> foldR f xs s = foldR g ys t"
proof (induction xs arbitrary: ys s t)
  case (Cons x xs)
  then have ys: "ys = x # xs" and st: "s = t" by simp_all
  have "f x t = g x t" using Cons.prems(3) ys by simp
  moreover have "foldR f xs u = foldR g xs u" for u
    using Cons.IH [of xs u u] Cons.prems(3) ys by simp
  ultimately show ?case by (simp add: ys st cong: bindR_cong)
qed simp

text \<open>
  The loop rule: an invariant that holds at the start and is kept by every successful
  iteration holds of a successful result.
\<close>

lemma foldR_invariant:
  assumes "foldR f xs s = Inr t" and "P s"
    and "\<And>x u v. x \<in> set xs \<Longrightarrow> P u \<Longrightarrow> f x u = Inr v \<Longrightarrow> P v"
  shows "P t"
  using assms
proof (induction xs arbitrary: s)
  case (Cons x xs)
  from Cons.prems(1) obtain u where u: "f x s = Inr u" "foldR f xs u = Inr t"
    by (auto simp: res_simps)
  have "P u" using Cons.prems(2,3) u(1) by auto
  with u(2) show ?case by (rule Cons.IH) (use Cons.prems(3) in auto)
qed simp

text \<open>Which exceptions a loop can end in: the one of an iteration started in the invariant.\<close>

lemma foldR_error:
  assumes "foldR f xs s = Inl e" and "P s"
    and "\<And>x u v. x \<in> set xs \<Longrightarrow> P u \<Longrightarrow> f x u = Inr v \<Longrightarrow> P v"
    and "\<And>x u. x \<in> set xs \<Longrightarrow> P u \<Longrightarrow> f x u = Inl e \<Longrightarrow> Q"
  shows Q
  using assms
proof (induction xs arbitrary: s)
  case (Cons x xs)
  show ?case
  proof (cases "f x s")
    case (Inl e')
    with Cons.prems(1) have "f x s = Inl e" by simp
    with Cons.prems(2,4) show ?thesis by (meson list.set_intros(1))
  next
    case (Inr u)
    have "P u" using Cons.prems(2,3) Inr by auto
    moreover have "foldR f xs u = Inl e" using Cons.prems(1) Inr by simp
    ultimately show ?thesis using Cons.IH Cons.prems(3,4) by (metis list.set_intros(2))
  qed
qed simp

text \<open>A comprehension whose element expression may raise.\<close>

primrec mapR :: "('a \<Rightarrow> 'b res) \<Rightarrow> 'a list \<Rightarrow> 'b list res" where
  "mapR f [] = Inr []"
| "mapR f (x # xs) = bindR (f x) (\<lambda>y. bindR (mapR f xs) (\<lambda>ys. Inr (y # ys)))"

lemma mapR_Inr_list_all2: "mapR f xs = Inr ys \<longleftrightarrow> list_all2 (\<lambda>x y. f x = Inr y) xs ys"
  by (induction xs arbitrary: ys) (auto simp: res_simps list_all2_Cons1)

lemma mapR_length: "mapR f xs = Inr ys \<Longrightarrow> length ys = length xs"
  by (auto simp: mapR_Inr_list_all2 dest: list_all2_lengthD)

lemma mapR_Inr_elem:
  assumes "mapR f xs = Inr ys" and "x \<in> set xs"
  obtains y where "f x = Inr y"
  using assms by (auto simp: mapR_Inr_list_all2 list_all2_conv_all_nth in_set_conv_nth)

section \<open>Which exceptions a call can raise\<close>

definition fails_in :: "(exc \<Rightarrow> bool) \<Rightarrow> 'a res \<Rightarrow> bool" where
  "fails_in P m \<longleftrightarrow> (\<forall>e. m = Inl e \<longrightarrow> P e)"

named_theorems fails_intros \<open>introduction rules for the exceptions of a call\<close>

lemma fails_in_Inr [fails_intros]: "fails_in P (Inr x)"
  by (simp add: fails_in_def)

lemma fails_in_Inl [fails_intros]: "P e \<Longrightarrow> fails_in P (Inl e)"
  by (simp add: fails_in_def)

lemma fails_in_bindR [fails_intros]:
  "fails_in P m \<Longrightarrow> (\<And>x. m = Inr x \<Longrightarrow> fails_in P (f x)) \<Longrightarrow> fails_in P (bindR m f)"
  by (cases m) (auto simp: fails_in_def)

lemma fails_in_checks [fails_intros]:
  "(\<And>c. c \<in> set cs \<Longrightarrow> P (ValueError (snd c))) \<Longrightarrow> fails_in P (checks cs)"
  by (auto simp: fails_in_def dest: checks_Inl_ValueError)

lemma fails_in_if [fails_intros]:
  "(b \<Longrightarrow> fails_in P m) \<Longrightarrow> (\<not> b \<Longrightarrow> fails_in P n) \<Longrightarrow> fails_in P (if b then m else n)"
  by simp

lemma fails_in_option [fails_intros]:
  "(x = None \<Longrightarrow> fails_in P m) \<Longrightarrow> (\<And>y. x = Some y \<Longrightarrow> fails_in P (f y)) \<Longrightarrow>
     fails_in P (case x of None \<Rightarrow> m | Some y \<Rightarrow> f y)"
  by (cases x) simp_all

lemma fails_in_Let [fails_intros]: "(\<And>x. x = t \<Longrightarrow> fails_in P (f x)) \<Longrightarrow> fails_in P (Let t f)"
  by simp

lemma fails_in_prod [fails_intros]:
  "(\<And>a b. p = (a, b) \<Longrightarrow> fails_in P (f a b)) \<Longrightarrow> fails_in P (case p of (a, b) \<Rightarrow> f a b)"
  by (cases p) simp

lemma fails_in_mapR [fails_intros]:
  "(\<And>x. x \<in> set xs \<Longrightarrow> fails_in P (f x)) \<Longrightarrow> fails_in P (mapR f xs)"
proof (induction xs)
  case (Cons x xs)
  then have "fails_in P (f x)" and "fails_in P (mapR f xs)" by simp_all
  then show ?case by (simp only: mapR.simps) (intro fails_in_bindR fails_in_Inr)
qed (simp add: fails_in_Inr)

lemma fails_in_foldR:
  assumes "\<And>x u. x \<in> set xs \<Longrightarrow> Q u \<Longrightarrow> fails_in P (f x u)" and "Q s"
    and "\<And>x u v. x \<in> set xs \<Longrightarrow> Q u \<Longrightarrow> f x u = Inr v \<Longrightarrow> Q v"
  shows "fails_in P (foldR f xs s)"
  using assms
proof (induction xs arbitrary: s)
  case (Cons x xs)
  have "fails_in P (foldR f xs u)" if "f x s = Inr u" for u
    by (rule Cons.IH) (use Cons.prems that in \<open>(meson list.set_intros)+\<close>)
  moreover have "fails_in P (f x s)" using Cons.prems by (meson list.set_intros(1))
  ultimately show ?case by (simp only: foldR.simps) (rule fails_in_bindR)
qed (simp add: fails_in_Inr)

lemma fails_in_foldR_simple [fails_intros]:
  "(\<And>x u. x \<in> set xs \<Longrightarrow> fails_in P (f x u)) \<Longrightarrow> fails_in P (foldR f xs s)"
  by (rule fails_in_foldR [where Q = "\<lambda>_. True"]) auto

lemma fails_in_mono: "fails_in P m \<Longrightarrow> (\<And>e. P e \<Longrightarrow> Q e) \<Longrightarrow> fails_in Q m"
  by (auto simp: fails_in_def)

section \<open>Optional values\<close>

lemma pred_option_code [code]: "pred_option P None = True" "pred_option P (Some x) = P x"
  by simp_all

section \<open>Python sequences\<close>

text \<open>\<open>xs[-n:]\<close> for \<open>0 < n\<close>, and \<open>next(x for x in xs if p(x))\<close> with a default of \<open>None\<close>.\<close>

definition last_n :: "nat \<Rightarrow> 'a list \<Rightarrow> 'a list" where
  "last_n n xs = drop (length xs - n) xs"

lemma length_last_n [simp]: "length (last_n n xs) = min n (length xs)"
  by (auto simp: last_n_def)

lemma set_last_n: "set (last_n n xs) \<subseteq> set xs"
  by (simp add: last_n_def set_drop_subset)

text \<open>\<open>tuple(sorted(set(keys))) == keys\<close>: strictly increasing.\<close>

fun strictly_increasing :: "('a::linorder) list \<Rightarrow> bool" where
  "strictly_increasing (x # y # zs) = (x < y \<and> strictly_increasing (y # zs))"
| "strictly_increasing _ = True"

lemma strictly_increasing_iff: "strictly_increasing xs \<longleftrightarrow> sorted_wrt (<) xs"
  by (induction xs rule: strictly_increasing.induct) (auto intro: less_trans)

lemma strictly_increasing_sorted_set: "strictly_increasing xs \<longleftrightarrow> sorted_list_of_set (set xs) = xs"
proof
  assume "strictly_increasing xs"
  then show "sorted_list_of_set (set xs) = xs"
    by (simp add: strictly_increasing_iff strict_sorted_iff sorted_list_of_set.idem_if_sorted_distinct)
next
  assume "sorted_list_of_set (set xs) = xs"
  then show "strictly_increasing xs"
    by (metis strictly_increasing_iff strict_sorted_list_of_set)
qed

text \<open>
  The adjacent pairs of a list, \<open>zip(xs, xs[1:])\<close>.
\<close>

definition adjacent :: "'a list \<Rightarrow> ('a \<times> 'a) list" where
  "adjacent xs = zip xs (tl xs)"

lemma length_adjacent [simp]: "length (adjacent xs) = length xs - 1"
  by (simp add: adjacent_def)

lemma adjacent_simps [simp]:
  "adjacent [] = []"
  "adjacent [x] = []"
  "adjacent (x # y # zs) = (x, y) # adjacent (y # zs)"
  by (simp_all add: adjacent_def)

lemma adjacent_take: "adjacent (take n xs) = take (n - 1) (adjacent xs)"
proof (induction xs arbitrary: n)
  case (Cons x xs)
  show ?case
  proof (cases n)
    case (Suc m)
    show ?thesis
      using Cons.IH [of m] by (cases xs; cases m) (simp_all add: Suc)
  qed simp
qed simp

section \<open>Sums over lists of numbers\<close>

lemma sum_list_nonneg_map:
  "(\<And>x. x \<in> set xs \<Longrightarrow> (0::'b::ordered_comm_monoid_add) \<le> f x) \<Longrightarrow> 0 \<le> sum_list (map f xs)"
  by (induction xs) (auto intro: add_nonneg_nonneg)

lemma length_filter_trichotomy:
  fixes f :: "'a \<Rightarrow> 'b::linorder"
  shows "length (filter (\<lambda>x. c < f x) xs) + length (filter (\<lambda>x. f x < c) xs)
           + length (filter (\<lambda>x. f x = c) xs) = length xs"
  by (induction xs) auto

end
