(* ===== verification/Decimals.thy ===== *)
theory Decimals
  imports Prelude
begin

text \<open>
  Python's \<open>decimal\<close> arithmetic.

  The value of a finite \<open>Decimal\<close> is a rational number, and the program never looks at more than
  the value of a decimal outside of text formatting, so a decimal is a \<open>rat\<close>.  An arithmetic
  operation in a context of precision \<open>p\<close> computes the exact result and rounds it, half to even, to
  \<open>p\<close> significant digits: \<open>round_sig p\<close>.  A context that traps \<open>Inexact\<close> (the
  \<open>ARITHMETIC\<close> and \<open>EXACT\<close> contexts of precision 80) raises when rounding changed the value:
  \<open>exactly p\<close>.  The exponent limits of the contexts (999999) are not modelled: the program's inputs
  have at most 18 integer and 10 fractional digits.
\<close>

section \<open>Rounding to significant digits\<close>

text \<open>The number of decimal digits of a positive integer (0 for 0).\<close>

function ndigits :: "int \<Rightarrow> nat" where
  "ndigits n = (if n \<le> 0 then 0 else Suc (ndigits (n div 10)))"
  by pat_completeness auto
termination
  by (relation "measure nat") auto

declare ndigits.simps [simp del]

lemma ndigits_0 [simp]: "ndigits 0 = 0"
  by (simp add: ndigits.simps)

lemma ndigits_upper: "n < 10 ^ ndigits n"
proof (induction n rule: ndigits.induct)
  case (1 n)
  show ?case
  proof (cases "n \<le> 0")
    case False
    with 1 have "n div 10 < 10 ^ ndigits (n div 10)" by simp
    then have "n < 10 * 10 ^ ndigits (n div 10)" by linarith
    with False show ?thesis by (simp add: ndigits.simps [of n])
  qed (simp add: ndigits.simps [of n])
qed

lemma ndigits_lower: "0 < n \<Longrightarrow> 10 ^ (ndigits n - 1) \<le> n"
proof (induction n rule: ndigits.induct)
  case (1 n)
  show ?case
  proof (cases "n div 10 = 0")
    case True
    with 1 show ?thesis by (simp add: ndigits.simps [of n])
  next
    case False
    with 1 have pos: "0 < n div 10" by linarith
    with 1 have IH: "10 ^ (ndigits (n div 10) - 1) \<le> n div 10" by simp
    have "ndigits (n div 10) \<noteq> 0" using pos by (simp add: ndigits.simps [of "n div 10"])
    then have "(10::int) ^ ndigits (n div 10) = 10 * 10 ^ (ndigits (n div 10) - 1)"
      by (metis power_eq_if)
    also have "\<dots> \<le> 10 * (n div 10)" using IH by simp
    also have "\<dots> \<le> n" by simp
    finally show ?thesis using 1 by (simp add: ndigits.simps [of n])
  qed
qed

text \<open>\<open>Decimal.adjusted()\<close>: the exponent of the leading digit of a nonzero value.\<close>

definition adjusted :: "rat \<Rightarrow> int" where
  "adjusted r =
     (let n = \<bar>fst (quotient_of r)\<bar>; d = snd (quotient_of r);
          e = int (ndigits n) - int (ndigits d)
      in if 10 powi e \<le> \<bar>r\<bar> then e else e - 1)"

text \<open>Round half to even, to an integer.\<close>

definition round_even :: "rat \<Rightarrow> int" where
  "round_even x =
     (let f = \<lfloor>x\<rfloor>; t = x - of_int f
      in if t < 1/2 then f else if 1/2 < t then f + 1 else if even f then f else f + 1)"

definition round_sig :: "nat \<Rightarrow> rat \<Rightarrow> rat" where
  "round_sig p r =
     (if r = 0 then 0
      else let u = 10 powi (adjusted r - int p + 1) in of_int (round_even (r / u)) * u)"

text \<open>An operation in a context that traps \<open>Inexact\<close>.\<close>

definition exactly :: "nat \<Rightarrow> rat \<Rightarrow> rat res" where
  "exactly p r = (if round_sig p r = r then Inr r else Inl DecimalException)"


subsection \<open>The leading exponent\<close>

lemma ndigits_powi:
  assumes "0 < n"
  shows "10 powi (int (ndigits n) - 1) \<le> rat_of_int n" and "rat_of_int n < 10 powi int (ndigits n)"
proof -
  have "ndigits n \<noteq> 0" using assms by (subst ndigits.simps) simp
  then have eq: "int (ndigits n) - 1 = int (ndigits n - 1)" by simp
  have "rat_of_int (10 ^ (ndigits n - 1)) \<le> rat_of_int n"
    using ndigits_lower [OF assms] by (simp only: of_int_le_iff)
  then show "10 powi (int (ndigits n) - 1) \<le> rat_of_int n" by (simp only: eq power_int_of_nat) simp
  have "rat_of_int n < rat_of_int (10 ^ ndigits n)"
    using ndigits_upper [of n] by (simp only: of_int_less_iff)
  then show "rat_of_int n < 10 powi int (ndigits n)" by (simp only: power_int_of_nat) simp
qed

lemma ten_powi_pos [simp]: "(0::rat) < 10 powi e"
  by simp

lemma ten_powi_nonzero: "((10::rat) powi e = 0) = False"
  by simp

lemma ten_powi_less_iff [simp]: "(10::rat) powi a < 10 powi b \<longleftrightarrow> a < b"
  using power_int_strict_increasing [of a b "10::rat"] power_int_increasing [of b a "10::rat"]
  by fastforce

lemma ten_powi_le_iff [simp]: "(10::rat) powi a \<le> 10 powi b \<longleftrightarrow> a \<le> b"
  by (simp flip: not_less)

lemma quotient_of_pos_parts:
  assumes "r \<noteq> 0"
  shows "0 < \<bar>fst (quotient_of r)\<bar>" and "0 < snd (quotient_of r)"
    and "\<bar>r\<bar> = of_int \<bar>fst (quotient_of r)\<bar> / of_int (snd (quotient_of r))"
proof -
  obtain n d where nd: "quotient_of r = (n, d)" by (cases "quotient_of r")
  have d: "0 < d" using nd by (rule quotient_of_denom_pos)
  have r: "r = of_int n / of_int d" using nd by (rule quotient_of_div)
  have n: "n \<noteq> 0" using assms r by auto
  show "0 < \<bar>fst (quotient_of r)\<bar>" "0 < snd (quotient_of r)"
    using n d by (simp_all add: nd)
  have "\<bar>r\<bar> = \<bar>of_int n\<bar> / of_int d" using d by (subst r) (simp add: abs_divide)
  then show "\<bar>r\<bar> = of_int \<bar>fst (quotient_of r)\<bar> / of_int (snd (quotient_of r))" by (simp add: nd)
qed

lemma adjusted_bounds:
  assumes "r \<noteq> 0"
  shows "10 powi adjusted r \<le> \<bar>r\<bar>" and "\<bar>r\<bar> < 10 powi (adjusted r + 1)"
proof -
  define n where "n = \<bar>fst (quotient_of r)\<bar>"
  define d where "d = snd (quotient_of r)"
  define a where "a = ndigits n"
  define b where "b = ndigits d"
  note parts = quotient_of_pos_parts [OF assms, folded n_def d_def]
  have a: "10 powi (int a - 1) \<le> rat_of_int n" "rat_of_int n < 10 powi int a"
    using ndigits_powi [OF parts(1)] by (simp_all add: a_def)
  have b: "10 powi (int b - 1) \<le> rat_of_int d" "rat_of_int d < 10 powi int b"
    using ndigits_powi [OF parts(2)] by (simp_all add: b_def)
  have dpos: "0 < rat_of_int d" using parts(2) by simp
  have lower: "10 powi (int a - int b - 1) \<le> \<bar>r\<bar>"
  proof -
    have "(10::rat) powi (int a - int b - 1) * rat_of_int d \<le> 10 powi (int a - int b - 1) * 10 powi int b"
      using b(2) by (intro mult_left_mono) auto
    also have "\<dots> = 10 powi (int a - 1)"
      by (simp add: power_int_add [symmetric] del: power_int_of_nat)
    also have "\<dots> \<le> rat_of_int n" by (rule a(1))
    finally show ?thesis using dpos by (simp add: parts(3) pos_le_divide_eq)
  qed
  have upper: "\<bar>r\<bar> < 10 powi (int a - int b + 1)"
  proof -
    have "rat_of_int n < 10 powi int a" by (rule a(2))
    also have "\<dots> = (10::rat) powi (int a - int b + 1) * 10 powi (int b - 1)"
      by (simp add: power_int_add [symmetric] del: power_int_of_nat)
    also have "\<dots> \<le> 10 powi (int a - int b + 1) * rat_of_int d"
      using b(1) by (intro mult_left_mono) auto
    finally show ?thesis using dpos by (simp add: parts(3) pos_divide_less_eq)
  qed
  have adj: "adjusted r = (if 10 powi (int a - int b) \<le> \<bar>r\<bar> then int a - int b else int a - int b - 1)"
    by (simp add: adjusted_def Let_def n_def d_def a_def b_def)
  show "10 powi adjusted r \<le> \<bar>r\<bar>" using lower by (simp add: adj)
  show "\<bar>r\<bar> < 10 powi (adjusted r + 1)" using upper by (simp add: adj)
qed

lemma adjusted_unique:
  assumes "10 powi e \<le> \<bar>r\<bar>" and "\<bar>r\<bar> < 10 powi (e + 1)"
  shows "adjusted r = e"
proof -
  have "0 < \<bar>r\<bar>" using assms(1) ten_powi_pos [of e] by linarith
  then have "r \<noteq> 0" by simp
  note b = adjusted_bounds [OF this]
  have "(10::rat) powi e < 10 powi (adjusted r + 1)" "(10::rat) powi adjusted r < 10 powi (e + 1)"
    using assms b by linarith+
  then have "e < adjusted r + 1" "adjusted r < e + 1"
    by simp_all
  then show ?thesis by simp
qed

lemma adjusted_minus [simp]: "adjusted (- r) = adjusted r"
  by (cases "r = 0") (auto intro!: adjusted_unique adjusted_bounds)

lemma adjusted_mono:
  assumes "r \<noteq> 0" and "\<bar>r\<bar> \<le> \<bar>s\<bar>"
  shows "adjusted r \<le> adjusted s"
proof -
  have "s \<noteq> 0" using assms by auto
  then have "(10::rat) powi adjusted r < 10 powi (adjusted s + 1)"
    using adjusted_bounds [OF assms(1)] adjusted_bounds [of s] assms(2) by linarith
  then show ?thesis by simp
qed


subsection \<open>Rounding\<close>

lemma round_even_of_int [simp]: "round_even (of_int k) = k"
  by (simp add: round_even_def)

lemma round_even_minus: "round_even (- x) = - round_even x"
proof -
  define f where "f = \<lfloor>x\<rfloor>"
  define t where "t = x - of_int f"
  have t: "0 \<le> t" "t < 1" unfolding t_def f_def by linarith+
  have x: "x = of_int f + t" by (simp add: t_def)
  show ?thesis
  proof (cases "t = 0")
    case True
    then have "x = of_int f" using x by simp
    then show ?thesis by (metis of_int_minus round_even_of_int)
  next
    case False
    have fl: "\<lfloor>- x\<rfloor> = - f - 1"
      using t False x by (intro floor_unique) auto
    have tt: "- x - of_int (- f - 1) = 1 - t" using x by simp
    have "round_even x = (if t < 1/2 then f else if 1/2 < t then f + 1 else if even f then f else f + 1)"
      unfolding round_even_def Let_def f_def [symmetric] t_def [symmetric] ..
    moreover have "round_even (- x) =
        (if 1 - t < 1/2 then - f - 1 else if 1/2 < 1 - t then - f else if even (- f - 1) then - f - 1 else - f)"
      unfolding round_even_def Let_def fl tt by simp
    ultimately show ?thesis by (auto simp: field_simps)
  qed
qed

lemma round_even_error: "\<bar>of_int (round_even x) - x\<bar> \<le> 1/2"
proof -
  have "of_int \<lfloor>x\<rfloor> \<le> x" "x < of_int \<lfloor>x\<rfloor> + 1" by linarith+
  then show ?thesis by (auto simp: round_even_def Let_def abs_le_iff)
qed

lemma round_even_mono: "x \<le> y \<Longrightarrow> round_even x \<le> round_even y"
proof (cases "\<lfloor>x\<rfloor> = \<lfloor>y\<rfloor>")
  case True
  assume "x \<le> y"
  then show ?thesis by (auto simp: round_even_def Let_def True)
next
  case False
  assume "x \<le> y"
  then have "\<lfloor>x\<rfloor> + 1 \<le> \<lfloor>y\<rfloor>" using False floor_mono [of x y] by linarith
  moreover have "round_even x \<le> \<lfloor>x\<rfloor> + 1" "\<lfloor>y\<rfloor> \<le> round_even y"
    by (auto simp: round_even_def Let_def)
  ultimately show ?thesis by linarith
qed

lemma round_sig_0 [simp]: "round_sig p 0 = 0"
  by (simp add: round_sig_def)

lemma round_sig_minus [simp]: "round_sig p (- r) = - round_sig p r"
  by (simp add: round_sig_def Let_def round_even_minus)

lemma round_sig_error:
  assumes "r \<noteq> 0"
  shows "\<bar>round_sig p r - r\<bar> \<le> 10 powi (adjusted r - int p + 1) / 2"
proof -
  let ?u = "10 powi (adjusted r - int p + 1) :: rat"
  have u: "0 < ?u" by simp
  have "round_sig p r - r = (of_int (round_even (r / ?u)) - r / ?u) * ?u"
    using assms u by (simp add: round_sig_def Let_def left_diff_distrib)
  then have "\<bar>round_sig p r - r\<bar> = \<bar>of_int (round_even (r / ?u)) - r / ?u\<bar> * ?u"
    using u by (simp add: abs_mult)
  also have "\<dots> \<le> 1/2 * ?u"
    by (intro mult_right_mono round_even_error) auto
  finally show ?thesis by simp
qed

text \<open>A value with at most \<open>p\<close> significant digits is not changed by rounding.\<close>

lemma round_sig_representable:
  assumes m: "\<bar>m\<bar> < 10 ^ p" and r: "r = of_int m * 10 powi e"
  shows "round_sig p r = r"
proof (cases "r = 0")
  case False
  let ?k = "adjusted r - int p + 1"
  have "\<bar>r\<bar> = of_int \<bar>m\<bar> * 10 powi e" by (simp add: r abs_mult)
  also have "\<dots> < of_int (10 ^ p) * 10 powi e"
    using m by (intro mult_strict_right_mono) (simp_all only: of_int_less_iff ten_powi_pos)
  also have "\<dots> = (10::rat) powi (int p + e)" by (simp add: power_int_add)
  finally have "(10::rat) powi adjusted r < 10 powi (int p + e)"
    using adjusted_bounds(1) [OF False] by linarith
  then have k: "?k \<le> e" by simp
  define z where "z = m * 10 ^ nat (e - ?k)"
  have "r = of_int z * 10 powi ?k"
  proof -
    have "(10::rat) powi e = 10 powi (int (nat (e - ?k)) + ?k)" using k by simp
    also have "\<dots> = 10 ^ nat (e - ?k) * 10 powi ?k"
      by (subst power_int_add) (simp_all only: power_int_of_nat, simp)
    finally show ?thesis unfolding r z_def by simp
  qed
  then have q: "r / 10 powi ?k = of_int z" by (metis nonzero_mult_div_cancel_right ten_powi_nonzero)
  have "round_sig p r = of_int (round_even (r / 10 powi ?k)) * 10 powi ?k"
    using False by (simp add: round_sig_def Let_def)
  also have "\<dots> = r" by (simp only: q round_even_of_int \<open>r = of_int z * 10 powi ?k\<close> [symmetric])
  finally show ?thesis .
qed simp

text \<open>Every result of rounding is of that form, so rounding is idempotent.\<close>

lemma round_sig_form:
  assumes "0 < p"
  obtains m e where "round_sig p r = of_int m * 10 powi e" and "\<bar>m\<bar> < 10 ^ p"
proof (cases "r = 0")
  case True
  show ?thesis by (rule that [of 0 0]) (simp_all add: True)
next
  case False
  let ?k = "adjusted r - int p + 1"
  let ?u = "10 powi ?k :: rat"
  let ?m = "round_even (r / ?u)"
  have eq: "round_sig p r = of_int ?m * ?u" using False by (simp add: round_sig_def Let_def)
  have "\<bar>r\<bar> / ?u < 10 powi (adjusted r + 1) / ?u"
    using adjusted_bounds(2) [OF False] by (intro divide_strict_right_mono) auto
  also have "\<dots> = 10 powi int p" by (simp add: power_int_diff [symmetric] del: power_int_of_nat)
  finally have lt: "\<bar>r / ?u\<bar> < of_int (10 ^ p)" by (simp add: abs_divide)
  have le: "\<bar>?m\<bar> \<le> 10 ^ p"
  proof -
    from lt have "- of_int (10 ^ p) \<le> r / ?u" and "r / ?u \<le> of_int (10 ^ p)"
      by linarith+
    from this [THEN round_even_mono] show ?thesis
      by (simp only: round_even_minus round_even_of_int abs_le_iff) simp
  qed
  show ?thesis
  proof (cases "\<bar>?m\<bar> = 10 ^ p")
    case True
    have "round_sig p r = of_int (sgn ?m) * 10 powi (?k + int p)"
    proof -
      have "?m = sgn ?m * 10 ^ p" using True by (metis mult.commute abs_mult_sgn)
      then have "of_int ?m = of_int (sgn ?m) * (10::rat) ^ p" by (metis of_int_mult of_int_numeral of_int_power)
      moreover have "(10::rat) powi (?k + int p) = 10 ^ p * ?u"
        by (subst power_int_add) (simp_all only: power_int_of_nat, simp_all)
      ultimately show ?thesis by (simp only: eq mult.assoc)
    qed
    moreover have "\<bar>sgn ?m\<bar> < 10 ^ p"
    proof -
      have "(1::int) < 10 ^ p" using assms by simp
      moreover have "\<bar>sgn ?m\<bar> \<le> 1" by (simp add: sgn_if)
      ultimately show ?thesis by linarith
    qed
    ultimately show ?thesis by (rule that)
  next
    case False
    with le have "\<bar>?m\<bar> < 10 ^ p" by simp
    with eq show ?thesis by (rule that)
  qed
qed

lemma round_sig_idem: "0 < p \<Longrightarrow> round_sig p (round_sig p r) = round_sig p r"
  by (metis round_sig_form round_sig_representable)


lemma round_sig_pos_bounds:
  assumes "0 < r" and "0 < p"
  shows "10 powi adjusted r \<le> round_sig p r" and "round_sig p r \<le> 10 powi (adjusted r + 1)"
proof -
  let ?k = "adjusted r - int p + 1"
  let ?u = "10 powi ?k :: rat"
  have r: "r \<noteq> 0" "\<bar>r\<bar> = r" using assms by auto
  have eq: "round_sig p r = of_int (round_even (r / ?u)) * ?u"
    using r by (simp add: round_sig_def Let_def)
  have lo: "10 powi adjusted r = of_int (10 ^ (p - 1)) * ?u"
  proof -
    have "adjusted r = int (p - 1) + ?k" using assms(2) by simp
    then have "(10::rat) powi adjusted r = 10 powi (int (p - 1) + ?k)" by (rule arg_cong)
    also have "\<dots> = of_int (10 ^ (p - 1)) * ?u" by (subst power_int_add) (simp_all only: power_int_of_nat, simp_all)
    finally show ?thesis .
  qed
  have hi: "10 powi (adjusted r + 1) = of_int (10 ^ p) * ?u"
  proof -
    have "(10::rat) powi (adjusted r + 1) = 10 powi (int p + ?k)" by simp
    also have "\<dots> = of_int (10 ^ p) * ?u" by (subst power_int_add) (simp_all only: power_int_of_nat, simp_all)
    finally show ?thesis .
  qed
  have "of_int (10 ^ (p - 1)) \<le> r / ?u"
    using adjusted_bounds(1) [OF r(1)] by (simp only: lo r(2) pos_le_divide_eq [OF ten_powi_pos])
  then have "10 ^ (p - 1) \<le> round_even (r / ?u)" by (metis round_even_mono round_even_of_int)
  then show "10 powi adjusted r \<le> round_sig p r"
    unfolding eq lo by (intro mult_right_mono) (simp_all only: of_int_le_iff, simp)
  have "r / ?u \<le> of_int (10 ^ p)"
    using adjusted_bounds(2) [OF r(1)] by (simp only: hi r(2) pos_divide_le_eq [OF ten_powi_pos] less_imp_le)
  then have "round_even (r / ?u) \<le> 10 ^ p" by (metis round_even_mono round_even_of_int)
  then show "round_sig p r \<le> 10 powi (adjusted r + 1)"
    unfolding eq hi by (intro mult_right_mono) (simp_all only: of_int_le_iff, simp)
qed

lemma round_sig_nonneg [simp]: "0 \<le> r \<Longrightarrow> 0 < p \<Longrightarrow> 0 \<le> round_sig p r"
proof (cases "r = 0")
  case False
  assume "0 \<le> r" "0 < p"
  with False have "10 powi adjusted r \<le> round_sig p r" by (intro round_sig_pos_bounds) auto
  then show ?thesis using ten_powi_pos [of "adjusted r"] by linarith
qed simp

lemma round_sig_pos: "0 < r \<Longrightarrow> 0 < p \<Longrightarrow> 0 < round_sig p r"
  using round_sig_pos_bounds(1) [of r p] ten_powi_pos [of "adjusted r"] by linarith

lemma round_sig_mono_pos:
  assumes "0 < r" "r \<le> s" "0 < p"
  shows "round_sig p r \<le> round_sig p s"
proof (cases "adjusted r = adjusted s")
  case True
  have "r / 10 powi (adjusted s - int p + 1) \<le> s / 10 powi (adjusted s - int p + 1)"
    using assms by (simp add: divide_right_mono)
  from round_even_mono [OF this] assms show ?thesis
    by (simp add: round_sig_def Let_def True)
next
  case False
  have "adjusted r \<le> adjusted s" using assms by (intro adjusted_mono) auto
  with False have "(10::rat) powi (adjusted r + 1) \<le> 10 powi adjusted s" by simp
  with round_sig_pos_bounds [of r p] round_sig_pos_bounds [of s p] assms show ?thesis
    by linarith
qed

lemma round_sig_mono:
  assumes "r \<le> s" "0 < p"
  shows "round_sig p r \<le> round_sig p s"
proof -
  consider "0 < r" | "s < 0" | "r \<le> 0" "0 \<le> s" by linarith
  then show ?thesis
  proof cases
    case 1
    then show ?thesis using assms by (rule round_sig_mono_pos)
  next
    case 2
    then have "round_sig p (- s) \<le> round_sig p (- r)" using assms by (intro round_sig_mono_pos) auto
    then show ?thesis by simp
  next
    case 3
    then have "0 \<le> round_sig p (- r)" "0 \<le> round_sig p s" using assms by (simp_all del: round_sig_minus)
    then show ?thesis by simp
  qed
qed

text \<open>Small integers, the constants of the program, are not changed by rounding.\<close>

lemma round_sig_of_int [simp]: "\<bar>k\<bar> < 10 ^ p \<Longrightarrow> round_sig p (of_int k) = of_int k"
  by (rule round_sig_representable [of k p _ 0]) auto

lemma round_sig_bounds_int:
  assumes "0 < p" "\<bar>a\<bar> < 10 ^ p" "\<bar>b\<bar> < 10 ^ p" "of_int a \<le> r" "r \<le> of_int b"
  shows "of_int a \<le> round_sig p r" and "round_sig p r \<le> of_int b"
  using round_sig_mono [OF assms(4,1)] round_sig_mono [OF assms(5,1)] assms(2,3) by simp_all

subsection \<open>Contexts that trap \<open>Inexact\<close>\<close>

lemma exactly_Inr [res_simps]: "exactly p r = Inr v \<longleftrightarrow> v = r \<and> round_sig p r = r"
  by (auto simp: exactly_def)

lemma exactly_cases: "exactly p r = Inr r \<or> exactly p r = Inl DecimalException"
  by (simp add: exactly_def)

lemma exactly_Inl: "exactly p r = Inl e \<Longrightarrow> e = DecimalException"
  by (simp add: exactly_def split: if_splits)

lemma exactly_representable:
  "\<bar>m\<bar> < 10 ^ p \<Longrightarrow> r = of_int m * 10 powi e \<Longrightarrow> exactly p r = Inr r"
  using round_sig_representable [of m p r e] by (simp add: exactly_def)


section \<open>Operations\<close>

text \<open>
  \<open>prec40\<close> is the context \<open>PRECISION\<close> (precision 40, no trap on \<open>Inexact\<close>), which traps division
  by zero; \<open>prec80\<close> is \<open>ARITHMETIC\<close> and \<open>EXACT\<close>.
\<close>

abbreviation prec40 :: "rat \<Rightarrow> rat" where
  "prec40 \<equiv> round_sig 40"

abbreviation prec80 :: "rat \<Rightarrow> rat res" where
  "prec80 \<equiv> exactly 80"

definition div40 :: "rat \<Rightarrow> rat \<Rightarrow> rat res" where
  "div40 a b = (if b = 0 then Inl DecimalException else Inr (prec40 (a / b)))"

text \<open>\<open>sum(xs, Decimal(0))\<close>, from the left, rounding after every addition.\<close>

definition sum40 :: "rat list \<Rightarrow> rat" where
  "sum40 xs = foldl (\<lambda>s x. prec40 (s + x)) 0 xs"

definition sum80 :: "rat list \<Rightarrow> rat res" where
  "sum80 xs = foldR (\<lambda>x s. prec80 (s + x)) xs 0"

lemma sum80_acc: "foldR (\<lambda>x s. prec80 (s + x)) xs a = Inr v \<Longrightarrow> v = a + sum_list xs"
proof (induction xs arbitrary: a)
  case (Cons x xs)
  then have "foldR (\<lambda>x s. prec80 (s + x)) xs (a + x) = Inr v" by (simp add: res_simps)
  then have "v = a + x + sum_list xs" by (rule Cons.IH)
  then show ?case by simp
qed simp

lemma sum80_Inr: "sum80 xs = Inr v \<Longrightarrow> v = sum_list xs"
  by (auto simp: sum80_def dest: sum80_acc)

lemma sum80_Inl: "sum80 xs = Inl e \<Longrightarrow> e = DecimalException"
  unfolding sum80_def by (erule foldR_error [where P = "\<lambda>_. True"]) (auto dest: exactly_Inl)

lemma sum40_acc_nonneg:
  "0 \<le> a \<Longrightarrow> (\<And>x. x \<in> set xs \<Longrightarrow> 0 \<le> x) \<Longrightarrow> 0 \<le> foldl (\<lambda>s x. prec40 (s + x)) a xs"
  by (induction xs arbitrary: a) auto

lemma sum40_nonneg: "(\<And>x. x \<in> set xs \<Longrightarrow> 0 \<le> x) \<Longrightarrow> 0 \<le> sum40 xs"
  by (simp add: sum40_def sum40_acc_nonneg)

text \<open>
  \<open>percent\<close> of \<open>backtest/engine.py\<close>: a quotient rounded to 80 digits and quantized to 8 decimals,
  zero for a zero denominator.  \<open>quantize\<close> signals \<open>InvalidOperation\<close>, trapped by the default
  traps of the context, when the quantized coefficient has more digits than the precision.
\<close>

definition quantize8 :: "rat \<Rightarrow> rat res" where
  "quantize8 r = (let k = round_even (r * 10 ^ 8)
     in if \<bar>k\<bar> < 10 ^ 80 then Inr (of_int k / 10 ^ 8) else Inl DecimalException)"

definition percent :: "rat \<Rightarrow> rat \<Rightarrow> rat res" where
  "percent numerator denominator =
     (if denominator = 0 then Inr 0
      else quantize8 (round_sig 80 (round_sig 80 (numerator * 100) / denominator)))"

lemma percent_Inl: "percent n d = Inl e \<Longrightarrow> e = DecimalException"
  by (auto simp: percent_def quantize8_def Let_def split: if_splits)

lemma percent_nonneg: "0 \<le> n \<Longrightarrow> 0 \<le> d \<Longrightarrow> percent n d = Inr v \<Longrightarrow> 0 \<le> v"
proof -
  assume nd: "0 \<le> n" "0 \<le> d" and v: "percent n d = Inr v"
  let ?q = "round_sig 80 (round_sig 80 (n * 100) / d)"
  have "0 \<le> ?q" using nd by (intro round_sig_nonneg divide_nonneg_nonneg) auto
  then have "round_even 0 \<le> round_even (?q * 10 ^ 8)" by (intro round_even_mono) simp
  then have "0 \<le> round_even (?q * 10 ^ 8)" by (metis of_int_0 round_even_of_int)
  then show ?thesis
    using v by (auto simp: percent_def quantize8_def Let_def split: if_splits)
qed

lemma fails_in_exactly [fails_intros]: "P DecimalException \<Longrightarrow> fails_in P (exactly p r)"
  by (auto simp: fails_in_def dest: exactly_Inl)

lemma fails_in_sum80 [fails_intros]: "P DecimalException \<Longrightarrow> fails_in P (sum80 xs)"
  by (auto simp: fails_in_def dest: sum80_Inl)

lemma fails_in_percent [fails_intros]: "P DecimalException \<Longrightarrow> fails_in P (percent n d)"
  by (auto simp: fails_in_def dest: percent_Inl)

end
