(* ===== verification/Decimal_Code.thy ===== *)
theory Decimal_Code
  imports Decimals
begin

text \<open>
  Code equations that compute with the numerator and denominator, and return a quotient in lowest terms, so
  that the kernel evaluates a chain of decimal operations without expanding earlier ones again.
\<close>

definition ratio :: "int \<Rightarrow> int \<Rightarrow> rat" where
  "ratio n d = of_int n / of_int d"

lemma quotient_of_ratio [code abstract]: "quotient_of (ratio n d) = Rat.normalize (n, d)"
proof -
  have "ratio n d = Fract n d" by (simp add: ratio_def Fract_of_int_quotient)
  then show ?thesis by (simp add: quotient_of_Fract)
qed

lemma ratio_quotient: "quotient_of r = (n, d) \<Longrightarrow> ratio n d = r"
  by (simp add: ratio_def quotient_of_div [symmetric])

text \<open>Powers of ten by repeated squaring.\<close>

function pow10 :: "int \<Rightarrow> int" where
  "pow10 s = (if s \<le> 0 then 1 else (let h = pow10 (s div 2) in if even s then h * h else 10 * h * h))"
  by pat_completeness auto
termination
  by (relation "measure nat") auto

declare pow10.simps [simp del]

lemma pow10: "pow10 s = 10 ^ nat s"
proof (induction s rule: pow10.induct)
  case (1 s)
  show ?case
  proof (cases "s \<le> 0")
    case False
    then have h: "pow10 (s div 2) = 10 ^ nat (s div 2)" using 1 by simp
    have "nat s = nat (s div 2) + nat (s div 2) + (if even s then 0 else 1)"
      using False by (auto elim!: evenE oddE simp flip: nat_add_distrib)
    then have "(10::int) ^ nat s = 10 ^ nat (s div 2) * 10 ^ nat (s div 2) * (if even s then 1 else 10)"
      by (simp add: power_add)
    with False h show ?thesis by (simp add: pow10.simps [of s] Let_def)
  qed (simp add: pow10.simps [of s])
qed

definition adjusted_ints :: "int \<Rightarrow> int \<Rightarrow> int" where
  "adjusted_ints n d =
     (let e = int (ndigits \<bar>n\<bar>) - int (ndigits d)
      in if (if 0 \<le> e then pow10 e * d \<le> \<bar>n\<bar> else d \<le> \<bar>n\<bar> * pow10 (- e)) then e else e - 1)"

text \<open>\<open>n / d\<close> times a power of ten, as a numerator and a denominator.\<close>

definition scaled :: "int \<Rightarrow> int \<Rightarrow> int \<Rightarrow> int \<times> int" where
  "scaled s n d = (if 0 \<le> s then (n * pow10 s, d) else (n, d * pow10 (- s)))"

definition round_ints :: "int \<Rightarrow> int \<Rightarrow> int" where
  "round_ints n d =
     (let f = n div d; t = 2 * (n mod d)
      in if t < d then f else if d < t then f + 1 else if even f then f else f + 1)"

lemma powi_nonneg: "0 \<le> e \<Longrightarrow> (10::rat) powi e = 10 ^ nat e"
  by (simp add: power_int_def)

lemma powi_neg: "e < 0 \<Longrightarrow> (10::rat) powi e = 1 / 10 ^ nat (- e)"
  by (simp add: power_int_def field_simps)

lemma powi_le_ratio:
  assumes d: "0 < d"
  shows "(10 powi e \<le> rat_of_int n / of_int d) = (if 0 \<le> e then 10 ^ nat e * d \<le> n else d \<le> n * 10 ^ nat (- e))"
proof (cases "0 \<le> e")
  case True
  have "(10 ^ nat e \<le> rat_of_int n / of_int d) = (rat_of_int (10 ^ nat e * d) \<le> of_int n)"
    using d by (simp add: pos_le_divide_eq)
  with True show ?thesis by (simp only: powi_nonneg of_int_le_iff if_True)
next
  case False
  have "(1 / 10 ^ nat (- e) \<le> rat_of_int n / of_int d) = (rat_of_int d \<le> of_int (n * 10 ^ nat (- e)))"
    using d by (simp add: field_simps)
  with False show ?thesis by (simp only: powi_neg [OF False [unfolded not_le]] of_int_le_iff if_False)
qed

lemma adjusted_ints:
  assumes d: "0 < d" and n: "n \<noteq> 0"
  shows "adjusted (of_int n / of_int d) = adjusted_ints n d"
proof -
  let ?e = "int (ndigits \<bar>n\<bar>) - int (ndigits d)"
  let ?r = "rat_of_int n / of_int d"
  have r: "\<bar>?r\<bar> = of_int \<bar>n\<bar> / of_int d" using d by simp
  have N: "10 powi (int (ndigits \<bar>n\<bar>) - 1) \<le> rat_of_int \<bar>n\<bar>" "rat_of_int \<bar>n\<bar> < 10 powi int (ndigits \<bar>n\<bar>)"
    using ndigits_powi [of "\<bar>n\<bar>"] n by simp_all
  have D: "10 powi (int (ndigits d) - 1) \<le> rat_of_int d" "rat_of_int d < 10 powi int (ndigits d)"
    using ndigits_powi [OF d] by simp_all
  have "?e - 1 = int (ndigits \<bar>n\<bar>) - 1 - int (ndigits d)" by simp
  then have "10 powi (?e - 1) = 10 powi (int (ndigits \<bar>n\<bar>) - 1) / (10::rat) powi int (ndigits d)"
    by (simp only:) (rule power_int_diff, simp)
  also have "\<dots> \<le> \<bar>?r\<bar>" unfolding r using N D d by (intro frac_le) auto
  finally have lo: "10 powi (?e - 1) \<le> \<bar>?r\<bar>" .
  have "\<bar>?r\<bar> < 10 powi int (ndigits \<bar>n\<bar>) / 10 powi (int (ndigits d) - 1)"
    unfolding r using N D d by (intro frac_less) auto
  also have "\<dots> = 10 powi (int (ndigits \<bar>n\<bar>) - (int (ndigits d) - 1))" by (rule power_int_diff [symmetric]) simp
  also have "int (ndigits \<bar>n\<bar>) - (int (ndigits d) - 1) = ?e + 1" by simp
  finally have hi: "\<bar>?r\<bar> < 10 powi (?e + 1)" .
  have c: "(10 powi ?e \<le> \<bar>?r\<bar>) = (if 0 \<le> ?e then pow10 ?e * d \<le> \<bar>n\<bar> else d \<le> \<bar>n\<bar> * pow10 (- ?e))"
    unfolding r pow10 by (rule powi_le_ratio [OF d])
  show ?thesis
  proof (cases "10 powi ?e \<le> \<bar>?r\<bar>")
    case True
    then have "adjusted ?r = ?e" using hi by (intro adjusted_unique)
    with True c show ?thesis unfolding adjusted_ints_def Let_def by simp
  next
    case False
    then have "adjusted ?r = ?e - 1" using lo by (intro adjusted_unique) auto
    with False c show ?thesis unfolding adjusted_ints_def Let_def by simp
  qed
qed
lemma scaled_ratio:
  assumes "0 < d" "scaled s n d = (a, b)"
  shows "0 < b" and "rat_of_int n / of_int d * 10 powi s = of_int a / of_int b"
  using assms by (auto simp: scaled_def pow10 powi_nonneg powi_neg split: if_splits)

lemma round_ints: "0 < d \<Longrightarrow> round_even (of_int n / of_int d) = round_ints n d"
proof -
  assume d: "0 < d"
  have f: "\<lfloor>rat_of_int n / of_int d\<rfloor> = n div d" by (rule floor_divide_of_int_eq)
  have m: "rat_of_int n / of_int d - of_int (n div d) = of_int (n mod d) / of_int d"
  proof -
    have "rat_of_int n = of_int (d * (n div d) + n mod d)" by simp
    then show ?thesis using d by (simp only: of_int_add of_int_mult add_divide_distrib) simp
  qed
  have "(rat_of_int (n mod d) / of_int d < 1 / 2) = (2 * (n mod d) < d)"
    "(1 / 2 < rat_of_int (n mod d) / of_int d) = (d < 2 * (n mod d))"
    using d by (simp_all add: divide_less_eq less_divide_eq, linarith+)
  then show ?thesis unfolding round_even_def round_ints_def Let_def f m by simp
qed

text \<open>
  Rounding a fraction to \<open>p\<close> significant digits.  Most amounts have at most twelve decimals and few digits, in
  which case there is nothing to round.
\<close>

definition short :: "nat \<Rightarrow> int \<Rightarrow> int \<Rightarrow> bool" where
  "short p n d \<longleftrightarrow> 1000000000000 mod d = 0 \<and> \<bar>n * (1000000000000 div d)\<bar> < pow10 (int p)"

definition sig_ints :: "nat \<Rightarrow> int \<Rightarrow> int \<Rightarrow> int \<times> int" where
  "sig_ints p n d =
     (if n = 0 then (0, 1)
      else if short p n d then (n, d)
      else let s = int p - 1 - adjusted_ints n d in
        (case scaled s n d of (a, b) \<Rightarrow>
          let m = round_ints a b in if 0 \<le> s then (m, pow10 s) else (m * pow10 (- s), 1)))"

lemma short_round_sig:
  assumes d: "0 < d" and k: "short p n d"
  shows "round_sig p (of_int n / of_int d) = of_int n / of_int d"
proof (rule round_sig_representable)
  show "\<bar>n * (1000000000000 div d)\<bar> < 10 ^ p" using k by (simp add: short_def pow10)
  have "rat_of_int (1000000000000 div d) = 1000000000000 / of_int d"
    using k d by (auto elim!: dvdE simp: short_def mod_eq_0_iff_dvd field_simps simp flip: of_int_mult)
  then show "rat_of_int n / of_int d = of_int (n * (1000000000000 div d)) * 10 powi (- 12)"
    by (simp add: powi_neg)
qed

lemma sig_ints:
  assumes d: "0 < d" and ab: "sig_ints p n d = (a, b)"
  shows "0 < b" and "round_sig p (of_int n / of_int d) = of_int a / of_int b"
proof -
  let ?s = "int p - 1 - adjusted_ints n d"
  obtain x y where xy: "scaled ?s n d = (x, y)" by fastforce
  note sc = scaled_ratio [OF d xy]
  have "0 < b \<and> round_sig p (of_int n / of_int d) = of_int a / of_int b"
  proof (cases "n = 0 \<or> short p n d")
    case True
    with d ab short_round_sig [OF d] show ?thesis by (auto simp: sig_ints_def split: if_splits)
  next
    case False
    have e: "adjusted (of_int n / of_int d) - int p + 1 = - ?s" using adjusted_ints [OF d] False by simp
    have u: "10 powi (- ?s) = (if 0 \<le> ?s then 1 / 10 ^ nat ?s else 10 ^ nat (- ?s) :: rat)"
      by (cases "?s = 0") (auto simp: powi_nonneg powi_neg)
    have "rat_of_int n / of_int d / 10 powi (- ?s) = of_int x / of_int y"
      unfolding sc(2) [symmetric] power_int_minus by (simp add: divide_inverse)
    then have "round_sig p (of_int n / of_int d) = of_int (round_ints x y) * 10 powi (- ?s)"
      using False d round_ints [OF sc(1)] unfolding round_sig_def e Let_def by simp
    with False ab u xy show ?thesis by (auto simp: sig_ints_def Let_def pow10 split: if_splits)
  qed
  then show "0 < b" and "round_sig p (of_int n / of_int d) = of_int a / of_int b" by auto
qed

lemma round_sig_code [code]:
  "round_sig p r = (case quotient_of r of (n, d) \<Rightarrow> case sig_ints p n d of (a, b) \<Rightarrow> ratio a b)"
proof -
  obtain n d where q: "quotient_of r = (n, d)" by fastforce
  then have "0 < d" and "r = of_int n / of_int d"
    by (auto dest: quotient_of_denom_pos quotient_of_div)
  then show ?thesis unfolding q using sig_ints(2) [of d p n] by (auto simp: ratio_def split: prod.splits)
qed

lemma exactly_code [code]:
  "exactly p r = (case quotient_of r of (n, d) \<Rightarrow> case sig_ints p n d of (a, b) \<Rightarrow>
     if a * d = n * b then Inr (ratio n d) else Inl DecimalException)"
proof -
  obtain n d where q: "quotient_of r = (n, d)" by fastforce
  then have d: "0 < d" and r: "r = of_int n / of_int d"
    by (auto dest: quotient_of_denom_pos quotient_of_div)
  obtain a b where ab: "sig_ints p n d = (a, b)" by fastforce
  note s = sig_ints [OF d ab]
  have "round_sig p r = r \<longleftrightarrow> rat_of_int (a * d) = of_int (n * b)"
    using d s(1) unfolding r s(2) by (simp add: frac_eq_eq)
  then show ?thesis by (simp only: exactly_def q ab prod.case of_int_eq_iff ratio_quotient [OF q])
qed

definition quantize8_ints :: "int \<Rightarrow> int \<Rightarrow> rat res" where
  "quantize8_ints n d = (let k = round_ints (n * 100000000) d
     in if \<bar>k\<bar> < pow10 80 then Inr (ratio k 100000000) else Inl DecimalException)"

lemma quantize8_ints: "0 < d \<Longrightarrow> quantize8 (of_int n / of_int d) = quantize8_ints n d"
  using round_ints [of d "n * 100000000"] by (simp add: quantize8_def quantize8_ints_def ratio_def Let_def pow10)

lemma quantize8_code [code]: "quantize8 r = (case quotient_of r of (n, d) \<Rightarrow> quantize8_ints n d)"
  using quantize8_ints quotient_of_denom_pos quotient_of_div by (metis case_prod_beta' prod.collapse)

lemma percent_code [code]:
  "percent x y = (case quotient_of x of (n, d) \<Rightarrow> case quotient_of y of (n', d') \<Rightarrow>
     if n' = 0 then Inr 0
     else case sig_ints 80 (n * 100) d of (a, b) \<Rightarrow>
       case sig_ints 80 (sgn n' * a * d') (b * \<bar>n'\<bar>) of (a', b') \<Rightarrow> quantize8_ints a' b')"
proof -
  obtain n d where q: "quotient_of x = (n, d)" by fastforce
  obtain n' d' where q': "quotient_of y = (n', d')" by fastforce
  have d: "0 < d" "x = of_int n / of_int d" "0 < d'" "y = of_int n' / of_int d'"
    using q q' by (auto dest: quotient_of_denom_pos quotient_of_div)
  obtain a b where ab: "sig_ints 80 (n * 100) d = (a, b)" by fastforce
  obtain a' b' where ab': "sig_ints 80 (sgn n' * a * d') (b * \<bar>n'\<bar>) = (a', b')" by fastforce
  show ?thesis
  proof (cases "n' = 0")
    case False
    have s: "0 < b" "round_sig 80 (x * 100) = of_int a / of_int b"
      using sig_ints [OF d(1) ab] by (simp_all add: d(2))
    have "round_sig 80 (x * 100) / y = of_int (sgn n' * a * d') / of_int (b * \<bar>n'\<bar>)"
      using False d(3) s by (cases "0 < n'") (auto simp: d(4))
    moreover have "0 < b * \<bar>n'\<bar>" using s False by simp
    ultimately have "0 < b'" "round_sig 80 (round_sig 80 (x * 100) / y) = of_int a' / of_int b'"
      using sig_ints [OF _ ab'] by auto
    moreover have "y \<noteq> 0" using False d(3) by (simp add: d(4))
    ultimately show ?thesis using False by (simp add: percent_def q q' ab ab' quantize8_ints)
  qed (simp add: percent_def q q', simp add: d)
qed

end
