(* ===== verification/Texts.thy ===== *)
theory Texts
  imports Decimal_Code "HOL-Library.Word" "HOL-Library.List_Lexorder" "HOL-Library.Char_ord"
    "HOL-Library.Product_Lexorder"
begin

unbundle bit_operations_syntax

text \<open>
  The text layer of \<open>backtest/dataset.py\<close>: the decimal numerals that \<open>str\<close> and
  \<open>format(value, "f")\<close> print, \<open>decimal_text\<close> and \<open>parse_decimal\<close>, \<open>instant_text\<close> over
  a proleptic Gregorian calendar, and \<open>digest\<close>, the SHA-256 of the UTF-8 text in hexadecimal.
  A Python string is the list of its UTF-8 bytes.  An instant is the number of microseconds since
  1970-01-01T00:00Z, a date the number of days since 1970-01-01, a time of day the number of
  microseconds since midnight; \<open>Asia/Kolkata\<close> is UTC+05:30 in the years 1990 to 2100 that a bar may
  have.
\<close>

section \<open>SHA-256\<close>

type_synonym u32 = "32 word"

definition sha_K :: "u32 list" where
  "sha_K =
    [1116352408, 1899447441, 3049323471, 3921009573, 961987163, 1508970993, 2453635748, 2870763221,
     3624381080, 310598401, 607225278, 1426881987, 1925078388, 2162078206, 2614888103, 3248222580,
     3835390401, 4022224774, 264347078, 604807628, 770255983, 1249150122, 1555081692, 1996064986,
     2554220882, 2821834349, 2952996808, 3210313671, 3336571891, 3584528711, 113926993, 338241895,
     666307205, 773529912, 1294757372, 1396182291, 1695183700, 1986661051, 2177026350, 2456956037,
     2730485921, 2820302411, 3259730800, 3345764771, 3516065817, 3600352804, 4094571909, 275423344,
     430227734, 506948616, 659060556, 883997877, 958139571, 1322822218, 1537002063, 1747873779,
     1955562222, 2024104815, 2227730452, 2361852424, 2428436474, 2756734187, 3204031479, 3329325298]"

datatype sha_state = Sha u32 u32 u32 u32 u32 u32 u32 u32

definition sha_init :: sha_state where
  "sha_init = Sha 1779033703 3144134277 1013904242 2773480762 1359893119 2600822924 528734635 1541459225"

definition rotr :: "nat \<Rightarrow> u32 \<Rightarrow> u32" where
  "rotr n x = drop_bit n x OR push_bit (32 - n) x"

text \<open>The message schedule, kept newest word first.\<close>

fun sha_extend :: "nat \<Rightarrow> u32 list \<Rightarrow> u32 list" where
  "sha_extend 0 w = w"
| "sha_extend (Suc n) w =
     (let w2 = w ! 1; w7 = w ! 6; w15 = w ! 14; w16 = w ! 15;
          s0 = rotr 7 w15 XOR rotr 18 w15 XOR drop_bit 3 w15;
          s1 = rotr 17 w2 XOR rotr 19 w2 XOR drop_bit 10 w2
      in sha_extend n ((w16 + s0 + w7 + s1) # w))"

fun sha_round :: "sha_state \<Rightarrow> u32 \<times> u32 \<Rightarrow> sha_state" where
  "sha_round (Sha a b c d e f g h) (k, w) =
     (let s1 = rotr 6 e XOR rotr 11 e XOR rotr 25 e;
          ch = (e AND f) XOR ((NOT e) AND g);
          t1 = h + s1 + ch + k + w;
          s0 = rotr 2 a XOR rotr 13 a XOR rotr 22 a;
          maj = (a AND b) XOR (a AND c) XOR (b AND c);
          t2 = s0 + maj
      in Sha (t1 + t2) a b c (d + t1) e f g)"

fun sha_add :: "sha_state \<Rightarrow> sha_state \<Rightarrow> sha_state" where
  "sha_add (Sha a b c d e f g h) (Sha a' b' c' d' e' f' g' h') =
     Sha (a + a') (b + b') (c + c') (d + d') (e + e') (f + f') (g + g') (h + h')"

definition sha_block :: "sha_state \<Rightarrow> u32 list \<Rightarrow> sha_state" where
  "sha_block st m = sha_add st (foldl sha_round st (zip sha_K (rev (sha_extend 48 (rev m)))))"

fun sha_words :: "int list \<Rightarrow> u32 list" where
  "sha_words (a # b # c # d # bs) = word_of_int (((a * 256 + b) * 256 + c) * 256 + d) # sha_words bs"
| "sha_words _ = []"

fun sha_blocks :: "nat \<Rightarrow> sha_state \<Rightarrow> u32 list \<Rightarrow> sha_state" where
  "sha_blocks 0 st ws = st"
| "sha_blocks (Suc n) st ws = sha_blocks n (sha_block st (take 16 ws)) (drop 16 ws)"

definition sha_pad :: "int list \<Rightarrow> int list" where
  "sha_pad bs =
     (let n = length bs
      in bs @ 128 # replicate ((119 - n mod 64) mod 64) 0
         @ map (\<lambda>i. (8 * int n) div 256 ^ (7 - i) mod 256) [0..<8])"

definition hex_digit :: "int \<Rightarrow> char" where
  "hex_digit n = (if n < 10 then char_of (48 + n) else char_of (87 + n))"

definition hex_word :: "u32 \<Rightarrow> string" where
  "hex_word w = map (\<lambda>i. hex_digit (uint w div 16 ^ (7 - i) mod 16)) [0..<8]"

fun hex_state :: "sha_state \<Rightarrow> string" where
  "hex_state (Sha a b c d e f g h) = concat (map hex_word [a, b, c, d, e, f, g, h])"

text \<open>\<open>hashlib.sha256(text.encode("utf-8")).hexdigest()\<close>\<close>

definition digest :: "string \<Rightarrow> string" where
  "digest text =
     (let bs = sha_pad (map of_char text)
      in hex_state (sha_blocks (length bs div 64) sha_init (sha_words bs)))"


section \<open>Decimal numerals\<close>

definition digit :: "nat \<Rightarrow> char" where
  "digit n = char_of (48 + n)"

fun nat_str :: "nat \<Rightarrow> string" where
  "nat_str n = (if n < 10 then [digit n] else nat_str (n div 10) @ [digit (n mod 10)])"

declare nat_str.simps [simp del]

definition int_str :: "int \<Rightarrow> string" where
  "int_str i = (if i < 0 then CHR ''-'' # nat_str (nat (- i)) else nat_str (nat i))"

definition zero_pad :: "nat \<Rightarrow> string \<Rightarrow> string" where
  "zero_pad k s = replicate (k - length s) (CHR ''0'') @ s"

definition rstrip :: "char \<Rightarrow> string \<Rightarrow> string" where
  "rstrip c s = rev (dropWhile (\<lambda>x. x = c) (rev s))"

text \<open>A finite \<open>Decimal\<close>: \<open>as_tuple()\<close> is its sign, its coefficient and its exponent.\<close>

datatype dec = Dec (dec_sign: bool) (dec_coefficient: nat) (dec_exponent: int)

definition dval :: "dec \<Rightarrow> rat" where
  "dval d = (if dec_sign d then - 1 else 1) * of_nat (dec_coefficient d) * 10 powi dec_exponent d"

text \<open>\<open>Decimal.adjusted()\<close> of a \<open>Decimal\<close> object.\<close>

definition dec_adjusted :: "dec \<Rightarrow> int" where
  "dec_adjusted d = int (length (nat_str (dec_coefficient d))) - 1 + dec_exponent d"

text \<open>\<open>format(value, "f")\<close>\<close>

fun format_f :: "dec \<Rightarrow> string" where
  "format_f (Dec s c e) =
     (if s then ''-'' else []) @
     (if 0 \<le> e then nat_str (c * 10 ^ nat e)
      else let k = nat (- e) in nat_str (c div 10 ^ k) @ CHR ''.'' # zero_pad k (nat_str (c mod 10 ^ k)))"

definition decimal_text :: "dec \<Rightarrow> string" where
  "decimal_text d =
     (let t = format_f d
      in if CHR ''.'' \<in> set t then rstrip (CHR ''.'') (rstrip (CHR ''0'') t) else t)"

definition is_digit :: "char \<Rightarrow> bool" where
  "is_digit c \<longleftrightarrow> 48 \<le> (of_char c :: nat) \<and> (of_char c :: nat) \<le> 57"

definition digits_val :: "string \<Rightarrow> nat" where
  "digits_val s = foldl (\<lambda>v c. 10 * v + (of_char c - 48)) 0 s"

text \<open>
  \<open>re.fullmatch(r"(?:0|[1-9][0-9]{0,17})(?:\.[0-9]{1,10})?", value)\<close> and \<open>Decimal(value)\<close>
  of a matching text.
\<close>

definition integer_part_ok :: "string \<Rightarrow> bool" where
  "integer_part_ok s \<longleftrightarrow> s = ''0'' \<or>
     (s \<noteq> [] \<and> list_all is_digit s \<and> hd s \<noteq> CHR ''0'' \<and> length s \<le> 18)"

definition match_decimal :: "string \<Rightarrow> dec option" where
  "match_decimal s =
     (let ip = takeWhile (\<lambda>c. c \<noteq> CHR ''.'') s; rest = dropWhile (\<lambda>c. c \<noteq> CHR ''.'') s
      in if \<not> integer_part_ok ip then None
         else case rest of [] \<Rightarrow> Some (Dec False (digits_val ip) 0)
              | _ # fp \<Rightarrow>
                  if fp \<noteq> [] \<and> list_all is_digit fp \<and> length fp \<le> 10
                  then Some (Dec False (digits_val (ip @ fp)) (- int (length fp)))
                  else None)"

text \<open>The dynamically typed argument of \<open>parse_decimal\<close>.\<close>

datatype decimal_input = DecimalObject dec | NonFiniteDecimal | TextObject string | OtherObject

fun parse_decimal :: "decimal_input \<Rightarrow> dec res" where
  "parse_decimal NonFiniteDecimal = Inl (ValueError ''INVALID_DECIMAL'')"
| "parse_decimal OtherObject = Inl (ValueError ''INVALID_DECIMAL'')"
| "parse_decimal (TextObject s) =
     (case match_decimal s of None \<Rightarrow> Inl (ValueError ''INVALID_DECIMAL'') | Some d \<Rightarrow> Inr d)"
| "parse_decimal (DecimalObject d) =
     (if 17 < dec_adjusted d \<or> dec_exponent d < - 10 then Inl (ValueError ''INVALID_DECIMAL'')
      else case match_decimal (decimal_text d) of None \<Rightarrow> Inl (ValueError ''INVALID_DECIMAL'') | Some d' \<Rightarrow> Inr d')"

subsection \<open>Numerals round-trip\<close>

lemma of_char_digit [simp]: "n < 10 \<Longrightarrow> (of_char (digit n) :: nat) = 48 + n"
  by (simp add: digit_def)

lemma is_digit_digit [simp]: "n < 10 \<Longrightarrow> is_digit (digit n)"
  by (simp add: is_digit_def)

lemma digit_neq_dot: "n < 10 \<Longrightarrow> digit n \<noteq> CHR ''.''"
  by (auto dest!: arg_cong [where f = "of_char :: char \<Rightarrow> nat"])

lemma is_digit_neq_dot: "is_digit c \<Longrightarrow> c \<noteq> CHR ''.''"
  by (auto simp: is_digit_def)

lemma digit_0 [simp]: "digit 0 = CHR ''0''"
  unfolding digit_def by code_simp

lemma digit_eq_zero_iff: "n < 10 \<Longrightarrow> digit n = CHR ''0'' \<longleftrightarrow> n = 0"
proof
  assume "n < 10" "digit n = CHR ''0''"
  then have "(of_char (digit n) :: nat) = of_char (CHR ''0'')" by simp
  with \<open>n < 10\<close> show "n = 0" by simp
qed simp

lemma nat_str_nonempty [simp]: "nat_str n \<noteq> []"
  by (subst nat_str.simps) simp

lemma nat_str_digits: "list_all is_digit (nat_str n)"
proof (induction n rule: nat_str.induct)
  case (1 n)
  then show ?case by (subst nat_str.simps) auto
qed

lemma digits_val_append: "digits_val (xs @ ys) = digits_val xs * 10 ^ length ys + digits_val ys"
proof -
  have gen: "foldl (\<lambda>v c. 10 * v + (of_char c - 48)) a ys
          = a * 10 ^ length ys + foldl (\<lambda>v c. 10 * v + (of_char c - 48)) 0 ys" for a :: nat
  proof (induction ys rule: rev_induct)
    case (snoc y ys)
    let ?f = "foldl (\<lambda>v c. 10 * v + (of_char c - 48)) :: nat \<Rightarrow> _"
    have "?f a (ys @ [y]) = 10 * (a * 10 ^ length ys + ?f 0 ys) + (of_char y - 48)"
      by (simp only: foldl_append foldl.simps snoc.IH [symmetric])
    then show ?case by (simp add: distrib_left)
  qed simp
  show ?thesis unfolding digits_val_def foldl_append by (rule gen)
qed

lemma digits_val_snoc: "digits_val (xs @ [c]) = 10 * digits_val xs + (of_char c - 48)"
  by (simp add: digits_val_def)

lemma digits_val_nat_str [simp]: "digits_val (nat_str n) = n"
proof (induction n rule: nat_str.induct)
  case (1 n)
  show ?case
  proof (cases "n < 10")
    case True
    then show ?thesis by (subst nat_str.simps) (simp add: digits_val_def)
  next
    case False
    with 1 show ?thesis by (subst nat_str.simps) (simp add: digits_val_snoc)
  qed
qed

lemma hd_nat_str: "0 < n \<Longrightarrow> hd (nat_str n) \<noteq> CHR ''0''"
proof (induction n rule: nat_str.induct)
  case (1 n)
  show ?case
  proof (cases "n < 10")
    case True
    with 1 show ?thesis by (subst nat_str.simps) (simp add: digit_eq_zero_iff)
  next
    case False
    with 1 show ?thesis by (subst nat_str.simps) simp
  qed
qed

lemma length_nat_str_le: "n < 10 ^ k \<Longrightarrow> 0 < k \<Longrightarrow> length (nat_str n) \<le> k"
proof (induction k arbitrary: n)
  case (Suc k)
  show ?case
  proof (cases "n < 10")
    case True
    then show ?thesis by (subst nat_str.simps) simp
  next
    case False
    then have "0 < k" using Suc.prems(1) by (cases k) auto
    moreover have "n div 10 < 10 ^ k" using Suc.prems(1) by (simp add: less_mult_imp_div_less mult.commute)
    ultimately show ?thesis using Suc.IH [of "n div 10"] False by (subst nat_str.simps) simp
  qed
qed simp

lemma nat_str_upper: "n < 10 ^ length (nat_str n)"
proof (induction n rule: nat_str.induct)
  case (1 n)
  show ?case
  proof (cases "n < 10")
    case True
    then show ?thesis by (subst nat_str.simps) simp
  next
    case False
    with 1 have "n div 10 < 10 ^ length (nat_str (n div 10))" by simp
    then have "n < 10 * 10 ^ length (nat_str (n div 10))" by linarith
    with False show ?thesis by (subst nat_str.simps) simp
  qed
qed

lemma nat_str_times_10: "0 < n \<Longrightarrow> nat_str (n * 10) = nat_str n @ ''0''"
  by (subst nat_str.simps) simp

lemma length_nat_str_times_pow: "0 < n \<Longrightarrow> length (nat_str (n * 10 ^ e)) = length (nat_str n) + e"
proof (induction e)
  case (Suc e)
  have "nat_str (n * 10 ^ Suc e) = nat_str ((n * 10 ^ e) * 10)" by (simp add: ac_simps)
  also have "\<dots> = nat_str (n * 10 ^ e) @ ''0''" using Suc.prems by (intro nat_str_times_10) simp
  finally show ?case using Suc by simp
qed simp

lemma integer_part_ok_nat_str: "n < 10 ^ 18 \<Longrightarrow> integer_part_ok (nat_str n)"
proof (cases "n = 0")
  case True
  then show ?thesis by (simp add: integer_part_ok_def nat_str.simps [of 0])
next
  case False
  assume "n < 10 ^ 18"
  then have "length (nat_str n) \<le> 18" by (rule length_nat_str_le) simp
  with False show ?thesis by (simp add: integer_part_ok_def nat_str_digits hd_nat_str)
qed

lemma zero_pad_digits: "list_all is_digit s \<Longrightarrow> list_all is_digit (zero_pad k s)"
  by (auto simp: zero_pad_def list_all_iff is_digit_def)

lemma digits_val_zero_pad [simp]: "digits_val (zero_pad k s) = digits_val s"
proof -
  have "digits_val (replicate m (CHR ''0'')) = 0" for m
    by (induction m) (simp_all add: digits_val_def flip: replicate_append_same)
  then show ?thesis by (simp add: zero_pad_def digits_val_append)
qed

text \<open>Stripping the trailing zeros of a fraction.\<close>

lemma rstrip_append_kept: "x \<noteq> c \<Longrightarrow> rstrip c (xs @ x # ys) = xs @ x # rstrip c ys"
proof -
  assume "x \<noteq> c"
  have "dropWhile (\<lambda>y. y = c) (rev ys @ x # rev xs) = dropWhile (\<lambda>y. y = c) (rev ys) @ x # rev xs"
    using \<open>x \<noteq> c\<close> by (induction "rev ys" arbitrary: ys) (auto simp: dropWhile_append3 dropWhile_append2 intro: dropWhile_append)
  then show ?thesis by (simp add: rstrip_def)
qed

lemma rstrip_decomp: obtains j where "s = rstrip c s @ replicate j c" and "rstrip c s = [] \<or> last (rstrip c s) \<noteq> c"
proof -
  let ?t = "takeWhile (\<lambda>x. x = c) (rev s)"
  have "?t = replicate (length ?t) c"
    by (rule replicate_length_same [symmetric]) (auto dest: set_takeWhileD)
  moreover have "s = rev (?t @ dropWhile (\<lambda>x. x = c) (rev s))" by simp
  ultimately have "s = rstrip c s @ replicate (length ?t) c"
    unfolding rstrip_def by (metis rev_append rev_replicate)
  moreover have "rstrip c s = [] \<or> last (rstrip c s) \<noteq> c"
    unfolding rstrip_def by (metis (mono_tags, lifting) hd_dropWhile last_rev rev_is_Nil_conv)
  ultimately show ?thesis by (rule that)
qed

lemma rstrip_snoc_same [simp]: "rstrip c (xs @ [c]) = rstrip c xs"
  by (simp add: rstrip_def)

lemma rstrip_no_change: "xs = [] \<or> last xs \<noteq> c \<Longrightarrow> rstrip c xs = xs"
  by (cases xs rule: rev_cases) (auto simp: rstrip_def)

definition fixed_text :: "string \<Rightarrow> string \<Rightarrow> string" where
  "fixed_text ip fp = (let f = rstrip (CHR ''0'') fp in if f = [] then ip else ip @ CHR ''.'' # f)"

lemma strip_fixed:
  assumes ip: "ip \<noteq> []" "list_all is_digit ip" and fp: "list_all is_digit fp"
  shows "rstrip (CHR ''.'') (rstrip (CHR ''0'') (ip @ CHR ''.'' # fp)) = fixed_text ip fp"
proof -
  have z: "rstrip (CHR ''0'') (ip @ CHR ''.'' # fp) = ip @ CHR ''.'' # rstrip (CHR ''0'') fp"
    by (rule rstrip_append_kept) simp
  show ?thesis
  proof (cases "rstrip (CHR ''0'') fp = []")
    case True
    have "last ip \<noteq> CHR ''.''" using ip by (metis is_digit_neq_dot last_in_set list_all_iff)
    then have "rstrip (CHR ''.'') ip = ip" by (intro rstrip_no_change) simp
    with True z show ?thesis by (simp add: fixed_text_def)
  next
    case False
    have "set (rstrip (CHR ''0'') fp) \<subseteq> set fp"
      by (auto simp: rstrip_def dest: set_dropWhileD)
    with False fp have "last (rstrip (CHR ''0'') fp) \<noteq> CHR ''.''"
      by (metis is_digit_neq_dot last_in_set list_all_iff subsetD)
    then have "rstrip (CHR ''.'') (ip @ CHR ''.'' # rstrip (CHR ''0'') fp) = ip @ CHR ''.'' # rstrip (CHR ''0'') fp"
      using False by (intro rstrip_no_change) simp
    with False z show ?thesis by (simp add: fixed_text_def)
  qed
qed

lemma no_dot: "list_all is_digit s \<Longrightarrow> CHR ''.'' \<notin> set s"
  by (auto simp: list_all_iff dest: is_digit_neq_dot)

lemma decimal_text_fraction:
  assumes "e < 0"
  shows "decimal_text (Dec False c e)
           = fixed_text (nat_str (c div 10 ^ nat (- e))) (zero_pad (nat (- e)) (nat_str (c mod 10 ^ nat (- e))))"
proof -
  have "format_f (Dec False c e) =
      nat_str (c div 10 ^ nat (- e)) @ CHR ''.'' # zero_pad (nat (- e)) (nat_str (c mod 10 ^ nat (- e)))"
    using assms by (simp add: Let_def)
  then show ?thesis
    unfolding decimal_text_def Let_def
    by (simp add: strip_fixed nat_str_digits zero_pad_digits)
qed

lemma decimal_text_integer: "0 \<le> e \<Longrightarrow> decimal_text (Dec False c e) = nat_str (c * 10 ^ nat e)"
  by (simp add: decimal_text_def Let_def no_dot nat_str_digits)


text \<open>The text only depends on the value: a trailing zero of the coefficient does not show.\<close>

lemma decimal_text_shift: "decimal_text (Dec False (c * 10) (e - 1)) = decimal_text (Dec False c e)"
proof (cases "0 < e")
  case True
  then have "c * 10 * 10 ^ nat (e - 1) = c * 10 ^ nat e"
    by (metis mult.assoc nat_less_eq_zless power_Suc Suc_nat_eq_nat_zadd1 diff_add_cancel zle_diff1_eq add.commute)
  with True show ?thesis by (simp only: decimal_text_integer)
next
  case False
  define k where "k = nat (- e)"
  have k: "nat (- (e - 1)) = Suc k" using False by (simp add: k_def)
  have "decimal_text (Dec False (c * 10) (e - 1))
      = fixed_text (nat_str (c * 10 div 10 ^ Suc k)) (zero_pad (Suc k) (nat_str (c * 10 mod 10 ^ Suc k)))"
    using decimal_text_fraction [of "e - 1" "c * 10", unfolded k] False by linarith
  also have "c * 10 div 10 ^ Suc k = c div 10 ^ k"
    by (simp add: mult.commute)
  also have "c * 10 mod 10 ^ Suc k = (c mod 10 ^ k) * 10"
    using mult_mod_left [of c "10 ^ k" 10] by (simp only: power_Suc2)
  finally have eq: "decimal_text (Dec False (c * 10) (e - 1))
      = fixed_text (nat_str (c div 10 ^ k)) (zero_pad (Suc k) (nat_str ((c mod 10 ^ k) * 10)))" .
  show ?thesis
  proof (cases "c mod 10 ^ k = 0")
    case True
    have zp: "rstrip (CHR ''0'') (zero_pad m (nat_str 0)) = []" for m
      by (auto simp: rstrip_def zero_pad_def nat_str.simps [of 0])
    show ?thesis
    proof (cases "e = 0")
      case True
      then show ?thesis using eq \<open>c mod 10 ^ k = 0\<close> by (simp add: fixed_text_def zp decimal_text_integer k_def)
    next
      case False
      with \<open>\<not> 0 < e\<close> show ?thesis using eq \<open>c mod 10 ^ k = 0\<close>
        by (simp add: fixed_text_def zp decimal_text_fraction k_def)
    qed
  next
    case neq: False
    then have "e < 0" using False by (cases "e = 0") (auto simp: k_def)
    have "zero_pad (Suc k) (nat_str ((c mod 10 ^ k) * 10)) = zero_pad k (nat_str (c mod 10 ^ k)) @ ''0''"
      using neq by (simp add: nat_str_times_10 zero_pad_def)
    then show ?thesis using eq \<open>e < 0\<close>
      by (simp add: decimal_text_fraction k_def fixed_text_def)
  qed
qed

lemma decimal_text_scale: "decimal_text (Dec False (c * 10 ^ j) (e - int j)) = decimal_text (Dec False c e)"
proof (induction j)
  case (Suc j)
  have "Dec False (c * 10 ^ Suc j) (e - int (Suc j)) = Dec False (c * 10 ^ j * 10) (e - int j - 1)"
    by (simp add: ac_simps)
  then show ?case using Suc.IH by (simp only: decimal_text_shift)
qed simp

theorem decimal_text_value:
  assumes "dval (Dec False c e) = dval (Dec False c' e')"
  shows "decimal_text (Dec False c e) = decimal_text (Dec False c' e')"
  using assms
proof (induction e e' arbitrary: c c' rule: linorder_wlog)
  case (le e e')
  have "rat_of_nat c * 10 powi e = of_nat c' * 10 powi e'" using le.prems by (simp add: dval_def)
  also have "(10::rat) powi e' = 10 powi (int (nat (e' - e)) + e)" using le.hyps by simp
  also have "\<dots> = 10 ^ nat (e' - e) * 10 powi e" by (subst power_int_add) (simp_all only: power_int_of_nat, simp)
  finally have "rat_of_nat c = of_nat (c' * 10 ^ nat (e' - e))" by simp
  then have c: "c = c' * 10 ^ nat (e' - e)" by (simp only: of_nat_eq_iff)
  have "e' - int (nat (e' - e)) = e" using le.hyps by simp
  with decimal_text_scale [of c' "nat (e' - e)" e'] show ?case by (simp add: c)
qed (metis)


text \<open>Matching a printed number gives back its value.\<close>

lemma takeWhile_no_dot:
  "list_all is_digit ip \<Longrightarrow> takeWhile (\<lambda>c. c \<noteq> CHR ''.'') (ip @ CHR ''.'' # r) = ip"
  "list_all is_digit ip \<Longrightarrow> dropWhile (\<lambda>c. c \<noteq> CHR ''.'') (ip @ CHR ''.'' # r) = CHR ''.'' # r"
  "list_all is_digit ip \<Longrightarrow> takeWhile (\<lambda>c. c \<noteq> CHR ''.'') ip = ip"
  "list_all is_digit ip \<Longrightarrow> dropWhile (\<lambda>c. c \<noteq> CHR ''.'') ip = []"
  by (simp_all add: list_all_iff is_digit_neq_dot cong: takeWhile_cong)

lemma match_decimal_integer:
  "n < 10 ^ 18 \<Longrightarrow> match_decimal (nat_str n) = Some (Dec False n 0)"
  by (simp add: match_decimal_def Let_def takeWhile_no_dot nat_str_digits integer_part_ok_nat_str)

lemma match_decimal_fixed:
  assumes n: "n < 10 ^ 18" and fp: "list_all is_digit fp" "length fp \<le> 10"
  shows "\<exists>d. match_decimal (fixed_text (nat_str n) fp) = Some d
           \<and> dval d = of_nat (n * 10 ^ length fp + digits_val fp) * 10 powi (- int (length fp))"
proof -
  define f where "f = rstrip (CHR ''0'') fp"
  obtain j where j: "fp = f @ replicate j (CHR ''0'')"
    using rstrip_decomp [of fp "CHR ''0''"] unfolding f_def by metis
  have f: "list_all is_digit f" "length f \<le> 10" using fp j by (auto simp: list_all_iff)
  have z: "digits_val (replicate j (CHR ''0'')) = 0"
    by (induction j) (simp_all add: digits_val_def flip: replicate_append_same)
  have val: "n * 10 ^ length fp + digits_val fp = (n * 10 ^ length f + digits_val f) * 10 ^ j"
    by (simp add: j digits_val_append z power_add distrib_right mult.assoc)
  have scale: "of_nat ((n * 10 ^ length f + digits_val f) * 10 ^ j) * (10::rat) powi (- int (length fp))
      = of_nat (n * 10 ^ length f + digits_val f) * 10 powi (- int (length f))"
  proof -
    have "- int (length fp) = - int (length f) - int j" by (simp add: j)
    then have "(10::rat) powi (- int (length fp)) = 10 powi (- int (length f)) / 10 powi int j"
      by (simp add: power_int_diff)
    then show ?thesis by simp
  qed
  show ?thesis
  proof (cases "f = []")
    case True
    then have "fixed_text (nat_str n) fp = nat_str n" by (simp add: fixed_text_def f_def)
    with n True show ?thesis
      unfolding val scale by (simp add: match_decimal_integer dval_def digits_val_def)
  next
    case False
    then have "fixed_text (nat_str n) fp = nat_str n @ CHR ''.'' # f"
      by (simp add: fixed_text_def f_def Let_def)
    moreover have "match_decimal (nat_str n @ CHR ''.'' # f)
        = Some (Dec False (digits_val (nat_str n @ f)) (- int (length f)))"
      using False f n
      by (simp add: match_decimal_def Let_def takeWhile_no_dot nat_str_digits integer_part_ok_nat_str)
    ultimately show ?thesis
      unfolding val scale by (simp add: dval_def digits_val_append)
  qed
qed

lemma match_decimal_text:
  assumes "dec_adjusted (Dec False c e) \<le> 17" and "- 10 \<le> e"
  shows "\<exists>d. match_decimal (decimal_text (Dec False c e)) = Some d \<and> dval d = dval (Dec False c e)"
proof (cases "0 \<le> e")
  case True
  have "c * 10 ^ nat e < 10 ^ 18"
  proof (cases "c = 0")
    case False
    then have "length (nat_str (c * 10 ^ nat e)) = length (nat_str c) + nat e"
      by (simp add: length_nat_str_times_pow)
    also have "\<dots> \<le> 18" using assms(1) True by (simp add: dec_adjusted_def)
    finally have "(10::nat) ^ length (nat_str (c * 10 ^ nat e)) \<le> 10 ^ 18" by (intro power_increasing) auto
    with nat_str_upper [of "c * 10 ^ nat e"] show ?thesis by linarith
  qed simp
  moreover have "dval (Dec False (c * 10 ^ nat e) 0) = dval (Dec False c e)"
    using True by (simp add: dval_def power_int_def)
  ultimately show ?thesis using True by (simp add: decimal_text_integer match_decimal_integer)
next
  case False
  define k where "k = nat (- e)"
  have e: "e = - int k" and k: "0 < k" "k \<le> 10" using False assms(2) by (simp_all add: k_def)
  have "length (nat_str c) \<le> 18 + k" using assms(1) by (simp add: dec_adjusted_def e)
  then have "(10::nat) ^ length (nat_str c) \<le> 10 ^ (18 + k)" by (intro power_increasing) auto
  then have "c < 10 ^ 18 * 10 ^ k" using nat_str_upper [of c] by (simp add: power_add)
  then have ip: "c div 10 ^ k < 10 ^ 18" by (simp add: less_mult_imp_div_less)
  let ?fp = "zero_pad k (nat_str (c mod 10 ^ k))"
  have "length (nat_str (c mod 10 ^ k)) \<le> k" using k by (intro length_nat_str_le) auto
  then have len: "length ?fp = k" by (simp add: zero_pad_def)
  have "decimal_text (Dec False c e) = fixed_text (nat_str (c div 10 ^ k)) ?fp"
    using decimal_text_fraction [of e c] k by (simp add: e)
  moreover have "c div 10 ^ k * 10 ^ k + digits_val ?fp = c"
    by (simp only: digits_val_zero_pad digits_val_nat_str div_mult_mod_eq)
  ultimately show ?thesis
    using match_decimal_fixed [OF ip, of ?fp] k len
    by (simp add: dval_def e zero_pad_digits nat_str_digits)
qed

text \<open>
  C40: reading back a printed amount.  A non-negative decimal with at most 18 integer and 10 fractional digits is accepted as
  an object and as the text that \<open>decimal_text\<close> prints for it, with the same result, and its value is unchanged.
\<close>

theorem parse_decimal_roundtrip:
  assumes "dec_adjusted (Dec False c e) \<le> 17" and "- 10 \<le> e"
  shows "\<exists>d. parse_decimal (DecimalObject (Dec False c e)) = Inr d
           \<and> parse_decimal (TextObject (decimal_text (Dec False c e))) = Inr d
           \<and> dval d = dval (Dec False c e)"
  using match_decimal_text [OF assms] assms by auto

theorem parse_decimal_roundtrip_witness:
  "\<exists>d. parse_decimal (DecimalObject (Dec False 123400 (- 3))) = Inr d
     \<and> parse_decimal (TextObject (decimal_text (Dec False 123400 (- 3)))) = Inr d
     \<and> dval d = 617/5"
proof -
  have h: "dec_adjusted (Dec False 123400 (- 3)) \<le> 17" by (simp add: dec_adjusted_def nat_str.simps)
  have v: "dval (Dec False 123400 (- 3)) = 617/5" by (simp add: dval_def power_int_def power_divide)
  from parse_decimal_roundtrip [OF h, unfolded v] show ?thesis by simp
qed

section \<open>Instants, dates and the exchange's local time\<close>

type_synonym instant = int
type_synonym date = int
type_synonym clock = int

abbreviation MINUTE :: int where "MINUTE \<equiv> 60000000"
abbreviation DAY_US :: int where "DAY_US \<equiv> 86400000000"
abbreviation NSE_OFFSET :: int where "NSE_OFFSET \<equiv> 19800000000"

definition nse_date :: "instant \<Rightarrow> date" where
  "nse_date t = (t + NSE_OFFSET) div DAY_US"

definition nse_time :: "instant \<Rightarrow> clock" where
  "nse_time t = (t + NSE_OFFSET) mod DAY_US"

text \<open>\<open>datetime.combine(date, time, NSE).astimezone(UTC)\<close>\<close>

definition combine_nse :: "date \<Rightarrow> clock \<Rightarrow> instant" where
  "combine_nse d c = d * DAY_US + c - NSE_OFFSET"

lemma nse_date_combine [simp]: "0 \<le> c \<Longrightarrow> c < DAY_US \<Longrightarrow> nse_date (combine_nse d c) = d"
  by (simp add: nse_date_def combine_nse_def)

lemma nse_time_combine [simp]: "0 \<le> c \<Longrightarrow> c < DAY_US \<Longrightarrow> nse_time (combine_nse d c) = c"
  by (simp add: nse_time_def combine_nse_def)

lemma combine_nse_split [simp]: "combine_nse (nse_date t) (nse_time t) = t"
  by (simp add: combine_nse_def nse_date_def nse_time_def)

lemma nse_date_mono: "s \<le> t \<Longrightarrow> nse_date s \<le> nse_date t"
  by (simp add: nse_date_def zdiv_mono1)

text \<open>\<open>t.second or t.microsecond\<close>\<close>

definition has_seconds :: "instant \<Rightarrow> bool" where
  "has_seconds t \<longleftrightarrow> t mod MINUTE \<noteq> 0"

text \<open>Year, month and day of a day number, in the proleptic Gregorian calendar of \<open>datetime\<close>.\<close>

definition civil :: "date \<Rightarrow> int \<times> int \<times> int" where
  "civil day =
     (let z = day + 719468; era = z div 146097; doe = z mod 146097;
          yoe = (doe - doe div 1460 + doe div 36524 - doe div 146096) div 365;
          doy = doe - (365 * yoe + yoe div 4 - yoe div 100);
          mp = (5 * doy + 2) div 153;
          d = doy - (153 * mp + 2) div 5 + 1;
          m = (if mp < 10 then mp + 3 else mp - 9);
          y = yoe + era * 400 + (if m \<le> 2 then 1 else 0)
      in (y, m, d))"

definition year_of :: "instant \<Rightarrow> int" where
  "year_of t = fst (civil (t div DAY_US))"

definition pad2 :: "int \<Rightarrow> string" where
  "pad2 i = zero_pad 2 (int_str i)"

definition date_text :: "date \<Rightarrow> string" where
  "date_text day =
     (case civil day of (y, m, d) \<Rightarrow> zero_pad 4 (int_str y) @ ''-'' @ pad2 m @ ''-'' @ pad2 d)"

text \<open>\<open>value.isoformat().replace("+00:00", "Z")\<close>\<close>

definition instant_text :: "instant \<Rightarrow> string" where
  "instant_text t =
     (let us = t mod DAY_US; s = us div 1000000; f = us mod 1000000
      in date_text (t div DAY_US) @ ''T'' @ pad2 (s div 3600) @ '':'' @ pad2 (s div 60 mod 60) @ '':''
         @ pad2 (s mod 60) @ (if f = 0 then [] else ''.'' @ zero_pad 6 (int_str f)) @ ''Z'')"

text \<open>\<open>f"{t:%H:%M}"\<close>\<close>

definition clock_text :: "clock \<Rightarrow> string" where
  "clock_text c = pad2 (c div 3600000000) @ '':'' @ pad2 (c div MINUTE mod 60)"

end
