(* ===== verification/Dataset.thy ===== *)
theory Dataset
  imports Texts
begin

text \<open>
  \<open>backtest/dataset.py\<close>: the immutable research dataset handed over by the Java side.  A pydantic
  model is a record; its field constraints and its \<open>model_validator\<close> are one validator
  \<open>check_<model> :: <model> \<Rightarrow> unit res\<close>, nested models first, as pydantic runs them.  A field of a
  single \<open>Literal\<close> value carries no information and is left out of the record.  A violated field
  constraint raises \<open>ValueError ''FIELD_CONSTRAINT''\<close> (pydantic's \<open>ValidationError\<close> is a
  \<open>ValueError\<close>).
\<close>

section \<open>Field types\<close>

text \<open>The values that \<open>parse_decimal\<close> lets through: 18 integer digits, 10 decimals, not negative.\<close>

definition is_money :: "rat \<Rightarrow> bool" where
  "is_money r \<longleftrightarrow> 0 \<le> r \<and> r < 10 ^ 18 \<and> snd (quotient_of (r * 10 ^ 10)) = 1"

definition is_label_char :: "char \<Rightarrow> bool" where
  "is_label_char c \<longleftrightarrow> is_digit c \<or> (65 \<le> (of_char c :: nat) \<and> (of_char c :: nat) \<le> 90)
     \<or> (97 \<le> (of_char c :: nat) \<and> (of_char c :: nat) \<le> 122) \<or> c \<in> set ''_.-''"

definition is_label :: "string \<Rightarrow> bool" where
  "is_label s \<longleftrightarrow> 1 \<le> length s \<and> length s \<le> 80 \<and> list_all is_label_char s"

definition is_hex_char :: "char \<Rightarrow> bool" where
  "is_hex_char c \<longleftrightarrow> is_digit c \<or> (97 \<le> (of_char c :: nat) \<and> (of_char c :: nat) \<le> 102)"

definition is_hash :: "string \<Rightarrow> bool" where
  "is_hash s \<longleftrightarrow> length s = 64 \<and> list_all is_hex_char s"

definition is_quantity :: "int \<Rightarrow> bool" where
  "is_quantity q \<longleftrightarrow> 1 \<le> q \<and> q \<le> 2147483647"

text \<open>\<open>parse_time\<close>: a time of day without seconds.\<close>

definition is_local_minute :: "clock \<Rightarrow> bool" where
  "is_local_minute c \<longleftrightarrow> 0 \<le> c \<and> c < DAY_US \<and> c mod MINUTE = 0"

text \<open>
  \<open>str(UUID(s)) == s\<close> holds of the lower-case 8-4-4-4-12 form only; a text that is no UUID at all
  raises a \<open>ValueError\<close> too.
\<close>

definition is_uuid :: "string \<Rightarrow> bool" where
  "is_uuid s \<longleftrightarrow> length s = 36 \<and>
     list_all (\<lambda>i. if i \<in> {8, 13, 18, 23} then s ! i = CHR ''-'' else is_hex_char (s ! i)) [0..<36]"

section \<open>Bars\<close>

record bar =
  bar_start :: instant
  bar_open :: rat
  bar_high :: rat
  bar_low :: rat
  bar_close :: rat
  bar_volume :: int
  bar_open_interest :: "rat option"

definition bar_end :: "bar \<Rightarrow> instant" where
  "bar_end b = bar_start b + MINUTE"

definition check_bar :: "bar \<Rightarrow> unit res" where
  "check_bar b = checks
     [(\<not> (is_money (bar_open b) \<and> is_money (bar_high b) \<and> is_money (bar_low b) \<and> is_money (bar_close b)
           \<and> 0 \<le> bar_volume b \<and> bar_volume b \<le> 9223372036854775807
           \<and> pred_option is_money (bar_open_interest b)), ''FIELD_CONSTRAINT''),
      (has_seconds (bar_start b) \<or> \<not> (1990 \<le> year_of (bar_start b) \<and> year_of (bar_start b) \<le> 2100),
       ''INVALID_BAR_TIME''),
      (\<not> (0 < bar_low b \<and> bar_low b \<le> min (bar_open b) (bar_close b)
           \<and> min (bar_open b) (bar_close b) \<le> max (bar_open b) (bar_close b)
           \<and> max (bar_open b) (bar_close b) \<le> bar_high b), ''INVALID_OHLC'')]"

section \<open>The trading calendar\<close>

record session =
  ses_open :: clock
  ses_close :: clock

definition check_session :: "session \<Rightarrow> unit res" where
  "check_session s = checks
     [(\<not> (is_local_minute (ses_open s) \<and> is_local_minute (ses_close s)), ''MINUTE_TIME_REQUIRED''),
      (ses_open s \<ge> ses_close s, ''INVALID_SESSION'')]"

datatype day_status = EXPECTED_SESSION | NON_TRADING_DAY | UNKNOWN_SESSION

record day =
  day_date :: date
  day_stat :: day_status
  day_sessions :: "session list"

record calendar =
  cal_version :: string
  cal_source :: string
  cal_fingerprint :: string
  cal_days :: "day list"

fun status_text :: "day_status \<Rightarrow> string" where
  "status_text EXPECTED_SESSION = ''EXPECTED_SESSION''"
| "status_text NON_TRADING_DAY = ''NON_TRADING_DAY''"
| "status_text UNKNOWN_SESSION = ''UNKNOWN_SESSION''"

definition session_text :: "session \<Rightarrow> string" where
  "session_text s = ''Session[open='' @ clock_text (ses_open s) @ '', close='' @ clock_text (ses_close s) @ '']''"

text \<open>\<open>sep.join(xs)\<close>\<close>

fun join :: "string \<Rightarrow> string list \<Rightarrow> string" where
  "join sep [] = []"
| "join sep [x] = x"
| "join sep (x # xs) = x @ sep @ join sep xs"

abbreviation newline :: string where
  "newline \<equiv> [CHR 0x0A]"

definition day_text :: "day \<Rightarrow> string" where
  "day_text d = date_text (day_date d) @ ''=Day[status='' @ status_text (day_stat d) @ '', sessions=[''
     @ join '', '' (map session_text (day_sessions d)) @ '']]'' @ newline"

definition calendar_text :: "string \<Rightarrow> string \<Rightarrow> day list \<Rightarrow> string" where
  "calendar_text version source days =
     version @ newline @ source @ newline @ concat (map day_text days)"

definition check_calendar :: "calendar \<Rightarrow> unit res" where
  "check_calendar c =
     bindR (mapR check_session (concat (map day_sessions (cal_days c)))) (\<lambda>_.
     checks
     [(\<not> (is_label (cal_version c) \<and> 1 \<le> length (cal_source c) \<and> length (cal_source c) \<le> 512
           \<and> is_hash (cal_fingerprint c)), ''FIELD_CONSTRAINT''),
      (list_all (\<lambda>x. x = CHR '' '') (cal_source c)
         \<or> list_ex (\<lambda>x. (of_char x :: nat) < 32) (cal_source c), ''INVALID_PROVENANCE''),
      (32 < length (cal_days c) \<or> \<not> strictly_increasing (map day_date (cal_days c)), ''INVALID_CALENDAR_ORDER''),
      (list_ex (\<lambda>d. (day_stat d = EXPECTED_SESSION) \<noteq> (day_sessions d \<noteq> [])) (cal_days c), ''INVALID_CALENDAR''),
      (digest (calendar_text (cal_version c) (cal_source c) (cal_days c)) \<noteq> cal_fingerprint c,
       ''CALENDAR_FINGERPRINT_MISMATCH'')])"

text \<open>\<open>{d.date: d for d in days}\<close>: a later day replaces an earlier one of the same date.\<close>

definition day_of :: "day list \<Rightarrow> date \<Rightarrow> day option" where
  "day_of days d = map_of (rev (map (\<lambda>x. (day_date x, x)) days)) d"

section \<open>The dataset\<close>

record provenance =
  prov_source :: string
  prov_source_version :: string
  prov_reference_fingerprint :: string
  prov_calendar_fingerprint :: string

definition provenance_key :: "provenance \<Rightarrow> string \<times> string \<times> string \<times> string" where
  "provenance_key p =
     (prov_source p, prov_source_version p, prov_reference_fingerprint p, prov_calendar_fingerprint p)"

text \<open>The text of an amount; \<open>decimal_text\<close> does not depend on the exponent of the object.\<close>

definition money_text :: "rat \<Rightarrow> string" where
  "money_text r = decimal_text (Dec False (nat \<lfloor>r * 10 ^ 10\<rfloor>) (- 10))"

definition bar_text :: "string \<Rightarrow> bar \<Rightarrow> string" where
  "bar_text instrument b =
     join ''|'' ([instrument, ''MINUTE'', instant_text (bar_start b)]
       @ map money_text [bar_open b, bar_high b, bar_low b, bar_close b]
       @ [int_str (bar_volume b),
          (case bar_open_interest b of None \<Rightarrow> ''ABSENT'' | Some v \<Rightarrow> money_text v)]) @ newline"

definition bar_fingerprint :: "string \<Rightarrow> bar list \<Rightarrow> string" where
  "bar_fingerprint instrument bars =
     digest (''historical-bars-v1'' @ newline @ concat (map (bar_text instrument) bars))"

record dataset =
  ds_instrument_id :: string
  ds_symbol :: string
  ds_lot_size :: int
  ds_from :: instant
  ds_to :: instant
  ds_decision_cutoff :: instant
  ds_dataset_cutoff :: instant
  ds_content_fingerprint :: string
  ds_calendar :: calendar
  ds_provenance :: "provenance list"
  ds_bars :: "bar list"

text \<open>\<open>while start < end: expected.append(start); start += MINUTE\<close>\<close>

function minutes_from :: "instant \<Rightarrow> instant \<Rightarrow> instant list" where
  "minutes_from s e = (if s < e then s # minutes_from (s + MINUTE) e else [])"
  by pat_completeness auto
termination
  by (relation "measure (\<lambda>(s, e). nat (e - s))") auto

declare minutes_from.simps [simp del]

text \<open>The minutes of one calendar date of the dataset's window.\<close>

definition day_minutes :: "dataset \<Rightarrow> date \<Rightarrow> instant list res" where
  "day_minutes ds cursor =
     (case day_of (cal_days (ds_calendar ds)) cursor of
        None \<Rightarrow> Inl (ValueError ''UNKNOWN_SESSION'')
      | Some d \<Rightarrow>
          if day_stat d = UNKNOWN_SESSION then Inl (ValueError ''UNKNOWN_SESSION'')
          else if day_stat d = EXPECTED_SESSION then
            (if length (day_sessions d) \<noteq> 1 then Inl (ValueError ''SPLIT_SESSION_UNSUPPORTED'')
             else let s = hd (day_sessions d);
                      start = combine_nse cursor (ses_open s); stop = combine_nse cursor (ses_close s)
                  in if start < ds_from ds \<or> stop > ds_to ds
                     then Inl (ValueError ''PARTIAL_SESSION_UNSUPPORTED'')
                     else Inr (minutes_from start stop))
          else Inr [])"

definition window_dates :: "instant \<Rightarrow> instant \<Rightarrow> date list" where
  "window_dates a b = [nse_date a .. nse_date (b - 1)]"

definition expected_minutes :: "dataset \<Rightarrow> instant list res" where
  "expected_minutes ds =
     bindR (mapR (day_minutes ds) (window_dates (ds_from ds) (ds_to ds))) (\<lambda>ms. Inr (concat ms))"

definition is_symbol_char :: "char \<Rightarrow> bool" where
  "is_symbol_char c \<longleftrightarrow> is_digit c \<or> (65 \<le> (of_char c :: nat) \<and> (of_char c :: nat) \<le> 90) \<or> c \<in> set ''&_.-''"

definition check_dataset_fields :: "dataset \<Rightarrow> unit res" where
  "check_dataset_fields ds = checks
     [(\<not> (1 \<le> length (ds_symbol ds) \<and> length (ds_symbol ds) \<le> 128 \<and> list_all is_symbol_char (ds_symbol ds)
           \<and> is_quantity (ds_lot_size ds) \<and> is_hash (ds_content_fingerprint ds)
           \<and> list_all (\<lambda>p. is_label (prov_source p) \<and> is_label (prov_source_version p)
                \<and> is_hash (prov_reference_fingerprint p) \<and> is_hash (prov_calendar_fingerprint p))
               (ds_provenance ds)), ''FIELD_CONSTRAINT''),
      (\<not> is_uuid (ds_instrument_id ds), ''INVALID_INSTRUMENT_ID''),
      (\<not> (0 < ds_to ds - ds_from ds \<and> ds_to ds - ds_from ds \<le> 31 * DAY_US), ''INVALID_WINDOW''),
      (has_seconds (ds_from ds) \<or> has_seconds (ds_to ds), ''INVALID_WINDOW_ALIGNMENT''),
      (ds_decision_cutoff ds < ds_to ds \<or> ds_provenance ds = [], ''INCOMPLETE_DATASET''),
      (44640 < length (ds_bars ds) \<or> ds_bars ds = [], ''INVALID_DATASET_SIZE''),
      (44640 < length (ds_provenance ds)
         \<or> list_ex (\<lambda>p. prov_calendar_fingerprint p \<noteq> cal_fingerprint (ds_calendar ds)) (ds_provenance ds),
       ''PROVENANCE_CALENDAR_MISMATCH''),
      (\<not> strictly_increasing (map provenance_key (ds_provenance ds)), ''PROVENANCE_MUST_BE_UNIQUE_AND_SORTED''),
      (bar_fingerprint (ds_instrument_id ds) (ds_bars ds) \<noteq> ds_content_fingerprint ds,
       ''DATASET_FINGERPRINT_MISMATCH'')]"

definition check_dataset :: "dataset \<Rightarrow> unit res" where
  "check_dataset ds =
     bindR (check_calendar (ds_calendar ds)) (\<lambda>_.
     bindR (mapR check_bar (ds_bars ds)) (\<lambda>_.
     bindR (check_dataset_fields ds) (\<lambda>_.
     bindR (expected_minutes ds) (\<lambda>expected.
     checks [(expected \<noteq> map bar_start (ds_bars ds), ''INCOMPLETE_OR_UNORDERED_SESSION'')]))))"

end
