(* ===== verification/Corpus.thy ===== *)
theory Corpus
  imports Dataset
begin

text \<open>
  \<open>backtest/corpus.py\<close>: a certified range composed of unchanged dataset shards, its validator, its
  identity text and the whole-session slices that walk-forward evaluation cuts from it.
\<close>

record corpus =
  corp_from :: instant
  corp_to :: instant
  corp_calendars :: "calendar list"
  corp_shards :: "dataset list"
  corp_content_fingerprint :: string

definition corpus_days :: "corpus \<Rightarrow> day list" where
  "corpus_days c = concat (map cal_days (corp_calendars c))"

definition corpus_bars :: "corpus \<Rightarrow> bar list" where
  "corpus_bars c = concat (map ds_bars (corp_shards c))"

text \<open>The first shard speaks for the corpus; a validated corpus has one.\<close>

definition corpus_instrument_id :: "corpus \<Rightarrow> string" where
  "corpus_instrument_id c = ds_instrument_id (hd (corp_shards c))"

definition corpus_lot_size :: "corpus \<Rightarrow> int" where
  "corpus_lot_size c = ds_lot_size (hd (corp_shards c))"

definition corpus_dataset_cutoff :: "corpus \<Rightarrow> instant" where
  "corpus_dataset_cutoff c =
     foldl max (ds_dataset_cutoff (hd (corp_shards c))) (map ds_dataset_cutoff (tl (corp_shards c)))"

definition corpus_decision_cutoff :: "corpus \<Rightarrow> instant" where
  "corpus_decision_cutoff c = corp_to c"

section \<open>Validation\<close>

definition check_corpus_range :: "corpus \<Rightarrow> unit res" where
  "check_corpus_range c = checks
     [(\<not> (0 < corp_to c - corp_from c \<and> corp_to c - corp_from c \<le> 366 * DAY_US), ''CORPUS_RANGE_INVALID''),
      (has_seconds (corp_from c) \<or> has_seconds (corp_to c), ''CORPUS_ALIGNMENT_INVALID''),
      (\<not> (1 \<le> length (corp_shards c) \<and> length (corp_shards c) \<le> 366)
        \<or> \<not> (1 \<le> length (corp_calendars c) \<and> length (corp_calendars c) \<le> 12), ''CORPUS_SIZE_INVALID''),
      (map day_date (corpus_days c) \<noteq> window_dates (corp_from c) (corp_to c),
       ''CORPUS_CALENDAR_COVERAGE_INVALID''),
      (list_ex (\<lambda>d. day_stat d = UNKNOWN_SESSION) (corpus_days c), ''CORPUS_UNKNOWN_SESSION'')]"

definition same_identity :: "dataset \<Rightarrow> dataset \<Rightarrow> bool" where
  "same_identity a b \<longleftrightarrow> ds_instrument_id a = ds_instrument_id b \<and> ds_symbol a = ds_symbol b
     \<and> ds_lot_size a = ds_lot_size b"

text \<open>The inner loop over the days of a shard's calendar that have bars.\<close>

definition claim_day :: "date list \<Rightarrow> day \<Rightarrow> (date \<times> day) list \<Rightarrow> (date \<times> day) list res" where
  "claim_day active d seen =
     (if day_date d \<in> set active then
        (if day_date d \<in> set (map fst seen) then Inl (ValueError ''CORPUS_DUPLICATE_SESSION'')
         else Inr (seen @ [(day_date d, d)]))
      else Inr seen)"

definition check_shard ::
  "corpus \<Rightarrow> dataset \<Rightarrow> instant \<times> (date \<times> day) list \<Rightarrow> (instant \<times> (date \<times> day) list) res" where
  "check_shard c shard st =
     bindR (check_dataset shard) (\<lambda>_.
     bindR (checks
       [(\<not> same_identity shard (hd (corp_shards c)), ''CORPUS_IDENTITY_MISMATCH''),
        (ds_from shard < fst st \<or> ds_to shard > corp_to c, ''CORPUS_SHARDS_OVERLAP_OR_OUTSIDE'')]) (\<lambda>_.
     bindR (foldR (claim_day (map (\<lambda>b. nse_date (bar_start b)) (ds_bars shard)))
              (cal_days (ds_calendar shard)) (snd st)) (\<lambda>seen.
     Inr (ds_to shard, seen))))"

definition expected_days :: "corpus \<Rightarrow> (date \<times> day) list" where
  "expected_days c = map (\<lambda>d. (day_date d, d)) (filter (\<lambda>d. day_stat d = EXPECTED_SESSION) (corpus_days c))"

definition check_corpus :: "corpus \<Rightarrow> unit res" where
  "check_corpus c =
     bindR (mapR check_calendar (corp_calendars c)) (\<lambda>_.
     bindR (mapR check_dataset (corp_shards c)) (\<lambda>_.
     bindR (checks [(\<not> is_hash (corp_content_fingerprint c), ''FIELD_CONSTRAINT'')]) (\<lambda>_.
     bindR (check_corpus_range c) (\<lambda>_.
     bindR (foldR (check_shard c) (corp_shards c) (corp_from c, [])) (\<lambda>st.
     checks
       [(set (snd st) \<noteq> set (expected_days c), ''CORPUS_SESSION_COVERAGE_INVALID''),
        (150000 < length (corpus_bars c)
          \<or> bar_fingerprint (corpus_instrument_id c) (corpus_bars c) \<noteq> corp_content_fingerprint c,
         ''CORPUS_CONTENT_MISMATCH'')])))))"

section \<open>Identity\<close>

text \<open>\<open>sorted({...})\<close> of texts\<close>

definition sorted_unique :: "('a::linorder) list \<Rightarrow> 'a list" where
  "sorted_unique xs = remdups_adj (sort xs)"

text \<open>\<open>isoformat()\<close> of a UTC instant, which ends in \<open>+00:00\<close>.\<close>

definition iso_text :: "instant \<Rightarrow> string" where
  "iso_text t = butlast (instant_text t) @ ''+00:00''"

definition corpus_fingerprint :: "corpus \<Rightarrow> string" where
  "corpus_fingerprint c = digest
     (''historical-corpus-v1'' @ newline @ corpus_instrument_id c @ newline
      @ ds_symbol (hd (corp_shards c)) @ ''|NSE|CASH|MINUTE|'' @ int_str (corpus_lot_size c) @ newline
      @ iso_text (corp_from c) @ newline @ iso_text (corp_to c) @ newline
      @ corp_content_fingerprint c @ newline
      @ join newline (map cal_fingerprint (corp_calendars c)) @ newline
      @ join newline (map ds_content_fingerprint (corp_shards c)) @ newline
      @ join newline (sorted_unique (concat (map (\<lambda>s. map (\<lambda>p. prov_source p @ ''|'' @ prov_source_version p)
          (ds_provenance s)) (corp_shards c))))
      @ newline @ ''INTERVAL_START'' @ newline @ ''UNSPECIFIED_NO_LOCAL_ADJUSTMENTS'' @ newline)"

section \<open>Slices\<close>

definition calendar_subset :: "calendar \<Rightarrow> day list \<Rightarrow> calendar res" where
  "calendar_subset cal days =
     (let c = \<lparr>cal_version = cal_version cal, cal_source = cal_source cal,
               cal_fingerprint = digest (calendar_text (cal_version cal) (cal_source cal) days), cal_days = days\<rparr>
      in bindR (check_calendar c) (\<lambda>_. Inr c))"

definition in_dates :: "date \<Rightarrow> date \<Rightarrow> day \<Rightarrow> bool" where
  "in_dates first final d \<longleftrightarrow> first \<le> day_date d \<and> day_date d \<le> final"

definition slice_corpus :: "corpus \<Rightarrow> instant \<Rightarrow> instant \<Rightarrow> corpus res" where
  "slice_corpus c start stop =
     (if \<not> (corp_from c \<le> start \<and> start < stop \<and> stop \<le> corp_to c)
      then Inl (ValueError ''PARTITION_OUTSIDE_CORPUS'')
      else
        let shards = filter (\<lambda>s. start \<le> ds_from s \<and> ds_to s \<le> stop) (corp_shards c);
            first = nse_date start; final = nse_date (stop - 1)
        in bindR (mapR (\<lambda>cal. calendar_subset cal (filter (in_dates first final) (cal_days cal)))
                    (filter (\<lambda>cal. list_ex (in_dates first final) (cal_days cal)) (corp_calendars c))) (\<lambda>cals.
           let sub = \<lparr>corp_from = start, corp_to = stop, corp_calendars = cals, corp_shards = shards,
                      corp_content_fingerprint =
                        bar_fingerprint (corpus_instrument_id c) (concat (map ds_bars shards))\<rparr>
           in bindR (check_corpus sub) (\<lambda>_. Inr sub)))"

end
