(* ===== verification/Costs.thy ===== *)
theory Costs
  imports Dataset
begin

text \<open>
  \<open>backtest/costs.py\<close> and \<open>research/costs.py\<close>: the explicitly dated NSE intraday tariff.  All
  arithmetic runs in the \<open>EXACT\<close> context (80 digits, inexact results raise).
\<close>

section \<open>Charges\<close>

datatype side = BUY | SELL

record charges =
  ch_brokerage :: rat
  ch_stt :: rat
  ch_exchange :: rat
  ch_ipft :: rat
  ch_sebi :: rat
  ch_gst :: rat
  ch_stamp :: rat

definition charges_list :: "charges \<Rightarrow> rat list" where
  "charges_list c = [ch_brokerage c, ch_stt c, ch_exchange c, ch_ipft c, ch_sebi c, ch_gst c, ch_stamp c]"

definition charges_total :: "charges \<Rightarrow> rat res" where
  "charges_total c = sum80 (charges_list c)"

section \<open>The schedule\<close>

datatype cost_basis = HISTORICAL | FIXED_AS_OF

record schedule =
  sch_version :: string
  sch_source_version :: string
  sch_effective_from :: date
  sch_effective_to :: date
  sch_basis :: cost_basis
  sch_as_of :: "date option"
  sch_brokerage_rate :: rat
  sch_brokerage_cap :: rat
  sch_stt_rate :: rat
  sch_exchange_rate :: rat
  sch_ipft_rate :: rat
  sch_sebi_rate :: rat
  sch_gst_rate :: rat
  sch_stamp_rate :: rat

definition schedule_rates :: "schedule \<Rightarrow> rat list" where
  "schedule_rates s = [sch_brokerage_rate s, sch_stt_rate s, sch_exchange_rate s, sch_ipft_rate s,
     sch_sebi_rate s, sch_gst_rate s, sch_stamp_rate s]"

definition check_date :: "schedule \<Rightarrow> date \<Rightarrow> unit res" where
  "check_date s d = checks
     [(\<not> (sch_effective_from s \<le> d \<and> d < sch_effective_to s), ''COST_SCHEDULE_NOT_EFFECTIVE'')]"

definition check_schedule :: "schedule \<Rightarrow> unit res" where
  "check_schedule s =
     bindR (checks
       [(\<not> (is_label (sch_version s) \<and> is_label (sch_source_version s)
             \<and> list_all is_money (schedule_rates s) \<and> is_money (sch_brokerage_cap s)), ''FIELD_CONSTRAINT''),
        (sch_effective_from s \<ge> sch_effective_to s, ''INVALID_COST_PERIOD''),
        ((sch_basis s = FIXED_AS_OF) \<noteq> (sch_as_of s \<noteq> None), ''COST_DATE_BASIS_MISMATCH'')]) (\<lambda>_.
     bindR (case sch_as_of s of None \<Rightarrow> Inr () | Some d \<Rightarrow> check_date s d) (\<lambda>_.
     checks [(list_ex (\<lambda>r. 1 < r) (schedule_rates s), ''INVALID_COST_RATE'')]))"

text \<open>
  \<open>quote\<close>.  Instants are UTC-aware and the side is one of two by type, so \<open>INVALID_COST_CONTEXT\<close>
  cannot be raised; values are finite.
\<close>

definition quote_amounts :: "schedule \<Rightarrow> side \<Rightarrow> rat \<Rightarrow> rat option \<Rightarrow> charges res" where
  "quote_amounts s sd notional entry_notional =
     bindR (prec80 (notional * sch_brokerage_rate s)) (\<lambda>raw.
     bindR (prec80 (notional * sch_exchange_rate s)) (\<lambda>exchange.
     bindR (prec80 (notional * sch_ipft_rate s)) (\<lambda>ipft.
     bindR (prec80 (notional * sch_sebi_rate s)) (\<lambda>sebi.
     bindR (if sd = BUY then Inr 0
            else bindR (prec80 (notional + (case entry_notional of None \<Rightarrow> 0 | Some e \<Rightarrow> e))) (\<lambda>both.
                 bindR (prec80 (both / 2)) (\<lambda>average. prec80 (average * sch_stt_rate s)))) (\<lambda>stt.
     let brokerage = min (sch_brokerage_cap s) raw in
     bindR (prec80 (brokerage + exchange)) (\<lambda>g1.
     bindR (prec80 (g1 + ipft)) (\<lambda>g2.
     bindR (prec80 (g2 + sebi)) (\<lambda>g3.
     bindR (prec80 (g3 * sch_gst_rate s)) (\<lambda>gst.
     bindR (if sd = BUY then prec80 (notional * sch_stamp_rate s) else Inr 0) (\<lambda>stamp.
     Inr \<lparr>ch_brokerage = brokerage, ch_stt = stt, ch_exchange = exchange, ch_ipft = ipft,
          ch_sebi = sebi, ch_gst = gst, ch_stamp = stamp\<rparr>))))))))))"

definition quote :: "schedule \<Rightarrow> side \<Rightarrow> rat \<Rightarrow> instant \<Rightarrow> rat option \<Rightarrow> charges res" where
  "quote s sd notional executed_at entry_notional =
     bindR (check_date s (case sch_as_of s of Some d \<Rightarrow> d | None \<Rightarrow> nse_date executed_at)) (\<lambda>_.
     bindR (checks
       [(notional \<le> 0, ''INVALID_NOTIONAL''),
        (sd = SELL \<and> (case entry_notional of None \<Rightarrow> True | Some e \<Rightarrow> e \<le> 0), ''ENTRY_BASIS_REQUIRED'')]) (\<lambda>_.
     quote_amounts s sd notional entry_notional))"

text \<open>\<open>quote(...).total\<close>\<close>

definition quote_total :: "schedule \<Rightarrow> side \<Rightarrow> rat \<Rightarrow> instant \<Rightarrow> rat option \<Rightarrow> rat res" where
  "quote_total s sd notional tm entry = bindR (quote s sd notional tm entry) charges_total"

text \<open>The observed tariff snapshot; 2026-10-06 is day 20732.\<close>

definition nse_intraday_snapshot :: "date option \<Rightarrow> schedule" where
  "nse_intraday_snapshot fixed_as_of =
     \<lparr>sch_version = ''nse-retail-intraday-20261006-v1'', sch_source_version = ''zerodha-nse-reviewed-20261006'',
      sch_effective_from = 20732, sch_effective_to = 20733,
      sch_basis = (if fixed_as_of = None then HISTORICAL else FIXED_AS_OF), sch_as_of = fixed_as_of,
      sch_brokerage_rate = 3 / 10000, sch_brokerage_cap = 20, sch_stt_rate = 25 / 100000,
      sch_exchange_rate = 30699 / 1000000000, sch_ipft_rate = 1 / 1000000000, sch_sebi_rate = 1 / 1000000,
      sch_gst_rate = 18 / 100, sch_stamp_rate = 3 / 100000\<rparr>"

section \<open>What a quote contains\<close>

lemma quote_amounts_Inr:
  assumes "quote_amounts s sd n entry = Inr c"
  shows "ch_brokerage c = min (sch_brokerage_cap s) (n * sch_brokerage_rate s)"
    and "ch_exchange c = n * sch_exchange_rate s"
    and "ch_ipft c = n * sch_ipft_rate s"
    and "ch_sebi c = n * sch_sebi_rate s"
    and "ch_stt c = (if sd = BUY then 0
                     else (n + (case entry of None \<Rightarrow> 0 | Some e \<Rightarrow> e)) / 2 * sch_stt_rate s)"
    and "ch_gst c = (ch_brokerage c + ch_exchange c + ch_ipft c + ch_sebi c) * sch_gst_rate s"
    and "ch_stamp c = (if sd = BUY then n * sch_stamp_rate s else 0)"
  using assms by (auto simp: quote_amounts_def res_simps Let_def split: if_splits)

lemma quote_Inr:
  "quote s sd n tm entry = Inr c \<longleftrightarrow>
     (let d = (case sch_as_of s of Some d \<Rightarrow> d | None \<Rightarrow> nse_date tm)
      in sch_effective_from s \<le> d \<and> d < sch_effective_to s) \<and> 0 < n
     \<and> (sd = SELL \<longrightarrow> (\<exists>e. entry = Some e \<and> 0 < e)) \<and> quote_amounts s sd n entry = Inr c"
  by (auto simp: quote_def check_date_def res_simps Let_def split: option.splits)

lemma charges_total_Inr: "charges_total c = Inr t \<Longrightarrow> t = sum_list (charges_list c)"
  by (simp add: charges_total_def sum80_Inr)

lemma quote_total_Inr:
  "quote_total s sd n tm entry = Inr t \<Longrightarrow>
     \<exists>c. quote s sd n tm entry = Inr c \<and> t = sum_list (charges_list c)"
  by (auto simp: quote_total_def res_simps dest: charges_total_Inr)

definition rates_nonneg :: "schedule \<Rightarrow> bool" where
  "rates_nonneg s \<longleftrightarrow> list_all (\<lambda>r. 0 \<le> r) (schedule_rates s) \<and> 0 \<le> sch_brokerage_cap s"

lemma check_schedule_rates_nonneg: "check_schedule s = Inr () \<Longrightarrow> rates_nonneg s"
  by (auto simp: check_schedule_def res_simps rates_nonneg_def list_all_iff is_money_def)

lemma quote_charges_nonneg:
  assumes "rates_nonneg s" and q: "quote s sd n tm entry = Inr c" and "x \<in> set (charges_list c)"
  shows "0 \<le> x"
proof -
  have r: "0 \<le> sch_brokerage_rate s" "0 \<le> sch_stt_rate s" "0 \<le> sch_exchange_rate s" "0 \<le> sch_ipft_rate s"
      "0 \<le> sch_sebi_rate s" "0 \<le> sch_gst_rate s" "0 \<le> sch_stamp_rate s" "0 \<le> sch_brokerage_cap s"
    using assms(1) by (simp_all add: rates_nonneg_def schedule_rates_def)
  have n: "0 < n" and a: "quote_amounts s sd n entry = Inr c"
    and e: "sd = SELL \<longrightarrow> (\<exists>e. entry = Some e \<and> 0 < e)"
    using q by (simp_all add: quote_Inr)
  note am = quote_amounts_Inr [OF a]
  have four: "0 \<le> ch_brokerage c" "0 \<le> ch_exchange c" "0 \<le> ch_ipft c" "0 \<le> ch_sebi c"
    using n r by (simp_all add: am)
  moreover have "0 \<le> ch_stt c" using e n r by (cases sd) (auto simp: am)
  moreover have "0 \<le> ch_gst c" using four r by (simp add: am(6))
  moreover have "0 \<le> ch_stamp c" using n r by (simp add: am)
  ultimately show ?thesis using assms(3) by (auto simp: charges_list_def)
qed

lemma quote_total_nonneg:
  assumes "rates_nonneg s" and "quote_total s sd n tm entry = Inr t"
  shows "0 \<le> t"
proof -
  obtain c where "quote s sd n tm entry = Inr c" "t = sum_list (charges_list c)"
    using quote_total_Inr [OF assms(2)] by blast
  with quote_charges_nonneg [OF assms(1)] show ?thesis by (simp add: sum_list_nonneg)
qed

end
