(* ===== verification/Backtest.thy ===== *)
theory Backtest
  imports Corpus Costs
begin

text \<open>
  \<open>backtest/engine.py\<close>: the deterministic next-open, full-cash, flat/long/flat engine.

  The engine's local variables are the record \<open>sim\<close>; one iteration of its loop over the bars is
  \<open>sim_step\<close>, composed of the blocks of the loop body in their order: \<open>force_exit\<close>,
  \<open>execute_pending\<close> (\<open>rejection\<close>, fee, \<open>book_fill\<close>), \<open>mark_equity\<close>, \<open>decide\<close> and
  \<open>close_session\<close>.  The strategy is a client of the engine: a function of its own state and of the
  decision context that returns a proposal and its next state, or raises.  All arithmetic is done in
  the \<open>ARITHMETIC\<close> context, which raises on an inexact result.
\<close>

section \<open>Configuration and messages\<close>

datatype cost_model = ConfiguredCosts rat rat | IntradayCostSchedule schedule

record config =
  cfg_initial_cash :: rat
  cfg_entry_start :: clock
  cfg_last_entry_time :: clock
  cfg_forced_exit_time :: clock
  cfg_slippage_bps :: rat
  cfg_costs :: cost_model

definition slippage_price :: "rat \<Rightarrow> side \<Rightarrow> rat \<Rightarrow> rat res" where
  "slippage_price bps sd reference =
     (if reference \<le> 0 then Inl (ValueError ''INVALID_REFERENCE_PRICE'')
      else bindR (prec80 (bps / 10000)) (\<lambda>adjustment.
           bindR (prec80 (if sd = BUY then 1 + adjustment else 1 - adjustment)) (\<lambda>factor.
           prec80 (reference * factor))))"

definition configured_costs :: "rat \<Rightarrow> rat \<Rightarrow> rat \<Rightarrow> rat res" where
  "configured_costs fixed_per_fill notional_bps notional =
     (if notional < 0 then Inl (ValueError ''INVALID_NOTIONAL'')
      else bindR (prec80 (notional * notional_bps)) (\<lambda>a.
           bindR (prec80 (a / 10000)) (\<lambda>b.
           prec80 (fixed_per_fill + b))))"

definition check_cost_model :: "cost_model \<Rightarrow> unit res" where
  "check_cost_model m = (case m of
       ConfiguredCosts f b \<Rightarrow> checks
         [(\<not> (is_money f \<and> is_money b), ''FIELD_CONSTRAINT''), (b \<ge> 10000, ''INVALID_COSTS'')]
     | IntradayCostSchedule s \<Rightarrow> check_schedule s)"

definition check_config :: "config \<Rightarrow> unit res" where
  "check_config c =
     bindR (check_cost_model (cfg_costs c)) (\<lambda>_.
     checks
     [(\<not> (is_money (cfg_initial_cash c) \<and> is_money (cfg_slippage_bps c)
           \<and> is_local_minute (cfg_entry_start c) \<and> is_local_minute (cfg_last_entry_time c)
           \<and> is_local_minute (cfg_forced_exit_time c)), ''FIELD_CONSTRAINT''),
      (cfg_slippage_bps c \<ge> 10000, ''INVALID_SLIPPAGE''),
      (cfg_initial_cash c \<le> 0 \<or> \<not> (cfg_entry_start c \<le> cfg_last_entry_time c
         \<and> cfg_last_entry_time c < cfg_forced_exit_time c), ''INVALID_CONFIG'')])"

record parameter =
  par_name :: string
  par_value :: string

record strategy_spec =
  spec_name :: string
  spec_version :: string
  spec_implementation_fingerprint :: string
  spec_parameters :: "parameter list"

definition check_spec :: "strategy_spec \<Rightarrow> unit res" where
  "check_spec s = checks
     [(\<not> (is_label (spec_name s) \<and> is_label (spec_version s) \<and> is_hash (spec_implementation_fingerprint s)
           \<and> list_all (\<lambda>p. is_label (par_name p) \<and> length (par_value p) \<le> 256
                \<and> list_all (\<lambda>c. 32 \<le> (of_char c :: nat) \<and> (of_char c :: nat) \<le> 126) (par_value p))
               (spec_parameters s)), ''FIELD_CONSTRAINT''),
      (100 < length (spec_parameters s) \<or> \<not> strictly_increasing (map par_name (spec_parameters s)),
       ''PARAMETERS_MUST_BE_UNIQUE_AND_SORTED'')]"

record intent =
  int_side :: side
  int_quantity :: int
  int_reason :: string

definition check_intent :: "intent \<Rightarrow> unit res" where
  "check_intent i = checks [(\<not> (is_quantity (int_quantity i) \<and> is_label (int_reason i)), ''FIELD_CONSTRAINT'')]"

record position =
  pos_quantity :: int
  pos_entry_price :: rat
  pos_entry_costs :: rat
  pos_unrealized_gross :: rat

record decision =
  dec_instrument_id :: string
  dec_time :: instant
  dec_completed_bars :: "bar list"
  dec_position :: position
  dec_cash :: rat
  dec_realized_net :: rat
  dec_parameters :: "parameter list"
  dec_session_open :: "instant option"
  dec_session_close :: "instant option"

type_synonym 's strategy = "'s \<Rightarrow> decision \<Rightarrow> (intent option \<times> 's) res"

record intent_outcome =
  out_intent_id :: int
  out_created_at :: instant
  out_resolved_at :: instant
  out_side :: side
  out_quantity :: int
  out_reason :: string
  out_outcome :: string

record fill =
  fill_intent_id :: int
  fill_instrument_id :: string
  fill_side :: side
  fill_quantity :: int
  fill_execution_time :: instant
  fill_reference_price :: rat
  fill_adverse_slippage :: rat
  fill_price :: rat
  fill_gross_notional :: rat
  fill_costs :: rat
  fill_forced :: bool

record trade =
  tr_entry :: fill
  tr_exit :: fill
  tr_gross_pnl :: rat
  tr_costs :: rat
  tr_net_pnl :: rat

record equity_point =
  eq_decision_time :: instant
  eq_cash :: rat
  eq_position_quantity :: int
  eq_mark_price :: rat
  eq_unrealized_gross :: rat
  eq_realized_net :: rat
  eq_equity :: rat

record metrics =
  met_trade_count :: int
  met_wins :: int
  met_losses :: int
  met_breakeven :: int
  met_gross_pnl :: rat
  met_costs :: rat
  met_net_pnl :: rat
  met_return_percent :: rat
  met_win_rate_percent :: rat
  met_max_drawdown :: rat
  met_max_drawdown_percent :: rat

text \<open>\<open>dataset: Dataset | Corpus\<close> and the attributes the engine reads of either.\<close>

datatype source = DatasetSource dataset | CorpusSource corpus

fun src_bars :: "source \<Rightarrow> bar list" where
  "src_bars (DatasetSource d) = ds_bars d"
| "src_bars (CorpusSource c) = corpus_bars c"

fun src_days :: "source \<Rightarrow> day list" where
  "src_days (DatasetSource d) = cal_days (ds_calendar d)"
| "src_days (CorpusSource c) = corpus_days c"

fun src_lot_size :: "source \<Rightarrow> int" where
  "src_lot_size (DatasetSource d) = ds_lot_size d"
| "src_lot_size (CorpusSource c) = corpus_lot_size c"

fun src_instrument_id :: "source \<Rightarrow> string" where
  "src_instrument_id (DatasetSource d) = ds_instrument_id d"
| "src_instrument_id (CorpusSource c) = corpus_instrument_id c"

fun src_content_fingerprint :: "source \<Rightarrow> string" where
  "src_content_fingerprint (DatasetSource d) = ds_content_fingerprint d"
| "src_content_fingerprint (CorpusSource c) = corp_content_fingerprint c"

fun src_from :: "source \<Rightarrow> instant" where
  "src_from (DatasetSource d) = ds_from d"
| "src_from (CorpusSource c) = corp_from c"

fun src_to :: "source \<Rightarrow> instant" where
  "src_to (DatasetSource d) = ds_to d"
| "src_to (CorpusSource c) = corp_to c"

fun src_dataset_cutoff :: "source \<Rightarrow> instant" where
  "src_dataset_cutoff (DatasetSource d) = ds_dataset_cutoff d"
| "src_dataset_cutoff (CorpusSource c) = corpus_dataset_cutoff c"

fun src_decision_cutoff :: "source \<Rightarrow> instant" where
  "src_decision_cutoff (DatasetSource d) = ds_decision_cutoff d"
| "src_decision_cutoff (CorpusSource c) = corpus_decision_cutoff c"

fun is_corpus :: "source \<Rightarrow> bool" where
  "is_corpus (DatasetSource d) = False"
| "is_corpus (CorpusSource c) = True"

fun check_source :: "source \<Rightarrow> unit res" where
  "check_source (DatasetSource d) = check_dataset d"
| "check_source (CorpusSource c) = check_corpus c"

section \<open>The simulation loop\<close>

type_synonym pending = "int \<times> instant \<times> intent"

record 's sim =
  sim_cash :: rat
  sim_realized :: rat
  sim_entry :: "fill option"
  sim_pending :: "pending option"
  sim_next_id :: int
  sim_outcomes :: "intent_outcome list"
  sim_fills :: "fill list"
  sim_trades :: "trade list"
  sim_curve :: "equity_point list"
  sim_session_start :: nat
  sim_strategy :: 's

definition sim_init :: "config \<Rightarrow> 's \<Rightarrow> 's sim" where
  "sim_init cfg s0 =
     \<lparr>sim_cash = cfg_initial_cash cfg, sim_realized = 0, sim_entry = None, sim_pending = None,
      sim_next_id = 1, sim_outcomes = [], sim_fills = [], sim_trades = [], sim_curve = [],
      sim_session_start = 0, sim_strategy = s0\<rparr>"

definition add_outcome :: "pending \<Rightarrow> instant \<Rightarrow> string \<Rightarrow> 's sim \<Rightarrow> 's sim" where
  "add_outcome item tm status st =
     (case item of (identity, created, i) \<Rightarrow>
       st\<lparr>sim_outcomes := sim_outcomes st @
         [\<lparr>out_intent_id = identity, out_created_at = created, out_resolved_at = tm, out_side = int_side i,
           out_quantity = int_quantity i, out_reason = int_reason i, out_outcome = status\<rparr>]\<rparr>)"

definition is_forced :: "config \<Rightarrow> bar \<Rightarrow> 's sim \<Rightarrow> bool" where
  "is_forced cfg b st \<longleftrightarrow> nse_time (bar_start b) = cfg_forced_exit_time cfg \<and> sim_entry st \<noteq> None"

definition force_exit :: "config \<Rightarrow> bar \<Rightarrow> 's sim \<Rightarrow> 's sim" where
  "force_exit cfg b st =
     (case sim_entry st of
        None \<Rightarrow> st
      | Some e \<Rightarrow>
          if nse_time (bar_start b) \<noteq> cfg_forced_exit_time cfg then st
          else
            let st' = (case sim_pending st of None \<Rightarrow> st
                       | Some p \<Rightarrow> add_outcome p (bar_start b) ''SUPERSEDED_BY_FORCED_EXIT'' st)
            in st'\<lparr>sim_pending := Some (sim_next_id st, bar_start b,
                     \<lparr>int_side = SELL, int_quantity = fill_quantity e, int_reason = ''FORCED_EXIT''\<rparr>),
                   sim_next_id := sim_next_id st + 1\<rparr>)"

definition rejection :: "int \<Rightarrow> config \<Rightarrow> bar \<Rightarrow> fill option \<Rightarrow> intent \<Rightarrow> string option" where
  "rejection lot cfg b entry i =
     (if int_quantity i mod lot \<noteq> 0 then Some ''LOT_SIZE_VIOLATION''
      else if bar_volume b = 0 then Some ''NO_EXECUTABLE_VOLUME''
      else if int_side i = BUY then
        (if entry \<noteq> None then Some ''ALREADY_LONG''
         else if \<not> (cfg_entry_start cfg \<le> nse_time (bar_start b)
                   \<and> nse_time (bar_start b) \<le> cfg_last_entry_time cfg) then Some ''OUTSIDE_ENTRY_WINDOW''
         else None)
      else (case entry of
              None \<Rightarrow> Some ''OVERSELL''
            | Some e \<Rightarrow> if int_quantity i > fill_quantity e then Some ''OVERSELL''
                        else if int_quantity i \<noteq> fill_quantity e then Some ''PARTIAL_EXIT_UNSUPPORTED''
                        else None))"

definition fill_fee :: "cost_model \<Rightarrow> bool \<Rightarrow> side \<Rightarrow> rat \<Rightarrow> instant \<Rightarrow> fill option \<Rightarrow> rat res" where
  "fill_fee costs rejected sd notional tm entry = (case costs of
       IntradayCostSchedule s \<Rightarrow>
         if rejected then Inr 0 else quote_total s sd notional tm (map_option fill_gross_notional entry)
     | ConfiguredCosts f b \<Rightarrow> configured_costs f b notional)"

definition insufficient_cash :: "rat \<Rightarrow> side \<Rightarrow> rat \<Rightarrow> rat \<Rightarrow> bool res" where
  "insufficient_cash cash sd notional fee =
     (if sd = BUY then bindR (prec80 (notional + fee)) (\<lambda>t. Inr (cash < t))
      else bindR (prec80 (cash + notional)) (\<lambda>t. Inr (t < fee)))"

text \<open>The body of the \<open>else\<close> branch: the fill, its outcome and the ledger update.\<close>

definition book_fill :: "string \<Rightarrow> bar \<Rightarrow> bool \<Rightarrow> pending \<Rightarrow> rat \<Rightarrow> rat \<Rightarrow> rat \<Rightarrow> 's sim \<Rightarrow> 's sim res" where
  "book_fill instrument b forced item price notional fee st =
     (case item of (identity, created, i) \<Rightarrow>
      bindR (prec80 (price - bar_open b)) (\<lambda>slip.
      let f = \<lparr>fill_intent_id = identity, fill_instrument_id = instrument, fill_side = int_side i,
               fill_quantity = int_quantity i, fill_execution_time = bar_start b,
               fill_reference_price = bar_open b, fill_adverse_slippage = \<bar>slip\<bar>, fill_price = price,
               fill_gross_notional = notional, fill_costs = fee, fill_forced = forced\<rparr>;
          st' = add_outcome item (bar_start b) ''FILLED'' (st\<lparr>sim_fills := sim_fills st @ [f]\<rparr>)
      in if int_side i = BUY then
           bindR (prec80 (notional + fee)) (\<lambda>outlay.
           bindR (prec80 (sim_cash st - outlay)) (\<lambda>cash.
           Inr (st'\<lparr>sim_cash := cash, sim_entry := Some f\<rparr>)))
         else (case sim_entry st of
             None \<Rightarrow> Inl AssertionError
           | Some e \<Rightarrow>
               bindR (prec80 (notional - fee)) (\<lambda>proceeds.
               bindR (prec80 (sim_cash st + proceeds)) (\<lambda>cash.
               bindR (prec80 (notional - fill_gross_notional e)) (\<lambda>gross.
               bindR (prec80 (fill_costs e + fee)) (\<lambda>costs.
               bindR (prec80 (gross - costs)) (\<lambda>net.
               bindR (prec80 (sim_realized st + net)) (\<lambda>realized.
               Inr (st'\<lparr>sim_cash := cash, sim_realized := realized, sim_entry := None,
                        sim_trades := sim_trades st @ [\<lparr>tr_entry = e, tr_exit = f, tr_gross_pnl = gross,
                          tr_costs = costs, tr_net_pnl = net\<rparr>]\<rparr>)))))))))) "

definition execute_pending :: "source \<Rightarrow> config \<Rightarrow> bar \<Rightarrow> bool \<Rightarrow> 's sim \<Rightarrow> 's sim res" where
  "execute_pending src cfg b forced st =
     (case sim_pending st of
        None \<Rightarrow> Inr st
      | Some (identity, created, i) \<Rightarrow>
          let rej = rejection (src_lot_size src) cfg b (sim_entry st) i in
          bindR (slippage_price (cfg_slippage_bps cfg) (int_side i) (bar_open b)) (\<lambda>price.
          bindR (prec80 (price * of_int (int_quantity i))) (\<lambda>notional.
          bindR (fill_fee (cfg_costs cfg) (rej \<noteq> None) (int_side i) notional (bar_start b) (sim_entry st)) (\<lambda>fee.
          bindR (if rej = None then insufficient_cash (sim_cash st) (int_side i) notional fee else Inr False) (\<lambda>short.
          let rej' = (if short then Some ''INSUFFICIENT_CASH'' else rej) in
          bindR (case rej' of
              Some why \<Rightarrow> if forced then Inl (ValueError ''FORCED_EXIT_UNAVAILABLE'')
                          else Inr (add_outcome (identity, created, i) (bar_start b) why st)
            | None \<Rightarrow> book_fill (src_instrument_id src) b forced (identity, created, i) price notional fee st) (\<lambda>st'.
          Inr (st'\<lparr>sim_pending := None\<rparr>)))))))"

definition entry_quantity :: "'s sim \<Rightarrow> int" where
  "entry_quantity st = (case sim_entry st of None \<Rightarrow> 0 | Some e \<Rightarrow> fill_quantity e)"

definition entry_price :: "'s sim \<Rightarrow> rat" where
  "entry_price st = (case sim_entry st of None \<Rightarrow> 0 | Some e \<Rightarrow> fill_price e)"

definition entry_fee :: "'s sim \<Rightarrow> rat" where
  "entry_fee st = (case sim_entry st of None \<Rightarrow> 0 | Some e \<Rightarrow> fill_costs e)"

definition mark_equity :: "config \<Rightarrow> bar \<Rightarrow> 's sim \<Rightarrow> ('s sim \<times> rat) res" where
  "mark_equity cfg b st =
     bindR (prec80 (bar_close b - entry_price st)) (\<lambda>move.
     bindR (prec80 (move * of_int (entry_quantity st))) (\<lambda>unrealized.
     bindR (prec80 (bar_close b * of_int (entry_quantity st))) (\<lambda>value.
     bindR (prec80 (sim_cash st + value)) (\<lambda>equity.
     bindR (prec80 (cfg_initial_cash cfg + sim_realized st)) (\<lambda>l1.
     bindR (prec80 (l1 + unrealized)) (\<lambda>l2.
     bindR (prec80 (l2 - entry_fee st)) (\<lambda>l3.
     if equity \<noteq> l3 then Inl (ValueError ''LEDGER_INCONSISTENT'')
     else Inr (st\<lparr>sim_curve := sim_curve st @
            [\<lparr>eq_decision_time = bar_end b, eq_cash = sim_cash st, eq_position_quantity = entry_quantity st,
              eq_mark_price = bar_close b, eq_unrealized_gross = unrealized,
              eq_realized_net = sim_realized st, eq_equity = equity\<rparr>]\<rparr>, unrealized))))))))"

definition decision_context :: "source \<Rightarrow> strategy_spec \<Rightarrow> nat \<Rightarrow> bar \<Rightarrow> rat \<Rightarrow> 's sim \<Rightarrow> decision res" where
  "decision_context src spec index b unrealized st =
     (case day_of (src_days src) (nse_date (bar_start b)) of
        None \<Rightarrow> Inl KeyError
      | Some d \<Rightarrow>
          (case day_sessions d of
             [] \<Rightarrow> Inl IndexError
           | s # _ \<Rightarrow>
               Inr \<lparr>dec_instrument_id = src_instrument_id src, dec_time = bar_end b,
                    dec_completed_bars =
                      drop (if is_corpus src then sim_session_start st else 0) (take (index + 1) (src_bars src)),
                    dec_position = \<lparr>pos_quantity = entry_quantity st, pos_entry_price = entry_price st,
                      pos_entry_costs = entry_fee st, pos_unrealized_gross = unrealized\<rparr>,
                    dec_cash = sim_cash st, dec_realized_net = sim_realized st,
                    dec_parameters = spec_parameters spec,
                    dec_session_open = Some (combine_nse (day_date d) (ses_open s)),
                    dec_session_close = Some (combine_nse (day_date d) (ses_close s))\<rparr>))"

text \<open>Asking the strategy: whatever it raises becomes \<open>STRATEGY_FAILURE\<close>.\<close>

definition ask :: "'s strategy \<Rightarrow> 's \<Rightarrow> decision \<Rightarrow> (intent option \<times> 's) res" where
  "ask strat s ctx =
     (case bindR (strat s ctx) (\<lambda>r. bindR (case fst r of None \<Rightarrow> Inr () | Some i \<Rightarrow> check_intent i) (\<lambda>_. Inr r)) of
        Inl _ \<Rightarrow> Inl (ValueError ''STRATEGY_FAILURE'')
      | Inr r \<Rightarrow> Inr r)"

definition decide :: "'s strategy \<Rightarrow> bar \<Rightarrow> decision \<Rightarrow> 's sim \<Rightarrow> 's sim res" where
  "decide strat b ctx st =
     bindR (ask strat (sim_strategy st) ctx) (\<lambda>r.
     let st' = st\<lparr>sim_strategy := snd r\<rparr> in
     case fst r of
       None \<Rightarrow> Inr st'
     | Some i \<Rightarrow> Inr (st'\<lparr>sim_pending := Some (sim_next_id st, bar_end b, i), sim_next_id := sim_next_id st + 1\<rparr>))"

definition session_end :: "bar list \<Rightarrow> nat \<Rightarrow> bar \<Rightarrow> bool" where
  "session_end bars index b \<longleftrightarrow> index = length bars - 1
     \<or> nse_date (bar_start (bars ! (index + 1))) \<noteq> nse_date (bar_start b)"

definition close_session :: "bar list \<Rightarrow> nat \<Rightarrow> bar \<Rightarrow> 's sim \<Rightarrow> 's sim res" where
  "close_session bars index b st =
     (if session_end bars index b then
        (if sim_entry st \<noteq> None then Inl (ValueError ''OVERNIGHT_POSITION_FORBIDDEN'')
         else case sim_pending st of
            None \<Rightarrow> Inr st
          | Some p \<Rightarrow> Inr ((add_outcome p (bar_end b)
              (if index = length bars - 1 then ''UNFILLED_END_OF_DATA'' else ''UNFILLED_SESSION_END'') st)
              \<lparr>sim_pending := None\<rparr>))
      else Inr st)"

definition enter_session :: "bar list \<Rightarrow> nat \<Rightarrow> bar \<Rightarrow> 's sim \<Rightarrow> 's sim" where
  "enter_session bars index b st =
     (if 0 < index \<and> nse_date (bar_start (bars ! (index - 1))) \<noteq> nse_date (bar_start b)
      then st\<lparr>sim_session_start := index\<rparr> else st)"

definition sim_step ::
  "source \<Rightarrow> config \<Rightarrow> strategy_spec \<Rightarrow> 's strategy \<Rightarrow> nat \<Rightarrow> 's sim \<Rightarrow> 's sim res" where
  "sim_step src cfg spec strat index st0 =
     (let bars = src_bars src; b = bars ! index; st1 = enter_session bars index b st0 in
      bindR (execute_pending src cfg b (is_forced cfg b st1) (force_exit cfg b st1)) (\<lambda>st2.
      bindR (mark_equity cfg b st2) (\<lambda>(st3, unrealized).
      bindR (decision_context src spec index b unrealized st3) (\<lambda>ctx.
      bindR (decide strat b ctx st3) (\<lambda>st4.
      close_session bars index b st4)))))"

definition sim_loop ::
  "source \<Rightarrow> config \<Rightarrow> strategy_spec \<Rightarrow> 's strategy \<Rightarrow> nat \<Rightarrow> 's \<Rightarrow> 's sim res" where
  "sim_loop src cfg spec strat n s0 = foldR (sim_step src cfg spec strat) [0..<n] (sim_init cfg s0)"

section \<open>Metrics and the result\<close>

definition drawdown_step :: "equity_point \<Rightarrow> rat \<times> rat \<times> rat \<Rightarrow> (rat \<times> rat \<times> rat) res" where
  "drawdown_step point st = (case st of (peak0, drawdown, drawdown_percent) \<Rightarrow>
     let peak = max peak0 (eq_equity point) in
     bindR (prec80 (peak - eq_equity point)) (\<lambda>fall.
     bindR (percent fall peak) (\<lambda>p.
     Inr (peak, max drawdown fall, max drawdown_percent p))))"

definition final_metrics :: "config \<Rightarrow> 's sim \<Rightarrow> metrics res" where
  "final_metrics cfg st =
     bindR (foldR drawdown_step (sim_curve st) (cfg_initial_cash cfg, 0, 0)) (\<lambda>(peak, drawdown, drawdown_percent).
     bindR (sum80 (map fill_costs (sim_fills st))) (\<lambda>costs.
     bindR (sum80 (map tr_gross_pnl (sim_trades st))) (\<lambda>gross.
     bindR (if sim_entry st \<noteq> None then Inr True
            else bindR (prec80 (cfg_initial_cash cfg + sim_realized st)) (\<lambda>expected.
                 if sim_cash st \<noteq> expected then Inr True
                 else bindR (prec80 (gross - costs)) (\<lambda>net. Inr (sim_realized st \<noteq> net)))) (\<lambda>bad.
     if bad then Inl (ValueError ''FINAL_LEDGER_INCONSISTENT'')
     else
       let n = int (length (sim_trades st));
           wins = int (length (filter (\<lambda>t. 0 < tr_net_pnl t) (sim_trades st)));
           losses = int (length (filter (\<lambda>t. tr_net_pnl t < 0) (sim_trades st)))
       in bindR (percent (sim_realized st) (cfg_initial_cash cfg)) (\<lambda>return_percent.
          bindR (percent (of_int wins) (of_int n)) (\<lambda>win_rate.
          Inr \<lparr>met_trade_count = n, met_wins = wins, met_losses = losses, met_breakeven = n - wins - losses,
               met_gross_pnl = gross, met_costs = costs, met_net_pnl = sim_realized st,
               met_return_percent = return_percent, met_win_rate_percent = win_rate,
               met_max_drawdown = drawdown, met_max_drawdown_percent = drawdown_percent\<rparr>))))))"

record result =
  res_engine_version :: string
  res_dataset_fingerprint :: string
  res_instrument_id :: string
  res_from :: instant
  res_to :: instant
  res_dataset_cutoff :: instant
  res_decision_cutoff :: instant
  res_strategy :: strategy_spec
  res_config :: config
  res_outcomes :: "intent_outcome list"
  res_fills :: "fill list"
  res_trades :: "trade list"
  res_equity_curve :: "equity_point list"
  res_final_cash :: rat
  res_final_position :: int
  res_metrics :: metrics

definition engine_version :: "source \<Rightarrow> config \<Rightarrow> string" where
  "engine_version src cfg =
     (if is_corpus src then ''intraday-next-open-v3-session-corpus''
      else case cfg_costs cfg of ConfiguredCosts _ _ \<Rightarrow> ''intraday-next-open-v1''
           | IntradayCostSchedule _ \<Rightarrow> ''intraday-next-open-v2-costs'')"

definition simulate :: "source \<Rightarrow> config \<Rightarrow> strategy_spec \<Rightarrow> 's strategy \<Rightarrow> 's \<Rightarrow> result res" where
  "simulate src cfg spec strat s0 =
     bindR (sim_loop src cfg spec strat (length (src_bars src)) s0) (\<lambda>st.
     bindR (final_metrics cfg st) (\<lambda>m.
     Inr \<lparr>res_engine_version = engine_version src cfg, res_dataset_fingerprint = src_content_fingerprint src,
          res_instrument_id = src_instrument_id src, res_from = src_from src, res_to = src_to src,
          res_dataset_cutoff = src_dataset_cutoff src, res_decision_cutoff = src_decision_cutoff src,
          res_strategy = spec, res_config = cfg,
          res_outcomes = sim_outcomes st, res_fills = sim_fills st, res_trades = sim_trades st,
          res_equity_curve = sim_curve st, res_final_cash = sim_cash st, res_final_position = 0,
          res_metrics = m\<rparr>))"

definition check_session_policy :: "config \<Rightarrow> day list \<Rightarrow> unit res" where
  "check_session_policy cfg days = checks
     [(list_ex (\<lambda>s. \<not> (ses_open s \<le> cfg_entry_start cfg \<and> cfg_entry_start cfg \<le> cfg_last_entry_time cfg
           \<and> cfg_last_entry_time cfg < cfg_forced_exit_time cfg \<and> cfg_forced_exit_time cfg < ses_close s))
         (concat (map day_sessions days)), ''SESSION_POLICY_OUTSIDE_SESSION'')]"

definition check_cost_dates :: "config \<Rightarrow> bar list \<Rightarrow> unit res" where
  "check_cost_dates cfg bars = (case cfg_costs cfg of
       ConfiguredCosts _ _ \<Rightarrow> Inr ()
     | IntradayCostSchedule s \<Rightarrow>
         foldR (\<lambda>b _. check_date s (case sch_as_of s of Some d \<Rightarrow> d | None \<Rightarrow> nse_date (bar_start b))) bars ())"

text \<open>\<open>except DecimalException: raise ValueError("ARITHMETIC_FAILURE")\<close>\<close>

definition arithmetic_failure :: "'a res \<Rightarrow> 'a res" where
  "arithmetic_failure r = (case r of Inl DecimalException \<Rightarrow> Inl (ValueError ''ARITHMETIC_FAILURE'') | _ \<Rightarrow> r)"

definition run :: "source \<Rightarrow> config \<Rightarrow> strategy_spec \<Rightarrow> 's strategy \<Rightarrow> 's \<Rightarrow> result res" where
  "run src cfg spec strat s0 =
     bindR (check_source src) (\<lambda>_.
     bindR (check_config cfg) (\<lambda>_.
     bindR (check_spec spec) (\<lambda>_.
     bindR (check_session_policy cfg (src_days src)) (\<lambda>_.
     bindR (check_cost_dates cfg (src_bars src)) (\<lambda>_.
     arithmetic_failure (simulate src cfg spec strat s0))))))"

end
