(* ===== verification/Sessions.thy ===== *)
theory Sessions
  imports Corpus
begin

text \<open>
  What validation guarantees of the bars of a dataset or corpus: they come in strictly increasing
  order, a minute apart within a date, each in the single expected session of its date, and every
  session is complete.  These are the facts the engine's intraday discipline rests on.
\<close>

section \<open>The minutes of a dataset\<close>

definition minute_step :: "instant \<Rightarrow> instant \<Rightarrow> bool" where
  "minute_step a b \<longleftrightarrow> a < b \<and> (nse_date a = nse_date b \<longrightarrow> b = a + MINUTE)"

text \<open>Bars in strictly increasing order, consecutive within a date, on whole minutes.\<close>

definition well_timed :: "bar list \<Rightarrow> bool" where
  "well_timed bars \<longleftrightarrow> successively minute_step (map bar_start bars) \<and> list_all (\<lambda>b. \<not> has_seconds (bar_start b)) bars"

text \<open>The bar lies in the one session of its date, and the session's next and previous minutes are among the bars.\<close>

definition in_session :: "bar list \<Rightarrow> day \<Rightarrow> bar \<Rightarrow> bool" where
  "in_session bars d b \<longleftrightarrow> day_date d = nse_date (bar_start b) \<and> day_stat d = EXPECTED_SESSION
     \<and> (\<exists>s. day_sessions d = [s] \<and> ses_open s \<le> nse_time (bar_start b) \<and> nse_time (bar_start b) < ses_close s
          \<and> nse_time (bar_start b) + MINUTE \<le> ses_close s \<and> is_local_minute (ses_open s) \<and> is_local_minute (ses_close s)
          \<and> (nse_time (bar_start b) + MINUTE < ses_close s \<longrightarrow> bar_end b \<in> bar_start ` set bars)
          \<and> (ses_open s < nse_time (bar_start b) \<longrightarrow> bar_start b - MINUTE \<in> bar_start ` set bars))"

lemma in_session_mono: "in_session bars d b \<Longrightarrow> set bars \<subseteq> set bars' \<Longrightarrow> in_session bars' d b"
  unfolding in_session_def by (meson image_mono subsetD)

lemma minutes_from_Cons: "s < e \<Longrightarrow> minutes_from s e = s # minutes_from (s + MINUTE) e"
  by (simp add: minutes_from.simps [of s e])

lemma minutes_from_Nil: "\<not> s < e \<Longrightarrow> minutes_from s e = []"
  by (simp add: minutes_from.simps [of s e])

lemma minutes_from_bounds: "t \<in> set (minutes_from s e) \<Longrightarrow> s \<le> t \<and> t < e \<and> (t - s) mod MINUTE = 0"
proof (induction s e rule: minutes_from.induct)
  case (1 s e)
  show ?case
  proof (cases "s < e")
    case True
    with "1.prems" consider "t = s" | "t \<in> set (minutes_from (s + MINUTE) e)"
      by (auto simp: minutes_from_Cons [of s e])
    then show ?thesis
    proof cases
      case 2
      from "1.IH" [OF True 2] have "s + MINUTE \<le> t" "t < e" "(t - (s + MINUTE)) mod MINUTE = 0" by auto
      moreover have "(t - s) mod MINUTE = (t - (s + MINUTE) + MINUTE) mod MINUTE" by simp
      ultimately show ?thesis by (simp only: mod_add_self2) auto
    qed (use True in simp)
  qed (use "1.prems" in \<open>simp add: minutes_from_Nil [of s e]\<close>)
qed

lemma hd_minutes_from: "minutes_from s e \<noteq> [] \<Longrightarrow> hd (minutes_from s e) = s"
  by (cases "s < e") (simp_all add: minutes_from_Cons [of s e] minutes_from_Nil [of s e])

lemma minutes_from_steps: "successively (\<lambda>a b. b = a + MINUTE) (minutes_from s e)"
proof (induction s e rule: minutes_from.induct)
  case (1 s e)
  then show ?case
    using hd_minutes_from [of "s + MINUTE" e]
    by (cases "s < e") (auto simp: minutes_from_Cons [of s e] minutes_from_Nil [of s e] successively_Cons)
qed

lemma minutes_from_next:
  "t \<in> set (minutes_from s e) \<Longrightarrow> t + MINUTE < e \<Longrightarrow> t + MINUTE \<in> set (minutes_from s e)"
proof (induction s e rule: minutes_from.induct)
  case (1 s e)
  then have "s < e" using minutes_from_bounds [of t s e] by simp
  show ?case
  proof (cases "t = s")
    case True
    with "1.prems"(2) show ?thesis
      by (simp add: minutes_from_Cons [OF \<open>s < e\<close>] minutes_from_Cons [of "s + MINUTE" e])
  next
    case False
    with "1" \<open>s < e\<close> show ?thesis by (simp add: minutes_from_Cons [OF \<open>s < e\<close>])
  qed
qed

lemma minutes_from_prev:
  "t \<in> set (minutes_from s e) \<Longrightarrow> s < t \<Longrightarrow> t - MINUTE \<in> set (minutes_from s e)"
proof (induction s e rule: minutes_from.induct)
  case (1 s e)
  then have "s < e" using minutes_from_bounds [of t s e] by simp
  with 1 have t: "t \<in> set (minutes_from (s + MINUTE) e)" by (simp add: minutes_from_Cons [OF \<open>s < e\<close>])
  show ?case
  proof (cases "t = s + MINUTE")
    case False
    then have "s + MINUTE < t" using minutes_from_bounds [OF t] by simp
    with "1.IH" [OF \<open>s < e\<close> t] show ?thesis by (simp add: minutes_from_Cons [OF \<open>s < e\<close>])
  qed (simp add: minutes_from_Cons [OF \<open>s < e\<close>])
qed

lemma minute_multiples_step:
  assumes "(a::int) mod MINUTE = 0" and "b mod MINUTE = 0" and "a < b"
  shows "a + MINUTE \<le> b"
proof -
  obtain x y where "a = MINUTE * x" "b = MINUTE * y" using assms(1,2) by (meson mod_eq_0_iff_dvd dvdE)
  with assms(3) show ?thesis by simp
qed

lemma nse_time_whole: "\<not> has_seconds t \<Longrightarrow> nse_time t mod MINUTE = 0"
proof -
  assume "\<not> has_seconds t"
  moreover have "nse_time t = t + (330 - nse_date t * 1440) * MINUTE"
    by (simp add: nse_time_def nse_date_def minus_div_mult_eq_mod [symmetric])
  then have "nse_time t mod MINUTE = t mod MINUTE" by (simp only: mod_mult_self1)
  ultimately show ?thesis by (simp add: has_seconds_def)
qed

lemma nse_time_range [simp]: "0 \<le> nse_time t" "nse_time t < DAY_US"
  by (simp_all add: nse_time_def)

lemma combine_le_iff: "nse_date t = d \<Longrightarrow> combine_nse d c \<le> t \<longleftrightarrow> c \<le> nse_time t"
  by (auto simp: combine_nse_def nse_date_def nse_time_def mod_div_decomp minus_div_mult_eq_mod [symmetric])

lemma minutes_from_minute_steps: "successively minute_step (minutes_from s e)"
  by (rule successively_mono [OF minutes_from_steps]) (simp add: minute_step_def)

lemma minute_steps_concat:
  assumes "sorted_wrt (<) ds" and "\<And>d. d \<in> set ds \<Longrightarrow> successively minute_step (f d)"
    and "\<And>d t. d \<in> set ds \<Longrightarrow> t \<in> set (f d) \<Longrightarrow> nse_date t = d"
  shows "successively minute_step (concat (map f ds))"
  using assms
proof (induction ds)
  case (Cons d ds)
  let ?r = "concat (map f ds)"
  have r: "successively minute_step ?r" using Cons by (intro Cons.IH) auto
  have "minute_step (last (f d)) (hd ?r)" if "f d \<noteq> []" "?r \<noteq> []"
  proof -
    have l: "nse_date (last (f d)) = d" using Cons.prems(3) [of d "last (f d)"] that(1) by simp
    have "hd ?r \<in> set ?r" using that(2) by (rule list.set_sel(1))
    then obtain d' where d': "d' \<in> set ds" "hd ?r \<in> set (f d')" by auto
    then have h: "nse_date (hd ?r) = d'" using Cons.prems(3) [of d' "hd ?r"] by simp
    have "d < d'" using Cons.prems(1) d'(1) by simp
    with l h nse_date_mono [of "hd ?r" "last (f d)"] show ?thesis
      by (auto simp: minute_step_def not_le [symmetric])
  qed
  with r Cons.prems(2) [of d] show ?case by (auto simp: successively_append_iff)
qed simp

lemma check_session_Inr:
  "check_session s = Inr u \<Longrightarrow> is_local_minute (ses_open s) \<and> is_local_minute (ses_close s) \<and> ses_open s < ses_close s"
  by (auto simp: check_session_def res_simps)

lemma day_of_Some: "day_of days d = Some x \<Longrightarrow> x \<in> set days \<and> day_date x = d"
  by (auto simp: day_of_def dest: map_of_SomeD)

lemma check_calendar_sessions:
  assumes "check_calendar c = Inr u" and "d \<in> set (cal_days c)" and "s \<in> set (day_sessions d)"
  shows "is_local_minute (ses_open s) \<and> is_local_minute (ses_close s) \<and> ses_open s < ses_close s"
proof -
  from assms(1) obtain v where "mapR check_session (concat (map day_sessions (cal_days c))) = Inr v"
    by (auto simp: check_calendar_def res_simps)
  moreover have "s \<in> set (concat (map day_sessions (cal_days c)))" using assms(2,3) by auto
  ultimately obtain w where "check_session s = Inr w" by (rule mapR_Inr_elem)
  then show ?thesis by (rule check_session_Inr)
qed

text \<open>The session a validated dataset has for a date on which it has bars.\<close>

lemma day_minutes_cases:
  assumes cal: "check_calendar (ds_calendar ds) = Inr u" and m: "day_minutes ds d = Inr ms" and t: "t \<in> set ms"
  obtains x s where "day_of (cal_days (ds_calendar ds)) d = Some x" "day_stat x = EXPECTED_SESSION"
    "day_sessions x = [s]" "ms = minutes_from (combine_nse d (ses_open s)) (combine_nse d (ses_close s))"
    "ds_from ds \<le> combine_nse d (ses_open s)" "combine_nse d (ses_close s) \<le> ds_to ds"
    "is_local_minute (ses_open s)" "is_local_minute (ses_close s)" "ses_open s < ses_close s"
proof -
  from m t obtain x where x: "day_of (cal_days (ds_calendar ds)) d = Some x"
    by (auto simp: day_minutes_def split: option.splits)
  with m t have e: "day_stat x = EXPECTED_SESSION" and len: "length (day_sessions x) = 1"
    by (auto simp: day_minutes_def Let_def split: if_splits)
  then obtain s where s: "day_sessions x = [s]" by (auto simp: length_Suc_conv)
  have "x \<in> set (cal_days (ds_calendar ds))" using day_of_Some [OF x] by simp
  with check_calendar_sessions [OF cal this, of s] s x e m show ?thesis
    by (intro that [of x s]) (auto simp: day_minutes_def Let_def split: if_splits)
qed

lemma day_minutes_date:
  assumes "check_calendar (ds_calendar ds) = Inr u" and "day_minutes ds d = Inr ms" and "t \<in> set ms"
  shows "nse_date t = d" and "ds_from ds \<le> t" and "t < ds_to ds"
proof -
  obtain x s where s: "day_of (cal_days (ds_calendar ds)) d = Some x" "day_stat x = EXPECTED_SESSION"
    "day_sessions x = [s]" "ms = minutes_from (combine_nse d (ses_open s)) (combine_nse d (ses_close s))"
    "ds_from ds \<le> combine_nse d (ses_open s)" "combine_nse d (ses_close s) \<le> ds_to ds"
    "is_local_minute (ses_open s)" "is_local_minute (ses_close s)" "ses_open s < ses_close s"
    by (rule day_minutes_cases [OF assms])
  have t: "combine_nse d (ses_open s) \<le> t" "t < combine_nse d (ses_close s)"
    using minutes_from_bounds [of t] assms(3) s(4) by auto
  with s(5,6) show "ds_from ds \<le> t" and "t < ds_to ds" by linarith+
  have o: "0 \<le> ses_open s" "ses_open s < DAY_US" "0 \<le> ses_close s" "ses_close s < DAY_US"
    using s(7,8) by (simp_all add: is_local_minute_def)
  have "d \<le> nse_date t" using nse_date_mono [OF t(1)] o by simp
  moreover have "nse_date t \<le> d" using nse_date_mono [of t "combine_nse d (ses_close s)"] t(2) o by simp
  ultimately show "nse_date t = d" by simp
qed


lemma combine_nse_mod [simp]: "combine_nse d c mod MINUTE = c mod MINUTE"
proof -
  have "combine_nse d c = c + (d * 1440 - 330) * MINUTE" by (simp add: combine_nse_def)
  then show ?thesis by (simp only: mod_mult_self1)
qed

lemma day_minutes_whole:
  assumes "check_calendar (ds_calendar ds) = Inr u" and "day_minutes ds d = Inr ms" and "t \<in> set ms"
  shows "\<not> has_seconds t"
proof -
  obtain x s where s: "day_of (cal_days (ds_calendar ds)) d = Some x" "day_stat x = EXPECTED_SESSION"
    "day_sessions x = [s]" "ms = minutes_from (combine_nse d (ses_open s)) (combine_nse d (ses_close s))"
    "ds_from ds \<le> combine_nse d (ses_open s)" "combine_nse d (ses_close s) \<le> ds_to ds"
    "is_local_minute (ses_open s)" "is_local_minute (ses_close s)" "ses_open s < ses_close s"
    by (rule day_minutes_cases [OF assms])
  from s(4,7) have "(t - combine_nse d (ses_open s)) mod MINUTE = 0" "combine_nse d (ses_open s) mod MINUTE = 0"
    using minutes_from_bounds [of t] assms(3) by (auto simp: is_local_minute_def)
  moreover have "t mod MINUTE = ((t - combine_nse d (ses_open s)) mod MINUTE + combine_nse d (ses_open s) mod MINUTE) mod MINUTE"
    by (simp only: mod_add_eq diff_add_cancel)
  ultimately show ?thesis by (simp add: has_seconds_def)
qed

lemma day_minutes_steps:
  assumes "day_minutes ds d = Inr ms"
  shows "successively minute_step ms"
  using assms by (auto simp: day_minutes_def Let_def minutes_from_minute_steps split: option.splits if_splits)

text \<open>A validated dataset lists the minutes of whole sessions.\<close>

lemma expected_minutes_Inr:
  assumes "expected_minutes ds = Inr ts"
  obtains f where "ts = concat (map f (window_dates (ds_from ds) (ds_to ds)))"
    and "\<And>d. d \<in> set (window_dates (ds_from ds) (ds_to ds)) \<Longrightarrow> day_minutes ds d = Inr (f d)"
proof -
  let ?w = "window_dates (ds_from ds) (ds_to ds)"
  define f where "f d = (case day_minutes ds d of Inr ms \<Rightarrow> ms | Inl _ \<Rightarrow> [])" for d
  from assms obtain ms where ms: "mapR (day_minutes ds) ?w = Inr ms" "ts = concat ms"
    by (auto simp: expected_minutes_def res_simps)
  have "day_minutes ds d = Inr (f d)" if "d \<in> set ?w" for d
    using mapR_Inr_elem [OF ms(1) that] by (metis f_def sum.simps(6))
  moreover have "ms = map f ?w"
    using ms(1) by (auto simp: mapR_Inr_list_all2 f_def list_all2_conv_all_nth intro!: nth_equalityI)
  ultimately show ?thesis using ms(2) that by blast
qed

lemma check_dataset_minutes:
  assumes "check_dataset ds = Inr u"
  shows "check_calendar (ds_calendar ds) = Inr ()" and "expected_minutes ds = Inr (map bar_start (ds_bars ds))"
    and "b \<in> set (ds_bars ds) \<Longrightarrow> check_bar b = Inr ()"
proof -
  show "check_calendar (ds_calendar ds) = Inr ()" and "expected_minutes ds = Inr (map bar_start (ds_bars ds))"
    using assms by (auto simp: check_dataset_def res_simps)
  from assms obtain v where "mapR check_bar (ds_bars ds) = Inr v" by (auto simp: check_dataset_def res_simps)
  then show "b \<in> set (ds_bars ds) \<Longrightarrow> check_bar b = Inr ()" by (auto elim: mapR_Inr_elem)
qed

lemma dataset_bar_session:
  assumes ds: "check_dataset ds = Inr u" and b: "b \<in> set (ds_bars ds)"
  obtains d where "day_of (cal_days (ds_calendar ds)) (nse_date (bar_start b)) = Some d"
    "in_session (ds_bars ds) d b" "ds_from ds \<le> bar_start b" "bar_start b < ds_to ds" "\<not> has_seconds (bar_start b)"
proof -
  note cal = check_dataset_minutes(1) [OF ds]
  obtain f where f: "map bar_start (ds_bars ds) = concat (map f (window_dates (ds_from ds) (ds_to ds)))"
    "\<And>d. d \<in> set (window_dates (ds_from ds) (ds_to ds)) \<Longrightarrow> day_minutes ds d = Inr (f d)"
    using expected_minutes_Inr [OF check_dataset_minutes(2) [OF ds]] by blast
  have "bar_start b \<in> set (map bar_start (ds_bars ds))" using b by simp
  then obtain d where d: "d \<in> set (window_dates (ds_from ds) (ds_to ds))" "bar_start b \<in> set (f d)"
    unfolding f(1) by auto
  note m = f(2) [OF d(1)]
  note date = day_minutes_date [OF cal m d(2)]
  obtain x s where s: "day_of (cal_days (ds_calendar ds)) d = Some x" "day_stat x = EXPECTED_SESSION"
    "day_sessions x = [s]" "f d = minutes_from (combine_nse d (ses_open s)) (combine_nse d (ses_close s))"
    "ds_from ds \<le> combine_nse d (ses_open s)" "combine_nse d (ses_close s) \<le> ds_to ds"
    "is_local_minute (ses_open s)" "is_local_minute (ses_close s)" "ses_open s < ses_close s"
    by (rule day_minutes_cases [OF cal m d(2)])
  have t: "ses_open s \<le> nse_time (bar_start b)" "nse_time (bar_start b) < ses_close s"
    using minutes_from_bounds [of "bar_start b"] d(2) s(4) combine_le_iff [OF date(1)] by (auto simp: not_le [symmetric])
  have "bar_end b \<in> bar_start ` set (ds_bars ds)" if "nse_time (bar_start b) + MINUTE < ses_close s"
  proof -
    have "bar_end b < combine_nse d (ses_close s)"
      using that combine_nse_split [of "bar_start b"] date(1) by (simp add: bar_end_def combine_nse_def)
    then have "bar_end b \<in> set (f d)" using minutes_from_next d(2) s(4) by (auto simp: bar_end_def)
    then have "bar_end b \<in> set (map bar_start (ds_bars ds))" using d(1) unfolding f(1) by auto
    then show ?thesis by simp
  qed
  moreover have "bar_start b - MINUTE \<in> bar_start ` set (ds_bars ds)" if "ses_open s < nse_time (bar_start b)"
  proof -
    have "combine_nse d (ses_open s) < bar_start b"
      using that combine_nse_split [of "bar_start b"] date(1) by (simp add: combine_nse_def)
    then have "bar_start b - MINUTE \<in> set (f d)" using minutes_from_prev d(2) s(4) by auto
    then have "bar_start b - MINUTE \<in> set (map bar_start (ds_bars ds))" using d(1) unfolding f(1) by auto
    then show ?thesis by simp
  qed
  moreover have "nse_time (bar_start b) + MINUTE \<le> ses_close s"
    using minute_multiples_step [OF nse_time_whole [OF day_minutes_whole [OF cal m d(2)]] _ t(2)] s(8)
    by (simp add: is_local_minute_def)
  ultimately show ?thesis
    using t s(1-3) s(7,8) date day_of_Some [OF s(1)] day_minutes_whole [OF cal m d(2)]
    by (intro that [of x]) (auto simp: in_session_def)
qed

lemma dataset_well_timed:
  assumes ds: "check_dataset ds = Inr u"
  shows "well_timed (ds_bars ds)"
proof -
  note cal = check_dataset_minutes(1) [OF ds]
  obtain f where f: "map bar_start (ds_bars ds) = concat (map f (window_dates (ds_from ds) (ds_to ds)))"
    "\<And>d. d \<in> set (window_dates (ds_from ds) (ds_to ds)) \<Longrightarrow> day_minutes ds d = Inr (f d)"
    using expected_minutes_Inr [OF check_dataset_minutes(2) [OF ds]] by blast
  have "successively minute_step (map bar_start (ds_bars ds))"
    unfolding f(1)
  proof (rule minute_steps_concat)
    show "sorted_wrt (<) (window_dates (ds_from ds) (ds_to ds))"
      by (simp add: window_dates_def strict_sorted_iff)
  qed (use f(2) in \<open>blast dest: day_minutes_steps day_minutes_date [OF cal]\<close>)+
  moreover have "list_all (\<lambda>b. \<not> has_seconds (bar_start b)) (ds_bars ds)"
    unfolding list_all_iff using dataset_bar_session [OF ds] by metis
  ultimately show ?thesis by (simp add: well_timed_def)
qed


section \<open>Corpora\<close>

lemma claim_days_Inr:
  assumes "foldR (claim_day active) days seen = Inr seen'"
  shows "set (map fst seen') = set (map fst seen) \<union> (set (map day_date days) \<inter> set active)
         \<and> set (map day_date days) \<inter> set active \<inter> set (map fst seen) = {}"
  using assms
proof (induction days arbitrary: seen)
  case (Cons d days)
  then obtain u where u: "claim_day active d seen = Inr u" "foldR (claim_day active) days u = Inr seen'"
    by (auto simp: res_simps)
  show ?case
  proof (cases "day_date d \<in> set active")
    case True
    with u(1) have "u = seen @ [(day_date d, d)]" "day_date d \<notin> set (map fst seen)"
      by (auto simp: claim_day_def split: if_splits)
    with Cons.IH [OF u(2)] True show ?thesis by auto
  next
    case False
    with u(1) have "u = seen" by (simp add: claim_day_def)
    with Cons.IH [OF u(2)] False show ?thesis by auto
  qed
qed simp

lemma claim_days_claimed:
  assumes "foldR (claim_day active) days seen = Inr seen'"
  shows "set seen' = set seen \<union> {(day_date d, d) | d. d \<in> set days \<and> day_date d \<in> set active}"
  using assms
proof (induction days arbitrary: seen)
  case (Cons d days)
  then obtain u where u: "claim_day active d seen = Inr u" "foldR (claim_day active) days u = Inr seen'"
    by (auto simp: res_simps)
  then have "set u = set seen \<union> {(day_date x, x) | x. x = d \<and> day_date x \<in> set active}"
    by (auto simp: claim_day_def split: if_splits)
  with Cons.IH [OF u(2)] show ?case by auto
qed simp

text \<open>
  What the shards seen so far guarantee: their bars are well timed, before the end of the last shard,
  and the session of each is claimed.
\<close>

definition claimed :: "bar list \<Rightarrow> (date \<times> day) list \<Rightarrow> bar \<Rightarrow> bool" where
  "claimed bars seen b \<longleftrightarrow> (\<exists>d. (nse_date (bar_start b), d) \<in> set seen \<and> in_session bars d b)"

definition shards_inv :: "dataset list \<Rightarrow> instant \<times> (date \<times> day) list \<Rightarrow> bool" where
  "shards_inv shards st \<longleftrightarrow> well_timed (concat (map ds_bars shards))
     \<and> (\<forall>b \<in> set (concat (map ds_bars shards)).
           bar_start b < fst st \<and> claimed (concat (map ds_bars shards)) (snd st) b)"

lemma claimed_mono:
  "claimed bars seen b \<Longrightarrow> set bars \<subseteq> set bars' \<Longrightarrow> set seen \<subseteq> set seen' \<Longrightarrow> claimed bars' seen' b"
  unfolding claimed_def by (meson in_session_mono subsetD)

lemma claimed_date: "claimed bars seen b \<Longrightarrow> nse_date (bar_start b) \<in> set (map fst seen)"
  by (force simp: claimed_def)

lemma well_timed_append:
  assumes "well_timed xs" and "well_timed ys"
    and "xs \<noteq> [] \<Longrightarrow> ys \<noteq> [] \<Longrightarrow> minute_step (bar_start (last xs)) (bar_start (hd ys))"
  shows "well_timed (xs @ ys)"
  using assms by (cases "xs = []"; cases ys) (auto simp: well_timed_def successively_append_iff last_map)

lemma check_shard_Inr:
  assumes run: "check_shard c shard st = Inr st'"
  shows "check_dataset shard = Inr ()" and "fst st \<le> ds_from shard" and "ds_from shard \<le> fst st'"
    and "set (snd st) \<subseteq> set (snd st')"
    and "b \<in> set (ds_bars shard) \<Longrightarrow> ds_from shard \<le> bar_start b \<and> bar_start b < fst st'
           \<and> claimed (ds_bars shard) (snd st') b \<and> nse_date (bar_start b) \<notin> set (map fst (snd st))"
proof -
  from run obtain seen where ds: "check_dataset shard = Inr ()" and lo: "fst st \<le> ds_from shard"
    and seen: "foldR (claim_day (map (\<lambda>b. nse_date (bar_start b)) (ds_bars shard)))
                 (cal_days (ds_calendar shard)) (snd st) = Inr seen" and st': "st' = (ds_to shard, seen)"
    by (auto simp: check_shard_def res_simps)
  show "check_dataset shard = Inr ()" "fst st \<le> ds_from shard" using ds lo .
  show "ds_from shard \<le> fst st'"
    using ds by (auto simp: check_dataset_def check_dataset_fields_def res_simps st')
  show "set (snd st) \<subseteq> set (snd st')" using claim_days_claimed [OF seen] by (auto simp: st')
  assume b: "b \<in> set (ds_bars shard)"
  obtain d where d: "day_of (cal_days (ds_calendar shard)) (nse_date (bar_start b)) = Some d"
    "in_session (ds_bars shard) d b" "ds_from shard \<le> bar_start b" "bar_start b < ds_to shard"
    "\<not> has_seconds (bar_start b)"
    by (rule dataset_bar_session [OF ds b])
  have "d \<in> set (cal_days (ds_calendar shard))" "day_date d = nse_date (bar_start b)"
    using day_of_Some [OF d(1)] by auto
  with b claim_days_Inr [OF seen] claim_days_claimed [OF seen] d
  show "ds_from shard \<le> bar_start b \<and> bar_start b < fst st'
      \<and> claimed (ds_bars shard) (snd st') b \<and> nse_date (bar_start b) \<notin> set (map fst (snd st))"
    by (force simp: st' claimed_def)
qed

lemma check_shard_inv:
  assumes inv: "shards_inv shards st" and run: "check_shard c shard st = Inr st'"
  shows "shards_inv (shards @ [shard]) st'"
proof -
  let ?old = "concat (map ds_bars shards)"
  note sh = check_shard_Inr [OF run]
  have "well_timed (?old @ ds_bars shard)"
  proof (rule well_timed_append)
    assume ne: "?old \<noteq> []" "ds_bars shard \<noteq> []"
    have "bar_start (last ?old) < fst st" "nse_date (bar_start (last ?old)) \<in> set (map fst (snd st))"
      using inv last_in_set [OF ne(1)] unfolding shards_inv_def by (blast dest: claimed_date)+
    moreover have "hd (ds_bars shard) \<in> set (ds_bars shard)" using ne(2) by simp
    ultimately show "minute_step (bar_start (last ?old)) (bar_start (hd (ds_bars shard)))"
      using sh(2) sh(5) unfolding minute_step_def by (metis less_le_trans order.trans)
  qed (use inv sh(1) in \<open>auto simp: shards_inv_def dest: dataset_well_timed\<close>)
  moreover have "bar_start b < fst st' \<and> claimed (?old @ ds_bars shard) (snd st') b"
    if "b \<in> set ?old \<union> set (ds_bars shard)" for b
  proof (cases "b \<in> set ?old")
    case True
    with inv have "bar_start b < fst st" "claimed ?old (snd st) b" by (auto simp: shards_inv_def)
    with sh(2-4) show ?thesis by (auto elim: claimed_mono)
  next
    case False
    with that sh(5) [of b] show ?thesis by (auto elim: claimed_mono)
  qed
  ultimately show ?thesis by (simp add: shards_inv_def)
qed

lemma check_shards_inv:
  "foldR (check_shard c) shards (start, []) = Inr st \<Longrightarrow> shards_inv shards st"
proof (induction shards arbitrary: st rule: rev_induct)
  case (snoc s ss)
  then show ?case by (auto simp: res_simps intro: check_shard_inv)
qed (simp add: shards_inv_def well_timed_def)

lemma check_corpus_Inr:
  assumes "check_corpus c = Inr u"
  obtains st where "shards_inv (corp_shards c) st" "set (snd st) = set (expected_days c)"
    "map day_date (corpus_days c) = window_dates (corp_from c) (corp_to c)"
  using assms by (auto simp: check_corpus_def check_corpus_range_def res_simps dest!: check_shards_inv)

lemma day_of_distinct: "distinct (map day_date days) \<Longrightarrow> d \<in> set days \<Longrightarrow> day_of days (day_date d) = Some d"
  unfolding day_of_def by (rule map_of_is_SomeI) (auto simp: comp_def rev_map [symmetric])

text \<open>The interface of a validated source: what \<open>backtest/engine.py\<close> may rely on.\<close>

lemma corpus_bar_session:
  assumes "check_corpus c = Inr u" and b: "b \<in> set (corpus_bars c)"
  shows "\<exists>d. day_of (corpus_days c) (nse_date (bar_start b)) = Some d \<and> in_session (corpus_bars c) d b"
proof -
  obtain st where st: "shards_inv (corp_shards c) st" "set (snd st) = set (expected_days c)"
    "map day_date (corpus_days c) = window_dates (corp_from c) (corp_to c)"
    using check_corpus_Inr [OF assms(1)] .
  from st(1) b obtain d where d: "(nse_date (bar_start b), d) \<in> set (snd st)" "in_session (corpus_bars c) d b"
    by (auto simp: shards_inv_def corpus_bars_def claimed_def)
  then have "d \<in> set (corpus_days c)" using st(2) by (auto simp: expected_days_def)
  moreover have "distinct (map day_date (corpus_days c))" by (simp add: st(3) window_dates_def)
  ultimately have "day_of (corpus_days c) (day_date d) = Some d" by (simp add: day_of_distinct)
  with d(2) show ?thesis by (auto simp: in_session_def)
qed

lemma corpus_well_timed: "check_corpus c = Inr u \<Longrightarrow> well_timed (corpus_bars c)"
  by (auto simp: corpus_bars_def shards_inv_def elim!: check_corpus_Inr)

end
