(* ===== verification/Backtest_Ledger.thy ===== *)
theory Backtest_Ledger
  imports Backtest Sessions
begin

text \<open>
  Invariants of the simulation loop of \<open>Backtest\<close>: the double-entry ledger, solvency, the resolution
  of intents and the intraday discipline, each an interpretation of the locale \<open>loop_invariant\<close>.
\<close>

section \<open>Frame facts\<close>

lemma add_outcome_simps [simp]:
  "sim_cash (add_outcome p t w st) = sim_cash st"
  "sim_realized (add_outcome p t w st) = sim_realized st"
  "sim_entry (add_outcome p t w st) = sim_entry st"
  "sim_pending (add_outcome p t w st) = sim_pending st"
  "sim_next_id (add_outcome p t w st) = sim_next_id st"
  "sim_fills (add_outcome p t w st) = sim_fills st"
  "sim_trades (add_outcome p t w st) = sim_trades st"
  "sim_curve (add_outcome p t w st) = sim_curve st"
  "sim_session_start (add_outcome p t w st) = sim_session_start st"
  "sim_strategy (add_outcome p t w st) = sim_strategy st"
  by (simp_all add: add_outcome_def split: prod.splits)

lemma add_outcome_ids [simp]:
  "map out_intent_id (sim_outcomes (add_outcome p t w st)) = map out_intent_id (sim_outcomes st) @ [fst p]"
  by (simp add: add_outcome_def split: prod.splits)

lemma enter_session_simps [simp]:
  "sim_cash (enter_session bars i b st) = sim_cash st"
  "sim_realized (enter_session bars i b st) = sim_realized st"
  "sim_entry (enter_session bars i b st) = sim_entry st"
  "sim_pending (enter_session bars i b st) = sim_pending st"
  "sim_next_id (enter_session bars i b st) = sim_next_id st"
  "sim_outcomes (enter_session bars i b st) = sim_outcomes st"
  "sim_fills (enter_session bars i b st) = sim_fills st"
  "sim_trades (enter_session bars i b st) = sim_trades st"
  "sim_curve (enter_session bars i b st) = sim_curve st"
  "sim_strategy (enter_session bars i b st) = sim_strategy st"
  by (simp_all add: enter_session_def)

lemma force_exit_simps [simp]:
  "sim_cash (force_exit cfg b st) = sim_cash st"
  "sim_realized (force_exit cfg b st) = sim_realized st"
  "sim_entry (force_exit cfg b st) = sim_entry st"
  "sim_fills (force_exit cfg b st) = sim_fills st"
  "sim_trades (force_exit cfg b st) = sim_trades st"
  "sim_curve (force_exit cfg b st) = sim_curve st"
  "sim_session_start (force_exit cfg b st) = sim_session_start st"
  "sim_strategy (force_exit cfg b st) = sim_strategy st"
  by (simp_all add: force_exit_def Let_def split: option.splits)

section \<open>The ledger\<close>

text \<open>What the engine knows between any two blocks of its loop body.\<close>

definition trade_ok :: "trade \<Rightarrow> bool" where
  "trade_ok t \<longleftrightarrow> tr_gross_pnl t = fill_gross_notional (tr_exit t) - fill_gross_notional (tr_entry t)
     \<and> tr_costs t = fill_costs (tr_entry t) + fill_costs (tr_exit t)
     \<and> tr_net_pnl t = tr_gross_pnl t - tr_costs t
     \<and> fill_side (tr_entry t) = BUY \<and> fill_side (tr_exit t) = SELL
     \<and> fill_quantity (tr_exit t) = fill_quantity (tr_entry t)"

definition fill_ok :: "fill \<Rightarrow> bool" where
  "fill_ok f \<longleftrightarrow> fill_gross_notional f = fill_price f * of_int (fill_quantity f)
     \<and> fill_adverse_slippage f = \<bar>fill_price f - fill_reference_price f\<bar>"

definition paired :: "fill list \<Rightarrow> trade list \<Rightarrow> fill option \<Rightarrow> bool" where
  "paired fills trades entry \<longleftrightarrow>
     fills = concat (map (\<lambda>t. [tr_entry t, tr_exit t]) trades) @ (case entry of None \<Rightarrow> [] | Some e \<Rightarrow> [e])"

definition invested :: "fill option \<Rightarrow> rat" where
  "invested entry = (case entry of None \<Rightarrow> 0 | Some e \<Rightarrow> fill_gross_notional e + fill_costs e)"

definition net_of :: "trade list \<Rightarrow> rat" where
  "net_of trades = sum_list (map tr_net_pnl trades)"

definition ledger_inv :: "config \<Rightarrow> 's sim \<Rightarrow> bool" where
  "ledger_inv cfg st \<longleftrightarrow>
     sim_cash st = cfg_initial_cash cfg + net_of (sim_trades st) - invested (sim_entry st)
     \<and> sim_realized st = net_of (sim_trades st)
     \<and> paired (sim_fills st) (sim_trades st) (sim_entry st)
     \<and> list_all trade_ok (sim_trades st) \<and> list_all fill_ok (sim_fills st)
     \<and> pred_option (\<lambda>e. fill_side e = BUY) (sim_entry st)"

lemma paired_simps [simp]:
  "paired [] [] None"
  "paired fills trades None \<Longrightarrow> paired (fills @ [f]) trades (Some f)"
  "paired fills trades (Some (tr_entry t)) \<Longrightarrow> f = tr_exit t \<Longrightarrow> paired (fills @ [f]) (trades @ [t]) None"
  by (simp_all add: paired_def)

lemma paired_entry: "paired fills trades (Some e) \<Longrightarrow> e \<in> set fills"
  by (simp add: paired_def)

lemma net_of_simps [simp]: "net_of [] = 0" "net_of (ts @ [t]) = net_of ts + tr_net_pnl t"
  by (simp_all add: net_of_def)

lemma invested_simps [simp]: "invested None = 0" "invested (Some e) = fill_gross_notional e + fill_costs e"
  by (simp_all add: invested_def)

lemma paired_costs:
  assumes "paired fills trades None" and "list_all trade_ok trades"
  shows "sum_list (map fill_costs fills) = sum_list (map tr_costs trades)"
    and "net_of trades = sum_list (map tr_gross_pnl trades) - sum_list (map tr_costs trades)"
proof -
  have "sum_list (map fill_costs (concat (map (\<lambda>t. [tr_entry t, tr_exit t]) ts))) = sum_list (map tr_costs ts)"
    if "list_all trade_ok ts" for ts
    using that by (induction ts) (simp_all add: trade_ok_def)
  with assms show "sum_list (map fill_costs fills) = sum_list (map tr_costs trades)"
    by (simp add: paired_def)
  show "net_of trades = sum_list (map tr_gross_pnl trades) - sum_list (map tr_costs trades)"
    using assms(2) by (induction trades) (simp_all add: trade_ok_def net_of_def)
qed

lemma ledger_inv_cong:
  "sim_cash st = sim_cash st' \<Longrightarrow> sim_realized st = sim_realized st' \<Longrightarrow> sim_entry st = sim_entry st' \<Longrightarrow>
   sim_fills st = sim_fills st' \<Longrightarrow> sim_trades st = sim_trades st' \<Longrightarrow> ledger_inv cfg st = ledger_inv cfg st'"
  by (simp add: ledger_inv_def)

lemma ledger_inv_init: "ledger_inv cfg (sim_init cfg s0)"
  by (simp add: ledger_inv_def sim_init_def)

text \<open>The two ways a fill is booked.\<close>

definition fill_of :: "string \<Rightarrow> bar \<Rightarrow> bool \<Rightarrow> int \<Rightarrow> intent \<Rightarrow> rat \<Rightarrow> rat \<Rightarrow> rat \<Rightarrow> fill" where
  "fill_of ins b forced identity i price notional fee =
     \<lparr>fill_intent_id = identity, fill_instrument_id = ins, fill_side = int_side i,
      fill_quantity = int_quantity i, fill_execution_time = bar_start b, fill_reference_price = bar_open b,
      fill_adverse_slippage = \<bar>price - bar_open b\<bar>, fill_price = price, fill_gross_notional = notional,
      fill_costs = fee, fill_forced = forced\<rparr>"

lemma book_fill_BUY:
  assumes "book_fill ins b forced (identity, created, i) price notional fee st = Inr st'" and "int_side i = BUY"
  defines "f \<equiv> fill_of ins b forced identity i price notional fee"
  shows "st' = (add_outcome (identity, created, i) (bar_start b) ''FILLED''
                  (st\<lparr>sim_fills := sim_fills st @ [f]\<rparr>))
               \<lparr>sim_cash := sim_cash st - (notional + fee), sim_entry := Some f\<rparr>"
  using assms(1,2) by (simp add: book_fill_def res_simps Let_def f_def fill_of_def)

lemma book_fill_SELL:
  assumes "book_fill ins b forced (identity, created, i) price notional fee st = Inr st'"
    and "int_side i = SELL" and "sim_entry st = Some e"
  defines "f \<equiv> fill_of ins b forced identity i price notional fee"
  defines "t \<equiv> \<lparr>tr_entry = e, tr_exit = f, tr_gross_pnl = notional - fill_gross_notional e,
                 tr_costs = fill_costs e + fee,
                 tr_net_pnl = notional - fill_gross_notional e - (fill_costs e + fee)\<rparr>"
  shows "st' = (add_outcome (identity, created, i) (bar_start b) ''FILLED''
                  (st\<lparr>sim_fills := sim_fills st @ [f]\<rparr>))
               \<lparr>sim_cash := sim_cash st + (notional - fee), sim_realized := sim_realized st + tr_net_pnl t,
                sim_entry := None, sim_trades := sim_trades st @ [t]\<rparr>"
  using assms(1-3) by (simp add: book_fill_def res_simps Let_def f_def t_def fill_of_def)

lemma book_fill_ledger:
  assumes inv: "ledger_inv cfg st" and n: "notional = price * of_int (int_quantity i)"
    and rej: "rejection lot cfg b (sim_entry st) i = None"
    and run: "book_fill ins b forced (identity, created, i) price notional fee st = Inr st'"
  shows "ledger_inv cfg st'"
proof (cases "int_side i")
  case BUY
  with rej have "sim_entry st = None" by (auto simp: rejection_def split: if_splits)
  then show ?thesis
    unfolding book_fill_BUY [OF run BUY] using inv n BUY
    by (simp add: ledger_inv_def fill_ok_def fill_of_def)
next
  case SELL
  with rej obtain e where e: "sim_entry st = Some e" "int_quantity i = fill_quantity e"
    by (auto simp: rejection_def split: if_splits option.splits)
  then show ?thesis
    unfolding book_fill_SELL [OF run SELL e(1)] using inv n SELL
    by (simp add: ledger_inv_def fill_ok_def fill_of_def trade_ok_def)
qed

lemma rejection_not_filled: "rejection lot cfg b entry i \<noteq> Some ''FILLED''"
  by (simp add: rejection_def split: option.splits)

text \<open>The three ways a pending intent is resolved.\<close>

lemma execute_pending_cases:
  assumes "execute_pending src cfg b forced st = Inr st'"
  obtains (idle) "sim_pending st = None" "st' = st"
  | (rejected) identity created i why where "sim_pending st = Some (identity, created, i)" "\<not> forced"
      "st' = (add_outcome (identity, created, i) (bar_start b) why st)\<lparr>sim_pending := None\<rparr>" "why \<noteq> ''FILLED''"
  | (filled) identity created i price notional fee st1 where "sim_pending st = Some (identity, created, i)"
      "slippage_price (cfg_slippage_bps cfg) (int_side i) (bar_open b) = Inr price"
      "notional = price * of_int (int_quantity i)"
      "fill_fee (cfg_costs cfg) False (int_side i) notional (bar_start b) (sim_entry st) = Inr fee"
      "rejection (src_lot_size src) cfg b (sim_entry st) i = None"
      "insufficient_cash (sim_cash st) (int_side i) notional fee = Inr False"
      "book_fill (src_instrument_id src) b forced (identity, created, i) price notional fee st = Inr st1"
      "st' = st1\<lparr>sim_pending := None\<rparr>"
proof (cases "sim_pending st")
  case None
  with assms show ?thesis by (intro idle) (simp_all add: execute_pending_def)
next
  case (Some p)
  obtain identity created i where p: "p = (identity, created, i)" by (cases p)
  let ?rej = "rejection (src_lot_size src) cfg b (sim_entry st) i"
  from assms Some p obtain price notional fee short where
    price: "slippage_price (cfg_slippage_bps cfg) (int_side i) (bar_open b) = Inr price" and
    notional: "notional = price * of_int (int_quantity i)" and
    fee: "fill_fee (cfg_costs cfg) (?rej \<noteq> None) (int_side i) notional (bar_start b) (sim_entry st) = Inr fee" and
    short: "(if ?rej = None then insufficient_cash (sim_cash st) (int_side i) notional fee else Inr False) = Inr short" and
    rest: "bindR (case if short then Some ''INSUFFICIENT_CASH'' else ?rej of
              Some why \<Rightarrow> if forced then Inl (ValueError ''FORCED_EXIT_UNAVAILABLE'')
                          else Inr (add_outcome (identity, created, i) (bar_start b) why st)
            | None \<Rightarrow> book_fill (src_instrument_id src) b forced (identity, created, i) price notional fee st) (\<lambda>st'.
          Inr (st'\<lparr>sim_pending := None\<rparr>)) = Inr st'"
    by (simp add: execute_pending_def bindR_Inr_iff exactly_Inr Let_def) blast
  show ?thesis
  proof (cases "if short then Some ''INSUFFICIENT_CASH'' else ?rej")
    case None
    then have "\<not> short" and rej: "?rej = None" by (auto split: if_splits)
    with rest None obtain st1 where
      "book_fill (src_instrument_id src) b forced (identity, created, i) price notional fee st = Inr st1"
      "st' = st1\<lparr>sim_pending := None\<rparr>"
      by (auto simp: bindR_Inr_iff)
    with Some p price notional fee short rej \<open>\<not> short\<close> show ?thesis by (intro filled) simp_all
  next
    case (Some why)
    with rest have "\<not> forced"
      and "st' = (add_outcome (identity, created, i) (bar_start b) why st)\<lparr>sim_pending := None\<rparr>"
      by (auto split: if_splits)
    moreover have "why \<noteq> ''FILLED''" using Some rejection_not_filled by (auto split: if_splits)
    ultimately show ?thesis using \<open>sim_pending st = Some p\<close> p by (intro rejected) simp_all
  qed
qed

lemma execute_pending_ledger:
  assumes "ledger_inv cfg st" and "execute_pending src cfg b forced st = Inr st'"
  shows "ledger_inv cfg st'"
  using assms(2)
proof (cases rule: execute_pending_cases)
  case idle
  with assms(1) show ?thesis by simp
next
  case (rejected identity created i why)
  with assms(1) show ?thesis by (simp add: ledger_inv_def)
next
  case (filled identity created i price notional fee st1)
  then have "ledger_inv cfg st1" using assms(1) by (blast intro: book_fill_ledger)
  with filled(8) show ?thesis by (simp add: ledger_inv_def)
qed


lemma mark_equity_Inr:
  assumes "mark_equity cfg b st = Inr (st', u)"
  shows "\<exists>p. st' = st\<lparr>sim_curve := sim_curve st @ [p]\<rparr> \<and> eq_cash p = sim_cash st
           \<and> eq_decision_time p = bar_end b \<and> eq_position_quantity p = entry_quantity st
           \<and> eq_equity p = sim_cash st + bar_close b * of_int (entry_quantity st)"
  using assms by (auto simp: mark_equity_def res_simps split: if_splits)

lemma mark_equity_simps:
  assumes "mark_equity cfg b st = Inr (st', u)"
  shows "sim_cash st' = sim_cash st" "sim_realized st' = sim_realized st" "sim_entry st' = sim_entry st"
    "sim_pending st' = sim_pending st" "sim_next_id st' = sim_next_id st" "sim_outcomes st' = sim_outcomes st"
    "sim_fills st' = sim_fills st" "sim_trades st' = sim_trades st"
    "sim_session_start st' = sim_session_start st" "sim_strategy st' = sim_strategy st"
  using mark_equity_Inr [OF assms] by auto

text \<open>The consistency check of the loop body cannot fail: only the arithmetic can.\<close>

lemma mark_equity_consistent:
  assumes "ledger_inv cfg st"
  shows "fails_in (\<lambda>e. e = DecimalException) (mark_equity cfg b st)"
proof -
  have "sim_cash st + bar_close b * of_int (entry_quantity st)
      = cfg_initial_cash cfg + sim_realized st + (bar_close b - entry_price st) * of_int (entry_quantity st)
        - entry_fee st"
  proof (cases "sim_entry st")
    case None
    with assms show ?thesis
      by (simp add: ledger_inv_def entry_quantity_def entry_price_def entry_fee_def)
  next
    case (Some e)
    with assms have "e \<in> set (sim_fills st)" by (auto simp: ledger_inv_def dest: paired_entry)
    with assms have "fill_gross_notional e = fill_price e * of_int (fill_quantity e)"
      by (auto simp: ledger_inv_def list_all_iff fill_ok_def)
    with assms Some show ?thesis
      by (simp add: ledger_inv_def entry_quantity_def entry_price_def entry_fee_def algebra_simps)
  qed
  then show ?thesis
    unfolding mark_equity_def
    by (intro fails_intros) (auto simp: exactly_Inr)
qed

lemma decide_simps:
  assumes "decide strat b ctx st = Inr st'"
  shows "sim_cash st' = sim_cash st" "sim_realized st' = sim_realized st" "sim_entry st' = sim_entry st"
    "sim_outcomes st' = sim_outcomes st" "sim_fills st' = sim_fills st" "sim_trades st' = sim_trades st"
    "sim_curve st' = sim_curve st" "sim_session_start st' = sim_session_start st"
  using assms by (auto simp: decide_def res_simps Let_def split: option.splits)

lemma close_session_simps:
  assumes "close_session bars i b st = Inr st'"
  shows "sim_cash st' = sim_cash st" "sim_realized st' = sim_realized st" "sim_entry st' = sim_entry st"
    "sim_fills st' = sim_fills st" "sim_trades st' = sim_trades st"
    "sim_curve st' = sim_curve st" "sim_session_start st' = sim_session_start st"
    "sim_next_id st' = sim_next_id st" "sim_strategy st' = sim_strategy st"
  using assms by (auto simp: close_session_def split: if_splits option.splits)

section \<open>Invariants of the loop\<close>

text \<open>
  The interface between the loop and a statement about it: \<open>I i\<close> holds before bar \<open>i\<close> is
  processed, \<open>M i\<close> between trading at bar \<open>i\<close> and the decision, \<open>D i\<close> after it.  A client proves one law
  per block of the loop body and gets the statement for every prefix of the run.
\<close>

locale loop_invariant =
  fixes src :: source and cfg :: config and spec :: strategy_spec and strat :: "'s strategy" and s0 :: 's
    and I :: "nat \<Rightarrow> 's sim \<Rightarrow> bool" and M :: "nat \<Rightarrow> 's sim \<Rightarrow> bool" and D :: "nat \<Rightarrow> 's sim \<Rightarrow> bool"
  assumes start: "I 0 (sim_init cfg s0)"
    and traded: "i < length (src_bars src) \<Longrightarrow> b = src_bars src ! i \<Longrightarrow> I i st \<Longrightarrow>
      st1 = enter_session (src_bars src) i b st \<Longrightarrow>
      execute_pending src cfg b (is_forced cfg b st1) (force_exit cfg b st1) = Inr st2 \<Longrightarrow> M i st2"
    and marked: "i < length (src_bars src) \<Longrightarrow> b = src_bars src ! i \<Longrightarrow> M i st \<Longrightarrow>
      mark_equity cfg b st = Inr (st', u) \<Longrightarrow> M i st'"
    and decided: "i < length (src_bars src) \<Longrightarrow> b = src_bars src ! i \<Longrightarrow> M i st \<Longrightarrow>
      decide strat b ctx st = Inr st' \<Longrightarrow> D i st'"
    and closed: "i < length (src_bars src) \<Longrightarrow> b = src_bars src ! i \<Longrightarrow> D i st \<Longrightarrow>
      close_session (src_bars src) i b st = Inr st' \<Longrightarrow> I (Suc i) st'"
begin

lemma step:
  assumes "i < length (src_bars src)" and "I i st" and "sim_step src cfg spec strat i st = Inr st'"
  shows "I (Suc i) st'"
proof -
  let ?b = "src_bars src ! i"
  from assms(3) obtain st2 st3 u ctx st4 where
    "execute_pending src cfg ?b (is_forced cfg ?b (enter_session (src_bars src) i ?b st))
       (force_exit cfg ?b (enter_session (src_bars src) i ?b st)) = Inr st2"
    "mark_equity cfg ?b st2 = Inr (st3, u)" "decide strat ?b ctx st3 = Inr st4"
    "close_session (src_bars src) i ?b st4 = Inr st'"
    by (auto simp: sim_step_def Let_def res_simps)
  with assms(1,2) show ?thesis
    by (meson closed decided marked traded)
qed

lemma loop: "n \<le> length (src_bars src) \<Longrightarrow> sim_loop src cfg spec strat n s0 = Inr st \<Longrightarrow> I n st"
proof (induction n arbitrary: st)
  case 0
  then show ?case using start by (simp add: sim_loop_def)
next
  case (Suc n)
  then obtain u where "sim_loop src cfg spec strat n s0 = Inr u" "sim_step src cfg spec strat n u = Inr st"
    by (auto simp: sim_loop_def res_simps)
  with Suc show ?case by (auto intro: step)
qed

end

interpretation ledger: loop_invariant src cfg spec strat s0 "\<lambda>_. ledger_inv cfg" "\<lambda>_. ledger_inv cfg"
    "\<lambda>_. ledger_inv cfg"
  for src :: source and cfg :: config and spec :: strategy_spec and strat :: "'s strategy" and s0 :: 's
proof (unfold_locales, goal_cases)
  case 1
  show ?case by (rule ledger_inv_init)
next
  case (2 i b st st1 st2)
  then have "ledger_inv cfg (force_exit cfg b st1)" by (simp add: ledger_inv_def)
  with 2 show ?case by (auto intro: execute_pending_ledger)
next
  case (3 i b st st' u)
  then show ?case by (simp add: ledger_inv_def mark_equity_simps)
next
  case (4 i b st ctx st')
  then show ?case by (simp add: ledger_inv_def decide_simps)
next
  case (5 i b st st')
  then show ?case by (simp add: ledger_inv_def close_session_simps)
qed


subsection \<open>The engine never spends cash it does not have\<close>

definition solvent :: "config \<Rightarrow> 's sim \<Rightarrow> bool" where
  "solvent cfg st \<longleftrightarrow> (0 \<le> cfg_initial_cash cfg \<longrightarrow> 0 \<le> sim_cash st)"

lemma book_fill_solvent:
  assumes run: "book_fill ins b forced (identity, created, i) price notional fee st = Inr st'"
    and rej: "rejection lot cfg b (sim_entry st) i = None"
    and cash: "insufficient_cash (sim_cash st) (int_side i) notional fee = Inr False"
  shows "0 \<le> sim_cash st'"
proof (cases "int_side i")
  case BUY
  with cash show ?thesis by (auto simp: book_fill_BUY [OF run BUY] insufficient_cash_def res_simps)
next
  case SELL
  with rej obtain e where "sim_entry st = Some e" by (auto simp: rejection_def split: if_splits option.splits)
  with cash SELL show ?thesis by (auto simp: book_fill_SELL [OF run SELL] insufficient_cash_def res_simps)
qed

interpretation solvency: loop_invariant src cfg spec strat s0 "\<lambda>_. solvent cfg" "\<lambda>_. solvent cfg" "\<lambda>_. solvent cfg"
  for src :: source and cfg :: config and spec :: strategy_spec and strat :: "'s strategy" and s0 :: 's
proof (unfold_locales, goal_cases)
  case 1
  show ?case by (simp add: solvent_def sim_init_def)
next
  case (2 i b st st1 st2)
  then show ?case
    by (auto simp: solvent_def elim!: execute_pending_cases dest: book_fill_solvent)
qed (simp_all add: solvent_def mark_equity_simps decide_simps close_session_simps)

subsection \<open>Every intent is resolved once, in the order of its identity\<close>

definition pending_ids :: "'s sim \<Rightarrow> int list" where
  "pending_ids st = (case sim_pending st of None \<Rightarrow> [] | Some p \<Rightarrow> [fst p])"

definition ids_inv :: "'s sim \<Rightarrow> bool" where
  "ids_inv st \<longleftrightarrow> 1 \<le> sim_next_id st
     \<and> map out_intent_id (sim_outcomes st) @ pending_ids st = [1 .. sim_next_id st - 1]"

lemma upto_snoc_next: "1 \<le> n \<Longrightarrow> xs = [1 .. n - 1] \<Longrightarrow> xs @ [n] = [1 .. (n::int)]"
  by (simp add: upto_rec2)

lemma upto_snoc_next2: "1 \<le> n \<Longrightarrow> xs @ [a] = [1 .. n - 1] \<Longrightarrow> xs @ [a, n] = [1 .. (n::int)]"
  by (metis append.assoc append_Cons append_Nil upto_snoc_next)

lemma force_exit_ids: "ids_inv st \<Longrightarrow> ids_inv (force_exit cfg b st)"
  by (auto simp: ids_inv_def force_exit_def Let_def pending_ids_def intro!: upto_snoc_next upto_snoc_next2
      split: option.splits)

lemma book_fill_ids:
  assumes "book_fill ins b forced p price notional fee st = Inr st'"
  shows "map out_intent_id (sim_outcomes st') = map out_intent_id (sim_outcomes st) @ [fst p]"
    and "sim_next_id st' = sim_next_id st"
proof -
  obtain identity created i where p: "p = (identity, created, i)" by (cases p)
  show "map out_intent_id (sim_outcomes st') = map out_intent_id (sim_outcomes st) @ [fst p]"
    and "sim_next_id st' = sim_next_id st"
    using assms unfolding p
    by (auto simp: book_fill_def res_simps Let_def add_outcome_def split: if_splits option.splits)
qed

lemma execute_pending_ids:
  assumes "ids_inv st" and "execute_pending src cfg b forced st = Inr st'"
  shows "ids_inv st' \<and> sim_pending st' = None"
  using assms(2)
proof (cases rule: execute_pending_cases)
  case (filled identity created i price notional fee st1)
  with assms(1) show ?thesis
    by (simp add: ids_inv_def pending_ids_def book_fill_ids [OF filled(7)])
qed (use assms(1) in \<open>simp_all add: ids_inv_def pending_ids_def\<close>)

interpretation identities: loop_invariant src cfg spec strat s0 "\<lambda>_. ids_inv"
    "\<lambda>_ st. ids_inv st \<and> sim_pending st = None" "\<lambda>_. ids_inv"
  for src :: source and cfg :: config and spec :: strategy_spec and strat :: "'s strategy" and s0 :: 's
proof (unfold_locales, goal_cases)
  case 1
  show ?case by (simp add: ids_inv_def sim_init_def pending_ids_def)
next
  case (2 i b st st1 st2)
  have "ids_inv (force_exit cfg b st1)"
    using 2 by (intro force_exit_ids) (simp add: ids_inv_def pending_ids_def)
  with 2 show ?case by (auto dest: execute_pending_ids)
next
  case (3 i b st st' u)
  then show ?case by (auto simp: ids_inv_def pending_ids_def mark_equity_simps)
next
  case (4 i b st ctx st')
  then show ?case
    by (auto simp: decide_def res_simps Let_def ids_inv_def pending_ids_def intro!: upto_snoc_next split: option.splits)
next
  case (5 i b st st')
  then show ?case
    by (auto simp: close_session_def ids_inv_def pending_ids_def split: if_splits option.splits)
qed

end
