(* ===== verification/Backtest_Safety.thy ===== *)
theory Backtest_Safety
  imports Backtest_Ledger
begin

text \<open>
  Safety of the simulation loop: positions are opened and closed within one session, the guards of the
  cost model never fire on validated input, and the only ways in which a validated run can fail are an
  inexact amount, a strategy that raises and a forced exit that the market cannot execute.
\<close>

section \<open>Where a run can fail\<close>

context loop_invariant
begin

lemma failure:
  assumes "n \<le> length (src_bars src)" and "sim_loop src cfg spec strat n s0 = Inl e"
  obtains i b st st1 where "i < length (src_bars src)" "b = src_bars src ! i" "I i st"
      "st1 = enter_session (src_bars src) i b st"
      "execute_pending src cfg b (is_forced cfg b st1) (force_exit cfg b st1) = Inl e"
  | i b st where "i < length (src_bars src)" "b = src_bars src ! i" "M i st" "mark_equity cfg b st = Inl e"
  | i b st u where "i < length (src_bars src)" "b = src_bars src ! i" "M i st"
      "decision_context src spec i b u st = Inl e"
  | i b st ctx where "i < length (src_bars src)" "b = src_bars src ! i" "M i st" "decide strat b ctx st = Inl e"
  | i b st where "i < length (src_bars src)" "b = src_bars src ! i" "D i st"
      "close_session (src_bars src) i b st = Inl e"
  using assms
proof (induction n arbitrary: thesis)
  case 0
  then show ?case by (simp add: sim_loop_def)
next
  case (Suc n)
  show ?case
  proof (cases "sim_loop src cfg spec strat n s0")
    case (Inl e')
    with Suc.prems have "sim_loop src cfg spec strat n s0 = Inl e" by (simp add: sim_loop_def)
    with Suc.IH [OF Suc.prems(1-5)] Suc.prems(6) show ?thesis by simp
  next
    case (Inr st)
    let ?b = "src_bars src ! n"
    let ?st1 = "enter_session (src_bars src) n ?b st"
    have n: "n < length (src_bars src)" using Suc.prems by simp
    have I: "I n st" using loop Inr n by simp
    from Suc.prems(7) Inr have "sim_step src cfg spec strat n st = Inl e" by (simp add: sim_loop_def)
    then consider
        (a) "execute_pending src cfg ?b (is_forced cfg ?b ?st1) (force_exit cfg ?b ?st1) = Inl e"
      | (b) st2 where "execute_pending src cfg ?b (is_forced cfg ?b ?st1) (force_exit cfg ?b ?st1) = Inr st2"
          "mark_equity cfg ?b st2 = Inl e"
      | (c) st2 st3 u where "execute_pending src cfg ?b (is_forced cfg ?b ?st1) (force_exit cfg ?b ?st1) = Inr st2"
          "mark_equity cfg ?b st2 = Inr (st3, u)" "decision_context src spec n ?b u st3 = Inl e"
      | (d) st2 st3 u ctx where "execute_pending src cfg ?b (is_forced cfg ?b ?st1) (force_exit cfg ?b ?st1) = Inr st2"
          "mark_equity cfg ?b st2 = Inr (st3, u)" "decide strat ?b ctx st3 = Inl e"
      | (e) st2 st3 u ctx st4 where "execute_pending src cfg ?b (is_forced cfg ?b ?st1) (force_exit cfg ?b ?st1) = Inr st2"
          "mark_equity cfg ?b st2 = Inr (st3, u)" "decide strat ?b ctx st3 = Inr st4"
          "close_session (src_bars src) n ?b st4 = Inl e"
      by (auto simp: sim_step_def Let_def bindR_Inl_iff)
    then show ?thesis
    proof cases
      case a
      show ?thesis by (rule Suc.prems(1) [OF n refl I refl a])
    next
      case b
      show ?thesis by (rule Suc.prems(2) [OF n refl traded [OF n refl I refl b(1)] b(2)])
    next
      case c
      show ?thesis by (rule Suc.prems(3) [OF n refl marked [OF n refl traded [OF n refl I refl c(1)] c(2)] c(3)])
    next
      case d
      show ?thesis by (rule Suc.prems(4) [OF n refl marked [OF n refl traded [OF n refl I refl d(1)] d(2)] d(3)])
    next
      case e
      show ?thesis
        by (rule Suc.prems(5) [OF n refl decided [OF n refl marked [OF n refl traded [OF n refl I refl e(1)] e(2)] e(3)] e(4)])
    qed
  qed
qed

end

section \<open>The engine holds a position only within a session\<close>

lemma source_well_timed: "check_source src = Inr u \<Longrightarrow> well_timed (src_bars src)"
  by (cases src) (auto intro: dataset_well_timed corpus_well_timed)

lemma source_bar_session:
  assumes "check_source src = Inr u" and "b \<in> set (src_bars src)"
  obtains d where "day_of (src_days src) (nse_date (bar_start b)) = Some d" "in_session (src_bars src) d b"
  using assms by (cases src) (auto dest: corpus_bar_session elim: dataset_bar_session)

lemma source_bar_ok:
  assumes "check_source src = Inr u" and "b \<in> set (src_bars src)"
  shows "check_bar b = Inr ()"
proof (cases src)
  case (DatasetSource d)
  with assms show ?thesis by (auto dest: check_dataset_minutes(3))
next
  case (CorpusSource c)
  with assms(2) obtain s where s: "s \<in> set (corp_shards c)" "b \<in> set (ds_bars s)"
    by (auto simp: corpus_bars_def)
  from assms(1) CorpusSource obtain v where "mapR check_dataset (corp_shards c) = Inr v"
    by (auto simp: check_corpus_def res_simps)
  from mapR_Inr_elem [OF this s(1)] s(2) show ?thesis by (metis check_dataset_minutes(3))
qed

text \<open>The static checks that precede the simulation.\<close>

definition validated :: "source \<Rightarrow> config \<Rightarrow> strategy_spec \<Rightarrow> bool" where
  "validated src cfg spec \<longleftrightarrow> check_source src = Inr () \<and> check_config cfg = Inr () \<and> check_spec spec = Inr ()
     \<and> check_session_policy cfg (src_days src) = Inr () \<and> check_cost_dates cfg (src_bars src) = Inr ()"

lemma run_validated: "run src cfg spec strat s0 = Inr r \<Longrightarrow>
    validated src cfg spec \<and> simulate src cfg spec strat s0 = Inr r"
  by (auto simp: run_def res_simps validated_def arithmetic_failure_def split: sum.splits exc.splits)

lemma validated_run: "validated src cfg spec \<Longrightarrow>
    run src cfg spec strat s0 = arithmetic_failure (simulate src cfg spec strat s0)"
  by (simp add: run_def validated_def)

text \<open>What the intraday discipline rests on.\<close>

definition timed :: "source \<Rightarrow> config \<Rightarrow> bool" where
  "timed src cfg \<longleftrightarrow> well_timed (src_bars src) \<and> is_local_minute (cfg_forced_exit_time cfg)
     \<and> cfg_last_entry_time cfg < cfg_forced_exit_time cfg
     \<and> (\<forall>b \<in> set (src_bars src). nse_time (bar_start b) < cfg_forced_exit_time cfg \<longrightarrow>
           bar_end b \<in> bar_start ` set (src_bars src))"

lemma nse_time_add:
  assumes "0 \<le> k" "nse_time t + k < DAY_US"
  shows "nse_time (t + k) = nse_time t + k" and "nse_date (t + k) = nse_date t"
proof -
  have "t + k = combine_nse (nse_date t) (nse_time t + k)"
    using combine_nse_split [of t] by (simp add: combine_nse_def)
  with assms nse_time_range(1) [of t] show "nse_time (t + k) = nse_time t + k" "nse_date (t + k) = nse_date t"
    by simp_all
qed

lemma well_timed_step:
  assumes "well_timed bars" and "Suc i < length bars"
  shows "minute_step (bar_start (bars ! i)) (bar_start (bars ! Suc i))"
  using assms by (auto simp: well_timed_def successively_conv_nth)

lemma well_timed_sorted:
  assumes "well_timed bars" and "i < j" and "j < length bars"
  shows "bar_start (bars ! i) < bar_start (bars ! j)"
  using assms(2,3)
proof (induction j)
  case (Suc j)
  have "bar_start (bars ! j) < bar_start (bars ! Suc j)"
    using well_timed_step [OF assms(1)] Suc.prems by (simp add: minute_step_def)
  with Suc show ?case by (cases "i = j") auto
qed simp

text \<open>Before the forced exit time a session always has a next minute, on the same date.\<close>

lemma next_minute:
  assumes t: "timed src cfg" and i: "i < length (src_bars src)" and b: "b = src_bars src ! i"
    and lt: "nse_time (bar_start b) < cfg_forced_exit_time cfg"
  shows "Suc i < length (src_bars src)" and "bar_start (src_bars src ! Suc i) = bar_end b"
    and "nse_date (bar_end b) = nse_date (bar_start b)" and "nse_time (bar_end b) = nse_time (bar_start b) + MINUTE"
    and "nse_time (bar_start b) + MINUTE \<le> cfg_forced_exit_time cfg"
    and "\<not> session_end (src_bars src) i b"
proof -
  let ?bars = "src_bars src"
  have wt: "well_timed ?bars" and fe: "is_local_minute (cfg_forced_exit_time cfg)" using t by (auto simp: timed_def)
  have bin: "b \<in> set ?bars" using i b by simp
  then have whole: "\<not> has_seconds (bar_start b)" using wt by (auto simp: well_timed_def list_all_iff)
  show le: "nse_time (bar_start b) + MINUTE \<le> cfg_forced_exit_time cfg"
    using minute_multiples_step [OF nse_time_whole [OF whole] _ lt] fe by (simp add: is_local_minute_def)
  then have day: "nse_time (bar_start b) + MINUTE < DAY_US" using fe by (simp add: is_local_minute_def)
  show same: "nse_date (bar_end b) = nse_date (bar_start b)"
    and "nse_time (bar_end b) = nse_time (bar_start b) + MINUTE"
    unfolding bar_end_def using nse_time_add [OF _ day] by auto
  from t bin lt have "bar_end b \<in> bar_start ` set ?bars" by (auto simp: timed_def)
  then obtain k where k: "k < length ?bars" "bar_start (?bars ! k) = bar_end b"
    by (auto simp: in_set_conv_nth)
  have "i < k" using well_timed_sorted [OF wt, of k i] k i b by (cases k i rule: linorder_cases) (auto simp: bar_end_def)
  then show n: "Suc i < length ?bars" using k(1) by simp
  have st: "minute_step (bar_start b) (bar_start (?bars ! Suc i))" using well_timed_step [OF wt n] b by simp
  have "bar_start (?bars ! Suc i) \<le> bar_end b"
    using well_timed_sorted [OF wt, of "Suc i" k] k \<open>i < k\<close> by (cases "k = Suc i") auto
  then have "nse_date (bar_start (?bars ! Suc i)) = nse_date (bar_start b)"
    using st same nse_date_mono [of "bar_start b" "bar_start (?bars ! Suc i)"]
      nse_date_mono [of "bar_start (?bars ! Suc i)" "bar_end b"] by (simp add: minute_step_def)
  with st show eq: "bar_start (?bars ! Suc i) = bar_end b" by (simp add: minute_step_def bar_end_def)
  show "\<not> session_end ?bars i b" using n eq same by (simp add: session_end_def)
qed

lemma validated_timed:
  assumes "validated src cfg spec"
  shows "timed src cfg"
proof -
  have src: "check_source src = Inr ()" and pol: "check_session_policy cfg (src_days src) = Inr ()"
    and c: "is_local_minute (cfg_forced_exit_time cfg)" "cfg_last_entry_time cfg < cfg_forced_exit_time cfg"
    using assms by (auto simp: validated_def check_config_def res_simps)
  have "bar_end b \<in> bar_start ` set (src_bars src)"
    if b: "b \<in> set (src_bars src)" and lt: "nse_time (bar_start b) < cfg_forced_exit_time cfg" for b
  proof -
    obtain d where d: "day_of (src_days src) (nse_date (bar_start b)) = Some d" "in_session (src_bars src) d b"
      using source_bar_session [OF src b] .
    then obtain s where s: "day_sessions d = [s]"
      "nse_time (bar_start b) + MINUTE < ses_close s \<longrightarrow> bar_end b \<in> bar_start ` set (src_bars src)"
      by (auto simp: in_session_def)
    have "\<not> has_seconds (bar_start b)"
      using source_well_timed [OF src] b by (auto simp: well_timed_def list_all_iff)
    then have "nse_time (bar_start b) + MINUTE \<le> cfg_forced_exit_time cfg"
      using c(1) lt by (intro minute_multiples_step nse_time_whole) (auto simp: is_local_minute_def)
    moreover have "d \<in> set (src_days src)" using day_of_Some [OF d(1)] by simp
    then have "cfg_forced_exit_time cfg < ses_close s"
      using pol s(1) by (force simp: check_session_policy_def res_simps list_ex_iff)
    ultimately show ?thesis using s(2) by simp
  qed
  with source_well_timed [OF src] c show ?thesis by (simp add: timed_def)
qed


definition trade_intraday :: "config \<Rightarrow> trade \<Rightarrow> bool" where
  "trade_intraday cfg t \<longleftrightarrow>
     (let a = fill_execution_time (tr_entry t); z = fill_execution_time (tr_exit t) in
      nse_date a = nse_date z \<and> a < z \<and> cfg_entry_start cfg \<le> nse_time a \<and> nse_time a \<le> cfg_last_entry_time cfg
      \<and> nse_time z \<le> cfg_forced_exit_time cfg
      \<and> (fill_forced (tr_exit t) \<longleftrightarrow> nse_time z = cfg_forced_exit_time cfg))"

text \<open>The open position, seen from a bar: opened in the entry window of the same date, not yet due.\<close>

definition held :: "config \<Rightarrow> bar \<Rightarrow> fill \<Rightarrow> bool" where
  "held cfg b e \<longleftrightarrow> nse_date (fill_execution_time e) = nse_date (bar_start b)
     \<and> fill_execution_time e \<le> bar_start b \<and> nse_time (bar_start b) < cfg_forced_exit_time cfg
     \<and> cfg_entry_start cfg \<le> nse_time (fill_execution_time e)
     \<and> nse_time (fill_execution_time e) \<le> cfg_last_entry_time cfg"

definition intraday_mid :: "source \<Rightarrow> config \<Rightarrow> nat \<Rightarrow> 's sim \<Rightarrow> bool" where
  "intraday_mid src cfg i st \<longleftrightarrow> (timed src cfg \<longrightarrow> list_all (trade_intraday cfg) (sim_trades st)
     \<and> pred_option (held cfg (src_bars src ! i)) (sim_entry st))"

definition intraday_inv :: "source \<Rightarrow> config \<Rightarrow> nat \<Rightarrow> 's sim \<Rightarrow> bool" where
  "intraday_inv src cfg i st \<longleftrightarrow> (timed src cfg \<longrightarrow> list_all (trade_intraday cfg) (sim_trades st)
     \<and> pred_option (\<lambda>e. 0 < i \<and> i < length (src_bars src) \<and> held cfg (src_bars src ! (i - 1)) e) (sim_entry st))"

text \<open>A position carried into a bar reaches at most the forced exit time there.\<close>

lemma held_next:
  assumes t: "timed src cfg" and i: "Suc i < length (src_bars src)" and h: "held cfg (src_bars src ! i) e"
  defines "b \<equiv> src_bars src ! Suc i"
  shows "nse_date (fill_execution_time e) = nse_date (bar_start b)" and "fill_execution_time e < bar_start b"
    and "nse_time (bar_start b) \<le> cfg_forced_exit_time cfg"
    and "nse_time (bar_start b) < cfg_forced_exit_time cfg \<Longrightarrow> held cfg b e"
proof -
  have lt: "nse_time (bar_start (src_bars src ! i)) < cfg_forced_exit_time cfg" using h by (simp add: held_def)
  note n = next_minute [OF t Suc_lessD [OF i] refl lt]
  from n(2-5) h show "nse_date (fill_execution_time e) = nse_date (bar_start b)"
    and "fill_execution_time e < bar_start b" and "nse_time (bar_start b) \<le> cfg_forced_exit_time cfg"
    and "nse_time (bar_start b) < cfg_forced_exit_time cfg \<Longrightarrow> held cfg b e"
    by (auto simp: held_def b_def bar_end_def)
qed

lemma execute_pending_intraday:
  assumes t: "timed src cfg" and i: "i < length (src_bars src)" and b: "b = src_bars src ! i"
    and inv: "intraday_inv src cfg i st"
    and ent: "sim_entry st1 = sim_entry st" and tr: "sim_trades st1 = sim_trades st"
    and run: "execute_pending src cfg b (is_forced cfg b st1) (force_exit cfg b st1) = Inr st2"
  shows "intraday_mid src cfg i st2"
proof -
  have old: "list_all (trade_intraday cfg) (sim_trades st)" using inv t by (simp add: intraday_inv_def)
  have carried: "nse_date (fill_execution_time e) = nse_date (bar_start b) \<and> fill_execution_time e < bar_start b
      \<and> nse_time (bar_start b) \<le> cfg_forced_exit_time cfg
      \<and> cfg_entry_start cfg \<le> nse_time (fill_execution_time e)
      \<and> nse_time (fill_execution_time e) \<le> cfg_last_entry_time cfg
      \<and> (nse_time (bar_start b) < cfg_forced_exit_time cfg \<longrightarrow> held cfg b e)"
    if "sim_entry st = Some e" for e
  proof -
    have "0 < i" and h: "held cfg (src_bars src ! (i - 1)) e" using inv t that by (auto simp: intraday_inv_def)
    then obtain j where j: "i = Suc j" by (cases i) auto
    with h have "held cfg (src_bars src ! j) e" by simp
    with held_next [OF t i [unfolded j] this] h show ?thesis by (auto simp: b j held_def)
  qed
  have forced: "is_forced cfg b st1 \<longleftrightarrow> nse_time (bar_start b) = cfg_forced_exit_time cfg \<and> sim_entry st \<noteq> None"
    by (simp add: is_forced_def ent)
  from run show ?thesis
  proof (cases rule: execute_pending_cases)
    case idle
    then have "\<not> is_forced cfg b st1"
      by (auto simp: force_exit_def is_forced_def Let_def split: option.splits if_splits)
    with idle old carried forced show ?thesis
      by (cases "sim_entry st") (auto simp: intraday_mid_def ent tr b)
  next
    case (rejected identity created j why)
    with old carried forced show ?thesis
      by (cases "sim_entry st") (auto simp: intraday_mid_def ent tr b)
  next
    case (filled identity created j price notional fee st3)
    show ?thesis
    proof (cases "int_side j")
      case BUY
      with filled(5) have "cfg_entry_start cfg \<le> nse_time (bar_start b)"
        "nse_time (bar_start b) \<le> cfg_last_entry_time cfg" by (auto simp: rejection_def split: if_splits)
      with t old show ?thesis
        by (simp add: filled(8) book_fill_BUY [OF filled(7) BUY] intraday_mid_def tr held_def fill_of_def timed_def b)
    next
      case SELL
      with filled(5) obtain e where e: "sim_entry (force_exit cfg b st1) = Some e"
        by (auto simp: rejection_def split: if_splits option.splits)
      with carried [of e] old forced show ?thesis
        by (simp add: filled(8) book_fill_SELL [OF filled(7) SELL e] intraday_mid_def tr trade_intraday_def
            fill_of_def ent Let_def)
    qed
  qed
qed

interpretation intraday: loop_invariant src cfg spec strat s0 "intraday_inv src cfg" "intraday_mid src cfg"
    "intraday_mid src cfg"
  for src :: source and cfg :: config and spec :: strategy_spec and strat :: "'s strategy" and s0 :: 's
proof (unfold_locales, goal_cases)
  case 1
  show ?case by (simp add: intraday_inv_def sim_init_def)
next
  case (2 i b st st1 st2)
  show ?case
  proof (cases "timed src cfg")
    case True
    show ?thesis by (rule execute_pending_intraday [OF True 2(1-3) _ _ 2(5)]) (simp_all add: 2(4))
  qed (simp add: intraday_mid_def)
next
  case (3 i b st st' u)
  then show ?case by (simp add: intraday_mid_def mark_equity_simps)
next
  case (4 i b st ctx st')
  then show ?case by (simp add: intraday_mid_def decide_simps)
next
  case (5 i b st st')
  have "Suc i < length (src_bars src)" if "timed src cfg" "sim_entry st = Some e" for e
    using next_minute(1) [OF that(1) 5(1,2)] that 5(2,3) by (simp add: intraday_mid_def held_def)
  with 5 show ?case
    by (auto simp: intraday_mid_def intraday_inv_def close_session_simps pred_option_def)
qed

lemma never_overnight:
  assumes "timed src cfg" and "i < length (src_bars src)" and "b = src_bars src ! i" and "intraday_mid src cfg i st"
  shows "close_session (src_bars src) i b st \<noteq> Inl e"
proof -
  have "\<not> session_end (src_bars src) i b" if "sim_entry st = Some f" for f
    using next_minute(6) [OF assms(1-3)] assms that by (simp add: intraday_mid_def held_def)
  then show ?thesis by (auto simp: close_session_def split: option.splits)
qed


section \<open>How a validated run can fail\<close>

text \<open>Positive prices and quantities, so that the cost model's own guards never fire.\<close>

definition priced :: "source \<Rightarrow> config \<Rightarrow> bool" where
  "priced src cfg \<longleftrightarrow> 0 \<le> cfg_slippage_bps cfg \<and> cfg_slippage_bps cfg < 10000
     \<and> (\<forall>b \<in> set (src_bars src). 0 < bar_open b)"

definition positive_inv :: "source \<Rightarrow> config \<Rightarrow> 's sim \<Rightarrow> bool" where
  "positive_inv src cfg st \<longleftrightarrow> (priced src cfg \<longrightarrow>
     pred_option (\<lambda>(_, _, i). 1 \<le> int_quantity i) (sim_pending st)
     \<and> pred_option (\<lambda>e. 1 \<le> fill_quantity e \<and> 0 < fill_gross_notional e) (sim_entry st))"

lemma slippage_price_pos:
  assumes "0 \<le> bps" "bps < 10000" "slippage_price bps sd reference = Inr p"
  shows "0 < p"
  using assms by (auto simp: slippage_price_def res_simps split: if_splits intro!: mult_pos_pos add_pos_nonneg)

lemma force_exit_positive: "positive_inv src cfg st \<Longrightarrow> positive_inv src cfg (force_exit cfg b st)"
  by (auto simp: positive_inv_def force_exit_def Let_def split: option.splits)

lemma positive_notional:
  assumes p: "priced src cfg" and inv: "positive_inv src cfg st" and pd: "sim_pending st = Some (identity, created, i)"
    and price: "slippage_price (cfg_slippage_bps cfg) (int_side i) (bar_open b) = Inr price"
  shows "0 < price * of_int (int_quantity i)"
proof (rule mult_pos_pos)
  show "0 < price" using p price by (auto simp: priced_def intro: slippage_price_pos)
  have "1 \<le> int_quantity i" using inv p pd by (simp add: positive_inv_def)
  then show "(0::rat) < of_int (int_quantity i)" by simp
qed

lemma execute_pending_positive:
  assumes inv: "positive_inv src cfg st" and run: "execute_pending src cfg b forced st = Inr st'"
  shows "positive_inv src cfg st'"
  using run
proof (cases rule: execute_pending_cases)
  case (filled identity created i price notional fee st1)
  show ?thesis
  proof (cases "int_side i")
    case BUY
    have "0 < notional \<and> 1 \<le> int_quantity i" if "priced src cfg"
      using positive_notional [OF that inv filled(1,2)] inv that filled(1,3) by (simp add: positive_inv_def)
    with filled(8) show ?thesis
      by (simp add: book_fill_BUY [OF filled(7) BUY] positive_inv_def fill_of_def)
  next
    case SELL
    with filled(5) obtain e where e: "sim_entry st = Some e" by (auto simp: rejection_def split: if_splits option.splits)
    from filled(8) show ?thesis
      by (simp add: book_fill_SELL [OF filled(7) SELL e] positive_inv_def)
  qed
qed (use inv in \<open>auto simp: positive_inv_def\<close>)

lemma ask_Inr:
  assumes "ask strat s ctx = Inr (Some i, s')"
  shows "is_quantity (int_quantity i)"
proof (cases "strat s ctx")
  case (Inr r)
  with assms have "check_intent i = Inr ()"
    by (cases "fst r"; cases "check_intent i") (auto simp: ask_def bindR_Inr_iff split: sum.splits)
  then show ?thesis by (simp add: check_intent_def res_simps)
qed (use assms in \<open>simp add: ask_def\<close>)

lemma decide_cases:
  assumes "decide strat b ctx st = Inr st'"
  obtains (wait) s where "st' = st\<lparr>sim_strategy := s\<rparr>"
  | (propose) i s where "is_quantity (int_quantity i)"
      "st' = st\<lparr>sim_strategy := s, sim_pending := Some (sim_next_id st, bar_end b, i), sim_next_id := sim_next_id st + 1\<rparr>"
proof -
  from assms obtain r where r: "ask strat (sim_strategy st) ctx = Inr r"
    by (auto simp: decide_def res_simps)
  show thesis
  proof (cases "fst r")
    case None
    with assms r show ?thesis by (intro wait [of "snd r"]) (simp add: decide_def Let_def)
  next
    case (Some i)
    with r have "is_quantity (int_quantity i)" by (cases r) (auto dest: ask_Inr)
    then show ?thesis by (rule propose [of i "snd r"]) (use assms r Some in \<open>simp add: decide_def Let_def\<close>)
  qed
qed

interpretation positivity: loop_invariant src cfg spec strat s0 "\<lambda>_. positive_inv src cfg"
    "\<lambda>_. positive_inv src cfg" "\<lambda>_. positive_inv src cfg"
  for src :: source and cfg :: config and spec :: strategy_spec and strat :: "'s strategy" and s0 :: 's
proof (unfold_locales, goal_cases)
  case 1
  show ?case by (simp add: positive_inv_def sim_init_def)
next
  case (2 i b st st1 st2)
  have "positive_inv src cfg (force_exit cfg b st1)"
    using 2 by (intro force_exit_positive) (simp add: positive_inv_def)
  with 2(5) show ?case by (auto intro: execute_pending_positive)
next
  case (3 i b st st' u)
  then show ?case by (simp add: positive_inv_def mark_equity_simps)
next
  case (4 i b st ctx st')
  from 4(4) show ?case
    by (cases rule: decide_cases) (use 4(3) in \<open>simp_all add: positive_inv_def is_quantity_def\<close>)
next
  case (5 i b st st')
  then show ?case
    by (auto simp: positive_inv_def close_session_def split: if_splits option.splits)
qed

lemma validated_priced: "validated src cfg spec \<Longrightarrow> priced src cfg"
proof -
  assume v: "validated src cfg spec"
  then have "check_source src = Inr ()" and "0 \<le> cfg_slippage_bps cfg" "cfg_slippage_bps cfg < 10000"
    by (auto simp: validated_def check_config_def res_simps is_money_def)
  moreover have "0 < bar_open b" if "b \<in> set (src_bars src)" for b
    using source_bar_ok [OF \<open>check_source src = Inr ()\<close> that] by (auto simp: check_bar_def res_simps)
  ultimately show ?thesis by (simp add: priced_def)
qed

abbreviation arithmetic :: "exc \<Rightarrow> bool" where
  "arithmetic \<equiv> (\<lambda>e. e = DecimalException)"

lemma slippage_price_fails: "0 < reference \<Longrightarrow> fails_in arithmetic (slippage_price bps sd reference)"
  unfolding slippage_price_def by (intro fails_intros) simp_all

lemma configured_costs_fails: "0 \<le> notional \<Longrightarrow> fails_in arithmetic (configured_costs f b notional)"
  unfolding configured_costs_def by (intro fails_intros) simp_all

lemma quote_amounts_fails: "fails_in arithmetic (quote_amounts s sd n entry)"
  unfolding quote_amounts_def by (intro fails_intros) simp_all

lemma quote_total_fails:
  assumes "check_date s (case sch_as_of s of Some d \<Rightarrow> d | None \<Rightarrow> nse_date tm) = Inr ()" and "0 < n"
    and "sd = SELL \<Longrightarrow> \<exists>e. entry = Some e \<and> 0 < e"
  shows "fails_in arithmetic (quote_total s sd n tm entry)"
  using assms unfolding quote_total_def quote_def charges_total_def
  by (cases sd) (auto intro!: fails_intros quote_amounts_fails simp: checks.simps)

lemma check_cost_dates_elem:
  assumes "check_cost_dates cfg bars = Inr u" and "cfg_costs cfg = IntradayCostSchedule s" and "b \<in> set bars"
  shows "check_date s (case sch_as_of s of Some d \<Rightarrow> d | None \<Rightarrow> nse_date (bar_start b)) = Inr ()"
proof -
  from assms(1,2) have "foldR (\<lambda>b _. check_date s (case sch_as_of s of Some d \<Rightarrow> d | None \<Rightarrow> nse_date (bar_start b))) bars () = Inr ()"
    by (simp add: check_cost_dates_def)
  with assms(3) show ?thesis by (induction bars) (auto simp: res_simps)
qed

lemma fill_fee_fails:
  assumes dates: "check_cost_dates cfg (src_bars src) = Inr ()" and b: "b \<in> set (src_bars src)"
    and n: "0 < notional" and "\<not> rejected \<Longrightarrow> sd = SELL \<Longrightarrow> \<exists>e. entry = Some e \<and> 0 < fill_gross_notional e"
  shows "fails_in arithmetic (fill_fee (cfg_costs cfg) rejected sd notional (bar_start b) entry)"
proof (cases "cfg_costs cfg")
  case (ConfiguredCosts f r)
  with n show ?thesis by (simp add: fill_fee_def configured_costs_fails)
next
  case (IntradayCostSchedule s)
  show ?thesis
  proof (cases rejected)
    case False
    from check_cost_dates_elem [OF dates IntradayCostSchedule b] n
    have "fails_in arithmetic (quote_total s sd notional (bar_start b) (map_option fill_gross_notional entry))"
      by (rule quote_total_fails) (use assms(4) False in auto)
    with IntradayCostSchedule False show ?thesis by (simp add: fill_fee_def)
  qed (simp add: IntradayCostSchedule fill_fee_def fails_in_Inr)
qed

definition trading_failure :: "exc \<Rightarrow> bool" where
  "trading_failure e \<longleftrightarrow> e = DecimalException \<or> e = ValueError ''FORCED_EXIT_UNAVAILABLE''
     \<or> e = ValueError ''STRATEGY_FAILURE''"

lemma trading_failure_arith [simp]: "trading_failure DecimalException"
  by (simp add: trading_failure_def)

lemma arithmetic_trading: "fails_in arithmetic m \<Longrightarrow> fails_in trading_failure m"
  by (auto elim: fails_in_mono)

lemma book_fill_fails:
  assumes "int_side i = SELL \<Longrightarrow> sim_entry st \<noteq> None"
  shows "fails_in arithmetic (book_fill ins b forced (identity, created, i) price notional fee st)"
  unfolding book_fill_def prod.case Let_def
  by (intro fails_intros) (use assms in \<open>auto simp: side.exhaust intro: side.exhaust\<close>)

lemma execute_pending_fails:
  assumes v: "validated src cfg spec" and b: "b \<in> set (src_bars src)" and inv: "positive_inv src cfg st"
  shows "fails_in trading_failure (execute_pending src cfg b forced st)"
proof (cases "sim_pending st")
  case (Some p)
  obtain identity created i where p: "p = (identity, created, i)" by (cases p)
  let ?rej = "rejection (src_lot_size src) cfg b (sim_entry st) i"
  note pr = validated_priced [OF v]
  have sell: "\<exists>e. sim_entry st = Some e \<and> 0 < fill_gross_notional e" if "?rej = None" "int_side i = SELL"
    using that inv pr by (auto simp: rejection_def positive_inv_def split: if_splits option.splits)
  have bar: "0 < bar_open b" using pr b by (simp add: priced_def)
  have fee: "fails_in trading_failure
      (fill_fee (cfg_costs cfg) (?rej \<noteq> None) (int_side i) (price * of_int (int_quantity i)) (bar_start b) (sim_entry st))"
    if "slippage_price (cfg_slippage_bps cfg) (int_side i) (bar_open b) = Inr price" for price
    using v sell positive_notional [OF pr inv Some [unfolded p] that] b
    by (intro arithmetic_trading fill_fee_fails [where src = src]) (auto simp: validated_def)
  have cash: "fails_in trading_failure (insufficient_cash c sd n f)" for c sd n f
    unfolding insufficient_cash_def by (intro fails_intros) simp_all
  show ?thesis
    unfolding execute_pending_def Some p option.case prod.case Let_def
    by (intro fails_intros arithmetic_trading [OF slippage_price_fails] arithmetic_trading [OF book_fill_fails] cash bar)
      (use fee sell in \<open>auto simp: exactly_Inr trading_failure_def split: if_splits\<close>)
qed (simp add: execute_pending_def fails_in_Inr)


lemma decide_fails: "fails_in trading_failure (decide strat b ctx st)"
proof -
  have "fails_in trading_failure (ask strat s ctx)" for s
    by (auto simp: ask_def fails_in_def trading_failure_def split: sum.splits)
  then show ?thesis unfolding decide_def Let_def by (intro fails_intros)
qed

lemma decision_context_total:
  assumes "check_source src = Inr ()" and "b \<in> set (src_bars src)"
  shows "decision_context src spec i b u st \<noteq> Inl e"
proof -
  obtain d where "day_of (src_days src) (nse_date (bar_start b)) = Some d" "in_session (src_bars src) d b"
    using source_bar_session [OF assms] .
  then show ?thesis by (auto simp: decision_context_def in_session_def)
qed

text \<open>Invariants combine, so that a failure can be examined under all of them at once.\<close>

lemma loop_invariant_conj:
  assumes "loop_invariant src cfg strat s0 I M D" and "loop_invariant src cfg strat s0 I' M' D'"
  shows "loop_invariant src cfg strat s0 (\<lambda>i st. I i st \<and> I' i st) (\<lambda>i st. M i st \<and> M' i st)
           (\<lambda>i st. D i st \<and> D' i st)"
proof -
  note a = loop_invariant.start [OF assms(1)] loop_invariant.traded [OF assms(1)]
    loop_invariant.marked [OF assms(1)] loop_invariant.decided [OF assms(1)] loop_invariant.closed [OF assms(1)]
  note b = loop_invariant.start [OF assms(2)] loop_invariant.traded [OF assms(2)]
    loop_invariant.marked [OF assms(2)] loop_invariant.decided [OF assms(2)] loop_invariant.closed [OF assms(2)]
  show ?thesis
  proof (rule loop_invariant.intro, goal_cases)
    case 1
    show ?case using a(1) b(1) by blast
  next
    case (2 i b st st1 st2)
    show ?case using a(2) [OF 2(1,2) _ 2(4,5)] b(2) [OF 2(1,2) _ 2(4,5)] 2(3) by blast
  next
    case (3 i b st st' u)
    show ?case using a(3) [OF 3(1,2) _ 3(4)] b(3) [OF 3(1,2) _ 3(4)] 3(3) by blast
  next
    case (4 i b st ctx st')
    show ?case using a(4) [OF 4(1,2) _ 4(4)] b(4) [OF 4(1,2) _ 4(4)] 4(3) by blast
  next
    case (5 i b st st')
    show ?case using a(5) [OF 5(1,2) _ 5(4)] b(5) [OF 5(1,2) _ 5(4)] 5(3) by blast
  qed
qed

interpretation engine: loop_invariant src cfg spec strat s0
    "\<lambda>i st. (ledger_inv cfg st \<and> positive_inv src cfg st) \<and> intraday_inv src cfg i st"
    "\<lambda>i st. (ledger_inv cfg st \<and> positive_inv src cfg st) \<and> intraday_mid src cfg i st"
    "\<lambda>i st. (ledger_inv cfg st \<and> positive_inv src cfg st) \<and> intraday_mid src cfg i st"
  for src :: source and cfg :: config and spec :: strategy_spec and strat :: "'s strategy" and s0 :: 's
  by (intro loop_invariant_conj ledger.loop_invariant_axioms positivity.loop_invariant_axioms
      intraday.loop_invariant_axioms)

lemma sim_loop_fails:
  assumes v: "validated src cfg spec" and n: "n \<le> length (src_bars src)"
  shows "fails_in trading_failure (sim_loop src cfg spec strat n s0)"
  unfolding fails_in_def
proof (intro allI impI)
  fix e
  assume "sim_loop src cfg spec strat n s0 = Inl e"
  with n show "trading_failure e"
  proof (cases rule: engine.failure)
    case (1 i b st st1)
    then have pos: "positive_inv src cfg (force_exit cfg b st1)"
      by (intro force_exit_positive) (simp add: positive_inv_def)
    have "b \<in> set (src_bars src)" using 1(1,2) by simp
    from execute_pending_fails [OF v this pos] 1(5) show ?thesis unfolding fails_in_def by blast
  next
    case (2 i b st)
    then show ?thesis using mark_equity_consistent [of cfg st b] by (auto simp: fails_in_def)
  next
    case (3 i b st u)
    then show ?thesis using decision_context_total [of src b spec i u st e] v by (simp add: validated_def)
  next
    case (4 i b st ctx)
    then show ?thesis using decide_fails [of strat b ctx st] by (auto simp: fails_in_def)
  next
    case (5 i b st)
    then show ?thesis using never_overnight [OF validated_timed [OF v]] by blast
  qed
qed

section \<open>The final ledger\<close>

text \<open>After the last bar the position is closed.\<close>

lemma final_flat:
  assumes "timed src cfg" and "sim_loop src cfg spec strat (length (src_bars src)) s0 = Inr st"
  shows "sim_entry st = None"
  using intraday.loop [OF order.refl assms(2)] assms(1) by (cases "sim_entry st") (simp_all add: intraday_inv_def)

lemma drawdown_fails: "fails_in arithmetic (foldR drawdown_step curve init)"
  unfolding drawdown_step_def Let_def by (intro fails_intros) simp_all

lemma final_metrics_fails:
  assumes inv: "ledger_inv cfg st" and flat: "sim_entry st = None"
  shows "fails_in arithmetic (final_metrics cfg st)"
proof -
  have paired: "paired (sim_fills st) (sim_trades st) None" and ok: "list_all trade_ok (sim_trades st)"
    using inv flat by (auto simp: ledger_inv_def)
  have "sim_cash st = cfg_initial_cash cfg + sim_realized st"
    using inv flat by (simp add: ledger_inv_def)
  moreover have "sim_realized st = sum_list (map tr_gross_pnl (sim_trades st)) - sum_list (map fill_costs (sim_fills st))"
    using inv paired_costs [OF paired ok] by (simp add: ledger_inv_def)
  ultimately show ?thesis
    unfolding final_metrics_def Let_def
    by (intro fails_intros drawdown_fails) (use flat in \<open>auto simp: res_simps dest!: sum80_Inr\<close>)
qed

lemma simulate_fails:
  assumes "validated src cfg spec"
  shows "fails_in trading_failure (simulate src cfg spec strat s0)"
  unfolding simulate_def
  by (intro fails_intros sim_loop_fails [OF assms] order.refl arithmetic_trading final_metrics_fails)
    (erule ledger.loop [OF order.refl] final_flat [OF validated_timed [OF assms]])+

lemma final_metrics_Inr:
  assumes "final_metrics cfg st = Inr m"
  shows "sim_entry st = None" and "sim_cash st = cfg_initial_cash cfg + sim_realized st"
    and "sim_realized st = met_gross_pnl m - met_costs m" and "met_net_pnl m = sim_realized st"
    and "met_costs m = sum_list (map fill_costs (sim_fills st))"
    and "met_gross_pnl m = sum_list (map tr_gross_pnl (sim_trades st))"
    and "met_trade_count m = int (length (sim_trades st))"
    and "met_wins m = int (length (filter (\<lambda>t. 0 < tr_net_pnl t) (sim_trades st)))"
    and "met_losses m = int (length (filter (\<lambda>t. tr_net_pnl t < 0) (sim_trades st)))"
    and "met_breakeven m = met_trade_count m - met_wins m - met_losses m"
    and "\<exists>peak. foldR drawdown_step (sim_curve st) (cfg_initial_cash cfg, 0, 0)
           = Inr (peak, met_max_drawdown m, met_max_drawdown_percent m)"
    and "percent (met_net_pnl m) (cfg_initial_cash cfg) = Inr (met_return_percent m)"
    and "percent (of_int (met_wins m)) (of_int (met_trade_count m)) = Inr (met_win_rate_percent m)"
  using assms by (auto simp: final_metrics_def res_simps Let_def dest!: sum80_Inr split: if_splits prod.splits)

end
