(* ===== verification/Samples.thy ===== *)
theory Samples
  imports Backtest_Safety
begin

text \<open>
  A complete small input of the engine (one session of three minutes, a strategy that buys whenever it is
  flat) on which the statements about runs are instantiated.  Its fingerprints are the digests of its own
  texts, so validating it needs no evaluation of SHA-256.
\<close>

section \<open>A digest is a hash\<close>

lemma is_hex_char_hex_digit:
  assumes "0 \<le> n" "n < 16"
  shows "is_hex_char (hex_digit n)"
proof -
  have "n \<in> set [0..15]" using assms by simp
  moreover have "list_all (\<lambda>n. is_hex_char (hex_digit n)) [0..15]" by code_simp
  ultimately show ?thesis by (auto simp: list_all_iff)
qed

lemma hex_word_hex: "length (hex_word w) = 8 \<and> list_all is_hex_char (hex_word w)"
  by (auto simp: hex_word_def list_all_iff intro!: is_hex_char_hex_digit)

lemma is_hash_digest [simp]: "is_hash (digest t)"
proof -
  have "is_hash (hex_state s)" for s
    by (cases s) (use hex_word_hex in \<open>auto simp: is_hash_def\<close>)
  then show ?thesis by (simp add: digest_def Let_def)
qed

section \<open>A small dataset\<close>

definition clock_at :: "int \<Rightarrow> int \<Rightarrow> clock" where
  "clock_at h m = (h * 60 + m) * MINUTE"

definition sample_day :: day where
  "sample_day = \<lparr>day_date = 19737, day_stat = EXPECTED_SESSION,
     day_sessions = [\<lparr>ses_open = clock_at 9 15, ses_close = clock_at 9 18\<rparr>]\<rparr>"

definition sample_calendar :: "string \<Rightarrow> string \<Rightarrow> string \<Rightarrow> calendar" where
  "sample_calendar ver origin cfp = \<lparr>cal_version = ver, cal_source = origin,
     cal_fingerprint = cfp, cal_days = [sample_day]\<rparr>"

text \<open>The fingerprints are parameters, so that the rest evaluates without computing them.\<close>

definition sample_bar :: "int \<Rightarrow> rat \<Rightarrow> rat \<Rightarrow> bar" where
  "sample_bar i a z = \<lparr>bar_start = combine_nse 19737 (clock_at 9 (15 + i)), bar_open = a, bar_high = max a z + 1,
     bar_low = min a z - 1, bar_close = z, bar_volume = 1000, bar_open_interest = None\<rparr>"

definition sample_bars :: "bar list" where
  "sample_bars = [sample_bar 0 100 99, sample_bar 1 100 103, sample_bar 2 102 101]"

definition sample_instrument :: string where
  "sample_instrument = ''00000000-0000-4000-8000-000000000001''"

definition sample_dataset_with :: "string \<Rightarrow> string \<Rightarrow> string \<Rightarrow> calendar \<Rightarrow> provenance list \<Rightarrow> dataset" where
  "sample_dataset_with ins symb fp cal prov =
     \<lparr>ds_instrument_id = ins, ds_symbol = symb, ds_lot_size = 1,
      ds_from = combine_nse 19737 (clock_at 9 15), ds_to = combine_nse 19737 (clock_at 9 18),
      ds_decision_cutoff = combine_nse 19737 (clock_at 9 18), ds_dataset_cutoff = combine_nse 19737 (clock_at 9 18),
      ds_content_fingerprint = fp, ds_calendar = cal, ds_provenance = prov, ds_bars = sample_bars\<rparr>"

definition sample_provenance :: "string \<Rightarrow> provenance" where
  "sample_provenance cfp = \<lparr>prov_source = ''vendor'', prov_source_version = ''v1'',
     prov_reference_fingerprint = replicate 64 CHR ''a'', prov_calendar_fingerprint = cfp\<rparr>"

definition sample_calendar_hash :: string where
  "sample_calendar_hash = digest (calendar_text ''nse-2024'' ''exchange circular'' [sample_day])"

definition sample_dataset :: dataset where
  "sample_dataset = sample_dataset_with sample_instrument ''SAMPLE'' (bar_fingerprint sample_instrument sample_bars)
     (sample_calendar ''nse-2024'' ''exchange circular'' sample_calendar_hash)
     [sample_provenance sample_calendar_hash]"

definition sample_config :: config where
  "sample_config = \<lparr>cfg_initial_cash = 1000, cfg_entry_start = clock_at 9 16, cfg_last_entry_time = clock_at 9 16,
     cfg_forced_exit_time = clock_at 9 17, cfg_slippage_bps = 10, cfg_costs = ConfiguredCosts 1 0\<rparr>"

definition sample_spec :: strategy_spec where
  "sample_spec = \<lparr>spec_name = ''buy-once'', spec_version = ''1'',
     spec_implementation_fingerprint = replicate 64 CHR ''b'', spec_parameters = []\<rparr>"

text \<open>Buy five when flat, on every decision.\<close>

definition sample_strategy :: "unit strategy" where
  "sample_strategy s ctx = Inr (if pos_quantity (dec_position ctx) = 0
     then Some \<lparr>int_side = BUY, int_quantity = 5, int_reason = ''ENTER''\<rparr> else None, s)"

lemma sample_calendar_ok:
  "check_calendar (sample_calendar ''nse-2024'' ''exchange circular'' sample_calendar_hash) = Inr ()"
proof -
  have "mapR check_session (concat (map day_sessions [sample_day])) = Inr [()]" by code_simp
  moreover have "is_label ''nse-2024''" "\<not> list_all (\<lambda>x. x = CHR '' '') ''exchange circular''"
    "\<not> list_ex (\<lambda>x. (of_char x :: nat) < 32) ''exchange circular''"
    by code_simp+
  ultimately show ?thesis
    unfolding check_calendar_def sample_calendar_def sample_calendar_hash_def
    by (simp add: res_simps) (simp add: sample_day_def)
qed

lemma sample_dataset_fields_ok: "check_dataset_fields sample_dataset = Inr ()"
proof -
  have "list_all is_symbol_char ''SAMPLE''" "is_uuid sample_instrument" "is_label ''vendor''" "is_label ''v1''"
    "is_hash (replicate 64 CHR ''a'')" "is_quantity 1" "length sample_bars = 3"
    "combine_nse 19737 (clock_at 9 18) - combine_nse 19737 (clock_at 9 15) = 180000000"
    "\<not> has_seconds (combine_nse 19737 (clock_at 9 15))" "\<not> has_seconds (combine_nse 19737 (clock_at 9 18))"
    by code_simp+
  moreover from this have "sample_bars \<noteq> []" by auto
  moreover have "is_hash (bar_fingerprint sample_instrument sample_bars)" "is_hash sample_calendar_hash"
    by (simp_all add: bar_fingerprint_def sample_calendar_hash_def)
  ultimately show ?thesis
    unfolding check_dataset_fields_def sample_dataset_def sample_dataset_with_def sample_provenance_def
    by (simp add: res_simps) (simp add: sample_calendar_def)
qed

lemma sample_minutes:
  "expected_minutes (sample_dataset_with ins symb fp (sample_calendar ver origin cfp) prov)
     = Inr (map bar_start sample_bars)"
  by code_simp

lemma sample_dataset_ok: "check_dataset sample_dataset = Inr ()"
proof -
  have "mapR check_bar sample_bars = Inr [(), (), ()]" by code_simp
  then show ?thesis
    using sample_calendar_ok sample_minutes sample_dataset_fields_ok
    by (simp add: check_dataset_def res_simps sample_dataset_def) (simp add: sample_dataset_with_def)
qed

lemma sample_validated: "validated (DatasetSource sample_dataset) sample_config sample_spec"
proof -
  have "check_config sample_config = Inr ()" "check_spec sample_spec = Inr ()" by code_simp+
  moreover have "check_session_policy sample_config [sample_day] = Inr ()"
    "check_cost_dates sample_config sample_bars = Inr ()" by code_simp+
  ultimately show ?thesis
    using sample_dataset_ok
    by (simp add: validated_def) (simp add: sample_dataset_def sample_dataset_with_def sample_calendar_def)
qed

lemma sample_simulation:
  "bindR (simulate (DatasetSource (sample_dataset_with ins symb fp (sample_calendar ver origin cfp) prov))
       sample_config spec sample_strategy ())
     (\<lambda>r. Inr (length (res_trades r), map out_outcome (res_outcomes r), quotient_of (res_final_cash r)))
   = Inr (1, [''FILLED'', ''FILLED'', ''UNFILLED_END_OF_DATA''], (100699, 100))"
  by code_simp

lemma sample_run:
  obtains r where "run (DatasetSource sample_dataset) sample_config sample_spec sample_strategy () = Inr r"
    and "length (res_trades r) = 1" and "res_final_cash r = 100699 / 100"
    and "map out_outcome (res_outcomes r) = [''FILLED'', ''FILLED'', ''UNFILLED_END_OF_DATA'']"
proof -
  let ?s = "simulate (DatasetSource sample_dataset) sample_config sample_spec sample_strategy ()"
  have "bindR ?s (\<lambda>r. Inr (length (res_trades r), map out_outcome (res_outcomes r), quotient_of (res_final_cash r)))
      = Inr (1, [''FILLED'', ''FILLED'', ''UNFILLED_END_OF_DATA''], (100699, 100))"
    unfolding sample_dataset_def by (rule sample_simulation)
  then obtain r where r: "?s = Inr r" and c: "length (res_trades r) = 1"
    "map out_outcome (res_outcomes r) = [''FILLED'', ''FILLED'', ''UNFILLED_END_OF_DATA'']"
    "quotient_of (res_final_cash r) = (100699, 100)"
    by (cases ?s) simp_all
  have run: "run (DatasetSource sample_dataset) sample_config sample_spec sample_strategy () = Inr r"
    unfolding validated_run [OF sample_validated] r by (simp add: arithmetic_failure_def)
  have cash: "res_final_cash r = 100699 / 100" using quotient_of_div [OF c(3)] by simp
  show ?thesis by (rule that [OF run c(1) cash c(2)])
qed

end
