(* ===== verification/Backtest_Results.thy ===== *)
theory Backtest_Results
  imports Samples
begin

text \<open>
  What a finished run delivers: the equity curve, the resolution of every intent, independence of the future
  and the reported metrics.
\<close>

section \<open>The equity curve\<close>

definition point_ok :: "config \<Rightarrow> bar \<Rightarrow> equity_point \<Rightarrow> bool" where
  "point_ok cfg b p \<longleftrightarrow> eq_decision_time p = bar_end b \<and> eq_mark_price p = bar_close b
     \<and> eq_equity p = eq_cash p + bar_close b * of_int (eq_position_quantity p)
     \<and> (0 \<le> cfg_initial_cash cfg \<longrightarrow> 0 \<le> eq_cash p)"

lemma mark_equity_point:
  assumes "mark_equity cfg b st = Inr (st', u)" and "solvent cfg st"
  shows "\<exists>p. st' = st\<lparr>sim_curve := sim_curve st @ [p]\<rparr> \<and> point_ok cfg b p"
  using assms by (auto simp: mark_equity_def res_simps point_ok_def solvent_def split: if_splits)

lemma execute_pending_curve:
  assumes "execute_pending src cfg b forced st = Inr st'"
  shows "sim_curve st' = sim_curve st"
  using assms
proof (cases rule: execute_pending_cases)
  case (filled identity created i price notional fee st1)
  then have "sim_curve st1 = sim_curve st"
    by (auto simp: book_fill_def res_simps Let_def split: if_splits option.splits)
  with filled(8) show ?thesis by simp
qed simp_all

lemma curve_loop:
  assumes "n \<le> length (src_bars src)" and "sim_loop src cfg spec strat n s0 = Inr st"
  shows "list_all2 (point_ok cfg) (take n (src_bars src)) (sim_curve st)"
  using assms
proof (induction n arbitrary: st)
  case 0
  then show ?case by (auto simp: sim_loop_def sim_init_def)
next
  case (Suc n)
  let ?b = "src_bars src ! n"
  from Suc.prems(2) obtain u where u: "sim_loop src cfg spec strat n s0 = Inr u"
    "sim_step src cfg spec strat n u = Inr st"
    by (auto simp: sim_loop_def res_simps)
  let ?st1 = "enter_session (src_bars src) n ?b u"
  from u(2) obtain st2 st3 v ctx st4 where
    a: "execute_pending src cfg ?b (is_forced cfg ?b ?st1) (force_exit cfg ?b ?st1) = Inr st2" and
    m: "mark_equity cfg ?b st2 = Inr (st3, v)" and d: "decide strat ?b ctx st3 = Inr st4" and
    c: "close_session (src_bars src) n ?b st4 = Inr st"
    by (auto simp: sim_step_def Let_def res_simps)
  have n: "n < length (src_bars src)" using Suc.prems by simp
  have "solvent cfg u" using solvency.loop u(1) n by (meson less_imp_le)
  then have "solvent cfg st2" using solvency.traded [OF n refl _ refl a] by simp
  then obtain p where p: "st3 = st2\<lparr>sim_curve := sim_curve st2 @ [p]\<rparr>" "point_ok cfg ?b p"
    using mark_equity_point [OF m] by blast
  have "sim_curve st = sim_curve u @ [p]"
    using p(1) execute_pending_curve [OF a] decide_simps(7) [OF d] close_session_simps(6) [OF c] by simp
  with Suc.IH [OF _ u(1)] n p(2) show ?case
    by (simp add: take_Suc_conv_app_nth list_all2_appendI)
qed

section \<open>Filled intents\<close>

definition filled_ids :: "intent_outcome list \<Rightarrow> int list" where
  "filled_ids outs = map out_intent_id (filter (\<lambda>x. out_outcome x = ''FILLED'') outs)"

definition fills_inv :: "'s sim \<Rightarrow> bool" where
  "fills_inv st \<longleftrightarrow> filled_ids (sim_outcomes st) = map fill_intent_id (sim_fills st)"

lemma filled_ids_add [simp]:
  "filled_ids (sim_outcomes (add_outcome p t w st)) =
     filled_ids (sim_outcomes st) @ (if w = ''FILLED'' then [fst p] else [])"
  by (simp add: add_outcome_def filled_ids_def split: prod.splits)

lemma execute_pending_fills_inv:
  assumes "fills_inv st" and "execute_pending src cfg b forced st = Inr st'"
  shows "fills_inv st'"
  using assms(2)
proof (cases rule: execute_pending_cases)
  case (filled identity created i price notional fee st1)
  show ?thesis
  proof (cases "int_side i")
    case BUY
    with assms(1) filled(8) show ?thesis
      by (simp add: fills_inv_def book_fill_BUY [OF filled(7) BUY] fill_of_def)
  next
    case SELL
    with filled(5) obtain e where e: "sim_entry st = Some e" by (auto simp: rejection_def split: if_splits option.splits)
    with assms(1) filled(8) show ?thesis
      by (simp add: fills_inv_def book_fill_SELL [OF filled(7) SELL e] fill_of_def)
  qed
qed (use assms(1) in \<open>simp_all add: fills_inv_def\<close>)

interpretation resolution: loop_invariant src cfg spec strat s0 "\<lambda>_. fills_inv" "\<lambda>_. fills_inv" "\<lambda>_. fills_inv"
  for src :: source and cfg :: config and spec :: strategy_spec and strat :: "'s strategy" and s0 :: 's
proof (unfold_locales, goal_cases)
  case 1
  show ?case by (simp add: fills_inv_def sim_init_def filled_ids_def)
next
  case (2 i b st st1 st2)
  have "fills_inv (force_exit cfg b st1)"
    using 2 by (auto simp: fills_inv_def force_exit_def Let_def split: option.splits)
  with 2(5) show ?case by (rule execute_pending_fills_inv [rotated])
next
  case (3 i b st st' u)
  then show ?case by (simp add: fills_inv_def mark_equity_simps)
next
  case (4 i b st ctx st')
  then show ?case by (simp add: fills_inv_def decide_simps)
next
  case (5 i b st st')
  then show ?case
    by (auto simp: fills_inv_def close_session_def split: if_splits option.splits)
qed

section \<open>No look-ahead\<close>

definition same_source :: "nat \<Rightarrow> source \<Rightarrow> source \<Rightarrow> bool" where
  "same_source n a b \<longleftrightarrow> src_days a = src_days b \<and> src_lot_size a = src_lot_size b
     \<and> src_instrument_id a = src_instrument_id b \<and> is_corpus a = is_corpus b
     \<and> take n (src_bars a) = take n (src_bars b) \<and> n \<le> length (src_bars a) \<and> n \<le> length (src_bars b)"

lemma same_source_nth: "same_source n a b \<Longrightarrow> i < n \<Longrightarrow> src_bars a ! i = src_bars b ! i"
  by (metis same_source_def nth_take)

lemma sim_step_prefix:
  assumes s: "same_source (Suc n) a b" and i: "i < n"
  shows "sim_step a cfg spec strat i st = sim_step b cfg spec strat i st"
proof -
  have nth: "src_bars a ! i = src_bars b ! i" "src_bars a ! (i - 1) = src_bars b ! (i - 1)"
    "src_bars a ! (i + 1) = src_bars b ! (i + 1)"
    using same_source_nth [OF s] i by simp_all
  have eqs: "src_days a = src_days b" "src_lot_size a = src_lot_size b"
    "src_instrument_id a = src_instrument_id b" "is_corpus a = is_corpus b"
    using s by (auto simp: same_source_def)
  have len: "i \<noteq> length (src_bars a) - 1" "i \<noteq> length (src_bars b) - 1"
    using s i by (auto simp: same_source_def)
  have "take (i + 1) (src_bars a) = take (i + 1) (take (Suc n) (src_bars a))" using i by simp
  also have "\<dots> = take (i + 1) (take (Suc n) (src_bars b))" using s by (simp add: same_source_def)
  also have "\<dots> = take (i + 1) (src_bars b)" using i by simp
  finally have seen: "take (i + 1) (src_bars a) = take (i + 1) (src_bars b)" .
  have "enter_session (src_bars a) i x u = enter_session (src_bars b) i x u" for x and u :: "'a sim"
    using nth by (simp add: enter_session_def)
  moreover have "execute_pending a cfg x f u = execute_pending b cfg x f u" for x f and u :: "'a sim"
    unfolding execute_pending_def eqs by (rule refl)
  moreover have "decision_context a spec i x y u = decision_context b spec i x y u" for x y and u :: "'a sim"
    unfolding decision_context_def seen eqs by (rule refl)
  moreover have "close_session (src_bars a) i x = (close_session (src_bars b) i x :: 'a sim \<Rightarrow> _)" for x
    using nth len by (intro ext) (simp add: close_session_def session_end_def)
  ultimately show ?thesis by (simp add: sim_step_def Let_def nth)
qed

section \<open>The drawdown of the equity curve\<close>

text \<open>\<open>running_peak init eqs\<close> is the list of running maxima; \<open>falls\<close> the distances below them.\<close>

definition running_peak :: "rat \<Rightarrow> rat list \<Rightarrow> nat \<Rightarrow> rat" where
  "running_peak init eqs i = Max (insert init (set (take (Suc i) eqs)))"

definition fall_at :: "rat \<Rightarrow> rat list \<Rightarrow> nat \<Rightarrow> rat" where
  "fall_at init eqs i = running_peak init eqs i - eqs ! i"

lemma running_peak_Cons_0: "running_peak init (e # es) 0 = max init e"
  by (simp add: running_peak_def)

lemma running_peak_Cons_Suc: "running_peak init (e # es) (Suc i) = running_peak (max init e) es i"
proof (cases es)
  case (Cons x xs)
  then show ?thesis by (simp add: running_peak_def max.assoc)
qed (simp add: running_peak_def)

lemma Max_insert_max:
  "finite S \<Longrightarrow> Max (insert (max a b) S) = max a (Max (insert (b::rat) S))"
  by (cases "S = {}") (simp_all add: max.assoc)

lemma drawdown_fold:
  assumes "foldR drawdown_step curve (peak, d, p) = Inr (peak', d', p')"
  defines "eqs \<equiv> map eq_equity curve"
  shows "d' = Max (insert d (fall_at peak eqs ` {..<length eqs}))"
  using assms(1) unfolding eqs_def
proof (induction curve arbitrary: peak d p)
  case (Cons c cs)
  let ?e = "eq_equity c" and ?es = "map eq_equity cs"
  from Cons.prems obtain u where u: "drawdown_step c (peak, d, p) = Inr u"
    "foldR drawdown_step cs u = Inr (peak', d', p')"
    by (auto simp: res_simps)
  then obtain q where "u = (max peak ?e, max d (max peak ?e - ?e), q)"
    by (auto simp: drawdown_step_def Let_def res_simps)
  with u(2) have "foldR drawdown_step cs (max peak ?e, max d (max peak ?e - ?e), q) = Inr (peak', d', p')"
    by simp
  then have d': "d' = Max (insert (max d (max peak ?e - ?e)) (fall_at (max peak ?e) ?es ` {..<length ?es}))"
    by (rule Cons.IH)
  have "fall_at peak (?e # ?es) ` {..<Suc (length ?es)}
      = insert (max peak ?e - ?e) (fall_at (max peak ?e) ?es ` {..<length ?es})"
    by (simp add: lessThan_Suc_eq_insert_0 image_image fall_at_def running_peak_Cons_0 running_peak_Cons_Suc)
  then show ?case using d' by (simp add: Max_insert_max)
qed simp


section \<open>The end of the data\<close>

lemma source_nonempty: "check_source src = Inr u \<Longrightarrow> src_bars src \<noteq> []"
proof (cases src)
  case (CorpusSource c)
  assume "check_source src = Inr u"
  with CorpusSource obtain v where v: "mapR check_dataset (corp_shards c) = Inr v" and "1 \<le> length (corp_shards c)"
    by (auto simp: check_corpus_def check_corpus_range_def res_simps)
  then have "hd (corp_shards c) \<in> set (corp_shards c)" by (cases "corp_shards c") auto
  moreover from mapR_Inr_elem [OF v this] have "ds_bars (hd (corp_shards c)) \<noteq> []"
    by (auto simp: check_dataset_def check_dataset_fields_def res_simps)
  ultimately show ?thesis by (auto simp: CorpusSource corpus_bars_def)
qed (auto simp: check_dataset_def check_dataset_fields_def res_simps)

text \<open>The last bar ends a session, so nothing is pending after it.\<close>

lemma final_no_pending:
  assumes "src_bars src \<noteq> []" and "sim_loop src cfg spec strat (length (src_bars src)) s0 = Inr st"
  shows "sim_pending st = None"
proof -
  obtain n where n: "length (src_bars src) = Suc n" using assms(1) by (cases "src_bars src") auto
  with assms(2) obtain u st4 where "close_session (src_bars src) n (src_bars src ! n) st4 = Inr st"
    by (auto simp: sim_loop_def sim_step_def Let_def res_simps)
  with n show ?thesis by (auto simp: close_session_def session_end_def split: if_splits option.splits)
qed

section \<open>Properties of a run\<close>

lemma run_cases:
  assumes "run src cfg spec strat s0 = Inr r"
  obtains st where "validated src cfg spec" "sim_loop src cfg spec strat (length (src_bars src)) s0 = Inr st"
    "final_metrics cfg st = Inr (res_metrics r)" "res_outcomes r = sim_outcomes st" "res_fills r = sim_fills st"
    "res_trades r = sim_trades st" "res_equity_curve r = sim_curve st" "res_final_cash r = sim_cash st"
  using run_validated [OF assms] by (auto simp: simulate_def res_simps)

text \<open>
  C1: the ledger of every completed run balances.  The fills are exactly the entries and exits of the trades, in
  order; every trade is a buy followed by a sale of the same quantity whose net result is the difference of
  the notionals less the costs of both fills; and the final cash is the initial cash plus the net result,
  which is the gross result less all costs charged.
\<close>

theorem run_ledger_balances:
  assumes "run src cfg spec strat s0 = Inr r"
  shows "res_fills r = concat (map (\<lambda>t. [tr_entry t, tr_exit t]) (res_trades r))
       \<and> list_all trade_ok (res_trades r) \<and> list_all fill_ok (res_fills r)
       \<and> res_final_cash r = cfg_initial_cash cfg + sum_list (map tr_net_pnl (res_trades r))
       \<and> met_net_pnl (res_metrics r) = sum_list (map tr_net_pnl (res_trades r))
       \<and> met_net_pnl (res_metrics r) = met_gross_pnl (res_metrics r) - met_costs (res_metrics r)
       \<and> met_costs (res_metrics r) = sum_list (map fill_costs (res_fills r))"
  using assms
proof (rule run_cases)
  fix st
  assume v: "validated src cfg spec" and l: "sim_loop src cfg spec strat (length (src_bars src)) s0 = Inr st"
    and m: "final_metrics cfg st = Inr (res_metrics r)"
    and eqs: "res_fills r = sim_fills st" "res_trades r = sim_trades st" "res_final_cash r = sim_cash st"
  note f = final_metrics_Inr(1-5) [OF m]
  have "ledger_inv cfg st" by (rule ledger.loop [OF order.refl l])
  then have "sim_fills st = concat (map (\<lambda>t. [tr_entry t, tr_exit t]) (sim_trades st))"
    "list_all trade_ok (sim_trades st)" "list_all fill_ok (sim_fills st)"
    "sim_cash st = cfg_initial_cash cfg + sum_list (map tr_net_pnl (sim_trades st))"
    "sim_realized st = sum_list (map tr_net_pnl (sim_trades st))"
    by (auto simp: ledger_inv_def paired_def net_of_def f(1))
  with f(3-5) show ?thesis unfolding eqs by metis
qed

theorem run_ledger_balances_witness:
  "\<exists>r. run (DatasetSource sample_dataset) sample_config sample_spec sample_strategy () = Inr r
     \<and> res_final_cash r = 100699 / 100 \<and> length (res_trades r) = 1
     \<and> met_net_pnl (res_metrics r) = met_gross_pnl (res_metrics r) - met_costs (res_metrics r)
     \<and> res_final_cash r = cfg_initial_cash sample_config + sum_list (map tr_net_pnl (res_trades r))"
proof (rule sample_run)
  fix r
  assume r: "run (DatasetSource sample_dataset) sample_config sample_spec sample_strategy () = Inr r"
    and s: "length (res_trades r) = 1" "res_final_cash r = 100699 / 100"
  have "met_net_pnl (res_metrics r) = met_gross_pnl (res_metrics r) - met_costs (res_metrics r)"
    "res_final_cash r = cfg_initial_cash sample_config + sum_list (map tr_net_pnl (res_trades r))"
    using run_ledger_balances [OF r] by blast+
  with r s show ?thesis by (intro exI conjI)
qed

text \<open>
  C2: on validated input a run can fail in three ways only: an amount that the 80-digit context cannot
  represent, a strategy that raises, or a forced exit that the market cannot execute.  In particular the
  ledger checks, the overnight check, the guards of the cost model and the calendar lookup never fire.
\<close>

theorem run_failure_modes:
  assumes "validated src cfg spec"
  shows "fails_in (\<lambda>e. e \<in> ValueError ` {''ARITHMETIC_FAILURE'', ''STRATEGY_FAILURE'', ''FORCED_EXIT_UNAVAILABLE''})
           (run src cfg spec strat s0)"
  using simulate_fails [OF assms, of strat s0] validated_run [OF assms, of strat s0]
  by (auto simp: fails_in_def trading_failure_def arithmetic_failure_def split: sum.splits exc.splits)

theorem run_failure_modes_witness:
  "fails_in (\<lambda>e. e \<in> ValueError ` {''ARITHMETIC_FAILURE'', ''STRATEGY_FAILURE'', ''FORCED_EXIT_UNAVAILABLE''})
     (run (DatasetSource sample_dataset) sample_config sample_spec sample_strategy ())"
  by (rule run_failure_modes [OF sample_validated])

text \<open>
  C3: a completed run is intraday.  Every trade enters inside the entry window, leaves on the same date, later
  than it entered and no later than the forced exit time; it is marked forced exactly when it left at that
  time.
\<close>

theorem run_intraday:
  assumes "run src cfg spec strat s0 = Inr r" and "t \<in> set (res_trades r)"
  shows "nse_date (fill_execution_time (tr_entry t)) = nse_date (fill_execution_time (tr_exit t))
       \<and> fill_execution_time (tr_entry t) < fill_execution_time (tr_exit t)
       \<and> cfg_entry_start cfg \<le> nse_time (fill_execution_time (tr_entry t))
       \<and> nse_time (fill_execution_time (tr_entry t)) \<le> cfg_last_entry_time cfg
       \<and> nse_time (fill_execution_time (tr_exit t)) \<le> cfg_forced_exit_time cfg
       \<and> (fill_forced (tr_exit t) = (nse_time (fill_execution_time (tr_exit t)) = cfg_forced_exit_time cfg))"
  using assms(1)
proof (rule run_cases)
  fix st
  assume v: "validated src cfg spec" and l: "sim_loop src cfg spec strat (length (src_bars src)) s0 = Inr st"
    and tr: "res_trades r = sim_trades st"
  have "list_all (trade_intraday cfg) (sim_trades st)"
    using intraday.loop [OF order.refl l] validated_timed [OF v] by (simp add: intraday_inv_def)
  with assms(2) have "trade_intraday cfg t" by (simp add: tr list_all_iff)
  then show ?thesis by (simp add: trade_intraday_def Let_def)
qed

theorem run_intraday_witness:
  "\<exists>r t. run (DatasetSource sample_dataset) sample_config sample_spec sample_strategy () = Inr r
     \<and> t \<in> set (res_trades r)
     \<and> nse_time (fill_execution_time (tr_exit t)) \<le> cfg_forced_exit_time sample_config"
proof (rule sample_run)
  fix r
  assume r: "run (DatasetSource sample_dataset) sample_config sample_spec sample_strategy () = Inr r"
    and "length (res_trades r) = 1"
  then have "hd (res_trades r) \<in> set (res_trades r)" by (cases "res_trades r") auto
  with run_intraday [OF r this] r show ?thesis by blast
qed

text \<open>
  C4: the equity curve has one point per bar, taken at the end of the bar at its close, whose equity is the cash
  plus the value of the position; and the cash is never negative.
\<close>

theorem run_equity_curve:
  assumes "run src cfg spec strat s0 = Inr r"
  shows "list_all2 (\<lambda>b p. eq_decision_time p = bar_end b \<and> eq_mark_price p = bar_close b
           \<and> eq_equity p = eq_cash p + bar_close b * of_int (eq_position_quantity p) \<and> 0 \<le> eq_cash p)
           (src_bars src) (res_equity_curve r)"
  using assms
proof (rule run_cases)
  fix st
  assume v: "validated src cfg spec" and l: "sim_loop src cfg spec strat (length (src_bars src)) s0 = Inr st"
    and c: "res_equity_curve r = sim_curve st"
  have "0 \<le> cfg_initial_cash cfg" using v by (auto simp: validated_def check_config_def res_simps is_money_def)
  with curve_loop [OF order.refl l] show ?thesis
    unfolding c by (auto simp: point_ok_def elim: list_all2_mono)
qed

theorem run_equity_curve_witness:
  "\<exists>r. run (DatasetSource sample_dataset) sample_config sample_spec sample_strategy () = Inr r
     \<and> length (res_equity_curve r) = 3"
proof (rule sample_run)
  fix r
  assume r: "run (DatasetSource sample_dataset) sample_config sample_spec sample_strategy () = Inr r"
  have "length (src_bars (DatasetSource sample_dataset)) = 3"
    by (simp add: sample_dataset_def sample_dataset_with_def sample_bars_def)
  with list_all2_lengthD [OF run_equity_curve [OF r]] r show ?thesis by auto
qed

text \<open>
  C5: every intent is resolved exactly once and in the order it was made: the outcomes carry the identities
  1, 2, 3, ... without gaps, and the fills are those of the outcomes that say so.
\<close>

theorem run_resolves_intents:
  assumes "run src cfg spec strat s0 = Inr r"
  shows "map out_intent_id (res_outcomes r) = [1 .. int (length (res_outcomes r))]
       \<and> map fill_intent_id (res_fills r) = filled_ids (res_outcomes r)"
  using assms
proof (rule run_cases)
  fix st
  assume v: "validated src cfg spec" and l: "sim_loop src cfg spec strat (length (src_bars src)) s0 = Inr st"
    and eqs: "res_outcomes r = sim_outcomes st" "res_fills r = sim_fills st"
  have "src_bars src \<noteq> []" using v by (intro source_nonempty) (simp add: validated_def)
  then have np: "sim_pending st = None" using final_no_pending [OF _ l] by simp
  have "ids_inv st" by (rule identities.loop [OF order.refl l])
  then have ids: "map out_intent_id (sim_outcomes st) = [1 .. sim_next_id st - 1]" "1 \<le> sim_next_id st"
    by (simp_all add: ids_inv_def pending_ids_def np)
  from arg_cong [OF ids(1), of length] ids(2) have "sim_next_id st - 1 = int (length (sim_outcomes st))" by simp
  moreover have "fills_inv st" by (rule resolution.loop [OF order.refl l])
  ultimately show ?thesis using ids by (simp add: eqs fills_inv_def)
qed

theorem run_resolves_intents_witness:
  "\<exists>r. run (DatasetSource sample_dataset) sample_config sample_spec sample_strategy () = Inr r
     \<and> map out_intent_id (res_outcomes r) = [1, 2, 3]"
proof (rule sample_run)
  fix r
  assume r: "run (DatasetSource sample_dataset) sample_config sample_spec sample_strategy () = Inr r"
    and o: "map out_outcome (res_outcomes r) = [''FILLED'', ''FILLED'', ''UNFILLED_END_OF_DATA'']"
  have "length (res_outcomes r) = 3" using arg_cong [OF o, of length] by simp
  with run_resolves_intents [OF r] r show ?thesis by (simp add: upto.simps)
qed



text \<open>
  C7: the reported metrics mean what they say.  Every trade is a win, a loss or breaks even; and the maximal
  drawdown is the largest distance of the equity curve below its running maximum, which starts at the
  initial cash.
\<close>

theorem run_metrics:
  assumes "run src cfg spec strat s0 = Inr r"
  defines "m \<equiv> res_metrics r" and "eqs \<equiv> map eq_equity (res_equity_curve r)"
  shows "met_trade_count m = int (length (res_trades r))
       \<and> met_wins m = int (length (filter (\<lambda>t. 0 < tr_net_pnl t) (res_trades r)))
       \<and> met_losses m = int (length (filter (\<lambda>t. tr_net_pnl t < 0) (res_trades r)))
       \<and> met_breakeven m = int (length (filter (\<lambda>t. tr_net_pnl t = 0) (res_trades r)))
       \<and> met_max_drawdown m = Max (insert 0 (fall_at (cfg_initial_cash cfg) eqs ` {..<length eqs}))"
  using assms(1)
proof (rule run_cases)
  fix st
  assume m: "final_metrics cfg st = Inr (res_metrics r)"
    and eqs: "res_trades r = sim_trades st" "res_equity_curve r = sim_curve st"
  note f = final_metrics_Inr(7-11) [OF m]
  from f(5) obtain peak where "foldR drawdown_step (sim_curve st) (cfg_initial_cash cfg, 0, 0)
      = Inr (peak, met_max_drawdown (res_metrics r), met_max_drawdown_percent (res_metrics r))" by blast
  from drawdown_fold [OF this] f(1-4) length_filter_trichotomy [of 0 tr_net_pnl "sim_trades st"] show ?thesis
    unfolding m_def eqs_def eqs by simp
qed

theorem run_metrics_witness:
  "\<exists>r. run (DatasetSource sample_dataset) sample_config sample_spec sample_strategy () = Inr r
     \<and> met_trade_count (res_metrics r) = 1"
proof (rule sample_run)
  fix r
  assume r: "run (DatasetSource sample_dataset) sample_config sample_spec sample_strategy () = Inr r"
    and "length (res_trades r) = 1"
  with run_metrics [OF r] show ?thesis by auto
qed

end
