(* ===== verification/Features.thy ===== *)
theory Features
  imports Backtest
begin

text \<open>
  \<open>research/features.py\<close>, \<open>research/candidate_features.py\<close> and \<open>research/opening_features.py\<close>: the completed
  prefix of a session and the indicators computed from it.  Every \<open>Decimal\<close> operation rounds to 40 digits
  (\<open>PRECISION\<close>); \<open>None\<close> means insufficient evidence.
\<close>

section \<open>The completed prefix of a session\<close>

record view =
  view_opened_at :: instant
  view_closes_at :: instant
  view_decision_at :: instant
  view_bars :: "bar list"

definition check_view :: "view \<Rightarrow> unit res" where
  "check_view v = checks
     [(\<not> view_opened_at v < view_closes_at v \<or> view_closes_at v < view_decision_at v, ''INVALID_SESSION_VIEW''),
      (view_bars v = [] \<or> bar_end (last (view_bars v)) \<noteq> view_decision_at v, ''INVALID_COMPLETED_PREFIX''),
      (list_ex (\<lambda>(i, b). bar_start b \<noteq> view_opened_at v + int i * MINUTE \<or> view_decision_at v < bar_end b)
         (enumerate 0 (view_bars v)), ''FUTURE_OR_MISSING_BAR'')]"

text \<open>\<open>CompletedSession.model_validate(view.model_dump())\<close> validates the bars again, too.\<close>

definition revalidate_view :: "view \<Rightarrow> unit res" where
  "revalidate_view v = bindR (mapR check_bar (view_bars v)) (\<lambda>_. check_view v)"

definition from_decision :: "decision \<Rightarrow> view res" where
  "from_decision ctx =
     (case (dec_session_open ctx, dec_session_close ctx) of
        (Some opened, Some closes) \<Rightarrow>
          if list_ex (\<lambda>b. dec_time ctx < bar_end b) (dec_completed_bars ctx) then Inl (ValueError ''FUTURE_BAR'')
          else let v = \<lparr>view_opened_at = opened, view_closes_at = closes, view_decision_at = dec_time ctx,
                        view_bars = filter (\<lambda>b. opened \<le> bar_start b) (dec_completed_bars ctx)\<rparr>
               in bindR (check_view v) (\<lambda>_. Inr v)
      | _ \<Rightarrow> Inl (ValueError ''SESSION_EVIDENCE_REQUIRED''))"

definition previous :: "view \<Rightarrow> view option res" where
  "previous v =
     (if length (view_bars v) < 2 then Inr None
      else let w = v\<lparr>view_decision_at := bar_end (view_bars v ! (length (view_bars v) - 2)),
                     view_bars := butlast (view_bars v)\<rparr>
           in bindR (check_view w) (\<lambda>_. Inr (Some w)))"

section \<open>Indicators\<close>

definition window :: "int \<Rightarrow> unit res" where
  "window n = (if \<not> (1 \<le> n \<and> n \<le> 1440) then Inl (ValueError ''INVALID_LOOKBACK'') else Inr ())"

text \<open>The common frame: the window is checked first, then the evidence.\<close>

definition with_window :: "int \<Rightarrow> bool \<Rightarrow> 'a \<Rightarrow> 'a option res" where
  "with_window n enough value = bindR (window n) (\<lambda>_. Inr (if enough then Some value else None))"

definition simple_return :: "view \<Rightarrow> rat option res" where
  "simple_return v =
     (if length (view_bars v) < 2 then Inr None
      else bindR (div40 (bar_close (last (view_bars v))) (bar_close (view_bars v ! (length (view_bars v) - 2)))) (\<lambda>q.
           Inr (Some (prec40 (q - 1)))))"

definition sma :: "view \<Rightarrow> int \<Rightarrow> rat option res" where
  "sma v n = with_window n (n \<le> int (length (view_bars v)))
     (prec40 (sum40 (map bar_close (last_n (nat n) (view_bars v))) / of_int n))"

definition ema_step :: "rat \<Rightarrow> rat \<Rightarrow> bar \<Rightarrow> rat" where
  "ema_step alpha value b = prec40 (prec40 (alpha * bar_close b) + prec40 (prec40 (1 - alpha) * value))"

definition ema :: "view \<Rightarrow> int \<Rightarrow> rat option res" where
  "ema v n = with_window n (n \<le> int (length (view_bars v)))
     (foldl (ema_step (prec40 (2 / of_int (n + 1))))
        (prec40 (sum40 (map bar_close (take (nat n) (view_bars v))) / of_int n)) (drop (nat n) (view_bars v)))"

definition vwap :: "view \<Rightarrow> rat option" where
  "vwap v =
     (let volume = sum_list (map bar_volume (view_bars v)) in
      if volume = 0 then None
      else Some (prec40 (sum40 (map (\<lambda>b. prec40 (prec40 (prec40 (bar_high b + bar_low b) + bar_close b)
                   * of_int (bar_volume b))) (view_bars v)) / of_int (3 * volume))))"

text \<open>Wilder smoothing: \<open>(value * (n - 1) + x) / n\<close>.\<close>

definition wilder :: "int \<Rightarrow> rat \<Rightarrow> rat \<Rightarrow> rat" where
  "wilder n value x = prec40 (prec40 (prec40 (value * of_int (n - 1)) + x) / of_int n)"

definition changes :: "bar list \<Rightarrow> rat list" where
  "changes bars = map (\<lambda>(a, b). prec40 (bar_close b - bar_close a)) (adjacent bars)"

definition average_of :: "int \<Rightarrow> (rat \<Rightarrow> rat) \<Rightarrow> rat list \<Rightarrow> rat" where
  "average_of n f xs =
     foldl (wilder n) (prec40 (sum40 (map f (take (nat n) xs)) / of_int n)) (map f (drop (nat n) xs))"

definition rsi_value :: "rat \<Rightarrow> rat \<Rightarrow> rat" where
  "rsi_value gain loss =
     (if gain = 0 \<and> loss = 0 then 50 else if loss = 0 then 100
      else prec40 (100 - prec40 (100 / prec40 (1 + prec40 (gain / loss)))))"

definition rsi :: "view \<Rightarrow> int \<Rightarrow> rat option res" where
  "rsi v n = with_window n (n + 1 \<le> int (length (view_bars v)))
     (rsi_value (average_of n (\<lambda>d. max d 0) (changes (view_bars v)))
                (average_of n (\<lambda>d. max (- d) 0) (changes (view_bars v))))"

definition true_range :: "bar \<Rightarrow> bar \<Rightarrow> rat" where
  "true_range prior b =
     max (max (prec40 (bar_high b - bar_low b)) \<bar>prec40 (bar_high b - bar_close prior)\<bar>)
         \<bar>prec40 (bar_low b - bar_close prior)\<bar>"

definition ranges :: "bar list \<Rightarrow> rat list" where
  "ranges bars = prec40 (bar_high (hd bars) - bar_low (hd bars)) # map (\<lambda>(a, b). true_range a b) (adjacent bars)"

definition atr :: "view \<Rightarrow> int \<Rightarrow> rat option res" where
  "atr v n = with_window n (n \<le> int (length (view_bars v))) (average_of n (\<lambda>x. x) (ranges (view_bars v)))"

definition maximum :: "rat list \<Rightarrow> rat" where
  "maximum xs = foldl max (hd xs) (tl xs)"

definition minimum :: "rat list \<Rightarrow> rat" where
  "minimum xs = foldl min (hd xs) (tl xs)"

definition considered :: "bool \<Rightarrow> view \<Rightarrow> bar list" where
  "considered exclude_current v = (if exclude_current then butlast (view_bars v) else view_bars v)"

definition rolling_high :: "view \<Rightarrow> int \<Rightarrow> bool \<Rightarrow> rat option res" where
  "rolling_high v n exclude_current = (let bars = considered exclude_current v in
     with_window n (n \<le> int (length bars)) (maximum (map bar_high (last_n (nat n) bars))))"

definition rolling_low :: "view \<Rightarrow> int \<Rightarrow> bool \<Rightarrow> rat option res" where
  "rolling_low v n exclude_current = (let bars = considered exclude_current v in
     with_window n (n \<le> int (length bars)) (minimum (map bar_low (last_n (nat n) bars))))"

definition volume_sma :: "view \<Rightarrow> int \<Rightarrow> rat option res" where
  "volume_sma v n = with_window n (n \<le> int (length (view_bars v)))
     (prec40 (of_int (sum_list (map bar_volume (last_n (nat n) (view_bars v)))) / of_int n))"

definition relative_volume :: "view \<Rightarrow> int \<Rightarrow> rat option res" where
  "relative_volume v n =
     bindR (window n) (\<lambda>_.
     bindR (previous v) (\<lambda>p.
     bindR (case p of None \<Rightarrow> Inr None | Some w \<Rightarrow> volume_sma w n) (\<lambda>average.
     Inr (case average of None \<Rightarrow> None
          | Some a \<Rightarrow> if a = 0 then None else Some (prec40 (of_int (bar_volume (last (view_bars v))) / a))))))"

definition opening_range :: "view \<Rightarrow> int \<Rightarrow> (rat \<times> rat) option res" where
  "opening_range v n = with_window n (n \<le> int (length (view_bars v)))
     (minimum (map bar_low (take (nat n) (view_bars v))), maximum (map bar_high (take (nat n) (view_bars v))))"

section \<open>Candidate and opening features\<close>

definition signed_efficiency_30 :: "view \<Rightarrow> rat option res" where
  "signed_efficiency_30 v =
     bindR (revalidate_view v) (\<lambda>_.
     Inr (if length (view_bars v) < 31 then None
          else let closes = map bar_close (last_n 31 (view_bars v));
                   path = sum40 (map (\<lambda>(a, b). \<bar>prec40 (b - a)\<bar>) (adjacent closes))
               in if path = 0 then None else Some (prec40 (prec40 (last closes - hd closes) / path))))"

record opening_obs =
  op_available_at :: instant
  op_low :: rat
  op_high :: rat
  op_range :: rat
  op_range_percent :: rat

definition opening_observation :: "view \<Rightarrow> int \<Rightarrow> opening_obs option res" where
  "opening_observation v minutes =
     bindR (revalidate_view v) (\<lambda>_.
     if minutes \<notin> {5, 15, 30} then Inl (ValueError ''UNREGISTERED_OPENING_WINDOW'')
     else bindR (opening_range v minutes) (\<lambda>bounds. case bounds of
         None \<Rightarrow> Inr None
       | Some (low, high) \<Rightarrow>
           bindR (div40 (prec40 (high - low)) (bar_open (hd (view_bars v)))) (\<lambda>ratio.
           Inr (Some \<lparr>op_available_at = bar_end (view_bars v ! (nat minutes - 1)), op_low = low, op_high = high,
                      op_range = prec40 (high - low), op_range_percent = prec40 (ratio * 100)\<rparr>))))"

record early =
  ev_available_at :: instant
  ev_reference_sessions :: int
  ev_reference_mean :: rat
  ev_value :: "rat option"

definition first_volume :: "view \<Rightarrow> int" where
  "first_volume v = sum_list (map bar_volume (take 15 (view_bars v)))"

definition early_volume :: "view \<Rightarrow> view list \<Rightarrow> early option res" where
  "early_volume v history =
     bindR (revalidate_view v) (\<lambda>_.
     bindR (mapR revalidate_view history) (\<lambda>_.
     bindR (checks
       [(list_ex (\<lambda>h. view_decision_at h \<noteq> view_closes_at h \<or> view_opened_at v \<le> view_closes_at h) history,
         ''FUTURE_OR_INCOMPLETE_VOLUME_REFERENCE''),
        (list_ex (\<lambda>(a, b). view_opened_at b \<le> view_opened_at a) (adjacent history), ''VOLUME_HISTORY_NOT_ORDERED'')]) (\<lambda>_.
     let prior = last_n 20 history in
     Inr (if length (view_bars v) < 15 then None
          else if length prior < 5 \<or> list_ex (\<lambda>h. length (view_bars h) < 15) prior then None
          else let reference = prec40 (of_int (sum_list (map first_volume prior)) / of_int (int (length prior)))
               in Some \<lparr>ev_available_at = bar_end (view_bars v ! 14), ev_reference_sessions = int (length prior),
                        ev_reference_mean = reference,
                        ev_value = (if reference = 0 then None
                                    else Some (prec40 (of_int (first_volume v) / reference)))\<rparr>))))"

end
