(* ===== verification/Feature_Bounds.thy ===== *)
theory Feature_Bounds
  imports Features Samples
begin

text \<open>
  Ranges of the indicators of \<open>Features\<close>, with every operation rounded to 40 digits as the code does it.
\<close>

section \<open>Exact sums\<close>

text \<open>Multiples of \<open>10 ^ - 10\<close> with a bounded coefficient; sums of few of them need no rounding.\<close>

definition grid :: "int \<Rightarrow> rat \<Rightarrow> bool" where
  "grid B x \<longleftrightarrow> (\<exists>k. x * 10 ^ 10 = of_int k \<and> \<bar>k\<bar> \<le> B)"

lemma grid_add: "grid A x \<Longrightarrow> grid B y \<Longrightarrow> grid (A + B) (x + y)"
  unfolding grid_def
proof (elim exE conjE)
  fix j k
  assume "x * 10 ^ 10 = of_int j" "y * 10 ^ 10 = of_int k" "\<bar>j\<bar> \<le> A" "\<bar>k\<bar> \<le> B"
  then show "\<exists>l. (x + y) * 10 ^ 10 = of_int l \<and> \<bar>l\<bar> \<le> A + B"
    by (intro exI [of _ "j + k"]) (auto simp: algebra_simps)
qed

lemma grid_minus: "grid B x \<Longrightarrow> grid B (- x)"
  unfolding grid_def by (elim exE conjE, rule_tac x = "- k" in exI) simp

lemma grid_abs: "grid B x \<Longrightarrow> grid B \<bar>x\<bar>"
  by (auto simp: abs_if grid_minus)

lemma grid_diff: "grid A x \<Longrightarrow> grid B y \<Longrightarrow> grid (A + B) (x - y)"
  using grid_add [of A x B "- y"] by (simp add: grid_minus)

lemma grid_prec40: "grid B x \<Longrightarrow> B < 10 ^ 40 \<Longrightarrow> prec40 x = x"
proof -
  assume "grid B x" "B < 10 ^ 40"
  then obtain k where k: "x * 10 ^ 10 = of_int k" "\<bar>k\<bar> < 10 ^ 40" by (auto simp: grid_def)
  then have "x = of_int k * 10 powi (- 10)" by (simp add: powi_neg field_simps)
  with k(2) show ?thesis by (rule round_sig_representable)
qed

lemma grid_sum_list: "(\<And>x. x \<in> set xs \<Longrightarrow> grid B x) \<Longrightarrow> grid (int (length xs) * B) (sum_list xs)"
proof (induction xs)
  case (Cons x xs)
  then have "grid (B + int (length xs) * B) (x + sum_list xs)" by (intro grid_add) auto
  then show ?case by (simp add: algebra_simps)
qed (auto simp: grid_def)

lemma sum40_exact:
  assumes "\<And>x. x \<in> set xs \<Longrightarrow> grid B x" and "0 \<le> B" and "int (length xs) * B < 10 ^ 40"
  shows "sum40 xs = sum_list xs"
  unfolding sum40_def using assms
proof (induction xs rule: rev_induct)
  case (snoc x xs)
  have "int (length xs) * B < 10 ^ 40" using snoc.prems(2,3) by (simp add: algebra_simps)
  then have s: "foldl (\<lambda>s x. prec40 (s + x)) 0 xs = sum_list xs" using snoc by simp
  have "grid (int (length (xs @ [x])) * B) (sum_list (xs @ [x]))" by (rule grid_sum_list) (rule snoc.prems(1))
  with snoc.prems(3) have "prec40 (sum_list (xs @ [x])) = sum_list (xs @ [x])" by (blast intro: grid_prec40)
  with s show ?case by simp
qed simp

definition units :: int where
  "units = 10 ^ 28"

lemma units_prec40: "grid units x \<Longrightarrow> prec40 x = x"
  by (erule grid_prec40) (simp add: units_def)

lemma is_money_grid: "is_money r \<Longrightarrow> grid units r"
proof -
  assume m: "is_money r"
  obtain n where q: "quotient_of (r * 10 ^ 10) = (n, 1)"
    using m by (cases "quotient_of (r * 10 ^ 10)") (auto simp: is_money_def)
  then have n: "r * 10 ^ 10 = of_int n" using quotient_of_div by fastforce
  have "0 \<le> r" "r < 10 ^ 18" using m by (auto simp: is_money_def)
  then have "0 \<le> rat_of_int n" "rat_of_int n < of_int units" by (simp_all add: units_def flip: n)
  then have "\<bar>n\<bar> \<le> units" by (simp only: of_int_less_iff of_int_0_le_iff abs_of_nonneg less_imp_le)
  with n show ?thesis by (auto simp: grid_def)
qed

lemma check_bar_money:
  "check_bar b = Inr u \<Longrightarrow> grid units (bar_open b) \<and> grid units (bar_high b) \<and> grid units (bar_low b)
     \<and> grid units (bar_close b)"
  by (auto simp: check_bar_def res_simps intro: is_money_grid)

lemma revalidate_closes: "revalidate_view v = Inr u \<Longrightarrow> b \<in> set (view_bars v) \<Longrightarrow> grid units (bar_close b)"
proof -
  assume "revalidate_view v = Inr u" and b: "b \<in> set (view_bars v)"
  then obtain w where "mapR check_bar (view_bars v) = Inr w" by (auto simp: revalidate_view_def res_simps)
  from mapR_Inr_elem [OF this b] show ?thesis by (auto dest: check_bar_money)
qed

section \<open>Ranges\<close>

lemma with_window_Some: "with_window n ok x = Inr (Some y) \<longleftrightarrow> 1 \<le> n \<and> n \<le> 1440 \<and> ok \<and> y = x"
  by (auto simp: with_window_def window_def)

lemma sum_list_bounds:
  fixes xs :: "rat list"
  assumes "\<And>x. x \<in> set xs \<Longrightarrow> lo \<le> x \<and> x \<le> hi"
  shows "of_nat (length xs) * lo \<le> sum_list xs \<and> sum_list xs \<le> of_nat (length xs) * hi"
  using assms
proof (induction xs)
  case (Cons x xs)
  then have "of_nat (length xs) * lo \<le> sum_list xs \<and> sum_list xs \<le> of_nat (length xs) * hi" by simp
  moreover have "lo \<le> x \<and> x \<le> hi" using Cons.prems by simp
  ultimately have "lo + of_nat (length xs) * lo \<le> x + sum_list xs \<and> x + sum_list xs \<le> hi + of_nat (length xs) * hi"
    by linarith
  then show ?case by (simp add: distrib_right)
qed simp

text \<open>The mean of money amounts, computed with rounding, stays between their bounds.\<close>

lemma mean40_bounds:
  assumes g: "\<And>x. x \<in> set xs \<Longrightarrow> grid units x" and len: "xs \<noteq> []" "length xs \<le> 1440"
    and b: "\<And>x. x \<in> set xs \<Longrightarrow> lo \<le> x \<and> x \<le> hi"
    and lohi: "prec40 lo = lo" "prec40 hi = hi"
  shows "lo \<le> prec40 (sum40 xs / of_nat (length xs)) \<and> prec40 (sum40 xs / of_nat (length xs)) \<le> hi"
proof -
  have "int (length xs) * units \<le> 1440 * units" using len(2) by (simp add: units_def)
  then have s: "sum40 xs = sum_list xs" by (intro sum40_exact [OF g]) (auto simp: units_def)
  have n: "(0::rat) < of_nat (length xs)" using len(1) by simp
  have "lo \<le> sum_list xs / of_nat (length xs)" "sum_list xs / of_nat (length xs) \<le> hi"
    using sum_list_bounds [of xs lo hi] b n by (auto simp: pos_le_divide_eq pos_divide_le_eq mult.commute)
  then show ?thesis
    unfolding s using lohi round_sig_mono [of lo _ 40] round_sig_mono [of _ hi 40] by (metis zero_less_numeral)
qed

lemma round_at_least: "prec40 a = a \<Longrightarrow> a \<le> x \<Longrightarrow> a \<le> prec40 x"
  using round_sig_mono [of a x 40] by simp

lemma round_at_most: "prec40 a = a \<Longrightarrow> x \<le> a \<Longrightarrow> prec40 x \<le> a"
  using round_sig_mono [of x a 40] by simp

lemma prec40_numerals [simp]: "prec40 0 = 0" "prec40 1 = 1" "prec40 100 = 100" "prec40 (- 1) = - 1"
  using round_sig_of_int [of 1 40] round_sig_of_int [of 100 40] round_sig_of_int [of "-1" 40] by simp_all

lemma rsi_value_range: "0 \<le> gain \<Longrightarrow> 0 \<le> loss \<Longrightarrow> 0 \<le> rsi_value gain loss \<and> rsi_value gain loss \<le> 100"
proof (cases "loss = 0")
  case False
  assume "0 \<le> gain" "0 \<le> loss"
  with False have "0 \<le> prec40 (gain / loss)" by simp
  then have d: "1 \<le> prec40 (1 + prec40 (gain / loss))" by (intro round_at_least) auto
  let ?d = "prec40 (1 + prec40 (gain / loss))"
  have "0 \<le> 100 / ?d" "100 / ?d \<le> 100" using d by (auto simp: divide_le_eq)
  then have "0 \<le> prec40 (100 / ?d)" "prec40 (100 / ?d) \<le> 100" by (auto intro: round_at_most)
  then have "0 \<le> prec40 (100 - prec40 (100 / ?d))" "prec40 (100 - prec40 (100 / ?d)) \<le> 100"
    by (auto intro: round_at_most)
  with False show ?thesis by (simp add: rsi_value_def)
qed (auto simp: rsi_value_def)

lemma wilder_nonneg: "1 \<le> n \<Longrightarrow> 0 \<le> v \<Longrightarrow> 0 \<le> x \<Longrightarrow> 0 \<le> wilder n v x"
  by (simp add: wilder_def)

lemma average_of_nonneg:
  assumes n: "1 \<le> n" and f: "\<And>x. x \<in> set xs \<Longrightarrow> 0 \<le> f x"
  shows "0 \<le> average_of n f xs"
proof -
  have fold: "0 \<le> foldl (wilder n) v ys" if "0 \<le> v" "\<And>y. y \<in> set ys \<Longrightarrow> 0 \<le> y" for v ys
    using that by (induction ys arbitrary: v) (auto intro: wilder_nonneg [OF n])
  have "0 \<le> sum40 (map f (take (nat n) xs))" using f by (intro sum40_nonneg) (auto dest: in_set_takeD)
  with n f show ?thesis unfolding average_of_def by (intro fold) (auto dest: in_set_dropD)
qed

text \<open>C8: the relative strength index of any view, with every operation rounded, lies between 0 and 100.\<close>

theorem rsi_range:
  assumes "rsi v n = Inr (Some x)"
  shows "0 \<le> x \<and> x \<le> 100"
proof -
  have n: "1 \<le> n" using assms by (simp add: rsi_def with_window_Some)
  have "0 \<le> average_of n (\<lambda>d. max d 0) (changes (view_bars v))" "0 \<le> average_of n (\<lambda>d. max (- d) 0) (changes (view_bars v))"
    using n by (auto intro: average_of_nonneg)
  with assms show ?thesis by (auto simp: rsi_def with_window_Some dest: rsi_value_range)
qed

definition sample_view :: view where
  "sample_view = \<lparr>view_opened_at = combine_nse 19737 (clock_at 9 15), view_closes_at = combine_nse 19737 (clock_at 9 18),
     view_decision_at = combine_nse 19737 (clock_at 9 18), view_bars = sample_bars\<rparr>"

theorem rsi_range_witness: "\<exists>x. rsi sample_view 2 = Inr (Some x) \<and> 0 \<le> x \<and> x \<le> 100"
proof -
  have "with_window 2 (2 + 1 \<le> int (length sample_bars)) (0::rat) = Inr (Some 0)" by code_simp
  then obtain x where "rsi sample_view 2 = Inr (Some x)"
    by (simp add: rsi_def sample_view_def with_window_Some)
  with rsi_range [OF this] show ?thesis by blast
qed

text \<open>
  The simple moving average of a validated view lies between the smallest and the largest of the closes it
  averages: summing money amounts in 40 digits is exact, and the one rounding of the quotient is monotone.
\<close>

theorem sma_between_closes:
  assumes "revalidate_view v = Inr ()" and "sma v n = Inr (Some x)"
  shows "Min (set (map bar_close (last_n (nat n) (view_bars v)))) \<le> x
       \<and> x \<le> Max (set (map bar_close (last_n (nat n) (view_bars v))))"
proof -
  let ?xs = "map bar_close (last_n (nat n) (view_bars v))"
  have n: "1 \<le> n" "n \<le> 1440" "n \<le> int (length (view_bars v))"
    and x: "x = prec40 (sum40 ?xs / of_int n)"
    using assms(2) by (auto simp: sma_def with_window_Some)
  then have len: "length ?xs = nat n" by simp
  then have ne: "?xs \<noteq> []" using n by (metis list.size(3) nat_0_iff not_one_le_zero nle_le order_trans zero_le_one)
  have g: "grid units y" if "y \<in> set ?xs" for y
    using that set_last_n [of "nat n" "view_bars v"] revalidate_closes [OF assms(1)] by auto
  have "prec40 (Min (set ?xs)) = Min (set ?xs)" "prec40 (Max (set ?xs)) = Max (set ?xs)"
    using ne by (auto intro!: units_prec40 [OF g] Min_in Max_in simp del: set_map)
  then have "Min (set ?xs) \<le> prec40 (sum40 ?xs / of_nat (length ?xs)) \<and> prec40 (sum40 ?xs / of_nat (length ?xs)) \<le> Max (set ?xs)"
    using g ne len n by (intro mean40_bounds) (auto simp del: set_map)
  moreover have "rat_of_nat (length ?xs) = of_int n" unfolding len using n by simp
  ultimately show ?thesis using x by simp
qed

lemma sample_view_ok: "revalidate_view sample_view = Inr ()"
  by code_simp

theorem sma_between_closes_witness:
  "\<exists>x. sma sample_view 2 = Inr (Some x) \<and> 101 \<le> x \<and> x \<le> 103"
proof -
  have "with_window 2 (2 \<le> int (length sample_bars)) (0::rat) = Inr (Some 0)" by code_simp
  then obtain x where x: "sma sample_view 2 = Inr (Some x)"
    by (simp add: sma_def sample_view_def with_window_Some)
  have "map bar_close (last_n (nat 2) (view_bars sample_view)) = [103, 101]"
    by (simp add: sample_view_def sample_bars_def sample_bar_def last_n_def)
  from sma_between_closes [OF sample_view_ok x, unfolded this] x show ?thesis by simp
qed

section \<open>Efficiency\<close>

lemma path_triangle:
  fixes xs :: "rat list"
  assumes "xs \<noteq> []"
  shows "\<bar>last xs - hd xs\<bar> \<le> sum_list (map (\<lambda>(a, b). \<bar>b - a\<bar>) (adjacent xs))"
  using assms
proof (induction xs)
  case (Cons x xs)
  show ?case
  proof (cases xs)
    case (Cons y ys)
    with Cons.IH have "\<bar>last xs - y\<bar> \<le> sum_list (map (\<lambda>(a, b). \<bar>b - a\<bar>) (adjacent xs))" by simp
    then show ?thesis using abs_triangle_ineq [of "last xs - y" "y - x"] by (simp add: Cons)
  qed simp
qed simp

lemma adjacent_elems: "p \<in> set (adjacent xs) \<Longrightarrow> fst p \<in> set xs \<and> snd p \<in> set xs"
  by (cases p) (auto simp: adjacent_def dest: set_zip_leftD set_zip_rightD intro: list.set_sel(2) split: list.splits)

text \<open>
  The signed efficiency of thirty changes lies between -1 and 1: it is the net change over the length of the
  path, and neither sum is rounded for money amounts.
\<close>

theorem signed_efficiency_range:
  assumes "signed_efficiency_30 v = Inr (Some x)"
  shows "- 1 \<le> x \<and> x \<le> 1"
proof -
  define cs where "cs = map bar_close (last_n 31 (view_bars v))"
  define path where "path = sum40 (map (\<lambda>(a, b). \<bar>prec40 (b - a)\<bar>) (adjacent cs))"
  have ok: "revalidate_view v = Inr ()" and len: "31 \<le> length (view_bars v)" and ne: "path \<noteq> 0"
    and x: "x = prec40 (prec40 (last cs - hd cs) / path)"
    using assms by (auto simp: signed_efficiency_30_def res_simps Let_def cs_def path_def split: if_splits)
  have g: "grid units c" if "c \<in> set cs" for c
    using that set_last_n [of 31 "view_bars v"] revalidate_closes [OF ok] by (auto simp: cs_def)
  have g2: "grid (units + units) (b - a)" if "a \<in> set cs" "b \<in> set cs" for a b
    using that g by (intro grid_diff) auto
  have p2: "prec40 (b - a) = b - a" if "a \<in> set cs" "b \<in> set cs" for a b
    using g2 [OF that] by (rule grid_prec40) (simp add: units_def)
  have l: "length cs = 31" using len by (simp add: cs_def)
  then have c0: "cs \<noteq> []" by auto
  have m1: "map (\<lambda>(a, b). \<bar>prec40 (b - a)\<bar>) (adjacent cs) = map (\<lambda>(a, b). \<bar>b - a\<bar>) (adjacent cs)"
    using p2 by (auto dest: adjacent_elems)
  have m2: "sum40 (map (\<lambda>(a, b). \<bar>b - a\<bar>) (adjacent cs)) = sum_list (map (\<lambda>(a, b). \<bar>b - a\<bar>) (adjacent cs))"
  proof (rule sum40_exact)
    fix y
    assume "y \<in> set (map (\<lambda>(a, b). \<bar>b - a\<bar>) (adjacent cs))"
    then obtain a b where "(a, b) \<in> set (adjacent cs)" "y = \<bar>b - a\<bar>" by auto
    then show "grid (units + units) y" using adjacent_elems [of "(a, b)" cs] by (simp only: fst_conv snd_conv) (intro grid_abs g2, auto)
  qed (simp_all add: units_def l)
  have "\<bar>last cs - hd cs\<bar> \<le> path" unfolding path_def m1 m2 by (rule path_triangle [OF c0])
  moreover have "prec40 (last cs - hd cs) = last cs - hd cs" using c0 by (intro p2) auto
  ultimately have "- 1 \<le> prec40 (last cs - hd cs) / path" "prec40 (last cs - hd cs) / path \<le> 1"
    using ne by (auto simp: divide_simps)
  then show ?thesis unfolding x by (auto intro: round_at_least round_at_most)
qed


definition sample_rise :: view where
  "sample_rise = \<lparr>view_opened_at = combine_nse 19737 (clock_at 9 15), view_closes_at = combine_nse 19737 (clock_at 9 46),
     view_decision_at = combine_nse 19737 (clock_at 9 46),
     view_bars = map (\<lambda>i. sample_bar i (of_int (100 + i)) (of_int (101 + i))) [0 .. 30]\<rparr>"

theorem signed_efficiency_range_witness: "\<exists>x. signed_efficiency_30 sample_rise = Inr (Some x) \<and> - 1 \<le> x \<and> x \<le> 1"
proof -
  have "bindR (signed_efficiency_30 sample_rise) (\<lambda>r. Inr (r \<noteq> None)) = Inr True" by code_simp
  then obtain x where "signed_efficiency_30 sample_rise = Inr (Some x)" by (auto simp: bindR_Inr_iff)
  with signed_efficiency_range [OF this] show ?thesis by blast
qed

end
