(* ===== verification/Engine_Views.thy ===== *)
theory Engine_Views
  imports Features Samples
begin

text \<open>
  How the engine and the features fit together: the validator of \<open>research/features.py\<close> accepts every decision
  context that \<open>backtest/engine.py\<close> builds from a validated source.
\<close>

section \<open>The bars of a session up to a bar\<close>

text \<open>Going back from a bar of a session, minute by minute.\<close>

lemma previous_bar:
  assumes wt: "well_timed bars" and i: "i < length bars" and s: "bar_start (bars ! i) - MINUTE \<in> bar_start ` set bars"
    and d: "nse_date (bar_start (bars ! i) - MINUTE) = nse_date (bar_start (bars ! i))"
  shows "0 < i" and "bar_start (bars ! (i - 1)) = bar_start (bars ! i) - MINUTE"
proof -
  obtain k where k: "k < length bars" "bar_start (bars ! k) = bar_start (bars ! i) - MINUTE"
    using s by (auto simp: in_set_conv_nth)
  then have ki: "k < i" using well_timed_sorted [OF wt, of i k] i by (cases k i rule: linorder_cases) auto
  then show "0 < i" by simp
  then obtain j where j: "i = Suc j" by (cases i) auto
  have le: "bar_start (bars ! k) \<le> bar_start (bars ! j)"
    using well_timed_sorted [OF wt, of k j] ki i j by (cases "k = j") auto
  have st: "minute_step (bar_start (bars ! j)) (bar_start (bars ! i))" using well_timed_step [OF wt] i j by simp
  have "nse_date (bar_start (bars ! j)) = nse_date (bar_start (bars ! i))"
    using nse_date_mono [OF le] nse_date_mono [of "bar_start (bars ! j)" "bar_start (bars ! i)"] st d k(2)
    by (simp add: minute_step_def)
  with st j show "bar_start (bars ! (i - 1)) = bar_start (bars ! i) - MINUTE" by (simp add: minute_step_def)
qed

text \<open>The minutes since the opening, and the bars they belong to.\<close>

lemma minutes_since_open:
  assumes wt: "well_timed bars" and se: "\<And>b. b \<in> set bars \<Longrightarrow> \<exists>d. day_of days (nse_date (bar_start b)) = Some d \<and> in_session bars d b"
    and i: "i < length bars" and d: "day_of days (nse_date (bar_start (bars ! i))) = Some d" and s: "day_sessions d = [s]"
    and t: "ses_open s + int t * MINUTE \<le> nse_time (bar_start (bars ! i))"
  shows "t \<le> i \<and> bar_start (bars ! (i - t)) = bar_start (bars ! i) - int t * MINUTE"
  using t
proof (induction t)
  case (Suc t)
  let ?b = "bars ! (i - t)"
  have IH: "t \<le> i" "bar_start ?b = bar_start (bars ! i) - int t * MINUTE" using Suc by auto
  have o0: "0 \<le> ses_open s" and lt: "ses_open s < nse_time (bar_start (bars ! i)) - int t * MINUTE"
  proof -
    from se [of "bars ! i"] i d s show "0 \<le> ses_open s" by (auto simp: in_session_def is_local_minute_def)
    show "ses_open s < nse_time (bar_start (bars ! i)) - int t * MINUTE" using Suc.prems by (simp add: algebra_simps)
  qed
  have earlier: "nse_time (bar_start (bars ! i) - k) = nse_time (bar_start (bars ! i)) - k
      \<and> nse_date (bar_start (bars ! i) - k) = nse_date (bar_start (bars ! i))"
    if "0 \<le> k" "k \<le> nse_time (bar_start (bars ! i))" for k
  proof -
    have "bar_start (bars ! i) - k = combine_nse (nse_date (bar_start (bars ! i))) (nse_time (bar_start (bars ! i)) - k)"
      using combine_nse_split [of "bar_start (bars ! i)"] by (simp add: combine_nse_def)
    moreover have "0 \<le> nse_time (bar_start (bars ! i)) - k" "nse_time (bar_start (bars ! i)) - k < DAY_US"
      using that nse_time_range(2) [of "bar_start (bars ! i)"] by linarith+
    ultimately show ?thesis by (simp only: nse_time_combine nse_date_combine)
  qed
  have bt: "nse_time (bar_start ?b) = nse_time (bar_start (bars ! i)) - int t * MINUTE"
    "nse_date (bar_start ?b) = nse_date (bar_start (bars ! i))"
    using earlier [of "int t * MINUTE"] IH(2) lt o0 by auto
  have b: "?b \<in> set bars" using i by simp
  from se [OF b] d s lt bt have prev: "bar_start ?b - MINUTE \<in> bar_start ` set bars" by (auto simp: in_session_def)
  have "nse_date (bar_start ?b - MINUTE) = nse_date (bar_start (bars ! i))"
  proof -
    have "bar_start ?b - MINUTE = bar_start (bars ! i) - (int t * MINUTE + MINUTE)" using IH(2) by simp
    then show ?thesis using earlier [of "int t * MINUTE + MINUTE"] Suc.prems o0 by (simp only:) (simp add: algebra_simps)
  qed
  then have "0 < i - t" "bar_start (bars ! (i - t - 1)) = bar_start ?b - MINUTE"
    using previous_bar [OF wt, of "i - t"] i prev bt(2) by auto
  with IH show ?case by (simp add: algebra_simps)
qed simp


text \<open>So the bars from the opening on, among the completed ones, are consecutive minutes of the session.\<close>

lemma completed_prefix:
  assumes wt: "well_timed bars" and se: "\<And>b. b \<in> set bars \<Longrightarrow> \<exists>d. day_of days (nse_date (bar_start b)) = Some d \<and> in_session bars d b"
    and i: "i < length bars" and d: "day_of days (nse_date (bar_start (bars ! i))) = Some d" and s: "day_sessions d = [s]"
    and whole: "is_local_minute (ses_open s)"
  defines "opened \<equiv> combine_nse (nse_date (bar_start (bars ! i))) (ses_open s)"
  shows "\<exists>m. m \<le> i \<and> (\<forall>k. k \<le> m \<longrightarrow> bar_start (bars ! (i - m + k)) = opened + int k * MINUTE)
    \<and> (\<forall>k. k < i - m \<longrightarrow> bar_start (bars ! k) < opened)"
proof -
  let ?b = "bars ! i"
  have b: "?b \<in> set bars" using i by simp
  have ns: "\<not> has_seconds (bar_start ?b)" using wt b by (auto simp: well_timed_def list_all_iff)
  have le: "ses_open s \<le> nse_time (bar_start ?b)" using se [OF b] d s by (auto simp: in_session_def)
  have "(nse_time (bar_start ?b) - ses_open s) mod MINUTE = 0"
  proof -
    have "(nse_time (bar_start ?b) - ses_open s) mod MINUTE = (nse_time (bar_start ?b) mod MINUTE - ses_open s mod MINUTE) mod MINUTE"
      by (simp only: mod_diff_eq)
    then show ?thesis using nse_time_whole [OF ns] whole by (simp add: is_local_minute_def)
  qed
  then obtain q where q: "nse_time (bar_start ?b) - ses_open s = MINUTE * q" by (meson mod_eq_0_iff_dvd dvdE)
  define m where "m = nat q"
  have qm: "nse_time (bar_start ?b) = ses_open s + int m * MINUTE" using q le by (simp add: m_def)
  have start: "bar_start ?b = opened + int m * MINUTE"
    using combine_nse_split [of "bar_start ?b"] qm by (simp add: opened_def combine_nse_def)
  have earlier: "t \<le> i \<and> bar_start (bars ! (i - t)) = bar_start ?b - int t * MINUTE" if "t \<le> m" for t
    using that qm by (intro minutes_since_open [OF wt se i d s]) auto
  have startk: "bar_start (bars ! (i - m + k)) = opened + int k * MINUTE" if "k \<le> m" for k
  proof -
    have "i - m + k = i - (m - k)" using earlier [of m] that by simp
    then show ?thesis using earlier [of "m - k"] start that by (simp add: of_nat_diff algebra_simps)
  qed
  moreover have "bar_start (bars ! k) < opened" if "k < i - m" for k
    using well_timed_sorted [OF wt that] startk [of 0] i by simp
  ultimately show ?thesis using earlier [of m] by blast
qed

lemma filter_suffix:
  assumes "n \<le> length xs" and "\<And>k. k < n \<Longrightarrow> \<not> P (xs ! k)" and "\<And>k. n \<le> k \<Longrightarrow> k < length xs \<Longrightarrow> P (xs ! k)"
  shows "filter P xs = drop n xs"
proof -
  have "filter P (take n xs) = []" using assms(1,2) by (auto simp: filter_empty_conv in_set_conv_nth)
  moreover have "filter P (drop n xs) = drop n xs"
    using assms(1,3) by (auto simp: filter_id_conv in_set_conv_nth)
  ultimately show ?thesis by (metis append_self_conv2 append_take_drop_id filter_append)
qed

section \<open>The session index of the engine\<close>

text \<open>The index at which the engine believes the current session to start is where the date changed last.\<close>

definition session_started :: "source \<Rightarrow> nat \<Rightarrow> 's sim \<Rightarrow> bool" where
  "session_started src i st \<longleftrightarrow> sim_session_start st \<le> i
     \<and> (0 < sim_session_start st \<longrightarrow> nse_date (bar_start (src_bars src ! (sim_session_start st - 1)))
          \<noteq> nse_date (bar_start (src_bars src ! sim_session_start st)))"

lemma session_started_enter:
  "session_started src i st \<Longrightarrow> session_started src i (enter_session (src_bars src) i (src_bars src ! i) st)"
  by (auto simp: session_started_def enter_session_def)

lemma execute_pending_session_start:
  assumes "execute_pending src cfg b forced st = Inr st'"
  shows "sim_session_start st' = sim_session_start st"
  using assms
proof (cases rule: execute_pending_cases)
  case (filled identity created i price notional fee st1)
  then have "sim_session_start st1 = sim_session_start st"
    by (auto simp: book_fill_def res_simps Let_def split: if_splits option.splits)
  with filled(8) show ?thesis by simp
qed simp_all

interpretation sessions: loop_invariant src cfg spec strat s0 "session_started src" "session_started src" "session_started src"
  for src :: source and cfg :: config and spec :: strategy_spec and strat :: "'s strategy" and s0 :: 's
proof (unfold_locales, goal_cases)
  case 1
  show ?case by (simp add: session_started_def sim_init_def)
next
  case (2 i b st st1 st2)
  then have "session_started src i (force_exit cfg b st1)"
    using session_started_enter [of src i st] by (simp add: session_started_def)
  with execute_pending_session_start [OF 2(5)] show ?case by (simp add: session_started_def)
next
  case (3 i b st st' u)
  then show ?case by (simp add: session_started_def mark_equity_simps)
next
  case (4 i b st ctx st')
  then show ?case by (simp add: session_started_def decide_simps)
next
  case (5 i b st st')
  then show ?case by (simp add: session_started_def close_session_simps)
qed

text \<open>Every context the engine builds is a completed session: the features' own validator accepts it.\<close>

lemma context_completed:
  assumes src: "check_source src = Inr ()" and i: "i < length (src_bars src)" and inv: "session_started src i st"
    and ctx: "decision_context src spec i (src_bars src ! i) u st = Inr ctx"
  shows "\<exists>v. from_decision ctx = Inr v \<and> view_decision_at v = bar_end (src_bars src ! i)
    \<and> view_bars v = filter (\<lambda>b. nse_date (bar_start b) = nse_date (bar_start (src_bars src ! i))) (take (i + 1) (src_bars src))"
proof -
  let ?bars = "src_bars src" and ?b = "src_bars src ! i"
  let ?date = "nse_date (bar_start ?b)"
  note wt = source_well_timed [OF src]
  have se: "\<exists>d. day_of (src_days src) (nse_date (bar_start b)) = Some d \<and> in_session ?bars d b" if "b \<in> set ?bars" for b
    using source_bar_session [OF src that] by blast
  have "?b \<in> set ?bars" using i by simp
  with se obtain d where d: "day_of (src_days src) ?date = Some d" "in_session ?bars d ?b" by blast
  then obtain s where s: "day_sessions d = [s]" "ses_open s \<le> nse_time (bar_start ?b)"
    "nse_time (bar_start ?b) + MINUTE \<le> ses_close s" "is_local_minute (ses_open s)" "is_local_minute (ses_close s)"
    "day_date d = ?date"
    by (auto simp: in_session_def)
  let ?opened = "combine_nse ?date (ses_open s)" and ?closes = "combine_nse ?date (ses_close s)"
  have ctx': "dec_time ctx = bar_end ?b" "dec_session_open ctx = Some ?opened" "dec_session_close ctx = Some ?closes"
    "dec_completed_bars ctx = drop (if is_corpus src then sim_session_start st else 0) (take (i + 1) ?bars)"
    using ctx d(1) s(1,6) by (auto simp: decision_context_def)
  obtain m where m: "m \<le> i" "\<And>k. k \<le> m \<Longrightarrow> bar_start (?bars ! (i - m + k)) = ?opened + int k * MINUTE"
    "\<And>k. k < i - m \<Longrightarrow> bar_start (?bars ! k) < ?opened"
    using completed_prefix [OF wt se i d(1) s(1,4)] by blast
  let ?seen = "take (i + 1) ?bars"
  have len: "length ?seen = i + 1" using i by simp
  have nth: "bar_start (?seen ! k) = ?opened + int (k - (i - m)) * MINUTE" if "i - m \<le> k" "k \<le> i" for k
    using m(2) [of "k - (i - m)"] that m(1) i by simp
  have od: "nse_date ?opened = ?date" using s(4) by (simp add: is_local_minute_def)
  have same: "nse_date (bar_start (?bars ! k)) = ?date" if "i - m \<le> k" "k \<le> i" for k
  proof -
    have "?opened \<le> bar_start (?bars ! k)" using nth [OF that] that i by simp
    moreover have "bar_start (?bars ! k) \<le> bar_start ?b"
      using well_timed_sorted [OF wt, of k i] that i by (cases "k = i") auto
    ultimately show ?thesis
      using nse_date_mono [of ?opened "bar_start (?bars ! k)"] nse_date_mono [of "bar_start (?bars ! k)" "bar_start ?b"] od
      by linarith
  qed
  have before: "nse_date (bar_start (?bars ! k)) \<noteq> ?date" if "k < i - m" for k
  proof
    assume "nse_date (bar_start (?bars ! k)) = ?date"
    moreover have "?bars ! k \<in> set ?bars" using that i by simp
    with se obtain d' where "day_of (src_days src) (nse_date (bar_start (?bars ! k))) = Some d'" "in_session ?bars d' (?bars ! k)" by blast
    ultimately have "ses_open s \<le> nse_time (bar_start (?bars ! k))" "nse_date (bar_start (?bars ! k)) = ?date"
      using d(1) s(1) by (auto simp: in_session_def)
    then have "?opened \<le> bar_start (?bars ! k)" using combine_le_iff by blast
    with m(3) [OF that] show False by simp
  qed
  have f1: "filter (\<lambda>b. nse_date (bar_start b) = ?date) ?seen = drop (i - m) ?seen"
  proof (rule filter_suffix)
    show "i - m \<le> length ?seen" using len by simp
    show "nse_date (bar_start (?seen ! k)) \<noteq> ?date" if "k < i - m" for k using before [OF that] that by simp
    show "nse_date (bar_start (?seen ! k)) = ?date" if "i - m \<le> k" "k < length ?seen" for k
      using same [of k] that len by simp
  qed
  have ss: "sim_session_start st \<le> i - m"
  proof (rule ccontr)
    let ?k = "sim_session_start st"
    assume "\<not> ?k \<le> i - m"
    moreover have "?k \<le> i" using inv by (simp add: session_started_def)
    ultimately have "nse_date (bar_start (?bars ! (?k - 1))) = ?date" "nse_date (bar_start (?bars ! ?k)) = ?date"
      by (auto intro: same)
    with inv \<open>\<not> ?k \<le> i - m\<close> show False by (auto simp: session_started_def)
  qed
  have f2: "filter (\<lambda>b. ?opened \<le> bar_start b) (drop n ?seen) = drop (i - m) ?seen" if "n \<le> i - m" for n
  proof -
    have "filter (\<lambda>b. ?opened \<le> bar_start b) (drop n ?seen) = drop (i - m - n) (drop n ?seen)"
    proof (rule filter_suffix)
      show "i - m - n \<le> length (drop n ?seen)" using len that by simp
      show "\<not> ?opened \<le> bar_start (drop n ?seen ! k)" if "k < i - m - n" for k
        using m(3) [of "n + k"] that len by (simp add: not_le)
      show "?opened \<le> bar_start (drop n ?seen ! k)" if "i - m - n \<le> k" "k < length (drop n ?seen)" for k
        using nth [of "n + k"] that len \<open>n \<le> i - m\<close> by simp
    qed
    moreover have "i - m - n + n = i - m" using that by simp
    ultimately show ?thesis by (simp only: drop_drop)
  qed
  let ?v = "\<lparr>view_opened_at = ?opened, view_closes_at = ?closes, view_decision_at = bar_end ?b, view_bars = drop (i - m) ?seen\<rparr>"
  have ends: "bar_end b \<le> bar_end ?b" if seen: "b \<in> set ?seen" for b
  proof -
    obtain k where "k < length ?seen" "?seen ! k = b" using seen unfolding in_set_conv_nth by blast
    then have "k \<le> i" "b = ?bars ! k" using len by auto
    then show ?thesis using well_timed_sorted [OF wt, of k i] i by (cases "k = i") (auto simp: bar_end_def)
  qed
  have "last (drop (i - m) ?seen) = ?b" using i m(1) by (simp add: last_conv_nth)
  moreover have "drop (i - m) ?seen \<noteq> []" using i m(1) by simp
  moreover have "bar_end ?b \<le> ?closes" "?opened < ?closes"
    using s(2,3) combine_nse_split [of "bar_start ?b"] by (simp_all add: bar_end_def combine_nse_def)
  moreover have "bar_start b = ?opened + int k * MINUTE \<and> bar_end b \<le> bar_end ?b"
    if "(k, b) \<in> set (enumerate 0 (drop (i - m) ?seen))" for k b
  proof -
    have k: "k < length (drop (i - m) ?seen)" "b = drop (i - m) ?seen ! k"
      using that by (auto simp: in_set_enumerate_eq)
    then have "b \<in> set ?seen" by (metis in_set_dropD nth_mem)
    moreover have "bar_start b = ?opened + int k * MINUTE" using k m i by simp
    ultimately show ?thesis using ends by simp
  qed
  ultimately have "check_view ?v = Inr ()"
    unfolding check_view_def by (auto simp: res_simps list_ex_iff not_less [symmetric])
  moreover have "\<not> list_ex (\<lambda>b. bar_end ?b < bar_end b) (dec_completed_bars ctx)"
    using ends unfolding ctx'(4) by (auto simp: list_ex_iff not_less dest: in_set_dropD)
  ultimately show ?thesis
    using f1 f2 [of 0] f2 [OF ss] unfolding from_decision_def ctx' by (auto simp: Let_def)
qed


text \<open>The context that iteration \<open>i\<close> of the loop offers to the strategy.\<close>

definition offered_context :: "source \<Rightarrow> config \<Rightarrow> strategy_spec \<Rightarrow> nat \<Rightarrow> 's sim \<Rightarrow> decision res" where
  "offered_context src cfg spec index st0 =
     (let bars = src_bars src; b = bars ! index; st1 = enter_session bars index b st0 in
      bindR (execute_pending src cfg b (is_forced cfg b st1) (force_exit cfg b st1)) (\<lambda>st2.
      bindR (mark_equity cfg b st2) (\<lambda>(st3, unrealized). decision_context src spec index b unrealized st3)))"

text \<open>
  C11: in every run on validated input, the context offered to the strategy at each bar is a valid completed
  session: it holds exactly the bars of the current date up to that bar, consecutive from the opening, and
  nothing later, so no strategy built on the features can fail on its evidence.
\<close>

theorem contexts_are_completed_sessions:
  assumes v: "validated src cfg spec" and i: "i < length (src_bars src)"
    and run: "sim_loop src cfg spec strat i s0 = Inr st" and ctx: "offered_context src cfg spec i st = Inr ctx"
  shows "\<exists>v. from_decision ctx = Inr v \<and> view_decision_at v = bar_end (src_bars src ! i)
    \<and> view_bars v = filter (\<lambda>b. nse_date (bar_start b) = nse_date (bar_start (src_bars src ! i))) (take (i + 1) (src_bars src))"
proof -
  let ?b = "src_bars src ! i"
  let ?st1 = "enter_session (src_bars src) i ?b st"
  from ctx obtain st2 st3 u where
    x: "execute_pending src cfg ?b (is_forced cfg ?b ?st1) (force_exit cfg ?b ?st1) = Inr st2"
    and m: "mark_equity cfg ?b st2 = Inr (st3, u)" and c: "decision_context src spec i ?b u st3 = Inr ctx"
    by (auto simp: offered_context_def Let_def res_simps)
  have "session_started src i st" using sessions.loop [OF _ run] i by simp
  then have "session_started src i st2" by (rule sessions.traded [OF i refl _ refl x])
  then have "session_started src i st3" by (rule sessions.marked [OF i refl _ m])
  then show ?thesis using v by (intro context_completed [OF _ i _ c]) (auto simp: validated_def)
qed

theorem contexts_are_completed_sessions_witness:
  "\<exists>ctx v. offered_context (DatasetSource sample_dataset) sample_config sample_spec 0 (sim_init sample_config ()) = Inr ctx
     \<and> from_decision ctx = Inr v \<and> length (view_bars v) = 1"
proof -
  let ?src = "DatasetSource sample_dataset"
  have b: "src_bars ?src = sample_bars" "src_bars ?src \<noteq> []"
    by (simp_all add: sample_dataset_def sample_dataset_with_def sample_bars_def)
  have "bindR (offered_context (DatasetSource (sample_dataset_with ins symb fp (sample_calendar ver origin cfp) prov))
      sample_config spec 0 (sim_init sample_config ())) (\<lambda>c. Inr ()) = Inr ()" for ins symb fp ver origin cfp prov spec
    by code_simp
  then obtain ctx where ctx: "offered_context ?src sample_config sample_spec 0 (sim_init sample_config ()) = Inr ctx"
    unfolding sample_dataset_def by (meson bindR_Inr_iff)
  have "sim_loop ?src sample_config sample_spec sample_strategy 0 () = Inr (sim_init sample_config ())"
    by (simp add: sim_loop_def)
  from contexts_are_completed_sessions [OF sample_validated _ this ctx] b ctx show ?thesis
    by (auto simp: sample_bars_def)
qed

end
