(* ===== verification/Research_Strategies.thy ===== *)
theory Research_Strategies
  imports Features
begin

text \<open>
  \<open>research/strategy.py\<close> (the four stateless baselines) and \<open>research/candidates.py\<close> (the frozen H1 and H2
  candidates).  A callback that keeps state returns the state together with its result, because the code
  updates its fields before it raises.
\<close>

section \<open>Baselines\<close>

datatype parameters =
    EmaParameters int int int
  | VwapParameters int
  | OpeningRangeParameters int int
  | RsiParameters int int rat rat

definition is_lookback :: "int \<Rightarrow> bool" where
  "is_lookback n \<longleftrightarrow> 1 \<le> n \<and> n \<le> 1440"

fun check_parameters :: "parameters \<Rightarrow> unit res" where
  "check_parameters (EmaParameters q fast slow) = checks
     [(\<not> (is_quantity q \<and> is_lookback fast \<and> is_lookback slow), ''FIELD_CONSTRAINT''),
      (fast \<ge> slow, ''FAST_MUST_BE_LESS_THAN_SLOW'')]"
| "check_parameters (VwapParameters q) = checks [(\<not> is_quantity q, ''FIELD_CONSTRAINT'')]"
| "check_parameters (OpeningRangeParameters q n) = checks [(\<not> (is_quantity q \<and> is_lookback n), ''FIELD_CONSTRAINT'')]"
| "check_parameters (RsiParameters q n oversold exit_threshold) = checks
     [(\<not> (is_quantity q \<and> is_lookback n \<and> is_money oversold \<and> is_money exit_threshold), ''FIELD_CONSTRAINT''),
      (\<not> (0 < oversold \<and> oversold < exit_threshold \<and> exit_threshold < 100), ''INVALID_RSI_THRESHOLDS'')]"

fun kind :: "parameters \<Rightarrow> string" where
  "kind (EmaParameters _ _ _) = ''EMA_CROSS''"
| "kind (VwapParameters _) = ''VWAP_CROSS''"
| "kind (OpeningRangeParameters _ _) = ''OPENING_RANGE''"
| "kind (RsiParameters _ _ _ _) = ''RSI_RECOVERY''"

fun quantity_of :: "parameters \<Rightarrow> int" where
  "quantity_of (EmaParameters q _ _) = q"
| "quantity_of (VwapParameters q) = q"
| "quantity_of (OpeningRangeParameters q _) = q"
| "quantity_of (RsiParameters q _ _ _) = q"

text \<open>\<open>parameters.model_dump()\<close>, in the order of the fields, as the texts they are printed as.\<close>

fun parameter_texts :: "parameters \<Rightarrow> (string \<times> string) list" where
  "parameter_texts (EmaParameters q fast slow) =
     [(''kind'', ''EMA_CROSS''), (''quantity'', int_str q), (''fast'', int_str fast), (''slow'', int_str slow)]"
| "parameter_texts (VwapParameters q) = [(''kind'', ''VWAP_CROSS''), (''quantity'', int_str q)]"
| "parameter_texts (OpeningRangeParameters q n) =
     [(''kind'', ''OPENING_RANGE''), (''quantity'', int_str q), (''opening_bars'', int_str n)]"
| "parameter_texts (RsiParameters q n oversold exit_threshold) =
     [(''kind'', ''RSI_RECOVERY''), (''quantity'', int_str q), (''lookback'', int_str n),
      (''oversold'', money_text oversold), (''exit_threshold'', money_text exit_threshold)]"

text \<open>\<open>tuple(Parameter(name=k, value=v) for k, v in sorted(values.items()))\<close>; the keys are distinct.\<close>

definition sorted_parameters :: "(string \<times> string) list \<Rightarrow> parameter list" where
  "sorted_parameters kvs = map (\<lambda>(k, v). \<lparr>par_name = k, par_value = v\<rparr>) (sort_key fst kvs)"

definition feature_version :: string where
  "feature_version = ''session-decimal40-v1''"

record baseline_spec =
  bs_fingerprint :: string
  bs_parameters :: parameters

definition baseline_values :: "baseline_spec \<Rightarrow> (string \<times> string) list" where
  "baseline_values s = parameter_texts (bs_parameters s) @ [(''feature_version'', feature_version)]"

definition engine_spec :: "baseline_spec \<Rightarrow> strategy_spec res" where
  "engine_spec s =
     (let e = \<lparr>spec_name = kind (bs_parameters s), spec_version = ''v1'',
               spec_implementation_fingerprint = bs_fingerprint s, spec_parameters = sorted_parameters (baseline_values s)\<rparr>
      in bindR (check_spec e) (\<lambda>_. Inr e))"

text \<open>The pair \<open>(enter, exit_position)\<close>.\<close>

definition cross :: "rat option \<Rightarrow> rat option \<Rightarrow> rat option \<Rightarrow> rat option \<Rightarrow> bool \<times> bool" where
  "cross pf ps cf cs = (case (pf, ps, cf, cs) of
       (Some pf, Some ps, Some cf, Some cs) \<Rightarrow> (pf \<le> ps \<and> cf > cs, pf \<ge> ps \<and> cf < cs)
     | _ \<Rightarrow> (False, False))"

definition last_close :: "view \<Rightarrow> rat" where
  "last_close v = bar_close (last (view_bars v))"

fun baseline_signal :: "parameters \<Rightarrow> view \<Rightarrow> view \<Rightarrow> (bool \<times> bool) res" where
  "baseline_signal (EmaParameters _ fast slow) before now =
     bindR (ema before fast) (\<lambda>pf. bindR (ema before slow) (\<lambda>ps.
     bindR (ema now fast) (\<lambda>cf. bindR (ema now slow) (\<lambda>cs. Inr (cross pf ps cf cs)))))"
| "baseline_signal (VwapParameters _) before now =
     Inr (case (vwap before, vwap now) of
         (Some b, Some n) \<Rightarrow> (last_close before \<le> b \<and> last_close now > n, last_close before \<ge> b \<and> last_close now < n)
       | _ \<Rightarrow> (False, False))"
| "baseline_signal (OpeningRangeParameters _ n) before now =
     bindR (opening_range now n) (\<lambda>bounds. Inr (case bounds of
         None \<Rightarrow> (False, False)
       | Some (low, high) \<Rightarrow>
           if n < int (length (view_bars now))
           then (last_close before \<le> high \<and> high < last_close now, last_close now < low) else (False, False)))"
| "baseline_signal (RsiParameters _ n oversold exit_threshold) before now =
     bindR (rsi before n) (\<lambda>b. bindR (rsi now n) (\<lambda>c. Inr (case (b, c) of
         (Some b, Some c) \<Rightarrow> (b \<le> oversold \<and> oversold < c, b < exit_threshold \<and> exit_threshold \<le> c)
       | _ \<Rightarrow> (False, False))))"

definition make_intent :: "side \<Rightarrow> int \<Rightarrow> string \<Rightarrow> intent option res" where
  "make_intent sd q reason =
     (let i = \<lparr>int_side = sd, int_quantity = q, int_reason = reason\<rparr> in bindR (check_intent i) (\<lambda>_. Inr (Some i)))"

definition in_entry_window :: "config \<Rightarrow> instant \<Rightarrow> bool" where
  "in_entry_window cfg t \<longleftrightarrow> cfg_entry_start cfg \<le> nse_time t \<and> nse_time t \<le> cfg_last_entry_time cfg"

definition baseline_on_decision :: "baseline_spec \<Rightarrow> config \<Rightarrow> decision \<Rightarrow> intent option res" where
  "baseline_on_decision s cfg ctx =
     bindR (engine_spec s) (\<lambda>e.
     if dec_parameters ctx \<noteq> spec_parameters e then Inl (ValueError ''STRATEGY_PARAMETER_BINDING_MISMATCH'')
     else
     bindR (from_decision ctx) (\<lambda>now.
     bindR (previous now) (\<lambda>p. case p of
         None \<Rightarrow> Inr None
       | Some before \<Rightarrow>
           bindR (baseline_signal (bs_parameters s) before now) (\<lambda>(enter, leave).
           if pos_quantity (dec_position ctx) \<noteq> 0 then
             (if leave then make_intent SELL (pos_quantity (dec_position ctx)) (kind (bs_parameters s)) else Inr None)
           else if enter \<and> in_entry_window cfg (dec_time ctx)
             then make_intent BUY (quantity_of (bs_parameters s)) (kind (bs_parameters s))
           else Inr None))))"

definition baseline_strategy :: "baseline_spec \<Rightarrow> config \<Rightarrow> unit strategy" where
  "baseline_strategy s cfg u ctx = bindR (baseline_on_decision s cfg ctx) (\<lambda>i. Inr (i, u))"

section \<open>Candidates\<close>

definition registration :: string where
  "registration = ''2fd4b740d3459e366a7d0a26483936d1cf81d700a6b270c334c65e5e951e78d2''"

text \<open>2026-06-30T18:30Z and 2026-07-31T18:30Z.\<close>

definition JULY_START :: instant where
  "JULY_START = 20634 * DAY_US + 66600000000"

definition JULY_END :: instant where
  "JULY_END = 20665 * DAY_US + 66600000000"

definition reject_sealed_window :: "instant \<Rightarrow> instant \<Rightarrow> unit res" where
  "reject_sealed_window start stop = checks
     [(start \<ge> stop, ''INVALID_CANDIDATE_WINDOW''), (start < JULY_END \<and> stop > JULY_START, ''JULY_TEST_SEALED'')]"

datatype hypothesis = H1 | H2

record candidate_spec =
  cand_hypothesis :: hypothesis
  cand_fingerprint :: string
  cand_comparator :: baseline_spec

definition check_candidate :: "candidate_spec \<Rightarrow> unit res" where
  "check_candidate s =
     bindR (check_parameters (bs_parameters (cand_comparator s))) (\<lambda>_. checks
     [(\<not> (is_hash (cand_fingerprint s) \<and> is_hash (bs_fingerprint (cand_comparator s))), ''FIELD_CONSTRAINT''),
      (bs_parameters (cand_comparator s) \<noteq>
         (if cand_hypothesis s = H1 then EmaParameters 1 9 21 else VwapParameters 1), ''FROZEN_COMPARATOR_MISMATCH'')])"

definition candidate_engine_spec :: "candidate_spec \<Rightarrow> strategy_spec res" where
  "candidate_engine_spec s =
     bindR (engine_spec (cand_comparator s)) (\<lambda>base.
     let values = map (\<lambda>p. (par_name p, par_value p)) (spec_parameters base)
           @ [(''hypothesis'', if cand_hypothesis s = H1 then ''H1'' else ''H2''), (''registration'', registration)]
           @ (if cand_hypothesis s = H1
              then [(''changes'', ''30''), (''minimum_signed_efficiency'', ''0.20'')]
              else [(''confirmation_bars'', ''1''), (''confirmation'', ''STRICTLY_ABOVE_PREFIX_VWAP'')]);
         e = \<lparr>spec_name = (if cand_hypothesis s = H1 then ''EMA_DIRECTIONAL_PERSISTENCE_G1''
                            else ''VWAP_ONE_BAR_CONFIRMATION_G1''),
              spec_version = ''G1'', spec_implementation_fingerprint = cand_fingerprint s,
              spec_parameters = sorted_parameters values\<rparr>
     in bindR (check_spec e) (\<lambda>_. Inr e))"

text \<open>\<open>PendingEntry\<close> is the pair of the session opening and the instant of the crossover.\<close>

record candidate_state =
  cs_pending :: "(instant \<times> instant) option"
  cs_last_session :: "instant option"
  cs_last_decision :: "instant option"

definition candidate_init :: candidate_state where
  "candidate_init = \<lparr>cs_pending = None, cs_last_session = None, cs_last_decision = None\<rparr>"

definition h1_decision :: "candidate_spec \<Rightarrow> config \<Rightarrow> decision \<Rightarrow> view \<Rightarrow> intent option res" where
  "h1_decision s cfg baseline_context now =
     bindR (baseline_on_decision (cand_comparator s) cfg baseline_context) (\<lambda>proposal.
     case proposal of
       Some i \<Rightarrow>
         if int_side i = BUY then
           bindR (signed_efficiency_30 now) (\<lambda>efficiency.
           Inr (case efficiency of Some e \<Rightarrow> if e \<ge> 1/5 then proposal else None | None \<Rightarrow> None))
         else Inr proposal
     | None \<Rightarrow> Inr None)"

definition consecutive :: "candidate_state \<Rightarrow> view \<Rightarrow> bool" where
  "consecutive st now \<longleftrightarrow> cs_last_session st = Some (view_opened_at now)
     \<and> (case cs_last_decision st of None \<Rightarrow> False | Some t \<Rightarrow> view_decision_at now = t + MINUTE)"

definition confirm :: "candidate_state \<Rightarrow> view \<Rightarrow> instant \<times> instant \<Rightarrow> intent option res" where
  "confirm st now p =
     (if consecutive st now \<and> fst p = view_opened_at now \<and> view_decision_at now = snd p + MINUTE
      then (case vwap now of
              Some value \<Rightarrow> if last_close now > value then make_intent BUY 1 ''H2_CONFIRMED'' else Inr None
            | None \<Rightarrow> Inr None)
      else Inr None)"

definition h2_decision ::
  "candidate_spec \<Rightarrow> config \<Rightarrow> candidate_state \<Rightarrow> decision \<Rightarrow> view \<Rightarrow> candidate_state \<times> intent option res" where
  "h2_decision s cfg st baseline_context now =
     (let same = (cs_last_session st = Some (view_opened_at now));
          broken = (same \<and> \<not> consecutive st now);
          st1 = (if \<not> same \<or> broken then st\<lparr>cs_pending := None\<rparr> else st)
                  \<lparr>cs_last_session := Some (view_opened_at now), cs_last_decision := Some (view_decision_at now)\<rparr>
      in if broken then (st1, Inr None)
         else (case baseline_on_decision (cand_comparator s) cfg baseline_context of
             Inl e \<Rightarrow> (st1, Inl e)
           | Inr proposal \<Rightarrow>
               if pos_quantity (dec_position baseline_context) \<noteq> 0 then (st1\<lparr>cs_pending := None\<rparr>, Inr proposal)
               else if view_closes_at now \<le> view_decision_at now \<or> \<not> in_entry_window cfg (view_decision_at now)
                 then (st1\<lparr>cs_pending := None\<rparr>, Inr None)
               else (case cs_pending st1 of
                   Some p \<Rightarrow> (st1\<lparr>cs_pending := None\<rparr>, confirm st now p)
                 | None \<Rightarrow>
                     (case proposal of
                        Some i \<Rightarrow>
                          if int_side i = BUY
                          then (st1\<lparr>cs_pending := Some (view_opened_at now, view_decision_at now)\<rparr>, Inr None)
                          else (st1\<lparr>cs_pending := None\<rparr>, Inr None)
                      | None \<Rightarrow> (st1\<lparr>cs_pending := None\<rparr>, Inr None)))))"

definition candidate_on_decision ::
  "candidate_spec \<Rightarrow> config \<Rightarrow> candidate_state \<Rightarrow> decision \<Rightarrow> candidate_state \<times> intent option res" where
  "candidate_on_decision s cfg st ctx =
     (case candidate_engine_spec s of
        Inl e \<Rightarrow> (st, Inl e)
      | Inr e \<Rightarrow>
          if dec_parameters ctx \<noteq> spec_parameters e
          then (st\<lparr>cs_pending := None\<rparr>, Inl (ValueError ''CANDIDATE_PARAMETER_BINDING_MISMATCH''))
          else (case bindR (from_decision ctx) (\<lambda>v. bindR (reject_sealed_window (view_opened_at v) (view_closes_at v)) (\<lambda>_. Inr v)) of
              Inl err \<Rightarrow> (st\<lparr>cs_pending := None\<rparr>, Inl err)
            | Inr now \<Rightarrow>
                (case engine_spec (cand_comparator s) of
                   Inl err \<Rightarrow> (st, Inl err)
                 | Inr base \<Rightarrow>
                     let baseline_context = ctx\<lparr>dec_parameters := spec_parameters base\<rparr>
                     in if cand_hypothesis s = H1 then (st, h1_decision s cfg baseline_context now)
                        else h2_decision s cfg st baseline_context now)))"

definition candidate_strategy :: "candidate_spec \<Rightarrow> config \<Rightarrow> candidate_state strategy" where
  "candidate_strategy s cfg st ctx =
     (case candidate_on_decision s cfg st ctx of (st', r) \<Rightarrow> bindR r (\<lambda>i. Inr (i, st')))"

end
