(* ===== verification/Candidate_Behaviour.thy ===== *)
theory Candidate_Behaviour
  imports Research_Strategies Samples
begin

text \<open>
  What the candidates of \<open>research/candidates.py\<close> do with the signals of their comparator: H1 filters its entries,
  H2 delays them until the next completed bar confirms the price.
\<close>

section \<open>The baselines\<close>

lemma make_intent_Inr: "make_intent sd q w = Inr r \<Longrightarrow> r = Some \<lparr>int_side = sd, int_quantity = q, int_reason = w\<rparr>"
  by (auto simp: make_intent_def Let_def res_simps)

text \<open>A baseline sells only what it holds and buys only when flat, inside the entry window.\<close>

lemma baseline_Some:
  assumes "baseline_on_decision s cfg ctx = Inr (Some i)"
  shows "int_reason i = kind (bs_parameters s)"
    and "pos_quantity (dec_position ctx) \<noteq> 0 \<Longrightarrow> int_side i = SELL \<and> int_quantity i = pos_quantity (dec_position ctx)"
    and "pos_quantity (dec_position ctx) = 0 \<Longrightarrow>
      int_side i = BUY \<and> int_quantity i = quantity_of (bs_parameters s) \<and> in_entry_window cfg (dec_time ctx)"
  using assms
  by (auto simp: baseline_on_decision_def res_simps dest!: make_intent_Inr split: if_splits option.splits prod.splits)

lemma from_decision_Inr:
  assumes "from_decision ctx = Inr v"
  shows "view_decision_at v = dec_time ctx" and "dec_session_open ctx = Some (view_opened_at v)"
    and "dec_session_close ctx = Some (view_closes_at v)" and "check_view v = Inr ()"
  using assms by (auto simp: from_decision_def res_simps Let_def split: option.splits if_splits)

section \<open>The second candidate\<close>

text \<open>The state after a sequence of callbacks of a fresh instance.\<close>

definition after :: "candidate_spec \<Rightarrow> config \<Rightarrow> decision list \<Rightarrow> candidate_state" where
  "after s cfg ctxs = foldl (\<lambda>st c. fst (candidate_on_decision s cfg st c)) candidate_init ctxs"

lemma after_simps [simp]:
  "after s cfg [] = candidate_init"
  "after s cfg (cs @ [c]) = fst (candidate_on_decision s cfg (after s cfg cs) c)"
  by (simp_all add: after_def)

text \<open>The context with which a candidate asks its comparator.\<close>

definition comparator_proposes :: "candidate_spec \<Rightarrow> config \<Rightarrow> decision \<Rightarrow> side \<Rightarrow> bool" where
  "comparator_proposes s cfg ctx sd \<longleftrightarrow> (\<exists>base i. engine_spec (cand_comparator s) = Inr base
     \<and> baseline_on_decision (cand_comparator s) cfg (ctx\<lparr>dec_parameters := spec_parameters base\<rparr>) = Inr (Some i)
     \<and> int_side i = sd)"

text \<open>A pending entry is never newer than the last decision.\<close>

definition pending_seen :: "candidate_state \<Rightarrow> bool" where
  "pending_seen st \<longleftrightarrow> pred_option (\<lambda>p. pred_option (\<lambda>t. snd p \<le> t) (cs_last_decision st) \<and> cs_last_decision st \<noteq> None) (cs_pending st)"

lemma h2_decision_cases:
  assumes "h2_decision s cfg st ctx now = (st', r)"
  shows "cs_last_decision st' = Some (view_decision_at now)"
    and "cs_last_session st' = Some (view_opened_at now)"
    and "cs_pending st' = Some p \<Longrightarrow>
      (r = Inr None \<and> p = (view_opened_at now, view_decision_at now)
        \<and> (\<exists>i. baseline_on_decision (cand_comparator s) cfg ctx = Inr (Some i) \<and> int_side i = BUY))
      \<or> (cs_pending st = Some p \<and> consecutive st now)"
    and "r = Inr (Some i) \<Longrightarrow> int_side i = BUY \<Longrightarrow>
      \<exists>p. cs_pending st = Some p \<and> consecutive st now \<and> fst p = view_opened_at now
        \<and> view_decision_at now = snd p + MINUTE \<and> in_entry_window cfg (view_decision_at now)
        \<and> pos_quantity (dec_position ctx) = 0 \<and> (\<exists>value. vwap now = Some value \<and> value < last_close now)"
  using assms
  by (auto simp: h2_decision_def confirm_def Let_def dest!: make_intent_Inr dest: baseline_Some(2)
      split: if_splits option.splits sum.splits prod.splits)


lemma candidate_cases:
  assumes h: "cand_hypothesis s = H2" and e: "candidate_engine_spec s = Inr e"
    and run: "candidate_on_decision s cfg st ctx = (st', r)"
  obtains (refused) err where "cs_pending st' = None" "r = Inl err"
  | (decided) now base where "from_decision ctx = Inr now" "engine_spec (cand_comparator s) = Inr base"
      "h2_decision s cfg st (ctx\<lparr>dec_parameters := spec_parameters base\<rparr>) now = (st', r)"
proof -
  have "\<exists>base. engine_spec (cand_comparator s) = Inr base" using e by (auto simp: candidate_engine_spec_def res_simps)
  then obtain base where base: "engine_spec (cand_comparator s) = Inr base" by blast
  show ?thesis
  proof (cases "dec_parameters ctx \<noteq> spec_parameters e")
    case True
    with run e show ?thesis by (intro refused) (auto simp: candidate_on_decision_def)
  next
    case False
    show ?thesis
    proof (cases "bindR (from_decision ctx) (\<lambda>v. bindR (reject_sealed_window (view_opened_at v) (view_closes_at v)) (\<lambda>_. Inr v))")
      case (Inl err)
      with run e False show ?thesis by (intro refused) (auto simp: candidate_on_decision_def)
    next
      case (Inr now)
      moreover from this have "from_decision ctx = Inr now" by (auto simp: res_simps)
      ultimately show ?thesis using run e False base h
        by (intro decided) (auto simp: candidate_on_decision_def Let_def)
    qed
  qed
qed

lemma after_pending_seen:
  assumes "cand_hypothesis s = H2" and "candidate_engine_spec s = Inr e"
  shows "pending_seen (after s cfg cs)"
proof (induction cs rule: rev_induct)
  case (snoc c cs)
  obtain st' r where run: "candidate_on_decision s cfg (after s cfg cs) c = (st', r)" by fastforce
  from assms run show ?case
  proof (cases rule: candidate_cases)
    case (decided now base)
    note h = h2_decision_cases [OF decided(3)]
    have "snd p \<le> view_decision_at now" if "cs_pending st' = Some p" for p
      using h(3) [OF that] snoc by (auto simp: pending_seen_def consecutive_def split: option.splits)
    with run h(1) show ?thesis by (cases "cs_pending st'") (simp_all add: pending_seen_def)
  qed (use run in \<open>simp add: pending_seen_def\<close>)
qed (simp add: pending_seen_def candidate_init_def)

text \<open>
  C12: the H2 candidate enters only on a confirmed crossover.  Whatever sequence of callbacks an instance has
  seen, a buy it returns follows directly on a callback exactly one minute earlier in the same session, at which
  it returned nothing and at which its comparator proposed to buy; and the close is above the session's VWAP.
\<close>

theorem h2_enters_on_confirmation:
  assumes h: "cand_hypothesis s = H2"
    and run: "candidate_on_decision s cfg (after s cfg cs) ctx = (st', Inr (Some i))" and buy: "int_side i = BUY"
  shows "\<exists>ds d. cs = ds @ [d] \<and> snd (candidate_on_decision s cfg (after s cfg ds) d) = Inr None
       \<and> comparator_proposes s cfg d BUY \<and> dec_session_open d = dec_session_open ctx
       \<and> dec_time ctx = dec_time d + MINUTE \<and> in_entry_window cfg (dec_time ctx)
       \<and> pos_quantity (dec_position ctx) = 0
       \<and> (\<exists>now value. from_decision ctx = Inr now \<and> vwap now = Some value \<and> value < last_close now)"
proof -
  obtain e where e: "candidate_engine_spec s = Inr e"
    using run by (cases "candidate_engine_spec s") (simp_all add: candidate_on_decision_def)
  from h e run have "\<exists>now (base :: strategy_spec). from_decision ctx = Inr now
      \<and> h2_decision s cfg (after s cfg cs) (ctx\<lparr>dec_parameters := spec_parameters base\<rparr>) now = (st', Inr (Some i))"
  proof (cases rule: candidate_cases)
    case (decided now base)
    then show ?thesis by blast
  qed simp
  then obtain now and base :: strategy_spec
    where now: "from_decision ctx = Inr now"
    and d2: "h2_decision s cfg (after s cfg cs) (ctx\<lparr>dec_parameters := spec_parameters base\<rparr>) now = (st', Inr (Some i))"
    by blast
  from h2_decision_cases(4) [OF d2 refl buy] obtain p w where p: "cs_pending (after s cfg cs) = Some p"
    and c: "consecutive (after s cfg cs) now" and now2: "fst p = view_opened_at now" "view_decision_at now = snd p + MINUTE"
      "in_entry_window cfg (view_decision_at now)" "pos_quantity (dec_position ctx) = 0" "vwap now = Some w" "w < last_close now"
    by auto
  have "cs \<noteq> []" using p by (auto simp: candidate_init_def)
  then obtain ds d where cs: "cs = ds @ [d]" by (cases cs rule: rev_cases) auto
  obtain st1 r where prev: "candidate_on_decision s cfg (after s cfg ds) d = (st1, r)" by fastforce
  then have st1: "after s cfg cs = st1" by (simp add: cs)
  from h e prev show ?thesis
  proof (cases rule: candidate_cases)
    case (refused err)
    with p st1 show ?thesis by simp
  next
    case (decided before base')
    note hb = h2_decision_cases [OF decided(3)]
    have final: "view_decision_at before = snd p" using c hb(1) now2(2) by (simp add: consecutive_def st1)
    have "\<not> (cs_pending (after s cfg ds) = Some p \<and> consecutive (after s cfg ds) before)"
      using after_pending_seen [OF h e, of cfg ds] final by (auto simp: pending_seen_def consecutive_def split: option.splits)
    then have r: "r = Inr None" "p = (view_opened_at before, view_decision_at before)"
      "comparator_proposes s cfg d BUY"
      using hb(3) [of p] p decided(2) by (auto simp: st1 comparator_proposes_def)
    with cs prev now now2 from_decision_Inr [OF now] from_decision_Inr [OF decided(1)] show ?thesis by auto
  qed
qed

definition sample_candidate :: "hypothesis \<Rightarrow> candidate_spec" where
  "sample_candidate h = \<lparr>cand_hypothesis = h, cand_fingerprint = replicate 64 CHR ''c'',
     cand_comparator = \<lparr>bs_fingerprint = replicate 64 CHR ''d'',
       bs_parameters = (if h = H1 then EmaParameters 1 9 21 else VwapParameters 1)\<rparr>\<rparr>"

definition sample_window :: config where
  "sample_window = sample_config\<lparr>cfg_last_entry_time := clock_at 9 20, cfg_forced_exit_time := clock_at 9 25\<rparr>"

text \<open>The specifications are evaluated once; the parameters of a context are opaque to everything else.\<close>

definition sample_engine :: "hypothesis \<Rightarrow> strategy_spec" where
  "sample_engine h = (case candidate_engine_spec (sample_candidate h) of Inr e \<Rightarrow> e)"

definition sample_base :: "hypothesis \<Rightarrow> strategy_spec" where
  "sample_base h = (case engine_spec (cand_comparator (sample_candidate h)) of Inr e \<Rightarrow> e)"

definition sample_context :: "parameter list \<Rightarrow> bar list \<Rightarrow> decision" where
  "sample_context ps bars = \<lparr>dec_instrument_id = [], dec_time = bar_end (last bars), dec_completed_bars = bars,
     dec_position = \<lparr>pos_quantity = 0, pos_entry_price = 0, pos_entry_costs = 0, pos_unrealized_gross = 0\<rparr>,
     dec_cash = 1000, dec_realized_net = 0, dec_parameters = ps,
     dec_session_open = Some (combine_nse 19737 (clock_at 9 15)),
     dec_session_close = Some (combine_nse 19737 (clock_at 9 30))\<rparr>"

definition sample_completed :: "bar list \<Rightarrow> view" where
  "sample_completed bars = \<lparr>view_opened_at = combine_nse 19737 (clock_at 9 15),
     view_closes_at = combine_nse 19737 (clock_at 9 30), view_decision_at = bar_end (last bars), view_bars = bars\<rparr>"

definition rising_bars :: "bar list" where
  "rising_bars = [sample_bar 0 100 99, sample_bar 1 100 103, sample_bar 2 102 104]"

definition T1 :: instant where
  "T1 = bar_end (rising_bars ! 1)"

definition T2 :: instant where
  "T2 = bar_end (rising_bars ! 2)"

lemma sample_engine: "candidate_engine_spec (sample_candidate h) = Inr (sample_engine h)"
proof -
  have "bindR (candidate_engine_spec (sample_candidate H1)) (\<lambda>_. Inr ()) = Inr ()"
    "bindR (candidate_engine_spec (sample_candidate H2)) (\<lambda>_. Inr ()) = Inr ()" by code_simp+
  then show ?thesis by (cases h) (auto simp: sample_engine_def bindR_Inr_iff)
qed

lemma sample_base: "engine_spec (cand_comparator (sample_candidate h)) = Inr (sample_base h)"
  using sample_engine [of h] by (auto simp: candidate_engine_spec_def bindR_Inr_iff sample_base_def)

lemma sample_views:
  "from_decision (sample_context ps (take 1 rising_bars)) = Inr (sample_completed (take 1 rising_bars))"
  "from_decision (sample_context ps (take 2 rising_bars)) = Inr (sample_completed (take 2 rising_bars))"
  "from_decision (sample_context ps rising_bars) = Inr (sample_completed rising_bars)"
  "previous (sample_completed (take 1 rising_bars)) = Inr None"
  "previous (sample_completed (take 2 rising_bars)) = Inr (Some (sample_completed (take 1 rising_bars)))"
  "previous (sample_completed rising_bars) = Inr (Some (sample_completed (take 2 rising_bars)))"
  by code_simp+

lemma sample_signals:
  "baseline_signal (VwapParameters 1) (sample_completed (take 1 rising_bars)) (sample_completed (take 2 rising_bars)) = Inr (True, False)"
  "baseline_signal (VwapParameters 1) (sample_completed (take 2 rising_bars)) (sample_completed rising_bars) = Inr (False, False)"
  "bindR (Inr (vwap (sample_completed rising_bars))) (\<lambda>v. Inr (case v of Some x \<Rightarrow> x < last_close (sample_completed rising_bars) | None \<Rightarrow> False)) = Inr True"
  "in_entry_window sample_window T1" "in_entry_window sample_window T2"
  "make_intent BUY 1 ''VWAP_CROSS'' = Inr (Some \<lparr>int_side = BUY, int_quantity = 1, int_reason = ''VWAP_CROSS''\<rparr>)"
  "make_intent BUY 1 ''H2_CONFIRMED'' = Inr (Some \<lparr>int_side = BUY, int_quantity = 1, int_reason = ''H2_CONFIRMED''\<rparr>)"
  by code_simp+

definition first_ctx :: decision where
  "first_ctx = sample_context (spec_parameters (sample_engine H2)) (take 2 rising_bars)"

definition second_ctx :: decision where
  "second_ctx = sample_context (spec_parameters (sample_engine H2)) rising_bars"

lemma sample_context_simps [simp]:
  "dec_parameters (sample_context ps bars) = ps" "pos_quantity (dec_position (sample_context ps bars)) = 0"
  "dec_time (sample_context ps bars) = bar_end (last bars)"
  "(sample_context ps bars)\<lparr>dec_parameters := qs\<rparr> = sample_context qs bars"
  by (simp_all add: sample_context_def)

lemma sample_candidate_simps [simp]:
  "cand_hypothesis (sample_candidate h) = h" "bs_parameters (cand_comparator (sample_candidate H2)) = VwapParameters 1"
  "bs_parameters (cand_comparator (sample_candidate H1)) = EmaParameters 1 9 21"
  by (simp_all add: sample_candidate_def)

lemma sample_completed_simps [simp]:
  "view_opened_at (sample_completed bars) = combine_nse 19737 (clock_at 9 15)"
  "view_closes_at (sample_completed bars) = combine_nse 19737 (clock_at 9 30)"
  "view_decision_at (sample_completed bars) = bar_end (last bars)"
  by (simp_all add: sample_completed_def)

lemma sample_sealed: "reject_sealed_window (combine_nse 19737 (clock_at 9 15)) (combine_nse 19737 (clock_at 9 30)) = Inr ()"
  by code_simp

lemma rising_last: "bar_end (last (take 2 rising_bars)) = T1" "bar_end (last rising_bars) = T2"
  "T2 = T1 + MINUTE" "T1 < combine_nse 19737 (clock_at 9 30)" "T2 < combine_nse 19737 (clock_at 9 30)"
  by code_simp+

lemma sample_proposals:
  "baseline_on_decision (cand_comparator (sample_candidate H2)) sample_window
     (sample_context (spec_parameters (sample_base H2)) (take 2 rising_bars))
   = Inr (Some \<lparr>int_side = BUY, int_quantity = 1, int_reason = ''VWAP_CROSS''\<rparr>)"
  "baseline_on_decision (cand_comparator (sample_candidate H2)) sample_window
     (sample_context (spec_parameters (sample_base H2)) rising_bars) = Inr None"
  "baseline_on_decision (cand_comparator (sample_candidate H1)) sample_window
     (sample_context (spec_parameters (sample_base H1)) (take 1 rising_bars)) = Inr None"
  by (simp_all only: baseline_on_decision_def sample_base bindR_simps sample_context_simps sample_views sample_candidate_simps
      option.case sample_signals prod.case rising_last kind.simps quantity_of.simps if_False if_True simp_thms)

lemma sample_first:
  "candidate_on_decision (sample_candidate H2) sample_window candidate_init first_ctx
   = (\<lparr>cs_pending = Some (combine_nse 19737 (clock_at 9 15), T1),
       cs_last_session = Some (combine_nse 19737 (clock_at 9 15)), cs_last_decision = Some T1\<rparr>, Inr None)"
  using rising_last(4) by (simp add: candidate_on_decision_def sample_engine first_ctx_def sample_views sample_sealed sample_base Let_def
      h2_decision_def candidate_init_def consecutive_def sample_proposals rising_last(1,2) sample_signals)

lemma sample_confirmation:
  "snd (candidate_on_decision (sample_candidate H2) sample_window (after (sample_candidate H2) sample_window [first_ctx]) second_ctx)
   = Inr (Some \<lparr>int_side = BUY, int_quantity = 1, int_reason = ''H2_CONFIRMED''\<rparr>)"
proof -
  have st: "after (sample_candidate H2) sample_window [first_ctx]
      = \<lparr>cs_pending = Some (combine_nse 19737 (clock_at 9 15), T1),
         cs_last_session = Some (combine_nse 19737 (clock_at 9 15)), cs_last_decision = Some T1\<rparr>"
    by (simp add: after_def sample_first)
  obtain x where x: "vwap (sample_completed rising_bars) = Some x" "x < last_close (sample_completed rising_bars)"
    using sample_signals(3) by (auto split: option.splits)
  have "T2 - T1 = MINUTE" using rising_last(3) by simp
  with x rising_last(5) show ?thesis
    unfolding st
    by (simp add: candidate_on_decision_def sample_engine second_ctx_def sample_views sample_sealed sample_base Let_def
        h2_decision_def consecutive_def sample_proposals rising_last(1,2) sample_signals confirm_def)
qed

theorem h2_enters_on_confirmation_witness:
  "snd (candidate_on_decision (sample_candidate H2) sample_window (after (sample_candidate H2) sample_window [first_ctx]) second_ctx)
   = Inr (Some \<lparr>int_side = BUY, int_quantity = 1, int_reason = ''H2_CONFIRMED''\<rparr>)
   \<and> comparator_proposes (sample_candidate H2) sample_window first_ctx BUY"
proof -
  let ?run = "candidate_on_decision (sample_candidate H2) sample_window
     (after (sample_candidate H2) sample_window [first_ctx]) second_ctx"
  have run: "?run = (fst ?run, Inr (Some \<lparr>int_side = BUY, int_quantity = 1, int_reason = ''H2_CONFIRMED''\<rparr>))"
    using sample_confirmation by (metis prod.collapse)
  from h2_enters_on_confirmation [OF _ run] sample_confirmation show ?thesis by auto
qed

lemma h1_decision_Inr:
  assumes "h1_decision s cfg ctx now = Inr r"
  shows "\<exists>proposal. baseline_on_decision (cand_comparator s) cfg ctx = Inr proposal
     \<and> (r = proposal \<or> r = None \<and> (\<exists>i. proposal = Some i \<and> int_side i = BUY))
     \<and> (\<forall>i. r = Some i \<longrightarrow> int_side i = BUY \<longrightarrow> (\<exists>x. signed_efficiency_30 now = Inr (Some x) \<and> 1/5 \<le> x))"
proof -
  obtain proposal where p: "baseline_on_decision (cand_comparator s) cfg ctx = Inr proposal"
    using assms by (auto simp: h1_decision_def res_simps)
  show ?thesis
  proof (cases proposal)
    case None
    with p assms show ?thesis by (simp add: h1_decision_def)
  next
    case (Some i)
    with p assms show ?thesis
      by (cases "int_side i = BUY") (auto simp: h1_decision_def res_simps split: option.splits if_splits)
  qed
qed

text \<open>
  The H1 candidate only filters entries.  Without an error it returns exactly what its comparator returns,
  except that a buy is dropped when the signed efficiency is missing or below 0.20; sales are never delayed.
\<close>

theorem h1_filters_entries:
  assumes "cand_hypothesis s = H1" and "candidate_on_decision s cfg st ctx = (st', Inr r)"
  shows "st' = st \<and> (\<exists>base proposal now. engine_spec (cand_comparator s) = Inr base \<and> from_decision ctx = Inr now
     \<and> baseline_on_decision (cand_comparator s) cfg (ctx\<lparr>dec_parameters := spec_parameters base\<rparr>) = Inr proposal
     \<and> (r = proposal \<or> r = None \<and> (\<exists>i. proposal = Some i \<and> int_side i = BUY))
     \<and> (\<forall>i. r = Some i \<longrightarrow> int_side i = BUY \<longrightarrow> (\<exists>x. signed_efficiency_30 now = Inr (Some x) \<and> 1/5 \<le> x)))"
proof -
  from assms obtain base now where b: "st' = st" "engine_spec (cand_comparator s) = Inr base" "from_decision ctx = Inr now"
    and "h1_decision s cfg (ctx\<lparr>dec_parameters := spec_parameters base\<rparr>) now = Inr r"
    by (auto simp: candidate_on_decision_def Let_def res_simps split: sum.splits if_splits)
  from h1_decision_Inr [OF this(4)] b show ?thesis by metis
qed


definition early_ctx :: decision where
  "early_ctx = sample_context (spec_parameters (sample_engine H1)) (take 1 rising_bars)"

lemma sample_first_call:
  "candidate_on_decision (sample_candidate H1) sample_window candidate_init early_ctx = (candidate_init, Inr None)"
  by (simp add: candidate_on_decision_def sample_engine early_ctx_def sample_views sample_sealed sample_base Let_def
      h1_decision_def sample_proposals del: One_nat_def)

theorem h1_filters_entries_witness:
  "candidate_on_decision (sample_candidate H1) sample_window candidate_init early_ctx = (candidate_init, Inr None)
   \<and> (\<exists>now. from_decision early_ctx = Inr now)"
  using h1_filters_entries [OF _ sample_first_call] sample_first_call by auto

end
