(* ===== verification/Five_Minute.thy ===== *)
theory Five_Minute
  imports Corpus Features
begin

text \<open>
  \<open>phase14/engine.py\<close>: the isolated five-minute engine.  Its \<open>Decimal\<close> arithmetic rounds to 40 digits; the cost
  quotes are exact.  The local variables of \<open>simulate\<close> are the record \<open>five\<close>, one pass of its inner loop is
  \<open>five_step\<close>.  Hashes of JSON dumps in the result are left out, and the Wilson bound of \<open>qualify\<close>, a
  computation with binary floating point numbers, is a parameter.
\<close>

section \<open>Series\<close>

abbreviation FIVE :: int where "FIVE \<equiv> 300000000"

definition candle_end :: "bar \<Rightarrow> instant" where
  "candle_end b = bar_start b + FIVE"

text \<open>\<open>start.minute % 5\<close>\<close>

definition off_five :: "instant \<Rightarrow> bool" where
  "off_five t \<longleftrightarrow> (t div MINUTE) mod 60 mod 5 \<noteq> 0"

definition check_candle :: "bar \<Rightarrow> unit res" where
  "check_candle b = bindR (check_bar b) (\<lambda>_. checks [(off_five (bar_start b), ''FIVE_MINUTE_ALIGNMENT'')])"

record dated_session =
  dse_start :: instant
  dse_end :: instant

definition check_dated_session :: "dated_session \<Rightarrow> unit res" where
  "check_dated_session s = checks
     [(dse_start s \<ge> dse_end s \<or> (dse_end s - dse_start s) mod FIVE \<noteq> 0 \<or> has_seconds (dse_start s)
        \<or> off_five (dse_start s) \<or> nse_date (dse_start s) \<noteq> nse_date (dse_end s), ''INVALID_DATED_SESSION'')]"

record series =
  sr_symbol :: string
  sr_instrument_token :: string
  sr_source :: string
  sr_synthetic :: bool
  sr_source_hash :: string
  sr_master_hash :: string
  sr_calendar_hash :: string
  sr_as_of :: instant
  sr_from :: instant
  sr_to :: instant
  sr_corporate_actions_reviewed :: bool
  sr_sessions :: "dated_session list"
  sr_non_trading_days :: "date list"
  sr_bars :: "bar list"

definition is_token :: "string \<Rightarrow> bool" where
  "is_token s \<longleftrightarrow> 1 \<le> length s \<and> length s \<le> 10 \<and> list_all is_digit s \<and> hd s \<noteq> CHR ''0''"

definition check_session_order :: "instant \<Rightarrow> dated_session \<Rightarrow> instant \<Rightarrow> instant res" where
  "check_session_order stop s prior_end =
     (if dse_start s < prior_end \<or> stop < dse_end s then Inl (ValueError ''SESSION_ORDER_OR_RANGE'') else Inr (dse_end s))"

definition active_dates :: "series \<Rightarrow> date set" where
  "active_dates s = set (map (\<lambda>x. nse_date (dse_start x)) (sr_sessions s))"

definition check_series :: "series \<Rightarrow> unit res" where
  "check_series s =
     bindR (mapR check_dated_session (sr_sessions s)) (\<lambda>_.
     bindR (mapR check_candle (sr_bars s)) (\<lambda>_.
     bindR (checks
       [(\<not> (sr_symbol s \<noteq> [] \<and> is_token (sr_instrument_token s) \<and> sr_source s \<noteq> [] \<and> is_hash (sr_source_hash s)
            \<and> is_hash (sr_master_hash s) \<and> is_hash (sr_calendar_hash s)), ''FIELD_CONSTRAINT''),
        (\<not> (sr_from s < sr_to s \<and> sr_to s \<le> sr_as_of s), ''FUTURE_OR_INVALID_WINDOW''),
        (366 * DAY_US < sr_to s - sr_from s, ''MAXIMUM_TWELVE_MONTHS'')]) (\<lambda>_.
     bindR (foldR (check_session_order (sr_to s)) (sr_sessions s) (sr_from s)) (\<lambda>_.
     checks
       [(active_dates s \<inter> set (sr_non_trading_days s) \<noteq> {}
           \<or> active_dates s \<union> set (sr_non_trading_days s) \<noteq> set (window_dates (sr_from s) (sr_to s)),
         ''CALENDAR_UNKNOWN_OR_CONFLICT''),
        (\<not> strictly_increasing (map bar_start (sr_bars s)), ''DUPLICATE_OR_OUT_OF_ORDER''),
        (list_ex (\<lambda>b. bar_start b < sr_from s \<or> sr_to s < candle_end b) (sr_bars s), ''BAR_OUTSIDE_WINDOW'')]))))"

text \<open>\<open>while at < session.end: ...; at += FIVE\<close>\<close>

function slots_from :: "instant \<Rightarrow> instant \<Rightarrow> instant list" where
  "slots_from s e = (if s < e then s # slots_from (s + FIVE) e else [])"
  by pat_completeness auto
termination
  by (relation "measure (\<lambda>(s, e). nat (e - s))") auto

declare slots_from.simps [simp del]

definition session_slots :: "dated_session \<Rightarrow> instant list" where
  "session_slots s = slots_from (dse_start s) (dse_end s)"

definition quality :: "series \<Rightarrow> instant list \<times> instant list" where
  "quality s =
     (let expected = set (concat (map session_slots (sr_sessions s))); actual = set (map bar_start (sr_bars s))
      in (sorted_list_of_set (expected - actual), sorted_list_of_set (actual - expected)))"

section \<open>Rules\<close>

datatype indicator_kind = CLOSE | EMA | RSI | CONSTANT

record operand =
  opd_indicator :: indicator_kind
  opd_period :: int
  opd_value :: rat
  opd_lag :: int

datatype direction = ABOVE | BELOW

record cross_rule =
  cr_left :: operand
  cr_right :: operand
  cr_direction :: direction

datatype position_side = LONG | SHORT

record five_strategy =
  fs_name :: string
  fs_version :: string
  fs_confirmed :: bool
  fs_conditions :: "cross_rule list"
  fs_direction :: position_side
  fs_stop :: rat
  fs_target :: rat

definition check_operand :: "operand \<Rightarrow> unit res" where
  "check_operand o1 = checks
     [(\<not> (1 \<le> opd_period o1 \<and> opd_period o1 \<le> 1440 \<and> is_money (opd_value o1) \<and> 0 \<le> opd_lag o1 \<and> opd_lag o1 \<le> 1440),
       ''FIELD_CONSTRAINT'')]"

definition default_conditions :: "cross_rule list" where
  "default_conditions =
     [\<lparr>cr_left = \<lparr>opd_indicator = RSI, opd_period = 14, opd_value = 0, opd_lag = 0\<rparr>,
       cr_right = \<lparr>opd_indicator = CONSTANT, opd_period = 1, opd_value = 30, opd_lag = 0\<rparr>, cr_direction = ABOVE\<rparr>,
      \<lparr>cr_left = \<lparr>opd_indicator = CLOSE, opd_period = 1, opd_value = 0, opd_lag = 0\<rparr>,
       cr_right = \<lparr>opd_indicator = EMA, opd_period = 21, opd_value = 0, opd_lag = 0\<rparr>, cr_direction = ABOVE\<rparr>]"

text \<open>\<open>confirmed_given\<close>: whether the constructor was given \<open>confirmed\<close> explicitly (\<open>model_fields_set\<close>).\<close>

definition check_five_strategy :: "bool \<Rightarrow> five_strategy \<Rightarrow> unit res" where
  "check_five_strategy confirmed_given s =
     bindR (mapR (\<lambda>c. bindR (check_operand (cr_left c)) (\<lambda>_. check_operand (cr_right c))) (fs_conditions s)) (\<lambda>_. checks
     [(\<not> (is_money (fs_stop s) \<and> is_money (fs_target s)), ''FIELD_CONSTRAINT''),
      (fs_conditions s = [] \<or> \<not> (0 < fs_stop s \<and> fs_stop s < 1) \<or> \<not> (0 < fs_target s \<and> fs_target s < 1), ''INVALID_STRATEGY''),
      (fs_conditions s \<noteq> default_conditions \<and> \<not> confirmed_given, ''ADDITIONAL_RULES_REQUIRE_EXPLICIT_CONFIRMATION'')])"

definition ema_of :: "int \<Rightarrow> rat list \<Rightarrow> rat" where
  "ema_of n xs = foldl (\<lambda>r x. prec40 (r + prec40 (prec40 (2 / of_int (n + 1)) * prec40 (x - r))))
     (prec40 (sum40 (take (nat n) xs) / of_int n)) (drop (nat n) xs)"

definition value_changes :: "rat list \<Rightarrow> rat list" where
  "value_changes xs = map (\<lambda>(a, b). prec40 (b - a)) (adjacent xs)"

definition indicator :: "rat list \<Rightarrow> operand \<Rightarrow> rat option" where
  "indicator values0 o1 =
     (let xs = take (length values0 - nat (opd_lag o1)) values0; n = opd_period o1 in
      if xs = [] then None
      else case opd_indicator o1 of
          CONSTANT \<Rightarrow> Some (opd_value o1)
        | CLOSE \<Rightarrow> Some (last xs)
        | EMA \<Rightarrow> if int (length xs) < n then None else Some (prec40 (ema_of n xs))
        | RSI \<Rightarrow> if int (length xs) \<le> n then None
                 else Some (rsi_value (average_of n (\<lambda>d. max d 0) (value_changes xs))
                                      (average_of n (\<lambda>d. max (- d) 0) (value_changes xs))))"

definition rule_fires :: "rat list \<Rightarrow> cross_rule \<Rightarrow> bool" where
  "rule_fires closes r =
     (case (indicator (butlast closes) (cr_left r), indicator (butlast closes) (cr_right r),
            indicator closes (cr_left r), indicator closes (cr_right r)) of
        (Some lp, Some rp, Some lc, Some rc) \<Rightarrow>
          (if cr_direction r = ABOVE then lp \<le> rp \<and> lc > rc else lp \<ge> rp \<and> lc < rc)
      | _ \<Rightarrow> False)"

definition signal :: "rat list \<Rightarrow> five_strategy \<Rightarrow> bool res" where
  "signal closes s =
     (if \<not> fs_confirmed s \<or> fs_direction s \<noteq> LONG then Inl (ValueError ''UNCONFIRMED_OR_UNSUPPORTED_STRATEGY'')
      else Inr (list_all (rule_fires closes) (fs_conditions s)))"

section \<open>Simulation\<close>

record settings =
  set_capital :: rat
  set_order_ceiling :: rat
  set_price_buffer :: rat
  set_quantity :: int
  set_slippage_bps :: rat
  set_participation :: rat
  set_allow_long :: bool

definition check_settings :: "settings \<Rightarrow> unit res" where
  "check_settings s = checks
     [(\<not> (list_all is_money [set_capital s, set_order_ceiling s, set_price_buffer s, set_slippage_bps s, set_participation s]
          \<and> 1 \<le> set_quantity s), ''FIELD_CONSTRAINT''),
      (\<not> (0 < set_order_ceiling s \<and> set_order_ceiling s \<le> 10000) \<or> set_capital s \<le> 0 \<or> set_price_buffer s < 1
        \<or> 1000 < set_slippage_bps s \<or> \<not> (0 < set_participation s \<and> set_participation s \<le> 1), ''INVALID_SIMULATION_LIMITS'')]"

datatype exit_reason = STOP | TARGET | EOD

record five_trade =
  ft_signal_at :: instant
  ft_entry_at :: instant
  ft_exit_at :: instant
  ft_entry :: rat
  ft_exit :: rat
  ft_quantity :: int
  ft_reason :: exit_reason
  ft_gross :: rat
  ft_fees :: rat
  ft_net :: rat

record five_metrics =
  fm_trades :: int
  fm_wins :: int
  fm_losses :: int
  fm_breakeven :: int
  fm_win_rate :: rat
  fm_expectancy :: rat
  fm_net :: rat
  fm_net_return :: rat
  fm_costs :: rat
  fm_drawdown :: rat

definition fm_step :: "five_trade \<Rightarrow> rat \<times> rat \<times> rat \<Rightarrow> (rat \<times> rat \<times> rat) res" where
  "fm_step t st = (case st of (equity0, peak0, drawdown) \<Rightarrow>
     let equity = prec40 (equity0 + ft_net t); peak = max peak0 equity in
     bindR (div40 (prec40 (peak - equity)) peak) (\<lambda>q. Inr (equity, peak, max drawdown q)))"

definition five_metrics_of :: "five_trade list \<Rightarrow> rat \<Rightarrow> five_metrics res" where
  "five_metrics_of trades capital =
     (let count = int (length trades); wins = int (length (filter (\<lambda>t. 0 < ft_net t) trades));
          net = sum40 (map ft_net trades) in
      bindR (foldR fm_step trades (capital, capital, 0)) (\<lambda>(equity, peak, drawdown).
      bindR (div40 net capital) (\<lambda>net_return.
      Inr \<lparr>fm_trades = count, fm_wins = wins, fm_losses = int (length (filter (\<lambda>t. ft_net t < 0) trades)),
           fm_breakeven = int (length (filter (\<lambda>t. ft_net t = 0) trades)),
           fm_win_rate = (if count = 0 then 0 else prec40 (of_int wins / of_int count)),
           fm_expectancy = (if count = 0 then 0 else prec40 (net / of_int count)),
           fm_net = net, fm_net_return = net_return, fm_costs = sum40 (map ft_fees trades), fm_drawdown = drawdown\<rparr>)))"

text \<open>\<open>position = decided, entered, entry, entry_fee\<close>\<close>

type_synonym five_position = "instant \<times> instant \<times> rat \<times> rat"

record five =
  fv_cash :: rat
  fv_trades :: "five_trade list"
  fv_no_fills :: "string list"
  fv_exposure :: int
  fv_peak :: rat
  fv_marked :: rat
  fv_closes :: "rat list"
  fv_position :: "five_position option"
  fv_pending :: "instant option"

definition slip_of :: "settings \<Rightarrow> rat" where
  "slip_of cfg = prec40 (set_slippage_bps cfg / 10000)"

definition is_liquid :: "settings \<Rightarrow> bar \<Rightarrow> bool" where
  "is_liquid cfg b \<longleftrightarrow> of_int (set_quantity cfg) \<le> prec40 (of_int (bar_volume b) * set_participation cfg)"

definition times_quantity :: "settings \<Rightarrow> rat \<Rightarrow> rat" where
  "times_quantity cfg x = prec40 (x * of_int (set_quantity cfg))"

definition five_enter :: "settings \<Rightarrow> schedule \<Rightarrow> bar \<Rightarrow> bool \<Rightarrow> five \<Rightarrow> five res" where
  "five_enter cfg costs b final st =
     (case (fv_pending st, fv_position st) of
        (Some decided, None) \<Rightarrow>
          let entry = prec40 (bar_open b * prec40 (1 + slip_of cfg)); notional = times_quantity cfg entry in
          bindR (quote_total costs BUY notional (bar_start b) None) (\<lambda>fee.
          Inr ((if \<not> set_allow_long cfg \<or> final \<or> \<not> is_liquid cfg b \<or> fv_cash st < prec40 (notional + fee)
                   \<or> set_order_ceiling cfg < prec40 (notional * set_price_buffer cfg)
                then st\<lparr>fv_no_fills := fv_no_fills st @ [iso_text (bar_start b) @ '':ENTRY_LIMIT_OR_LIQUIDITY'']\<rparr>
                else st\<lparr>fv_position := Some (decided, bar_start b, entry, fee),
                        fv_cash := prec40 (fv_cash st - prec40 (notional + fee))\<rparr>)\<lparr>fv_pending := None\<rparr>))
      | _ \<Rightarrow> Inr st)"

text \<open>The reference price and the reason of an exit.\<close>

definition exit_of :: "five_strategy \<Rightarrow> bar \<Rightarrow> bool \<Rightarrow> rat \<Rightarrow> (rat \<times> exit_reason) option" where
  "exit_of s b final entry =
     (let stop = prec40 (entry * prec40 (1 - fs_stop s)); target = prec40 (entry * prec40 (1 + fs_target s)) in
      if bar_low b \<le> stop then Some (min stop (bar_open b), STOP)
      else if bar_high b \<ge> target then Some (target, TARGET)
      else if final then Some (bar_close b, EOD) else None)"

definition five_trade_of :: "settings \<Rightarrow> bar \<Rightarrow> five_position \<Rightarrow> rat \<Rightarrow> exit_reason \<Rightarrow> rat \<Rightarrow> five_trade" where
  "five_trade_of cfg b held exit_price reason fee = (case held of (decided, entered, entry, paid) \<Rightarrow>
     let gross = prec40 (times_quantity cfg exit_price - times_quantity cfg entry) in
     \<lparr>ft_signal_at = decided, ft_entry_at = entered, ft_exit_at = candle_end b, ft_entry = entry,
      ft_exit = exit_price, ft_quantity = set_quantity cfg, ft_reason = reason, ft_gross = gross,
      ft_fees = fee, ft_net = prec40 (gross - fee)\<rparr>)"

definition five_close :: "settings \<Rightarrow> bar \<Rightarrow> five_position \<Rightarrow> rat \<Rightarrow> exit_reason \<Rightarrow> rat \<Rightarrow> 'a five_scheme \<Rightarrow> 'a five_scheme" where
  "five_close cfg b held exit_price reason fee st = (case held of (decided, entered, entry, paid) \<Rightarrow>
     st\<lparr>fv_trades := fv_trades st @ [five_trade_of cfg b held exit_price reason fee],
        fv_cash := prec40 (fv_cash st + prec40 (times_quantity cfg exit_price - prec40 (fee - paid))),
        fv_exposure := fv_exposure st + (candle_end b - entered) div 1000000,
        fv_position := None\<rparr>)"

text \<open>A position is marked at the adverse low of the bar, then left when the bar reaches the stop or the target or ends the session.\<close>

definition five_mark :: "settings \<Rightarrow> schedule \<Rightarrow> bar \<Rightarrow> rat \<Rightarrow> 'a five_scheme \<Rightarrow> 'a five_scheme res" where
  "five_mark cfg costs b entry st =
     (let mark_value = times_quantity cfg (prec40 (bar_low b * prec40 (1 - slip_of cfg))) in
      bindR (quote_total costs SELL mark_value (bar_start b) (Some (times_quantity cfg entry))) (\<lambda>mark_fee.
      bindR (div40 (prec40 (prec40 (prec40 (fv_peak st - fv_cash st) - mark_value) + mark_fee)) (fv_peak st)) (\<lambda>marked.
      Inr (st\<lparr>fv_marked := max (fv_marked st) marked\<rparr>))))"

definition five_leave :: "five_strategy \<Rightarrow> settings \<Rightarrow> schedule \<Rightarrow> bar \<Rightarrow> bool \<Rightarrow> five \<Rightarrow> five res" where
  "five_leave s cfg costs b final st =
     (case fv_position st of
        None \<Rightarrow> Inr st
      | Some (decided, entered, entry, paid) \<Rightarrow>
          bindR (five_mark cfg costs b entry st) (\<lambda>st1.
          case exit_of s b final entry of
            None \<Rightarrow> Inr st1
          | Some (reference, reason) \<Rightarrow>
              if \<not> is_liquid cfg b then Inl (ValueError ''EXIT_NO_FILL_UNVALUED_POSITION'')
              else
                let exit_price = prec40 (reference * prec40 (1 - slip_of cfg)) in
                bindR (quote_total costs SELL (times_quantity cfg exit_price) (bar_start b) (Some (times_quantity cfg entry))) (\<lambda>q.
                Inr (five_close cfg b (decided, entered, entry, paid) exit_price reason (prec40 (q + paid)) st1))))"

definition five_observe :: "five_strategy \<Rightarrow> settings \<Rightarrow> bar \<Rightarrow> bool \<Rightarrow> five \<Rightarrow> five res" where
  "five_observe s cfg b final st =
     (let st1 = st\<lparr>fv_peak := max (fv_peak st)
                     (if fv_position st = None then fv_cash st else prec40 (fv_cash st + times_quantity cfg (bar_close b))),
                  fv_closes := fv_closes st @ [bar_close b]\<rparr> in
      if fv_position st = None \<and> \<not> final
      then bindR (signal (fv_closes st1) s) (\<lambda>go. Inr (if go then st1\<lparr>fv_pending := Some (candle_end b)\<rparr> else st1))
      else Inr st1)"

definition bar_at :: "bar list \<Rightarrow> instant \<Rightarrow> bar option" where
  "bar_at bars t = map_of (rev (map (\<lambda>b. (bar_start b, b)) bars)) t"

definition five_step ::
  "five_strategy \<Rightarrow> settings \<Rightarrow> schedule \<Rightarrow> bar list \<Rightarrow> dated_session \<Rightarrow> instant \<Rightarrow> five \<Rightarrow> five res" where
  "five_step s cfg costs bars session tm st =
     (case bar_at bars tm of
        None \<Rightarrow> Inl KeyError
      | Some b \<Rightarrow>
          let final = (candle_end b = dse_end session) in
          bindR (five_enter cfg costs b final st) (\<lambda>st1.
          bindR (five_leave s cfg costs b final st1) (\<lambda>st2.
          five_observe s cfg b final st2)))"

definition five_session ::
  "five_strategy \<Rightarrow> settings \<Rightarrow> schedule \<Rightarrow> bar list \<Rightarrow> dated_session \<Rightarrow> five \<Rightarrow> five res" where
  "five_session s cfg costs bars session st =
     foldR (five_step s cfg costs bars session) (session_slots session)
       (st\<lparr>fv_closes := [], fv_position := None, fv_pending := None\<rparr>)"

definition five_init :: "settings \<Rightarrow> five" where
  "five_init cfg = \<lparr>fv_cash = set_capital cfg, fv_trades = [], fv_no_fills = [], fv_exposure = 0, fv_peak = set_capital cfg,
     fv_marked = 0, fv_closes = [], fv_position = None, fv_pending = None\<rparr>"

record simulation =
  sim5_synthetic :: bool
  sim5_symbol :: string
  sim5_trades :: "five_trade list"
  sim5_metrics :: five_metrics
  sim5_no_fills :: "string list"
  sim5_exposure_seconds :: int
  sim5_marked_drawdown :: rat

definition five_simulate :: "series \<Rightarrow> five_strategy \<Rightarrow> settings \<Rightarrow> schedule \<Rightarrow> simulation res" where
  "five_simulate sr s cfg costs =
     bindR (checks
       [(quality sr \<noteq> ([], []) \<or> sr_sessions sr = [], ''INCOMPLETE_OR_OUT_OF_SESSION_DATA''),
        (\<not> sr_corporate_actions_reviewed sr, ''CORPORATE_ACTION_REVIEW_REQUIRED'')]) (\<lambda>_.
     bindR (signal [] s) (\<lambda>_.
     bindR (foldR (five_session s cfg costs (sr_bars sr)) (sr_sessions sr) (five_init cfg)) (\<lambda>st.
     bindR (five_metrics_of (fv_trades st) (set_capital cfg)) (\<lambda>m.
     Inr \<lparr>sim5_synthetic = sr_synthetic sr, sim5_symbol = sr_symbol sr, sim5_trades = fv_trades st, sim5_metrics = m,
          sim5_no_fills = fv_no_fills st, sim5_exposure_seconds = fv_exposure st, sim5_marked_drawdown = fv_marked st\<rparr>))))"

section \<open>Qualification\<close>

record policy =
  pol_min_oos_trades :: int
  pol_min_fold_trades :: int
  pol_min_win_rate :: rat
  pol_max_drawdown :: rat
  pol_min_fold_win_rate :: rat
  pol_family_size :: int
  pol_alpha :: rat

definition check_policy :: "policy \<Rightarrow> unit res" where
  "check_policy p = checks
     [(\<not> (30 \<le> pol_min_oos_trades p \<and> 10 \<le> pol_min_fold_trades p \<and> 1 \<le> pol_family_size p
          \<and> list_all is_money [pol_min_win_rate p, pol_max_drawdown p, pol_min_fold_win_rate p, pol_alpha p]), ''FIELD_CONSTRAINT''),
      (\<not> (7 / 10 \<le> pol_min_win_rate p \<and> pol_min_win_rate p \<le> 1) \<or> \<not> (0 < pol_max_drawdown p \<and> pol_max_drawdown p < 1)
        \<or> \<not> (0 < pol_alpha p \<and> pol_alpha p < 1) \<or> \<not> (0 \<le> pol_min_fold_win_rate p \<and> pol_min_fold_win_rate p \<le> 1),
       ''INVALID_QUALIFICATION_POLICY'')]"

record qualification =
  qf_qualified :: bool
  qf_reasons :: "string list"
  qf_out_of_sample :: five_metrics
  qf_folds :: "five_metrics list"
  qf_adjusted_wilson_lower :: rat

definition entered_in :: "instant \<Rightarrow> instant \<Rightarrow> five_trade \<Rightarrow> bool" where
  "entered_in a b t \<longleftrightarrow> a \<le> ft_entry_at t \<and> ft_entry_at t < b"

definition weak_fold :: "policy \<Rightarrow> five_metrics \<Rightarrow> bool" where
  "weak_fold p f \<longleftrightarrow> fm_trades f < pol_min_fold_trades p \<or> fm_expectancy f \<le> 0
     \<or> fm_win_rate f < pol_min_fold_win_rate p \<or> pol_max_drawdown p < fm_drawdown f"

text \<open>\<open>if condition: reasons.append(code)\<close>, one after the other.\<close>

definition reasons_of :: "(bool \<times> string) list \<Rightarrow> string list" where
  "reasons_of cs = map snd (filter fst cs)"

definition qualify ::
  "(policy \<Rightarrow> int \<Rightarrow> rat \<Rightarrow> rat) \<Rightarrow> five_trade list \<Rightarrow> rat \<Rightarrow> instant \<Rightarrow> instant list \<Rightarrow> policy \<Rightarrow> qualification res" where
  "qualify wilson_lower trades capital oos_start boundaries p =
     bindR (checks
       [(length boundaries < 4 \<or> hd boundaries \<noteq> oos_start \<or> \<not> strictly_increasing boundaries,
         ''PREDECLARED_THREE_OOS_FOLDS_REQUIRED'')]) (\<lambda>_.
     let oos = filter (entered_in oos_start (last boundaries)) trades in
     bindR (five_metrics_of oos capital) (\<lambda>result.
     bindR (mapR (\<lambda>(a, b). five_metrics_of (filter (entered_in a b) oos) capital) (adjacent boundaries)) (\<lambda>folds.
     let lower = (if fm_trades result = 0 then 0 else wilson_lower p (fm_trades result) (fm_win_rate result));
         reasons = reasons_of
           [(fm_trades result < pol_min_oos_trades p, ''INSUFFICIENT_OOS_TRADES''),
            (fm_win_rate result < pol_min_win_rate p, ''OOS_WIN_RATE_BELOW_THRESHOLD''),
            (fm_expectancy result \<le> 0, ''NON_POSITIVE_NET_EXPECTANCY''),
            (pol_max_drawdown p < fm_drawdown result, ''DRAWDOWN_LIMIT''),
            (list_ex (weak_fold p) folds, ''UNSTABLE_OR_INSUFFICIENT_WALK_FORWARD''),
            (lower \<le> 1 / 2, ''MULTIPLE_TESTING_UNCERTAINTY'')]
     in Inr \<lparr>qf_qualified = (reasons = []), qf_reasons = reasons, qf_out_of_sample = result, qf_folds = folds,
             qf_adjusted_wilson_lower = lower\<rparr>)))"

end
