(* ===== verification/Session_Executor.thy ===== *)
theory Session_Executor
  imports Five_Minute
begin

text \<open>
  \<open>phase1415/strategies.py\<close>, \<open>phase1415/execution.py\<close> and \<open>phase1415/paper.py\<close>: the registry of six frozen definitions,
  their entry signals on the completed candles of one session, and the executor that extends the five-minute engine
  with causal entry liquidity and unresolved exits.  Its state extends the record \<open>five\<close>; marking and closing a
  position is the accounting of \<open>Five_Minute\<close>, as in the source.  JSON dumps and their hashes are left out of the
  result; where a hash identifies a signal, the fingerprint of a definition and the JSON text of a candle are
  parameters.
\<close>

section \<open>Definitions\<close>

datatype definition_id = S01 | S02 | S03 | S04 | S05 | S06

datatype definition_provenance = EXACT_STREAK_DEFINITION_VERIFIED | USER_SUPPLIED_DEFINITION | RESEARCH_EQUIVALENT | UNVERIFIED_STRATEGY

record strategy_definition =
  def_identifier :: definition_id
  def_name :: string
  def_provenance :: definition_provenance
  def_source :: string
  def_entry :: string
  def_indicators :: "string list"
  def_stop :: rat
  def_target :: rat
  def_minimum_volume :: int

text \<open>\<open>not text.strip()\<close>\<close>

definition is_blank :: "string \<Rightarrow> bool" where
  "is_blank t \<longleftrightarrow> list_all (\<lambda>c. (of_char c :: nat) \<in> {9, 10, 11, 12, 13, 28, 29, 30, 31, 32, 133, 160}) t"

definition check_definition :: "strategy_definition \<Rightarrow> unit res" where
  "check_definition d = checks
     [(\<not> (0 < def_stop d \<and> def_stop d < 1 \<and> 0 < def_target d \<and> def_target d < 1 \<and> 1 \<le> def_minimum_volume d), ''FIELD_CONSTRAINT''),
      (is_blank (def_name d) \<or> is_blank (def_entry d) \<or> def_indicators d = [], ''INCOMPLETE_DEFINITION''),
      ((def_identifier d = S01) \<noteq> (def_provenance d = USER_SUPPLIED_DEFINITION), ''DEFINITION_PROVENANCE'')]"

definition registered :: "definition_id \<Rightarrow> string \<Rightarrow> string \<Rightarrow> string list \<Rightarrow> strategy_definition" where
  "registered i n e inds =
     \<lparr>def_identifier = i, def_name = n, def_provenance = (if i = S01 then USER_SUPPLIED_DEFINITION else RESEARCH_EQUIVALENT),
      def_source = ''Phase14.15 user specification; explicitly defined research variant'', def_entry = e, def_indicators = inds,
      def_stop = 2 / 100, def_target = 2 / 100, def_minimum_volume = 1000\<rparr>"

definition registry :: "strategy_definition list" where
  "registry =
     [registered S01 ''RSI/EMA Reversal'' ''RSI14 crosses30 AND close crossesEMA21'' [''RSI14'', ''EMA21''],
      registered S02 ''EMA Trend Crossover'' ''EMA9 crosses above EMA21'' [''EMA9'', ''EMA21''],
      registered S03 ''RSI Momentum'' ''RSI14 crosses50 AND close>EMA21'' [''RSI14'', ''EMA21''],
      registered S04 ''Bollinger Reversion'' ''close crosses above lower BB20 population2SD'' [''BB20_2''],
      registered S05 ''VWAP Reclaim'' ''close crossesHLC3VWAP,current volume>0,cumulative>=1000'' [''VWAP''],
      registered S06 ''Opening Range Breakout'' ''close crosses first15minute range high'' [''OR15'']]"

definition check_registered :: "strategy_definition \<Rightarrow> unit res" where
  "check_registered d =
     (case List.find (\<lambda>x. def_identifier x = def_identifier d) registry of
        None \<Rightarrow> Inl StopIteration
      | Some reference \<Rightarrow>
          if d\<lparr>def_stop := def_stop reference, def_target := def_target reference,
               def_minimum_volume := def_minimum_volume reference\<rparr> \<noteq> reference
          then Inl (ValueError ''UNRECOGNIZED_DEFINITION_VERSION'') else Inr ())"

definition validate_registry :: "strategy_definition list \<Rightarrow> unit res" where
  "validate_registry ds =
     bindR (checks [(ds = [] \<or> \<not> distinct (map def_identifier ds), ''DUPLICATE_OR_EMPTY_REGISTRY'')]) (\<lambda>_.
     bindR (mapR check_registered ds) (\<lambda>_. Inr ()))"

section \<open>Entry signals\<close>

text \<open>\<open>crosses\<close> without and with \<open>below\<close>.\<close>

definition crosses :: "rat option \<Rightarrow> rat option \<Rightarrow> rat option \<Rightarrow> rat option \<Rightarrow> bool \<Rightarrow> bool" where
  "crosses a b c d below =
     (case (a, b, c, d) of
        (Some a, Some b, Some c, Some d) \<Rightarrow> if below then a \<ge> b \<and> c < d else a \<le> b \<and> c > d
      | _ \<Rightarrow> False)"

definition sma_of :: "rat list \<Rightarrow> int \<Rightarrow> rat option res" where
  "sma_of values0 period =
     (if period < 1 then Inl (ValueError ''INVALID_PERIOD'')
      else Inr (if int (length values0) < period then None
                else Some (prec40 (sum40 (last_n (nat period) values0) / of_int period))))"

text \<open>\<open>Decimal.sqrt\<close>: the square root, correctly rounded to 40 digits.\<close>

function isqrt :: "int \<Rightarrow> int" where
  "isqrt n = (if n \<le> 0 then 0 else let r = 2 * isqrt (n div 4) in if (r + 1) * (r + 1) \<le> n then r + 1 else r)"
  by pat_completeness auto
termination
  by (relation "measure nat") auto

declare isqrt.simps [simp del]

definition sqrt40 :: "rat \<Rightarrow> rat" where
  "sqrt40 x =
     (if x \<le> 0 then 0
      else let u = 10 powi (adjusted x div 2 - 39); y = x / (u * u); m = isqrt \<lfloor>y\<rfloor>; h = of_int m + 1 / 2
           in if y < h * h then of_int m * u else of_int (m + 1) * u)"

definition bands :: "rat list \<Rightarrow> int \<Rightarrow> (rat \<times> rat) option res" where
  "bands values0 period =
     bindR (sma_of values0 period) (\<lambda>average. Inr (case average of
         None \<Rightarrow> None
       | Some mean \<Rightarrow>
           let sd = sqrt40 (prec40 (sum40 (map (\<lambda>v. prec40 (prec40 (v - mean) * prec40 (v - mean))) (last_n (nat period) values0))
                                    / of_int period))
           in Some (prec40 (mean - prec40 (2 * sd)), prec40 (mean + prec40 (2 * sd)))))"

definition vwap_of :: "bar list \<Rightarrow> rat option" where
  "vwap_of bars =
     (let volume = sum_list (map bar_volume bars) in
      if volume = 0 then None
      else Some (prec40 (sum40 (map (\<lambda>b. prec40 (prec40 (prec40 (prec40 (bar_high b + bar_low b) + bar_close b) / 3)
                   * of_int (bar_volume b))) bars) / of_int volume)))"

definition opening_range_of :: "bar list \<Rightarrow> (rat \<times> rat) option" where
  "opening_range_of bars =
     (if length bars < 3 then None
      else Some (maximum (map bar_high (take 3 bars)), minimum (map bar_low (take 3 bars))))"

definition default_strategy :: five_strategy where
  "default_strategy = \<lparr>fs_name = ''RSI14_EMA21_RECOVERY'', fs_version = ''1'', fs_confirmed = True,
     fs_conditions = default_conditions, fs_direction = LONG, fs_stop = 2 / 100, fs_target = 2 / 100\<rparr>"

definition ema_operand :: "int \<Rightarrow> operand" where
  "ema_operand n = \<lparr>opd_indicator = EMA, opd_period = n, opd_value = 0, opd_lag = 0\<rparr>"

definition rsi_operand :: "int \<Rightarrow> operand" where
  "rsi_operand n = \<lparr>opd_indicator = RSI, opd_period = n, opd_value = 0, opd_lag = 0\<rparr>"

definition entry_signal :: "bar list \<Rightarrow> strategy_definition \<Rightarrow> bool res" where
  "entry_signal bars d =
     (if length bars < 2 then Inr False
      else let closes = map bar_close bars; earlier = butlast closes; current = last closes; prior_close = last earlier in
      case def_identifier d of
        S01 \<Rightarrow> signal closes default_strategy
      | S02 \<Rightarrow> Inr (crosses (indicator earlier (ema_operand 9)) (indicator earlier (ema_operand 21))
                          (indicator closes (ema_operand 9)) (indicator closes (ema_operand 21)) False)
      | S03 \<Rightarrow> Inr ((case indicator closes (ema_operand 21) of None \<Rightarrow> False | Some average \<Rightarrow> current > average)
                   \<and> crosses (indicator earlier (rsi_operand 14)) (Some 50) (indicator closes (rsi_operand 14)) (Some 50) False)
      | S04 \<Rightarrow> bindR (bands earlier 20) (\<lambda>before. bindR (bands closes 20) (\<lambda>now.
               Inr (before \<noteq> None \<and> now \<noteq> None
                    \<and> crosses (Some prior_close) (map_option fst before) (Some current) (map_option fst now) False)))
      | S05 \<Rightarrow> Inr (bar_volume (last bars) > 0 \<and> def_minimum_volume d \<le> sum_list (map bar_volume bars)
                   \<and> crosses (Some prior_close) (vwap_of (butlast bars)) (Some current) (vwap_of bars) False)
      | S06 \<Rightarrow> Inr (4 \<le> length bars
                   \<and> crosses (Some prior_close) (map_option fst (opening_range_of bars)) (Some current)
                       (map_option fst (opening_range_of bars)) False))"

section \<open>Execution\<close>

definition liquidity_bar :: "series \<Rightarrow> instant \<Rightarrow> bar res" where
  "liquidity_bar sr tm =
     (if \<not> list_ex (\<lambda>s. dse_start s < tm \<and> tm < dse_end s) (sr_sessions sr) then Inl (ValueError ''CAUSAL_LIQUIDITY_SESSION'')
      else case List.find (\<lambda>b. candle_end b = tm) (sr_bars sr) of
        None \<Rightarrow> Inl (ValueError ''CAUSAL_LIQUIDITY_MISSING'')
      | Some b \<Rightarrow> bindR (check_candle b) (\<lambda>_. Inr b))"

record timing =
  tim_signal_completed_at :: instant
  tim_order_created_at :: instant
  tim_quantity_decided_at :: instant
  tim_liquidity_observed_at :: instant
  tim_liquidity_candle_start :: instant
  tim_earliest_execution_at :: instant
  tim_fill_confirmed_at :: "instant option"
  tim_data_availability_cutoff :: instant
  tim_opening_price_observed_at :: instant

definition decision_timing :: "series \<Rightarrow> instant \<Rightarrow> timing res" where
  "decision_timing sr tm = bindR (liquidity_bar sr tm) (\<lambda>b.
     Inr \<lparr>tim_signal_completed_at = candle_end b, tim_order_created_at = tm, tim_quantity_decided_at = tm,
          tim_liquidity_observed_at = candle_end b, tim_liquidity_candle_start = bar_start b, tim_earliest_execution_at = tm,
          tim_fill_confirmed_at = Some tm, tim_data_availability_cutoff = tm, tim_opening_price_observed_at = tm\<rparr>)"

record entry_decision =
  ed_timing :: timing
  ed_quantity :: int
  ed_liquidity_volume :: int
  ed_filled :: bool

definition exit_reference :: "bar \<Rightarrow> rat \<Rightarrow> strategy_definition \<Rightarrow> bool \<Rightarrow> rat \<times> exit_reason option" where
  "exit_reference b entry d final =
     (let stop = prec40 (entry * prec40 (1 - def_stop d)); target = prec40 (entry * prec40 (1 + def_target d)) in
      if bar_low b \<le> stop then (min stop (bar_open b), Some STOP)
      else if bar_high b \<ge> target then (target, Some TARGET)
      else (bar_close b, if final then Some EOD else None))"

record unresolved =
  un_signal_at :: instant
  un_entry_at :: instant
  un_entry :: rat
  un_quantity :: int
  un_exit_at :: instant
  un_reason :: exit_reason

record exec = five +
  ex_history :: "bar list"
  ex_decisions :: "entry_decision list"
  ex_unresolved :: "unresolved list"

definition exec_enter :: "series \<Rightarrow> settings \<Rightarrow> schedule \<Rightarrow> bar \<Rightarrow> bool \<Rightarrow> exec \<Rightarrow> exec res" where
  "exec_enter sr cfg costs b final st =
     (case fv_pending st of
        None \<Rightarrow> Inr st
      | Some decided \<Rightarrow>
          let entry = prec40 (bar_open b * prec40 (1 + slip_of cfg)); notional = times_quantity cfg entry in
          bindR (quote_total costs BUY notional (bar_start b) None) (\<lambda>fee.
          bindR (decision_timing sr (bar_start b)) (\<lambda>tim.
          bindR (liquidity_bar sr (bar_start b)) (\<lambda>prior.
          let refused = (\<not> set_allow_long cfg \<or> final \<or> \<not> is_liquid cfg prior \<or> fv_cash st < prec40 (notional + fee)
                          \<or> set_order_ceiling cfg < prec40 (notional * set_price_buffer cfg));
              entered = \<lparr>ed_timing = (if refused then tim\<lparr>tim_fill_confirmed_at := None\<rparr> else tim),
                         ed_quantity = set_quantity cfg, ed_liquidity_volume = bar_volume prior, ed_filled = (\<not> refused)\<rparr>;
              st1 = (if refused
                     then st\<lparr>fv_no_fills := fv_no_fills st @ [iso_text (bar_start b) @ '':ENTRY_LIMIT_OR_LIQUIDITY'']\<rparr>
                     else st\<lparr>fv_position := Some (decided, bar_start b, entry, fee),
                             fv_cash := prec40 (fv_cash st - prec40 (notional + fee))\<rparr>)
          in Inr (st1\<lparr>ex_decisions := ex_decisions st @ [entered], fv_pending := None\<rparr>)))))"

definition exec_leave :: "strategy_definition \<Rightarrow> settings \<Rightarrow> schedule \<Rightarrow> bar \<Rightarrow> bool \<Rightarrow> exec \<Rightarrow> exec res" where
  "exec_leave d cfg costs b final st =
     (case fv_position st of
        None \<Rightarrow> Inr st
      | Some (decided, entered, entry, paid) \<Rightarrow>
          bindR (five_mark cfg costs b entry st) (\<lambda>st1.
          case exit_reference b entry d final of
            (_, None) \<Rightarrow> Inr st1
          | (reference, Some reason) \<Rightarrow>
              if \<not> is_liquid cfg b
              then Inr (st1\<lparr>ex_unresolved := ex_unresolved st @
                     [\<lparr>un_signal_at = decided, un_entry_at = entered, un_entry = entry, un_quantity = set_quantity cfg,
                       un_exit_at = candle_end b, un_reason = reason\<rparr>]\<rparr>)
              else
                let exit_price = prec40 (reference * prec40 (1 - slip_of cfg)) in
                bindR (quote_total costs SELL (times_quantity cfg exit_price) (bar_start b) (Some (times_quantity cfg entry))) (\<lambda>q.
                Inr (five_close cfg b (decided, entered, entry, paid) exit_price reason (prec40 (paid + q)) st1))))"

definition exec_observe :: "strategy_definition \<Rightarrow> settings \<Rightarrow> bar \<Rightarrow> bool \<Rightarrow> exec \<Rightarrow> exec res" where
  "exec_observe d cfg b final st =
     (let st1 = st\<lparr>fv_peak := max (fv_peak st)
                     (if fv_position st = None then fv_cash st else prec40 (fv_cash st + times_quantity cfg (bar_close b))),
                  ex_history := ex_history st @ [b]\<rparr> in
      if fv_position st = None \<and> \<not> final
      then bindR (entry_signal (ex_history st1) d) (\<lambda>go. Inr (if go then st1\<lparr>fv_pending := Some (candle_end b)\<rparr> else st1))
      else Inr st1)"

text \<open>After an unresolved exit both loops are left: the remaining iterations do nothing.\<close>

definition exec_step ::
  "series \<Rightarrow> strategy_definition \<Rightarrow> settings \<Rightarrow> schedule \<Rightarrow> dated_session \<Rightarrow> instant \<Rightarrow> exec \<Rightarrow> exec res" where
  "exec_step sr d cfg costs session tm st =
     (if ex_unresolved st \<noteq> [] then Inr st
      else case bar_at (sr_bars sr) tm of
        None \<Rightarrow> Inl KeyError
      | Some b \<Rightarrow>
          let final = (candle_end b = dse_end session) in
          bindR (exec_enter sr cfg costs b final st) (\<lambda>st1.
          bindR (exec_leave d cfg costs b final st1) (\<lambda>st2.
          if ex_unresolved st2 \<noteq> [] then Inr st2 else exec_observe d cfg b final st2)))"

definition exec_session ::
  "series \<Rightarrow> strategy_definition \<Rightarrow> settings \<Rightarrow> schedule \<Rightarrow> dated_session \<Rightarrow> exec \<Rightarrow> exec res" where
  "exec_session sr d cfg costs session st =
     (if ex_unresolved st \<noteq> [] then Inr st
      else bindR (checks
        [(288 * FIVE < dse_end session - dse_start session, ''SESSION_RESOURCE_LIMIT''),
         (def_identifier d = S06 \<and> (nse_time (dse_start session) div MINUTE \<noteq> 9 * 60 + 15
             \<or> dse_end session - dse_start session < 4 * FIVE), ''OPENING_RANGE_REQUIRES_REGULAR_SESSION'')]) (\<lambda>_.
      foldR (exec_step sr d cfg costs session) (session_slots session)
        (st\<lparr>fv_position := None, fv_pending := None, ex_history := []\<rparr>)))"

definition exec_init :: "settings \<Rightarrow> exec" where
  "exec_init cfg = \<lparr>fv_cash = set_capital cfg, fv_trades = [], fv_no_fills = [], fv_exposure = 0, fv_peak = set_capital cfg,
     fv_marked = 0, fv_closes = [], fv_position = None, fv_pending = None, ex_history = [], ex_decisions = [], ex_unresolved = []\<rparr>"

record execution = simulation +
  exn_unresolved :: "unresolved list"
  exn_entry_decisions :: "entry_decision list"

definition execute :: "series \<Rightarrow> strategy_definition \<Rightarrow> settings \<Rightarrow> schedule \<Rightarrow> execution res" where
  "execute sr d cfg costs =
     bindR (validate_registry [d]) (\<lambda>_.
     bindR (checks
       [(quality sr \<noteq> ([], []) \<or> sr_sessions sr = [], ''INCOMPLETE_OR_OUT_OF_SESSION_DATA''),
        (30000 < length (sr_bars sr), ''SERIES_RESOURCE_LIMIT''),
        (\<not> sr_corporate_actions_reviewed sr, ''CORPORATE_ACTION_REVIEW_REQUIRED'')]) (\<lambda>_.
     bindR (foldR (exec_session sr d cfg costs) (sr_sessions sr) (exec_init cfg)) (\<lambda>st.
     bindR (five_metrics_of (fv_trades st) (set_capital cfg)) (\<lambda>m.
     Inr \<lparr>sim5_synthetic = sr_synthetic sr, sim5_symbol = sr_symbol sr, sim5_trades = fv_trades st, sim5_metrics = m,
          sim5_no_fills = fv_no_fills st, sim5_exposure_seconds = fv_exposure st, sim5_marked_drawdown = fv_marked st,
          exn_unresolved = ex_unresolved st, exn_entry_decisions = ex_decisions st\<rparr>))))"

section \<open>Paper events\<close>

datatype rejection_text = EXPIRED | OFFLINE_ONLY_NO_TRANSPORT

record paper_event =
  pe_strategy_id :: definition_id
  pe_strategy_hash :: string
  pe_symbol :: string
  pe_signal_at :: instant
  pe_candle_hash :: string
  pe_reference :: rat
  pe_stop :: rat
  pe_target :: rat
  pe_expiry :: instant
  pe_idempotency_key :: string
  pe_rejection :: rejection_text

definition check_paper_event :: "paper_event \<Rightarrow> unit res" where
  "check_paper_event e = checks
     [(\<not> (0 < pe_stop e \<and> pe_stop e < pe_reference e \<and> pe_reference e < pe_target e) \<or> pe_expiry e \<le> pe_signal_at e,
       ''INVALID_PAPER_EVENT'')]"

definition paper_event_of ::
  "(strategy_definition \<Rightarrow> string) \<Rightarrow> (bar \<Rightarrow> string) \<Rightarrow> string \<Rightarrow> strategy_definition \<Rightarrow> bar \<Rightarrow> instant \<Rightarrow> paper_event res" where
  "paper_event_of fingerprint_of candle_json symbol d candle now =
     (if now < candle_end candle then Inl (ValueError ''INCOMPLETE_SIGNAL_CANDLE'')
      else let e = \<lparr>pe_strategy_id = def_identifier d, pe_strategy_hash = fingerprint_of d, pe_symbol = symbol,
             pe_signal_at = candle_end candle, pe_candle_hash = digest (candle_json candle), pe_reference = bar_close candle,
             pe_stop = prec40 (bar_close candle * prec40 (1 - def_stop d)),
             pe_target = prec40 (bar_close candle * prec40 (1 + def_target d)),
             pe_expiry = candle_end candle + FIVE,
             pe_idempotency_key = digest (symbol @ fingerprint_of d @ candle_json candle),
             pe_rejection = (if candle_end candle + FIVE \<le> now then EXPIRED else OFFLINE_ONLY_NO_TRANSPORT)\<rparr>
           in bindR (check_paper_event e) (\<lambda>_. Inr e))"

end
