(* ===== verification/Pair_Research.thy ===== *)
theory Pair_Research
  imports Session_Executor
begin

text \<open>
  \<open>phase1415/research.py\<close> with \<open>months_before\<close> of \<open>phase14/reporting.py\<close>, \<open>frozen_policy\<close> and \<open>bind_result\<close> of
  \<open>phase1415/hardening.py\<close> and the status of a result in \<open>phase1417/qualification.py\<close>: the data gates of one symbol and
  strategy, the chronological split, the summaries of its parts, and when the pair counts as qualified.

  Parameters stand for what is computed outside of the model: \<open>wilson_lower\<close> and \<open>wilson95\<close> (binary floating point), the
  fingerprint of a definition and of a policy (digests of pydantic JSON) and the JSON text of a series.
\<close>

section \<open>Windows\<close>

text \<open>\<open>calendar.monthrange(year, month)[1]\<close>\<close>

definition is_leap :: "int \<Rightarrow> bool" where
  "is_leap y \<longleftrightarrow> y mod 4 = 0 \<and> (y mod 100 \<noteq> 0 \<or> y mod 400 = 0)"

definition days_in_month :: "int \<Rightarrow> int \<Rightarrow> int" where
  "days_in_month y m = (if m = 2 then if is_leap y then 29 else 28 else if m \<in> {4, 6, 9, 11} then 30 else 31)"

text \<open>The day number of a date; months count from March in years that start there.\<close>

definition day_number :: "int \<Rightarrow> int \<Rightarrow> int \<Rightarrow> date" where
  "day_number y m d =
     (let y' = (if m \<le> 2 then y - 1 else y); era = y' div 400; yoe = y' - era * 400;
          doy = (153 * (if m > 2 then m - 3 else m + 9) + 2) div 5 + d - 1;
          doe = yoe * 365 + yoe div 4 - yoe div 100 + doy
      in era * 146097 + doe - 719468)"

text \<open>On a local date and time of day (the replaced fields are those of the date).\<close>

definition months_before :: "date \<times> clock \<Rightarrow> int \<Rightarrow> (date \<times> clock) res" where
  "months_before end0 months =
     (if months \<notin> {6, 12} then Inl (ValueError ''SIX_OR_TWELVE_MONTH_WINDOW_REQUIRED'')
      else case civil (fst end0) of (y, m, d) \<Rightarrow>
        let number = y * 12 + m - 1 - months; year = number div 12; month0 = number mod 12
        in Inr (day_number year (month0 + 1) (min d (days_in_month year (month0 + 1))), snd end0))"

record research_window =
  rw_months :: int
  rw_end :: instant
  rw_validation_start :: instant
  rw_holdout_start :: instant
  rw_folds :: "instant list"
  rw_parameters_frozen_at :: instant

definition start_of :: "instant \<Rightarrow> int \<Rightarrow> instant res" where
  "start_of end0 months = bindR (months_before (nse_date end0, nse_time end0) months) (\<lambda>(d, c). Inr (combine_nse d c))"

definition rw_start :: "research_window \<Rightarrow> instant res" where
  "rw_start w = start_of (rw_end w) (rw_months w)"

definition check_research_window :: "research_window \<Rightarrow> unit res" where
  "check_research_window w =
     bindR (checks
       [(rw_months w \<notin> {6, 12}, ''FIELD_CONSTRAINT''),
        (list_ex (\<lambda>b. nse_time b \<noteq> 0) (rw_end w # rw_validation_start w # rw_holdout_start w # rw_folds w),
         ''IST_MIDNIGHT_BOUNDARY_REQUIRED'')]) (\<lambda>_.
     bindR (rw_start w) (\<lambda>start. checks
       [(\<not> (start < rw_validation_start w \<and> rw_validation_start w < rw_holdout_start w \<and> rw_holdout_start w < rw_end w),
         ''OUT_OF_SAMPLE_NOT_AVAILABLE''),
        (rw_validation_start w < rw_parameters_frozen_at w, ''PARAMETERS_NOT_FROZEN_BEFORE_VALIDATION''),
        (length (rw_folds w) \<noteq> 4 \<or> hd (rw_folds w) \<noteq> rw_holdout_start w \<or> last (rw_folds w) \<noteq> rw_end w
          \<or> \<not> strictly_increasing (rw_folds w), ''THREE_PREDECLARED_HOLDOUT_FOLDS_REQUIRED'')]))"

definition standard_window :: "instant \<Rightarrow> int \<Rightarrow> research_window res" where
  "standard_window end0 months =
     bindR (checks [(nse_time end0 \<noteq> 0, ''IST_MIDNIGHT_END_REQUIRED'')]) (\<lambda>_.
     bindR (start_of end0 months) (\<lambda>start.
     let days = (end0 - start) div DAY_US; validation = start + (days * 5 div 10) * DAY_US;
         holdout = start + (days * 7 div 10) * DAY_US; remaining = (end0 - holdout) div DAY_US;
         w = \<lparr>rw_months = months, rw_end = end0, rw_validation_start = validation, rw_holdout_start = holdout,
              rw_folds = [holdout, holdout + (remaining div 3) * DAY_US, holdout + (2 * remaining div 3) * DAY_US, end0],
              rw_parameters_frozen_at = start\<rparr>
     in bindR (check_research_window w) (\<lambda>_. Inr w)))"

section \<open>Datasets and summaries\<close>

record pair_dataset =
  pd_series :: series
  pd_sha256 :: string
  pd_acquired_at :: instant
  pd_calendar_version :: string
  pd_calendar_source :: string
  pd_calendar_verified :: bool
  pd_corporate_action_evidence :: string
  pd_missing_sessions :: int
  pd_duplicate_candles :: int
  pd_out_of_order :: int
  pd_quarantined :: bool
  pd_mapping_verified :: bool

definition check_pair_dataset :: "(series \<Rightarrow> string) \<Rightarrow> pair_dataset \<Rightarrow> unit res" where
  "check_pair_dataset series_json ds =
     bindR (check_series (pd_series ds)) (\<lambda>_. checks
       [(\<not> (is_hash (pd_sha256 ds) \<and> pd_calendar_version ds \<noteq> [] \<and> pd_calendar_source ds \<noteq> [] \<and> pd_corporate_action_evidence ds \<noteq> []
            \<and> 0 \<le> pd_missing_sessions ds \<and> 0 \<le> pd_duplicate_candles ds \<and> 0 \<le> pd_out_of_order ds), ''FIELD_CONSTRAINT''),
        (digest (series_json (pd_series ds)) \<noteq> pd_sha256 ds, ''DATASET_FINGERPRINT_MISMATCH''),
        (pd_acquired_at ds < sr_to (pd_series ds), ''ACQUISITION_BEFORE_COMPLETED_DATA'')])"

record summary =
  sum_basic :: five_metrics
  sum_gross :: rat
  sum_average_return :: "rat option"
  sum_profit_factor :: "rat option"
  sum_average_holding_seconds :: "rat option"
  sum_exposure :: rat
  sum_max_consecutive_wins :: int
  sum_max_consecutive_losses :: int
  sum_confidence_95 :: "rat \<times> rat"

text \<open>The streak counters of the loop: \<open>win\<close>, \<open>loss\<close>, \<open>max_win\<close>, \<open>max_loss\<close>.\<close>

definition streak_step :: "five_trade \<Rightarrow> int \<times> int \<times> int \<times> int \<Rightarrow> int \<times> int \<times> int \<times> int" where
  "streak_step t st = (case st of (win, loss, max_win, max_loss) \<Rightarrow>
     let win' = (if 0 < ft_net t then win + 1 else 0); loss' = (if ft_net t < 0 then loss + 1 else 0)
     in (win', loss', max max_win win', max max_loss loss'))"

definition holding_seconds :: "five_trade list \<Rightarrow> int" where
  "holding_seconds trades = sum_list (map (\<lambda>t. (ft_exit_at t - ft_entry_at t) div 1000000) trades)"

definition summarize :: "(int \<Rightarrow> int \<Rightarrow> rat \<times> rat) \<Rightarrow> five_trade list \<Rightarrow> rat \<Rightarrow> int \<Rightarrow> summary res" where
  "summarize wilson95 trades capital seconds =
     bindR (five_metrics_of trades capital) (\<lambda>basic.
     let positives = sum40 (map (\<lambda>t. max (ft_net t) 0) trades); negatives = - sum40 (map (\<lambda>t. min (ft_net t) 0) trades);
         holding = holding_seconds trades; count = rat_of_int (int (length trades)) in
     bindR (mapR (\<lambda>t. div40 (ft_net t) (prec40 (ft_entry t * of_int (ft_quantity t)))) trades) (\<lambda>returns.
     case fold streak_step trades (0, 0, 0, 0) of (win, loss, max_win, max_loss) \<Rightarrow>
     Inr \<lparr>sum_basic = basic, sum_gross = sum40 (map ft_gross trades),
          sum_average_return = (if trades = [] then None else Some (prec40 (sum40 returns / count))),
          sum_profit_factor = (if negatives = 0 then None else Some (prec40 (positives / negatives))),
          sum_average_holding_seconds = (if trades = [] then None else Some (prec40 (of_int holding / count))),
          sum_exposure = (if seconds = 0 then 0 else prec40 (of_int holding / of_int seconds)),
          sum_max_consecutive_wins = max_win, sum_max_consecutive_losses = max_loss,
          sum_confidence_95 = wilson95 (fm_wins basic) (fm_trades basic)\<rparr>))"

section \<open>Results\<close>

datatype data_status = UNAVAILABLE | QUARANTINED | SYNTHETIC | LOCAL_VERIFIED

record pair_result =
  pr_family_run_id :: "string option"
  pr_hypothesis_family_size :: "int option"
  pr_symbol :: string
  pr_strategy_id :: definition_id
  pr_strategy_version :: string
  pr_strategy_hash :: string
  pr_window :: research_window
  pr_policy_hash :: string
  pr_dataset_hash :: "string option"
  pr_data_status :: data_status
  pr_synthetic :: "bool option"
  pr_qualified :: bool
  pr_reasons :: "string list"
  pr_coverage :: "rat option"
  pr_training :: "summary option"
  pr_validation :: "summary option"
  pr_holdout :: "summary option"
  pr_total :: "summary option"
  pr_qualification :: "qualification option"
  pr_trades :: "five_trade list"

definition unqualified ::
  "(strategy_definition \<Rightarrow> string) \<Rightarrow> (policy \<Rightarrow> string) \<Rightarrow> string \<Rightarrow> strategy_definition \<Rightarrow> research_window \<Rightarrow> pair_dataset option
     \<Rightarrow> policy \<Rightarrow> data_status \<Rightarrow> string list \<Rightarrow> pair_result" where
  "unqualified definition_hash policy_hash symbol d w dataset p status reasons =
     \<lparr>pr_family_run_id = None, pr_hypothesis_family_size = None, pr_symbol = symbol, pr_strategy_id = def_identifier d,
      pr_strategy_version = ''1'', pr_strategy_hash = definition_hash d, pr_window = w, pr_policy_hash = policy_hash p,
      pr_dataset_hash = map_option pd_sha256 dataset, pr_data_status = status,
      pr_synthetic = map_option (\<lambda>ds. sr_synthetic (pd_series ds)) dataset, pr_qualified = False, pr_reasons = reasons,
      pr_coverage = None, pr_training = None, pr_validation = None, pr_holdout = None, pr_total = None,
      pr_qualification = None, pr_trades = []\<rparr>"

definition split_boundaries :: "research_window \<Rightarrow> instant list" where
  "split_boundaries w = rw_validation_start w # rw_folds w"

definition cuts :: "instant list \<Rightarrow> instant \<Rightarrow> instant \<Rightarrow> bool" where
  "cuts boundaries a e \<longleftrightarrow> list_ex (\<lambda>b. a < b \<and> b < e) boundaries"

definition data_reasons :: "string \<Rightarrow> research_window \<Rightarrow> instant \<Rightarrow> pair_dataset \<Rightarrow> string list" where
  "data_reasons symbol w start ds =
     (let sr = pd_series ds in reasons_of
       [(sr_symbol sr \<noteq> symbol \<or> sr_from sr \<noteq> start \<or> sr_to sr \<noteq> rw_end w, ''INSUFFICIENT_HISTORY_OR_IDENTITY_MISMATCH''),
        (\<not> pd_calendar_verified ds, ''CALENDAR_NOT_VERIFIED''),
        (\<not> pd_mapping_verified ds, ''MASTER_UNAVAILABLE''),
        (\<not> sr_corporate_actions_reviewed sr \<or> pd_corporate_action_evidence ds = ''UNRESOLVED'', ''CORPORATE_ACTION_REVIEW_REQUIRED''),
        (pd_quarantined ds \<or> pd_missing_sessions ds \<noteq> 0 \<or> pd_duplicate_candles ds \<noteq> 0 \<or> pd_out_of_order ds \<noteq> 0, ''DATA_QUARANTINED''),
        (quality sr \<noteq> ([], []), ''DATA_INCOMPLETE''),
        (list_ex (\<lambda>s. cuts (split_boundaries w) (dse_start s) (dse_end s)) (sr_sessions sr), ''SPLIT_CUTS_SESSION'')])"

definition session_seconds :: "series \<Rightarrow> instant \<Rightarrow> instant \<Rightarrow> int" where
  "session_seconds sr a b =
     sum_list (map (\<lambda>s. (dse_end s - dse_start s) div 1000000) (filter (\<lambda>s. a \<le> dse_start s \<and> dse_start s < b) (sr_sessions sr)))"

definition part :: "(int \<Rightarrow> int \<Rightarrow> rat \<times> rat) \<Rightarrow> series \<Rightarrow> five_trade list \<Rightarrow> rat \<Rightarrow> instant \<Rightarrow> instant \<Rightarrow> summary res" where
  "part wilson95 sr trades capital a b = summarize wilson95 (filter (entered_in a b) trades) capital (session_seconds sr a b)"

text \<open>The rest of \<open>evaluate\<close>, once the executor has returned.\<close>

definition evaluated ::
  "(policy \<Rightarrow> int \<Rightarrow> rat \<Rightarrow> rat) \<Rightarrow> (int \<Rightarrow> int \<Rightarrow> rat \<times> rat) \<Rightarrow> pair_result \<Rightarrow> research_window \<Rightarrow> instant \<Rightarrow> series \<Rightarrow> rat
     \<Rightarrow> policy \<Rightarrow> execution \<Rightarrow> pair_result res" where
  "evaluated wilson_lower wilson95 base w start sr capital p simulation =
     (let trades = sim5_trades simulation in
      if list_ex (\<lambda>t. cuts (split_boundaries w) (ft_signal_at t) (ft_exit_at t)) trades
      then Inr (base\<lparr>pr_data_status := QUARANTINED, pr_reasons := [''SPLIT_TRADE_LEAKAGE'']\<rparr>)
      else
        bindR (qualify wilson_lower trades capital (rw_holdout_start w) (rw_folds w) p) (\<lambda>q.
        let reasons = qf_reasons q @ reasons_of
              [(pol_max_drawdown p < sim5_marked_drawdown simulation, ''MARKED_DRAWDOWN_LIMIT''),
               (sr_synthetic sr, ''SYNTHETIC_NOT_HISTORICAL_PERFORMANCE'')] in
        bindR (part wilson95 sr trades capital start (rw_validation_start w)) (\<lambda>training.
        bindR (part wilson95 sr trades capital (rw_validation_start w) (rw_holdout_start w)) (\<lambda>validation.
        bindR (part wilson95 sr trades capital (rw_holdout_start w) (rw_end w)) (\<lambda>holdout.
        bindR (part wilson95 sr trades capital start (rw_end w)) (\<lambda>total.
        Inr (base\<lparr>pr_data_status := (if sr_synthetic sr then SYNTHETIC else LOCAL_VERIFIED), pr_qualified := (reasons = []),
                  pr_reasons := reasons, pr_coverage := Some 1, pr_training := Some training, pr_validation := Some validation,
                  pr_holdout := Some holdout, pr_total := Some total, pr_qualification := Some q, pr_trades := trades\<rparr>)))))))"

definition evaluate ::
  "(policy \<Rightarrow> int \<Rightarrow> rat \<Rightarrow> rat) \<Rightarrow> (int \<Rightarrow> int \<Rightarrow> rat \<times> rat) \<Rightarrow> (strategy_definition \<Rightarrow> string) \<Rightarrow> (policy \<Rightarrow> string) \<Rightarrow> string
     \<Rightarrow> strategy_definition \<Rightarrow> research_window \<Rightarrow> pair_dataset option \<Rightarrow> settings \<Rightarrow> schedule \<Rightarrow> policy \<Rightarrow> pair_result res" where
  "evaluate wilson_lower wilson95 definition_hash policy_hash symbol d w dataset cfg costs p =
     (let base = unqualified definition_hash policy_hash symbol d w dataset p in
      case dataset of
        None \<Rightarrow> Inr (base UNAVAILABLE [''NO_SOURCED_HISTORY_OR_RESOLVED_MAPPING'', ''OUT_OF_SAMPLE_NOT_AVAILABLE''])
      | Some ds \<Rightarrow>
          bindR (rw_start w) (\<lambda>start.
          let sr = pd_series ds; reasons = data_reasons symbol w start ds in
          if reasons \<noteq> [] then Inr (base QUARANTINED reasons)
          else case execute sr d cfg costs of
            Inl (ValueError _) \<Rightarrow> Inr (base QUARANTINED [''EXECUTION_OR_DATA_REJECTED''])
          | Inl e \<Rightarrow> Inl e
          | Inr simulation \<Rightarrow>
              if exn_unresolved simulation \<noteq> [] then Inr (base QUARANTINED [''EXECUTION_OR_DATA_REJECTED''])
              else evaluated wilson_lower wilson95 (base QUARANTINED []) w start sr (set_capital cfg) p simulation))"

section \<open>Family policy and status\<close>

definition family_size :: int where
  "family_size = 1115 * 6 * 2"

definition full_family_policy :: policy where
  "full_family_policy = \<lparr>pol_min_oos_trades = 100, pol_min_fold_trades = 30, pol_min_win_rate = 70 / 100, pol_max_drawdown = 10 / 100,
     pol_min_fold_win_rate = 60 / 100, pol_family_size = family_size, pol_alpha = 5 / 100\<rparr>"

definition frozen_policy :: "policy option \<Rightarrow> policy res" where
  "frozen_policy p = (case p of
      None \<Rightarrow> Inr full_family_policy
    | Some q \<Rightarrow> if q \<noteq> full_family_policy then Inl (ValueError ''FROZEN_FULL_FAMILY_POLICY_REQUIRED'') else Inr q)"

definition status_mapping :: "(string \<times> string) list" where
  "status_mapping =
     [(''OUT_OF_SAMPLE_NOT_AVAILABLE'', ''REJECTED_OUT_OF_SAMPLE''),
      (''INSUFFICIENT_OOS_TRADES'', ''REJECTED_TRADE_COUNT''),
      (''OOS_WIN_RATE_BELOW_THRESHOLD'', ''REJECTED_WIN_RATE''),
      (''NON_POSITIVE_NET_EXPECTANCY'', ''REJECTED_NET_PROFIT''),
      (''DRAWDOWN_LIMIT'', ''REJECTED_DRAWDOWN''),
      (''MARKED_DRAWDOWN_LIMIT'', ''REJECTED_DRAWDOWN''),
      (''MULTIPLE_TESTING_UNCERTAINTY'', ''REJECTED_CONFIDENCE''),
      (''UNSTABLE_OR_INSUFFICIENT_WALK_FORWARD'', ''REJECTED_OUT_OF_SAMPLE'')]"

definition primary :: "pair_result \<Rightarrow> string" where
  "primary r =
     (if pr_data_status r = UNAVAILABLE then ''DATA_UNAVAILABLE''
      else if pr_data_status r = QUARANTINED then ''DATA_QUARANTINED''
      else if pr_synthetic r = Some True then ''INSUFFICIENT_EVIDENCE''
      else case List.find (\<lambda>(reason, status). reason \<in> set (pr_reasons r)) status_mapping of
        Some (reason, status) \<Rightarrow> status
      | None \<Rightarrow> if pr_reasons r \<noteq> [] then ''REJECTED_DATA_QUALITY''
               else if pr_qualified r \<and> pr_qualification r \<noteq> None then ''QUALIFIED'' else ''INSUFFICIENT_EVIDENCE'')"

record row =
  row_schema_version :: string
  row_run_id :: string
  row_software_hash :: string
  row_calendar_hash :: "string option"
  row_corporate_action_policy :: "string option"
  row_risk_policy_hash :: string
  row_capital :: rat
  row_result :: pair_result

text \<open>
  \<open>software\<close> is the digest of the installed sources and \<open>policy_hash\<close> that of the frozen policy.  \<open>not text\<close> holds of
  \<open>None\<close> and of the empty text.
\<close>

definition absent :: "string option \<Rightarrow> bool" where
  "absent t \<longleftrightarrow> t = None \<or> t = Some []"

definition numerical_gate :: "(policy \<Rightarrow> int \<Rightarrow> rat \<Rightarrow> rat) \<Rightarrow> (policy \<Rightarrow> string) \<Rightarrow> string \<Rightarrow> row \<Rightarrow> bool res" where
  "numerical_gate wilson_lower policy_hash software rw =
     (let r = row_result rw in
      if row_schema_version rw \<noteq> ''Phase1417Qualification.v1'' \<or> row_software_hash rw \<noteq> software \<or> pr_coverage r \<noteq> Some 1
         \<or> absent (row_calendar_hash rw) \<or> pr_policy_hash r \<noteq> policy_hash full_family_policy
         \<or> pr_hypothesis_family_size r \<noteq> Some 13380 \<or> absent (pr_family_run_id r) \<or> absent (pr_dataset_hash r)
         \<or> pr_holdout r = None \<or> pr_qualification r = None \<or> pr_data_status r \<notin> {SYNTHETIC, LOCAL_VERIFIED}
      then Inr False
      else bindR (qualify wilson_lower (pr_trades r) (row_capital rw) (rw_holdout_start (pr_window r)) (rw_folds (pr_window r))
                    full_family_policy) (\<lambda>q.
           Inr (Some q = pr_qualification r \<and> qf_qualified q
                \<and> \<not> list_ex (\<lambda>reason. reason \<noteq> ''SYNTHETIC_NOT_HISTORICAL_PERFORMANCE'') (pr_reasons r))))"

end
