(* ===== verification/Paper.thy ===== *)
theory Paper
  imports Pair_Research
begin

text \<open>
  \<open>phase1417/paper.py\<close>: the isolated paper simulation.  Risk limits and position sizing, the chained audit of states
  per signal with its replay, the admission gate, and the serialized run over the candidates of the frozen executor.

  Amounts that the code stores as text are kept as numbers.  Parameters stand for computations outside of the model: the
  canonical JSON of an audit row and of a binding, the hash function of the audit (the program's is SHA-256, \<open>digest\<close> of
  \<open>Texts\<close>; what is shown here holds for every function), the fingerprints of definitions, policies, risks and rows (digests of
  pydantic JSON), the JSON of candles, the installed software's digest, and the Wilson bound.  Publication to the file
  system is not modelled.
\<close>

section \<open>Risk and size\<close>

record risk =
  rk_fixture_only :: bool
  rk_reviewed_evidence :: "string option"
  rk_capital :: "rat option"
  rk_risk_per_trade :: "rat option"
  rk_daily_loss :: "rat option"
  rk_simultaneous_positions :: "int option"
  rk_symbol_exposure :: "rat option"
  rk_portfolio_exposure :: "rat option"
  rk_max_quantity :: "int option"
  rk_correlation_reviewed :: bool

text \<open>\<open>not value\<close> of an optional number: \<open>None\<close> or zero.\<close>

definition falsy :: "('a :: zero) option \<Rightarrow> bool" where
  "falsy v \<longleftrightarrow> v = None \<or> v = Some 0"

definition gap :: "string \<Rightarrow> string" where
  "gap name = ''RISK_POLICY_GAP:'' @ name"

definition risk_gaps :: "risk \<Rightarrow> string list" where
  "risk_gaps r = reasons_of
     [(absent (rk_reviewed_evidence r), gap ''reviewed_evidence''), (falsy (rk_capital r), gap ''capital''),
      (falsy (rk_risk_per_trade r), gap ''risk_per_trade''), (falsy (rk_daily_loss r), gap ''daily_loss''),
      (falsy (rk_simultaneous_positions r), gap ''simultaneous_positions''), (falsy (rk_symbol_exposure r), gap ''symbol_exposure''),
      (falsy (rk_portfolio_exposure r), gap ''portfolio_exposure''), (falsy (rk_max_quantity r), gap ''max_quantity''),
      (\<not> rk_correlation_reviewed r, gap ''correlation_reviewed'')]"

text \<open>\<open>int(x)\<close> of a decimal, towards zero.\<close>

definition trunc :: "rat \<Rightarrow> int" where
  "trunc x = (if 0 \<le> x then \<lfloor>x\<rfloor> else \<lceil>x\<rceil>)"

definition planned_stop :: "settings \<Rightarrow> rat \<Rightarrow> rat \<Rightarrow> rat" where
  "planned_stop cfg stop_fraction buy = prec40 (prec40 (buy * prec40 (1 - stop_fraction)) * prec40 (1 - slip_of cfg))"

definition fits :: "settings \<Rightarrow> rat \<Rightarrow> rat \<Rightarrow> rat \<Rightarrow> rat \<Rightarrow> rat \<Rightarrow> rat \<Rightarrow> bool" where
  "fits cfg stop_fraction risk_per_trade cash buy buy_fee exit_fee \<longleftrightarrow>
     prec40 (buy + buy_fee) \<le> cash
     \<and> prec40 (prec40 (prec40 (buy - planned_stop cfg stop_fraction buy) + buy_fee) + exit_fee) \<le> risk_per_trade"

function size_loop :: "settings \<Rightarrow> schedule \<Rightarrow> rat \<Rightarrow> instant \<Rightarrow> rat \<Rightarrow> rat \<Rightarrow> rat \<Rightarrow> int \<Rightarrow> int res" where
  "size_loop cfg costs price tm cash stop_fraction risk_per_trade quantity =
     (if quantity \<le> 0 then Inr 0
      else let buy = prec40 (price * of_int quantity) in
        bindR (quote_total costs BUY buy tm None) (\<lambda>buy_fee.
        bindR (quote_total costs SELL (planned_stop cfg stop_fraction buy) tm (Some buy)) (\<lambda>exit_fee.
        if fits cfg stop_fraction risk_per_trade cash buy buy_fee exit_fee then Inr quantity
        else size_loop cfg costs price tm cash stop_fraction risk_per_trade (quantity - 1))))"
  by pat_completeness auto
termination
  by (relation "measure (\<lambda>(cfg, costs, price, tm, cash, stop_fraction, risk_per_trade, quantity). nat quantity)") auto

declare size_loop.simps [simp del]

definition size_cap :: "risk \<Rightarrow> settings \<Rightarrow> rat \<Rightarrow> rat \<Rightarrow> int \<Rightarrow> rat \<Rightarrow> int res" where
  "size_cap r cfg price cash volume stop_fraction =
     bindR (div40 (the (rk_risk_per_trade r)) (prec40 (price * stop_fraction))) (\<lambda>by_risk.
     bindR (div40 (min (min (the (rk_symbol_exposure r)) (the (rk_portfolio_exposure r))) (set_order_ceiling cfg))
        (prec40 (price * set_price_buffer cfg))) (\<lambda>by_exposure.
     bindR (div40 cash price) (\<lambda>by_cash.
     Inr (min (min (min (min (min (set_quantity cfg) (the (rk_max_quantity r))) (trunc by_risk)) (trunc by_exposure))
       (trunc (prec40 (of_int volume * set_participation cfg)))) (trunc by_cash)))))"

definition paper_size :: "risk \<Rightarrow> settings \<Rightarrow> schedule \<Rightarrow> rat \<Rightarrow> instant \<Rightarrow> rat \<Rightarrow> int \<Rightarrow> rat \<Rightarrow> int res" where
  "paper_size r cfg costs price tm cash volume stop_fraction =
     (if risk_gaps r \<noteq> [] \<or> price \<le> 0 \<or> cash \<le> 0 then Inr 0
      else bindR (size_cap r cfg price cash volume stop_fraction)
        (size_loop cfg costs price tm cash stop_fraction (the (rk_risk_per_trade r))))"

section \<open>Audit\<close>

datatype paper_state =
    SIGNAL_RECEIVED | ELIGIBILITY_CHECKED | RISK_APPROVED | PAPER_ORDER_CREATED | PAPER_ORDER_ACCEPTED | PAPER_ORDER_REJECTED
  | PAPER_CANCELLED | PAPER_FILLED | PAPER_POSITION_OPEN | PAPER_EXIT_PENDING | PAPER_POSITION_CLOSED | PAPER_HALTED

fun state_text :: "paper_state \<Rightarrow> string" where
  "state_text SIGNAL_RECEIVED = ''SIGNAL_RECEIVED''"
| "state_text ELIGIBILITY_CHECKED = ''ELIGIBILITY_CHECKED''"
| "state_text RISK_APPROVED = ''RISK_APPROVED''"
| "state_text PAPER_ORDER_CREATED = ''PAPER_ORDER_CREATED''"
| "state_text PAPER_ORDER_ACCEPTED = ''PAPER_ORDER_ACCEPTED''"
| "state_text PAPER_ORDER_REJECTED = ''PAPER_ORDER_REJECTED''"
| "state_text PAPER_CANCELLED = ''PAPER_CANCELLED''"
| "state_text PAPER_FILLED = ''PAPER_FILLED''"
| "state_text PAPER_POSITION_OPEN = ''PAPER_POSITION_OPEN''"
| "state_text PAPER_EXIT_PENDING = ''PAPER_EXIT_PENDING''"
| "state_text PAPER_POSITION_CLOSED = ''PAPER_POSITION_CLOSED''"
| "state_text PAPER_HALTED = ''PAPER_HALTED''"

fun paper_transitions :: "paper_state option \<Rightarrow> paper_state set" where
  "paper_transitions None = {SIGNAL_RECEIVED}"
| "paper_transitions (Some SIGNAL_RECEIVED) = {ELIGIBILITY_CHECKED, PAPER_HALTED}"
| "paper_transitions (Some ELIGIBILITY_CHECKED) = {RISK_APPROVED, PAPER_ORDER_REJECTED, PAPER_HALTED}"
| "paper_transitions (Some RISK_APPROVED) = {PAPER_ORDER_CREATED}"
| "paper_transitions (Some PAPER_ORDER_CREATED) = {PAPER_ORDER_ACCEPTED, PAPER_ORDER_REJECTED, PAPER_CANCELLED}"
| "paper_transitions (Some PAPER_ORDER_ACCEPTED) = {PAPER_FILLED, PAPER_CANCELLED, PAPER_HALTED}"
| "paper_transitions (Some PAPER_FILLED) = {PAPER_POSITION_OPEN}"
| "paper_transitions (Some PAPER_POSITION_OPEN) = {PAPER_EXIT_PENDING, PAPER_HALTED}"
| "paper_transitions (Some PAPER_EXIT_PENDING) = {PAPER_POSITION_CLOSED, PAPER_HALTED}"
| "paper_transitions _ = {}"

definition execution_version :: string where
  "execution_version = ''Phase1418BCausalExecution.v1''"

definition execution_policy_text :: string where
  "execution_policy_text =
     ''{\"entry\":\"NEXT_OPEN_PREVIOUS_COMPLETED_VOLUME_ALL_OR_NONE\",'' @
     ''\"exit\":\"STOP_FIRST_TARGET_EOD_CONFIRM_AT_CANDLE_END\",'' @
     ''\"liquidity\":\"IMMEDIATELY_PRECEDING_COMPLETED_SAME_SESSION_CANDLE\",'' @
     ''\"missing_liquidity\":\"REJECT_NO_FALLBACK\",\"partial_fills\":false,'' @
     ''\"quantity\":\"FIXED_AT_ORDER_CREATION_WITH_OPENING_PRICE_OBSERVATION\",'' @
     ''\"unfilled_exit\":\"HALT_RETAIN_POSITION\",\"version\":\"Phase1418BCausalExecution.v1\"}''"

definition execution_fingerprint :: string where
  "execution_fingerprint = digest execution_policy_text"

record binding =
  bi_execution_policy_version :: string
  bi_execution_policy_hash :: string
  bi_qualification_hash :: string
  bi_risk_hash :: string
  bi_symbol :: string
  bi_strategy_id :: definition_id
  bi_scope :: string
  bi_rest :: string

text \<open>The keyword arguments of \<open>emit\<close>, with their defaults in \<open>no_values\<close>.\<close>

record emit_values =
  ev_price :: "rat option"
  ev_quantity :: int
  ev_fees :: "rat option"
  ev_cash :: "rat option"
  ev_position :: int
  ev_rejection :: "string option"
  ev_timing :: "timing option"

definition no_values :: emit_values where
  "no_values = \<lparr>ev_price = None, ev_quantity = 0, ev_fees = None, ev_cash = None, ev_position = 0, ev_rejection = None, ev_timing = None\<rparr>"

record audit_body =
  ab_event_id :: string
  ab_run_id :: string
  ab_signal :: string
  ab_binding :: binding
  ab_order_id :: string
  ab_timestamp :: instant
  ab_previous_state :: "paper_state option"
  ab_state :: paper_state
  ab_previous_hash :: string
  ab_values :: emit_values

record audit_row = audit_body +
  ar_current_hash :: string

record audit =
  au_binding :: binding
  au_run_id :: string
  au_events :: "audit_row list"
  au_states :: "string \<rightharpoonup> paper_state"
  au_keys :: "string set"

definition audit_init :: "(string \<Rightarrow> string) \<Rightarrow> (binding \<Rightarrow> string) \<Rightarrow> binding \<Rightarrow> audit res" where
  "audit_init sha binding_json b =
     (if bi_execution_policy_version b \<noteq> execution_version \<or> bi_execution_policy_hash b \<noteq> execution_fingerprint
      then Inl (ValueError ''INCOMPATIBLE_EXECUTION_POLICY'')
      else Inr \<lparr>au_binding = b, au_run_id = sha (binding_json b), au_events = [], au_states = Map.empty, au_keys = {}\<rparr>)"

definition zero_hash :: string where
  "zero_hash = replicate 64 CHR ''0''"

definition body_of :: "(string \<Rightarrow> string) \<Rightarrow> audit \<Rightarrow> string \<Rightarrow> paper_state \<Rightarrow> instant \<Rightarrow> emit_values \<Rightarrow> audit_body" where
  "body_of sha a sig state tm v =
     \<lparr>ab_event_id = sha (au_run_id a @ sig @ state_text state), ab_run_id = au_run_id a, ab_signal = sig, ab_binding = au_binding a,
      ab_order_id = sha (au_run_id a @ sig), ab_timestamp = tm, ab_previous_state = au_states a sig, ab_state = state,
      ab_previous_hash = (if au_events a = [] then zero_hash else ar_current_hash (last (au_events a))), ab_values = v\<rparr>"

definition sealed :: "(string \<Rightarrow> string) \<Rightarrow> (audit_body \<Rightarrow> string) \<Rightarrow> audit_body \<Rightarrow> audit_row" where
  "sealed sha row_json b = audit_body.extend b \<lparr>ar_current_hash = sha (row_json b)\<rparr>"

definition emit :: "(string \<Rightarrow> string) \<Rightarrow> (audit_body \<Rightarrow> string) \<Rightarrow> string \<Rightarrow> paper_state \<Rightarrow> instant \<Rightarrow> emit_values \<Rightarrow> audit \<Rightarrow> audit res" where
  "emit sha row_json sig state tm v a =
     (let key = sha (au_run_id a @ sig @ state_text state) in
      bindR (checks
        [(state \<notin> paper_transitions (au_states a sig), ''INVALID_OR_REPEATED_PAPER_TRANSITION''),
         (key \<in> au_keys a \<or> 200000 \<le> length (au_events a), ''PAPER_IDEMPOTENCY_OR_RESOURCE_LIMIT''),
         (au_events a \<noteq> [] \<and> tm < ab_timestamp (last (au_events a)), ''NON_CHRONOLOGICAL_PAPER_EVENT'')]) (\<lambda>_.
      Inr (a\<lparr>au_events := au_events a @ [sealed sha row_json (body_of sha a sig state tm v)],
             au_states := (au_states a)(sig \<mapsto> state), au_keys := insert key (au_keys a)\<rparr>)))"

definition replay_step :: "(string \<Rightarrow> string) \<Rightarrow> (audit_body \<Rightarrow> string) \<Rightarrow> audit_row \<Rightarrow> audit \<Rightarrow> audit res" where
  "replay_step sha row_json row a =
     bindR (emit sha row_json (ab_signal row) (ab_state row) (ab_timestamp row) (ab_values row) a) (\<lambda>a1.
     if last (au_events a1) \<noteq> row then Inl (ValueError ''PAPER_AUDIT_TAMPERED'') else Inr a1)"

definition replay :: "(string \<Rightarrow> string) \<Rightarrow> (binding \<Rightarrow> string) \<Rightarrow> (audit_body \<Rightarrow> string) \<Rightarrow> binding \<Rightarrow> audit_row list \<Rightarrow> audit res" where
  "replay sha binding_json row_json b rows = bindR (audit_init sha binding_json b) (foldR (replay_step sha row_json) rows)"

section \<open>Admission\<close>

datatype authorization_mode = SYNTHETIC_FIXTURE | AUTHORIZED_LOCAL_PAPER

record authorization =
  az_mode :: authorization_mode
  az_enabled :: bool
  az_evidence_hash :: string
  az_qualification_hash :: string
  az_risk_hash :: string
  az_dataset_hash :: string
  az_valid_from :: instant
  az_valid_to :: instant
  az_partial_fills :: bool
  az_paper_halt :: bool

text \<open>The computations outside of the model, together.\<close>

record externals =
  xt_sha :: "string \<Rightarrow> string"
  xt_wilson_lower :: "policy \<Rightarrow> int \<Rightarrow> rat \<Rightarrow> rat"
  xt_policy_hash :: "policy \<Rightarrow> string"
  xt_software_hash :: string
  xt_row_hash :: "row \<Rightarrow> string"
  xt_risk_hash :: "risk \<Rightarrow> string"
  xt_definition_hash :: "strategy_definition \<Rightarrow> string"
  xt_candle_json :: "bar \<Rightarrow> string"
  xt_binding_json :: "binding \<Rightarrow> string"
  xt_row_json :: "audit_body \<Rightarrow> string"

definition admission ::
  "externals \<Rightarrow> row \<Rightarrow> pair_dataset \<Rightarrow> strategy_definition \<Rightarrow> settings \<Rightarrow> risk \<Rightarrow> authorization \<Rightarrow> string list res" where
  "admission xt rw ds d cfg rk az =
     (let sr = pd_series ds; synthetic = (az_mode az = SYNTHETIC_FIXTURE); r = row_result rw in
      bindR (numerical_gate (xt_wilson_lower xt) (xt_policy_hash xt) (xt_software_hash xt) rw) (\<lambda>gate.
      Inr (risk_gaps rk @ reasons_of
        [(\<not> az_enabled az \<or> sr_from sr < az_valid_from az \<or> az_valid_to az < sr_to sr \<or> az_valid_to az \<le> az_valid_from az,
          ''PAPER_AUTHORIZATION_REQUIRED''),
         (az_qualification_hash az \<noteq> xt_row_hash xt rw \<or> az_risk_hash az \<noteq> xt_risk_hash xt rk \<or> az_dataset_hash az \<noteq> pd_sha256 ds
           \<or> row_risk_policy_hash rw \<noteq> xt_risk_hash xt rk, ''PAPER_BINDING_CONFLICT''),
         (\<not> gate \<or> (\<not> synthetic \<and> primary r \<noteq> ''QUALIFIED'') \<or> (pr_synthetic r = Some True) \<noteq> synthetic
           \<or> sr_synthetic sr \<noteq> synthetic \<or> rk_fixture_only rk \<noteq> synthetic, ''QUALIFIED_PAIR_REQUIRED''),
         (pr_symbol r \<noteq> sr_symbol sr \<or> pr_strategy_hash r \<noteq> xt_definition_hash xt d
           \<or> pr_strategy_version r \<noteq> ''1'' \<or> sr_from sr < rw_end (pr_window r),
          ''STRATEGY_OR_HISTORY_BOUNDARY_CONFLICT''),
         (pd_quarantined ds \<or> \<not> pd_calendar_verified ds \<or> \<not> pd_mapping_verified ds \<or> \<not> sr_corporate_actions_reviewed sr
           \<or> pd_missing_sessions ds \<noteq> 0 \<or> pd_duplicate_candles ds \<noteq> 0 \<or> pd_out_of_order ds \<noteq> 0 \<or> quality sr \<noteq> ([], []),
          ''PAPER_DATA_QUALITY''),
         (rk_capital rk \<noteq> Some (set_capital cfg), ''SIMULATED_CAPITAL_CONFLICT''),
         (az_partial_fills az, ''PARTIAL_FILLS_UNSUPPORTED_FROZEN_EXECUTOR'')])))"

section \<open>Simulation\<close>

datatype paper_candidate = Traded five_trade | Unvalued unresolved | Denied instant string

fun candidate_time :: "paper_candidate \<Rightarrow> instant" where
  "candidate_time (Traded t) = ft_entry_at t"
| "candidate_time (Unvalued u) = un_entry_at u"
| "candidate_time (Denied tm reason) = tm"

text \<open>
  The time of a refused entry is read back from the text \<open>no_fills\<close> by the code; the executor's decisions carry it.
\<close>

definition refused_times :: "execution \<Rightarrow> instant list" where
  "refused_times x = map (\<lambda>e. tim_order_created_at (ed_timing e)) (filter (\<lambda>e. \<not> ed_filled e) (exn_entry_decisions x))"

definition candidates_of :: "execution \<Rightarrow> paper_candidate list" where
  "candidates_of x = sort_key candidate_time (map Traded (sim5_trades x) @ map Unvalued (exn_unresolved x)
     @ map2 Denied (refused_times x) (sim5_no_fills x))"

record paper_run =
  pp_audit :: audit
  pp_cash :: rat
  pp_day :: "date option"
  pp_day_start_cash :: rat
  pp_stopped :: bool

definition paper_emit :: "externals \<Rightarrow> string \<Rightarrow> paper_state \<Rightarrow> instant \<Rightarrow> emit_values \<Rightarrow> paper_run \<Rightarrow> paper_run res" where
  "paper_emit xt sig state tm v st = bindR (emit (xt_sha xt) (xt_row_json xt) sig state tm v (pp_audit st)) (\<lambda>a. Inr (st\<lparr>pp_audit := a\<rparr>))"

definition candle_at :: "series \<Rightarrow> instant \<Rightarrow> bar res" where
  "candle_at sr tm = (case bar_at (sr_bars sr) tm of None \<Rightarrow> Inl KeyError | Some b \<Rightarrow> Inr b)"

definition paper_denied :: "externals \<Rightarrow> series \<Rightarrow> strategy_definition \<Rightarrow> instant \<Rightarrow> string \<Rightarrow> paper_run \<Rightarrow> paper_run res" where
  "paper_denied xt sr d tm reason st =
     bindR (candle_at sr (tm - FIVE)) (\<lambda>candle.
     bindR (paper_event_of (xt_definition_hash xt) (xt_candle_json xt) (sr_symbol sr) d candle tm) (\<lambda>e.
     let key = pe_idempotency_key e in
     bindR (paper_emit xt key SIGNAL_RECEIVED tm no_values st) (\<lambda>st.
     bindR (paper_emit xt key ELIGIBILITY_CHECKED tm no_values st) (\<lambda>st.
     paper_emit xt key PAPER_ORDER_REJECTED tm (no_values\<lparr>ev_rejection := Some reason, ev_cash := Some (pp_cash st)\<rparr>) st))))"

text \<open>The exit of a filled position; \<open>exit_price\<close> is \<open>None\<close> for an unresolved one.\<close>

definition reason_text :: "exit_reason \<Rightarrow> string" where
  "reason_text r = (case r of STOP \<Rightarrow> ''STOP'' | TARGET \<Rightarrow> ''TARGET'' | EOD \<Rightarrow> ''EOD'')"

definition paper_exit ::
  "externals \<Rightarrow> series \<Rightarrow> settings \<Rightarrow> schedule \<Rightarrow> string \<Rightarrow> int \<Rightarrow> rat \<Rightarrow> instant \<Rightarrow> exit_reason \<Rightarrow> rat option \<Rightarrow> paper_run \<Rightarrow> paper_run res" where
  "paper_exit xt sr cfg costs key quantity buy exit_at reason exit_price st =
     bindR (candle_at sr (exit_at - FIVE)) (\<lambda>exit_bar.
     bindR (paper_emit xt key PAPER_EXIT_PENDING exit_at
       (no_values\<lparr>ev_quantity := quantity, ev_rejection := Some (reason_text reason), ev_position := quantity\<rparr>) st) (\<lambda>st.
     case exit_price of
       Some price \<Rightarrow>
         if prec40 (of_int (bar_volume exit_bar) * set_participation cfg) < of_int quantity
         then bindR (paper_emit xt key PAPER_HALTED exit_at (no_values\<lparr>ev_rejection := Some ''EXIT_LIQUIDITY_UNVALUED'',
                ev_cash := Some (pp_cash st), ev_position := quantity, ev_quantity := quantity\<rparr>) st) (\<lambda>st. Inr (st\<lparr>pp_stopped := True\<rparr>))
         else
           let sell = prec40 (price * of_int quantity) in
           bindR (quote_total costs SELL sell (bar_start exit_bar) (Some buy)) (\<lambda>sell_fee.
           let cash = prec40 (pp_cash st + prec40 (sell - sell_fee)) in
           paper_emit xt key PAPER_POSITION_CLOSED exit_at (no_values\<lparr>ev_price := Some price, ev_quantity := quantity,
             ev_fees := Some sell_fee, ev_cash := Some cash, ev_rejection := Some (reason_text reason)\<rparr>) (st\<lparr>pp_cash := cash\<rparr>))
     | None \<Rightarrow>
         bindR (paper_emit xt key PAPER_HALTED exit_at (no_values\<lparr>ev_rejection := Some ''EXIT_LIQUIDITY_UNVALUED'',
           ev_cash := Some (pp_cash st), ev_position := quantity, ev_quantity := quantity\<rparr>) st) (\<lambda>st. Inr (st\<lparr>pp_stopped := True\<rparr>))))"

definition paper_fill ::
  "externals \<Rightarrow> series \<Rightarrow> schedule \<Rightarrow> string \<Rightarrow> int \<Rightarrow> rat \<Rightarrow> instant \<Rightarrow> paper_run \<Rightarrow> paper_run res" where
  "paper_fill xt sr costs key quantity entry tm st =
     bindR (decision_timing sr tm) (\<lambda>tim.
     let stage = no_values\<lparr>ev_quantity := quantity, ev_timing := Some tim\<rparr> in
     bindR (paper_emit xt key RISK_APPROVED tm stage st) (\<lambda>st.
     bindR (paper_emit xt key PAPER_ORDER_CREATED tm stage st) (\<lambda>st.
     bindR (paper_emit xt key PAPER_ORDER_ACCEPTED tm stage st) (\<lambda>st.
     let buy = prec40 (entry * of_int quantity) in
     bindR (quote_total costs BUY buy tm None) (\<lambda>fee.
     let cash = prec40 (pp_cash st - prec40 (buy + fee)) in
     bindR (paper_emit xt key PAPER_FILLED tm (no_values\<lparr>ev_timing := Some tim, ev_price := Some entry, ev_quantity := quantity,
       ev_fees := Some fee, ev_cash := Some cash, ev_position := quantity\<rparr>) (st\<lparr>pp_cash := cash\<rparr>)) (\<lambda>st.
     paper_emit xt key PAPER_POSITION_OPEN tm (no_values\<lparr>ev_quantity := quantity, ev_cash := Some cash, ev_position := quantity\<rparr>) st))))))"

definition refusal :: "instant \<Rightarrow> paper_event \<Rightarrow> rat \<Rightarrow> rat \<Rightarrow> rat \<Rightarrow> int \<Rightarrow> string option" where
  "refusal tm e day_start_cash cash daily_loss quantity =
     (if pe_expiry e \<le> tm then Some ''SIGNAL_EXPIRED''
      else if daily_loss \<le> prec40 (day_start_cash - cash) then Some ''DAILY_LOSS_GUARD''
      else if quantity < 1 then Some ''POSITION_SIZE_OR_EXPOSURE_OR_LIQUIDITY'' else None)"

definition new_day :: "instant \<Rightarrow> paper_run \<Rightarrow> paper_run" where
  "new_day tm st = (if pp_day st \<noteq> Some (nse_date tm) then st\<lparr>pp_day := Some (nse_date tm), pp_day_start_cash := pp_cash st\<rparr> else st)"

definition paper_trade ::
  "externals \<Rightarrow> series \<Rightarrow> strategy_definition \<Rightarrow> settings \<Rightarrow> schedule \<Rightarrow> risk \<Rightarrow> instant \<Rightarrow> instant \<Rightarrow> rat \<Rightarrow> instant \<Rightarrow> exit_reason
     \<Rightarrow> rat option \<Rightarrow> paper_run \<Rightarrow> paper_run res" where
  "paper_trade xt sr d cfg costs rk signal_at tm entry exit_at reason exit_price st =
     bindR (candle_at sr (signal_at - FIVE)) (\<lambda>candle.
     bindR (paper_event_of (xt_definition_hash xt) (xt_candle_json xt) (sr_symbol sr) d candle tm) (\<lambda>e.
     let key = pe_idempotency_key e in
     bindR (paper_emit xt key SIGNAL_RECEIVED signal_at no_values (new_day tm st)) (\<lambda>st.
     bindR (paper_emit xt key ELIGIBILITY_CHECKED tm no_values st) (\<lambda>st.
     bindR (liquidity_bar sr tm) (\<lambda>prior.
     bindR (paper_size rk cfg costs entry tm (pp_cash st) (bar_volume prior) (def_stop d)) (\<lambda>quantity.
     case rk_daily_loss rk of
       None \<Rightarrow> Inl AssertionError
     | Some daily_loss \<Rightarrow>
         (case refusal tm e (pp_day_start_cash st) (pp_cash st) daily_loss quantity of
            Some why \<Rightarrow> paper_emit xt key PAPER_ORDER_REJECTED tm (no_values\<lparr>ev_rejection := Some why, ev_cash := Some (pp_cash st)\<rparr>) st
          | None \<Rightarrow> bindR (paper_fill xt sr costs key quantity entry tm st) (\<lambda>st.
               paper_exit xt sr cfg costs key quantity (prec40 (entry * of_int quantity)) exit_at reason exit_price st))))))))"

definition paper_step ::
  "externals \<Rightarrow> series \<Rightarrow> strategy_definition \<Rightarrow> settings \<Rightarrow> schedule \<Rightarrow> risk \<Rightarrow> paper_candidate \<Rightarrow> paper_run \<Rightarrow> paper_run res" where
  "paper_step xt sr d cfg costs rk c st =
     (if pp_stopped st then Inr st
      else case c of
        Denied tm reason \<Rightarrow> paper_denied xt sr d tm reason st
      | Traded t \<Rightarrow> paper_trade xt sr d cfg costs rk (ft_signal_at t) (ft_entry_at t) (ft_entry t) (ft_exit_at t) (ft_reason t)
                      (Some (ft_exit t)) st
      | Unvalued u \<Rightarrow> paper_trade xt sr d cfg costs rk (un_signal_at u) (un_entry_at u) (un_entry u) (un_exit_at u) (un_reason u) None st)"

definition join_texts :: "string list \<Rightarrow> string" where
  "join_texts ts = concat (map (\<lambda>(i, t). if i = 0 then t else CHR '';'' # t) (enumerate 0 ts))"

definition refuse_admission :: "externals \<Rightarrow> instant \<Rightarrow> bool \<Rightarrow> string list \<Rightarrow> paper_run \<Rightarrow> paper_run res" where
  "refuse_admission xt start halt failures st =
     (let sig = xt_sha xt (au_run_id (pp_audit st) @ ''admission'') in
      bindR (paper_emit xt sig SIGNAL_RECEIVED start no_values st) (\<lambda>st.
      bindR (paper_emit xt sig ELIGIBILITY_CHECKED start no_values st) (\<lambda>st.
      paper_emit xt sig (if halt then PAPER_HALTED else PAPER_ORDER_REJECTED) start
        (no_values\<lparr>ev_rejection := Some (if halt then ''PAPER_HALT'' else join_texts failures), ev_cash := Some (pp_cash st)\<rparr>) st)))"

definition refuse_data :: "externals \<Rightarrow> instant \<Rightarrow> string \<Rightarrow> paper_run \<Rightarrow> paper_run res" where
  "refuse_data xt start why st =
     (let sig = xt_sha xt (au_run_id (pp_audit st) @ ''quality'') in
      bindR (paper_emit xt sig SIGNAL_RECEIVED start no_values st) (\<lambda>st.
      paper_emit xt sig PAPER_HALTED start (no_values\<lparr>ev_rejection := Some why, ev_cash := Some (pp_cash st)\<rparr>) st))"

definition paper_simulate ::
  "externals \<Rightarrow> binding \<Rightarrow> row \<Rightarrow> pair_dataset \<Rightarrow> strategy_definition \<Rightarrow> settings \<Rightarrow> schedule \<Rightarrow> risk \<Rightarrow> authorization \<Rightarrow> paper_run res" where
  "paper_simulate xt b rw ds d cfg costs rk az =
     bindR (audit_init (xt_sha xt) (xt_binding_json xt) b) (\<lambda>a.
     bindR (admission xt rw ds d cfg rk az) (\<lambda>failures.
     let sr = pd_series ds; start = sr_from sr;
         st = \<lparr>pp_audit = a, pp_cash = set_capital cfg, pp_day = None, pp_day_start_cash = set_capital cfg, pp_stopped = False\<rparr> in
     bindR (if failures \<noteq> [] \<or> az_paper_halt az then refuse_admission xt start (az_paper_halt az) failures st
            else case execute sr d (cfg\<lparr>set_quantity := 1\<rparr>) costs of
              Inl (ValueError why) \<Rightarrow> refuse_data xt start why st
            | Inl e \<Rightarrow> Inl e
            | Inr x \<Rightarrow> foldR (paper_step xt sr d cfg costs rk) (candidates_of x) st) (\<lambda>st.
     bindR (replay (xt_sha xt) (xt_binding_json xt) (xt_row_json xt) b (au_events (pp_audit st))) (\<lambda>_. Inr st))))"

end
