(* ===== verification/Slot_Engine.thy ===== *)
theory Slot_Engine
  imports Five_Minute
begin

text \<open>
  What the two five-minute engines share: the grid of slots of a session, the invariant of a book of trades and a held
  position, and the locale \<open>slot_engine\<close>, whose clients are loops over the slots of ordered sessions.  An engine
  promises that one slot keeps its invariant and that a session starts and ends in good order; the locale concludes
  for whole runs.
\<close>

section \<open>The five-minute grid\<close>

lemma slots_from_Nil: "\<not> a < e \<Longrightarrow> slots_from a e = []"
  by (simp add: slots_from.simps)

lemma slots_from_Cons: "a < e \<Longrightarrow> slots_from a e = a # slots_from (a + FIVE) e"
  by (subst slots_from.simps) simp

lemma slots_from_bounds: "t \<in> set (slots_from a e) \<Longrightarrow> a \<le> t \<and> t < e \<and> (t - a) mod FIVE = 0"
proof (induction a e rule: slots_from.induct)
  case (1 a e)
  show ?case
  proof (cases "a < e \<and> t \<noteq> a")
    case True
    with 1 have "a + FIVE \<le> t" "t < e" "(t - (a + FIVE)) mod FIVE = 0"
      by (auto simp: slots_from_Cons)
    moreover have "(t - a) mod FIVE = (t - (a + FIVE) + FIVE) mod FIVE" by simp
    ultimately show ?thesis by (simp only: mod_add_self2) simp
  next
    case False
    with 1(2) show ?thesis by (cases "a < e") (auto simp: slots_from_Cons slots_from_Nil)
  qed
qed

lemma slots_from_sorted: "sorted_wrt (<) (slots_from a e)"
proof (induction a e rule: slots_from.induct)
  case (1 a e)
  show ?case
  proof (cases "a < e")
    case True
    with 1 show ?thesis by (force simp: slots_from_Cons dest: slots_from_bounds)
  qed (simp add: slots_from_Nil)
qed

text \<open>The loop of \<open>quality\<close> in closed form: a session of \<open>k\<close> slots.\<close>

lemma slots_from_closed: "slots_from a (a + int k * FIVE) = map (\<lambda>i. a + int i * FIVE) [0..<k]"
proof (induction k arbitrary: a)
  case (Suc k)
  have "slots_from a (a + int (Suc k) * FIVE) = a # slots_from (a + FIVE) (a + FIVE + int k * FIVE)"
    by (subst slots_from_Cons) (simp_all add: algebra_simps)
  also have "\<dots> = a # map (\<lambda>i. a + int (Suc i) * FIVE) [0..<k]"
    unfolding Suc.IH by (simp add: algebra_simps)
  also have "\<dots> = map (\<lambda>i. a + int i * FIVE) [0..<Suc k]"
    by (simp only: upt_conv_Cons zero_less_Suc map_Suc_upt [symmetric]) simp
  finally show ?case .
qed (simp add: slots_from_Nil)

lemma check_dated_session_Inr:
  "check_dated_session s = Inr u \<Longrightarrow> dse_start s < dse_end s \<and> (dse_end s - dse_start s) mod FIVE = 0"
  by (auto simp: check_dated_session_def res_simps)

lemma check_series_Inr:
  assumes "check_series sr = Inr u"
  shows "\<And>s. s \<in> set (sr_sessions sr) \<Longrightarrow> dse_start s < dse_end s \<and> (dse_end s - dse_start s) mod FIVE = 0"
    and "\<exists>e. foldR (check_session_order (sr_to sr)) (sr_sessions sr) (sr_from sr) = Inr e"
    and "sorted_wrt (<) (map bar_start (sr_bars sr))"
proof -
  from assms obtain us where m: "mapR check_dated_session (sr_sessions sr) = Inr us"
    and o: "\<exists>e. foldR (check_session_order (sr_to sr)) (sr_sessions sr) (sr_from sr) = Inr e"
    and i: "strictly_increasing (map bar_start (sr_bars sr))"
    by (auto simp: check_series_def res_simps)
  show "dse_start s < dse_end s \<and> (dse_end s - dse_start s) mod FIVE = 0" if "s \<in> set (sr_sessions sr)" for s
    using mapR_Inr_elem [OF m that] check_dated_session_Inr by metis
  show "\<exists>e. foldR (check_session_order (sr_to sr)) (sr_sessions sr) (sr_from sr) = Inr e" by (rule o)
  show "sorted_wrt (<) (map bar_start (sr_bars sr))" using i by (simp add: strictly_increasing_iff)
qed

lemma session_order_sorted:
  assumes "foldR (check_session_order stop) ss a = Inr e" and "\<And>s. s \<in> set ss \<Longrightarrow> dse_start s < dse_end s"
  shows "sorted_wrt (\<lambda>s t. dse_end s \<le> dse_start t) ss \<and> (\<forall>s \<in> set ss. a \<le> dse_start s)"
  using assms
proof (induction ss arbitrary: a)
  case (Cons s ss)
  from Cons.prems(1) obtain b where b: "check_session_order stop s a = Inr b" "foldR (check_session_order stop) ss b = Inr e"
    by (auto simp: res_simps)
  from b(1) have "a \<le> dse_start s" "b = dse_end s" by (auto simp: check_session_order_def split: if_splits)
  with b(2) have s: "a \<le> dse_start s" "foldR (check_session_order stop) ss (dse_end s) = Inr e" by simp_all
  then have "sorted_wrt (\<lambda>s t. dse_end s \<le> dse_start t) ss \<and> (\<forall>t \<in> set ss. dse_end s \<le> dse_start t)"
    using Cons by auto
  moreover have "dse_start s < dse_end s" using Cons.prems(2) by simp
  ultimately show ?case using s(1) by force
qed simp

lemma sessions_grid_sorted:
  assumes "sorted_wrt (\<lambda>s t. dse_end s \<le> dse_start t) ss"
  shows "sorted_wrt (<) (concat (map session_slots ss))"
  using assms
proof (induction ss)
  case (Cons s ss)
  have "x < y" if "x \<in> set (session_slots s)" "y \<in> set (concat (map session_slots ss))" for x y
    using that Cons.prems by (fastforce simp: session_slots_def dest!: slots_from_bounds)
  with Cons show ?case by (auto simp: sorted_wrt_append slots_from_sorted session_slots_def)
qed simp
section \<open>Books of trades\<close>

definition entry_time_ok :: "dated_session \<Rightarrow> instant \<Rightarrow> bool" where
  "entry_time_ok ss t \<longleftrightarrow> dse_start ss + FIVE \<le> t \<and> t + FIVE < dse_end ss"

text \<open>A trade inside one session, with what the engine promises of its entry (\<open>eok\<close>) and of its exit (\<open>xok\<close>).\<close>

definition trade_good ::
  "(instant \<Rightarrow> rat \<Rightarrow> bool) \<Rightarrow> (dated_session \<Rightarrow> five_trade \<Rightarrow> bool) \<Rightarrow> dated_session \<Rightarrow> five_trade \<Rightarrow> bool" where
  "trade_good eok xok ss t \<longleftrightarrow> entry_time_ok ss (ft_entry_at t) \<and> ft_signal_at t = ft_entry_at t
     \<and> ft_entry_at t < ft_exit_at t \<and> ft_exit_at t \<le> dse_end ss \<and> eok (ft_entry_at t) (ft_entry t) \<and> xok ss t"

definition exposure_of :: "five_trade list \<Rightarrow> int" where
  "exposure_of ts = sum_list (map (\<lambda>t. (ft_exit_at t - ft_entry_at t) div 1000000) ts)"

text \<open>The trades recorded so far: good, one after the other, over by \<open>tm\<close>.\<close>

definition book_ok :: "(five_trade \<Rightarrow> bool) \<Rightarrow> instant \<Rightarrow> 'a five_scheme \<Rightarrow> bool" where
  "book_ok good tm st \<longleftrightarrow> (\<forall>t \<in> set (fv_trades st). good t \<and> ft_exit_at t \<le> tm)
     \<and> sorted_wrt (\<lambda>t u. ft_exit_at t \<le> ft_entry_at u) (fv_trades st) \<and> fv_exposure st = exposure_of (fv_trades st)"

definition held_ok :: "(instant \<Rightarrow> rat \<Rightarrow> bool) \<Rightarrow> dated_session \<Rightarrow> instant \<Rightarrow> 'a five_scheme \<Rightarrow> bool" where
  "held_ok eok ss tm st \<longleftrightarrow>
     (\<forall>d en entry fee. fv_position st = Some (d, en, entry, fee) \<longrightarrow>
        d = en \<and> entry_time_ok ss en \<and> en \<le> tm \<and> eok en entry \<and> (\<forall>t \<in> set (fv_trades st). ft_exit_at t \<le> en))"

text \<open>Before the slot \<open>tm\<close> of the session.\<close>

definition slot_inv ::
  "(five_trade \<Rightarrow> bool) \<Rightarrow> (instant \<Rightarrow> rat \<Rightarrow> bool) \<Rightarrow> dated_session \<Rightarrow> instant \<Rightarrow> 'a five_scheme \<Rightarrow> bool" where
  "slot_inv good eok ss tm st \<longleftrightarrow> book_ok good tm st \<and> held_ok eok ss tm st
     \<and> (\<forall>p. fv_pending st = Some p \<longrightarrow> p = tm \<and> dse_start ss + FIVE \<le> tm \<and> tm < dse_end ss \<and> fv_position st = None)
     \<and> (dse_end ss \<le> tm \<longrightarrow> fv_position st = None)"

lemma bar_at_Some: "bar_at bars t = Some b \<Longrightarrow> b \<in> set bars \<and> bar_start b = t"
  unfolding bar_at_def by (drule map_of_SomeD) auto

lemma book_ok_mono: "book_ok good tm st \<Longrightarrow> tm \<le> tm' \<Longrightarrow> book_ok good tm' st"
  by (force simp: book_ok_def)

lemma held_ok_mono: "held_ok eok ss tm st \<Longrightarrow> tm \<le> tm' \<Longrightarrow> held_ok eok ss tm' st"
  by (fastforce simp: held_ok_def)

lemma book_ok_cong:
  "fv_trades st' = fv_trades st \<Longrightarrow> fv_exposure st' = fv_exposure st \<Longrightarrow> book_ok good tm st' = book_ok good tm st"
  by (simp add: book_ok_def)

lemma held_ok_cong:
  "fv_trades st' = fv_trades st \<Longrightarrow> fv_position st' = fv_position st \<Longrightarrow> held_ok eok ss tm st' = held_ok eok ss tm st"
  by (simp add: held_ok_def)

text \<open>Opening a position at a pending signal, and closing one.\<close>

lemma held_ok_open:
  assumes "book_ok good tm st" "fv_trades st' = fv_trades st" "fv_position st' = Some (tm, tm, entry, fee)"
    "entry_time_ok ss tm" "eok tm entry"
  shows "held_ok eok ss tm st'"
  using assms by (simp add: held_ok_def book_ok_def)

lemma five_mark_keeps:
  assumes "five_mark cfg costs b entry st = Inr st'"
  shows "fv_trades st' = fv_trades st" "fv_exposure st' = fv_exposure st" "fv_position st' = fv_position st"
    "fv_pending st' = fv_pending st" "five.more st' = five.more st" "fv_cash st' = fv_cash st"
  using assms by (auto simp: five_mark_def res_simps Let_def)

lemma five_close_keeps:
  "fv_trades (five_close cfg b (d, en, entry, paid) x reason fee st)
     = fv_trades st @ [five_trade_of cfg b (d, en, entry, paid) x reason fee]"
  "fv_exposure (five_close cfg b (d, en, entry, paid) x reason fee st) = fv_exposure st + (candle_end b - en) div 1000000"
  "fv_position (five_close cfg b (d, en, entry, paid) x reason fee st) = None"
  "fv_pending (five_close cfg b (d, en, entry, paid) x reason fee st) = fv_pending st"
  "five.more (five_close cfg b (d, en, entry, paid) x reason fee st) = five.more st"
  by (simp_all add: five_close_def)

lemma five_trade_of_simps [simp]:
  "ft_signal_at (five_trade_of cfg b (d, en, entry, paid) x reason fee) = d"
  "ft_entry_at (five_trade_of cfg b (d, en, entry, paid) x reason fee) = en"
  "ft_exit_at (five_trade_of cfg b (d, en, entry, paid) x reason fee) = candle_end b"
  "ft_entry (five_trade_of cfg b (d, en, entry, paid) x reason fee) = entry"
  "ft_exit (five_trade_of cfg b (d, en, entry, paid) x reason fee) = x"
  "ft_quantity (five_trade_of cfg b (d, en, entry, paid) x reason fee) = set_quantity cfg"
  "ft_reason (five_trade_of cfg b (d, en, entry, paid) x reason fee) = reason"
  "ft_fees (five_trade_of cfg b (d, en, entry, paid) x reason fee) = fee"
  "ft_gross (five_trade_of cfg b (d, en, entry, paid) x reason fee)
     = prec40 (times_quantity cfg x - times_quantity cfg entry)"
  "ft_net (five_trade_of cfg b (d, en, entry, paid) x reason fee)
     = prec40 (prec40 (times_quantity cfg x - times_quantity cfg entry) - fee)"
  by (simp_all add: five_trade_of_def Let_def)

lemma book_ok_close:
  assumes book: "book_ok good (bar_start b) st" and held: "held_ok eok ss (bar_start b) st"
    and pos: "fv_position st = Some (d, en, entry, paid)" and grid: "candle_end b \<le> dse_end ss"
    and st1: "fv_trades st1 = fv_trades st" "fv_exposure st1 = fv_exposure st"
    and xok: "xok ss (five_trade_of cfg b (d, en, entry, paid) x reason fee)"
    and good: "\<And>t. trade_good eok xok ss t \<Longrightarrow> good t"
  shows "book_ok good (candle_end b) (five_close cfg b (d, en, entry, paid) x reason fee st1)"
proof -
  have h: "d = en" "entry_time_ok ss en" "en \<le> bar_start b" "eok en entry" "\<forall>t \<in> set (fv_trades st). ft_exit_at t \<le> en"
    using held pos by (auto simp: held_ok_def)
  have "trade_good eok xok ss (five_trade_of cfg b (d, en, entry, paid) x reason fee)"
    using h xok grid by (simp add: trade_good_def candle_end_def)
  then have "good (five_trade_of cfg b (d, en, entry, paid) x reason fee)" by (rule good)
  with book h(5) show ?thesis
    unfolding book_ok_def five_close_keeps st1
    by (force simp: exposure_of_def sorted_wrt_append candle_end_def)
qed

section \<open>Engines that walk the slots of ordered sessions\<close>

locale slot_engine =
  fixes sessions :: "dated_session set"
    and start :: "dated_session \<Rightarrow> 's \<Rightarrow> 's res"
    and step :: "dated_session \<Rightarrow> instant \<Rightarrow> 's \<Rightarrow> 's res"
    and inside :: "dated_session \<Rightarrow> instant \<Rightarrow> 's \<Rightarrow> bool"
    and between :: "instant \<Rightarrow> 's \<Rightarrow> bool"
  assumes start_inside: "ss \<in> sessions \<Longrightarrow> dse_start ss < dse_end ss \<Longrightarrow> between tm st \<Longrightarrow> tm \<le> dse_start ss
      \<Longrightarrow> start ss st = Inr st' \<Longrightarrow> inside ss (dse_start ss) st'"
    and step_inside: "ss \<in> sessions \<Longrightarrow> inside ss tm st \<Longrightarrow> dse_start ss \<le> tm \<Longrightarrow> tm + FIVE \<le> dse_end ss
      \<Longrightarrow> step ss tm st = Inr st' \<Longrightarrow> inside ss (tm + FIVE) st'"
    and end_between: "ss \<in> sessions \<Longrightarrow> inside ss (dse_end ss) st \<Longrightarrow> between (dse_end ss) st"
begin

definition session_run :: "dated_session \<Rightarrow> 's \<Rightarrow> 's res" where
  "session_run ss st = bindR (start ss st) (foldR (step ss) (session_slots ss))"

lemma slots_inside:
  assumes ss: "ss \<in> sessions"
    and "foldR (step ss) (slots_from tm (dse_end ss)) st = Inr st'" and "inside ss tm st"
    and "dse_start ss \<le> tm" "tm \<le> dse_end ss" "(dse_end ss - tm) mod FIVE = 0"
  shows "inside ss (dse_end ss) st'"
  using assms(2-6)
proof (induction tm "dse_end ss" arbitrary: st rule: slots_from.induct)
  case (1 tm)
  show ?case
  proof (cases "tm < dse_end ss")
    case True
    have d: "(dse_end ss - tm) mod FIVE = 0" by (rule 1(6))
    then have "FIVE dvd dse_end ss - tm" by (simp add: mod_eq_0_iff_dvd)
    then have le: "tm + FIVE \<le> dse_end ss" using True zdvd_imp_le [of FIVE "dse_end ss - tm"] by simp
    from 1(2) True obtain st1 where s1: "step ss tm st = Inr st1"
      and r: "foldR (step ss) (slots_from (tm + FIVE) (dse_end ss)) st1 = Inr st'"
      by (auto simp: slots_from_Cons res_simps)
    have "inside ss (tm + FIVE) st1" by (rule step_inside [OF ss 1(3,4) le s1])
    moreover have "(dse_end ss - (tm + FIVE)) mod FIVE = 0"
      using d minus_mod_self2 [of "dse_end ss - tm" FIVE] by (simp add: algebra_simps)
    ultimately show ?thesis using 1(1) [OF True r _ _ le] 1(4) by simp
  next
    case False
    with 1(2,3,5) show ?thesis by (simp add: slots_from_Nil)
  qed
qed

lemma session_run_between:
  assumes "session_run ss st = Inr st'" and "ss \<in> sessions" "dse_start ss < dse_end ss" "(dse_end ss - dse_start ss) mod FIVE = 0"
    and "between tm st" "tm \<le> dse_start ss"
  shows "between (dse_end ss) st'"
proof -
  from assms(1) obtain st1 where s: "start ss st = Inr st1"
    and r: "foldR (step ss) (slots_from (dse_start ss) (dse_end ss)) st1 = Inr st'"
    by (auto simp: session_run_def session_slots_def res_simps)
  have "inside ss (dse_end ss) st'"
    using slots_inside [OF assms(2) r start_inside [OF assms(2,3,5,6) s]] assms(3,4) by simp
  then show ?thesis by (rule end_between [OF assms(2)])
qed

lemma sessions_run_between:
  assumes "foldR session_run sss st = Inr st'" and "set sss \<subseteq> sessions"
    and "\<And>ss. ss \<in> set sss \<Longrightarrow> dse_start ss < dse_end ss \<and> (dse_end ss - dse_start ss) mod FIVE = 0"
    and "sorted_wrt (\<lambda>s t. dse_end s \<le> dse_start t) sss"
    and "between tm st" and "\<And>ss. ss \<in> set sss \<Longrightarrow> tm \<le> dse_start ss"
  shows "\<exists>tm. between tm st'"
  using assms
proof (induction sss arbitrary: st tm)
  case (Cons ss sss)
  from Cons.prems(1) obtain st1 where s1: "session_run ss st = Inr st1"
    and r: "foldR session_run sss st1 = Inr st'" by (auto simp: res_simps)
  have "between (dse_end ss) st1"
    using session_run_between [OF s1 _ _ _ Cons.prems(5)] Cons.prems(2,3,6) by simp
  then show ?case using Cons.IH [OF r] Cons.prems(2-4) by simp
qed auto

text \<open>On the sessions of a validated series.\<close>

lemma series_run_between:
  assumes "check_series sr = Inr ()" and "foldR session_run (sr_sessions sr) st = Inr st'"
    and "set (sr_sessions sr) \<subseteq> sessions" and "between (sr_from sr) st"
  shows "\<exists>tm. between tm st'"
proof -
  note c = check_series_Inr [OF assms(1)]
  from c(2) obtain e where e: "foldR (check_session_order (sr_to sr)) (sr_sessions sr) (sr_from sr) = Inr e" by blast
  show ?thesis
    by (rule sessions_run_between [OF assms(2,3) c(1) _ assms(4)]) (use session_order_sorted [OF e] c(1) in auto)
qed

end

end
