(* ===== verification/Five_Minute_Results.thy ===== *)
theory Five_Minute_Results
  imports Slot_Engine Feature_Bounds
begin

text \<open>
  Properties of the five-minute engine: the grid its completeness test checks, the contract of its slots, what
  follows for the trades, and the soundness of metrics and qualification.
\<close>

section \<open>Completeness\<close>


section \<open>Trades\<close>

text \<open>What the source's conditions promise of an entry at a bar and of the trade that closes it.\<close>

definition entry_ok :: "settings \<Rightarrow> bar list \<Rightarrow> instant \<Rightarrow> rat \<Rightarrow> bool" where
  "entry_ok cfg bars t entry \<longleftrightarrow>
     (\<exists>b \<in> set bars. bar_start b = t \<and> is_liquid cfg b \<and> entry = prec40 (bar_open b * prec40 (1 + slip_of cfg)))
     \<and> set_allow_long cfg \<and> prec40 (times_quantity cfg entry * set_price_buffer cfg) \<le> set_order_ceiling cfg"

definition exit_ok :: "five_strategy \<Rightarrow> settings \<Rightarrow> bar list \<Rightarrow> dated_session \<Rightarrow> five_trade \<Rightarrow> bool" where
  "exit_ok s cfg bars ss t \<longleftrightarrow>
     (\<exists>b \<in> set bars. \<exists>reference. candle_end b = ft_exit_at t \<and> is_liquid cfg b
        \<and> exit_of s b (ft_exit_at t = dse_end ss) (ft_entry t) = Some (reference, ft_reason t)
        \<and> ft_exit t = prec40 (reference * prec40 (1 - slip_of cfg)))
     \<and> ft_gross t = prec40 (times_quantity cfg (ft_exit t) - times_quantity cfg (ft_entry t))
     \<and> ft_net t = prec40 (ft_gross t - ft_fees t) \<and> ft_quantity t = set_quantity cfg"

definition five_trade_ok :: "five_strategy \<Rightarrow> settings \<Rightarrow> bar list \<Rightarrow> dated_session \<Rightarrow> five_trade \<Rightarrow> bool" where
  "five_trade_ok s cfg bars = trade_good (entry_ok cfg bars) (exit_ok s cfg bars)"

lemma five_enter_inv:
  assumes run: "five_enter cfg costs b (candle_end b = dse_end ss) st = Inr st'" and b: "b \<in> set bars"
    and inv: "slot_inv good (entry_ok cfg bars) ss (bar_start b) st" and grid: "candle_end b \<le> dse_end ss"
  shows "book_ok good (bar_start b) st' \<and> held_ok (entry_ok cfg bars) ss (bar_start b) st' \<and> fv_pending st' = None"
proof (cases "fv_pending st")
  case (Some p)
  with inv have p: "p = bar_start b" "dse_start ss + FIVE \<le> bar_start b" "fv_position st = None"
    and bk: "book_ok good (bar_start b) st" by (auto simp: slot_inv_def)
  let ?entry = "prec40 (bar_open b * prec40 (1 + slip_of cfg))"
  let ?notional = "times_quantity cfg ?entry"
  from run Some p(3) obtain fee where st': "st' = (if \<not> set_allow_long cfg \<or> candle_end b = dse_end ss \<or> \<not> is_liquid cfg b
        \<or> fv_cash st < prec40 (?notional + fee) \<or> set_order_ceiling cfg < prec40 (?notional * set_price_buffer cfg)
      then st\<lparr>fv_no_fills := fv_no_fills st @ [iso_text (bar_start b) @ '':ENTRY_LIMIT_OR_LIQUIDITY'']\<rparr>
      else st\<lparr>fv_position := Some (p, bar_start b, ?entry, fee),
              fv_cash := prec40 (fv_cash st - prec40 (?notional + fee))\<rparr>)\<lparr>fv_pending := None\<rparr>"
      (is "_ = (if ?C fee then _ else _)\<lparr>fv_pending := None\<rparr>")
    by (auto simp only: five_enter_def res_simps Let_def option.case prod.case sum.inject)
  show ?thesis
  proof (cases "?C fee")
    case False
    then have eo: "entry_ok cfg bars (bar_start b) ?entry" using b by (auto simp: entry_ok_def)
    have et: "entry_time_ok ss (bar_start b)"
      using p(2) False grid by (simp add: entry_time_ok_def candle_end_def)
    have "held_ok (entry_ok cfg bars) ss (bar_start b) st'"
      by (rule held_ok_open [where eok = "entry_ok cfg bars", OF bk _ _ et eo]) (use p(1) False in \<open>simp_all add: st'\<close>)
    moreover have "book_ok good (bar_start b) st'" using bk False by (simp add: st' book_ok_def)
    ultimately show ?thesis by (simp add: st')
  next
    case True
    with bk p(3) show ?thesis by (simp add: st' held_ok_def book_ok_def)
  qed
next
  case None
  with run inv show ?thesis by (simp add: five_enter_def slot_inv_def)
qed

lemma five_leave_inv:
  assumes run: "five_leave s cfg costs b (candle_end b = dse_end ss) st = Inr st'" and b: "b \<in> set bars"
    and book: "book_ok good (bar_start b) st" and held: "held_ok (entry_ok cfg bars) ss (bar_start b) st"
    and grid: "candle_end b \<le> dse_end ss" and good: "\<And>t. five_trade_ok s cfg bars ss t \<Longrightarrow> good t"
  shows "book_ok good (candle_end b) st' \<and> held_ok (entry_ok cfg bars) ss (candle_end b) st' \<and> fv_pending st' = fv_pending st
     \<and> (candle_end b = dse_end ss \<longrightarrow> fv_position st' = None)"
proof -
  have le: "bar_start b \<le> candle_end b" by (simp add: candle_end_def)
  note later = book_ok_mono [OF book le] held_ok_mono [OF held le]
  show ?thesis
  proof (cases "fv_position st")
    case None
    with run have "st' = st" by (simp add: five_leave_def)
    with None later show ?thesis by simp
  next
    case (Some p)
    obtain d en entry fee where p: "p = (d, en, entry, fee)" by (cases p) auto
    from run Some p obtain st1 where m: "five_mark cfg costs b entry st = Inr st1"
      and r: "(case exit_of s b (candle_end b = dse_end ss) entry of None \<Rightarrow> Inr st1
          | Some (reference, reason) \<Rightarrow>
              if \<not> is_liquid cfg b then Inl (ValueError ''EXIT_NO_FILL_UNVALUED_POSITION'')
              else let exit_price = prec40 (reference * prec40 (1 - slip_of cfg)) in
                bindR (quote_total costs SELL (times_quantity cfg exit_price) (bar_start b) (Some (times_quantity cfg entry))) (\<lambda>q.
                Inr (five_close cfg b (d, en, entry, fee) exit_price reason (prec40 (q + fee)) st1))) = Inr st'"
      by (auto simp only: five_leave_def bindR_Inr_iff option.case prod.case)
    note k = five_mark_keeps [OF m]
    show ?thesis
    proof (cases "exit_of s b (candle_end b = dse_end ss) entry")
      case None
      then have nf: "candle_end b \<noteq> dse_end ss" by (auto simp: exit_of_def Let_def split: if_splits)
      from r None have st': "st' = st1" by simp
      have "book_ok good (candle_end b) st1" "held_ok (entry_ok cfg bars) ss (candle_end b) st1"
        using later book_ok_cong [OF k(1,2)] held_ok_cong [OF k(1,3)] by blast+
      with nf k(4) show ?thesis by (simp add: st')
    next
      case (Some x)
      obtain reference reason where x: "x = (reference, reason)" by (cases x)
      have lq: "is_liquid cfg b" using r Some x by (cases "is_liquid cfg b") simp_all
      from r Some x lq obtain q where st': "st' = five_close cfg b (d, en, entry, fee)
          (prec40 (reference * prec40 (1 - slip_of cfg))) reason (prec40 (q + fee)) st1"
        by (simp only: option.case prod.case Let_def if_False not_True_eq_False simp_thms bindR_Inr_iff sum.inject)
          (elim exE conjE, rule that, erule sym)
      have "exit_ok s cfg bars ss (five_trade_of cfg b (d, en, entry, fee)
          (prec40 (reference * prec40 (1 - slip_of cfg))) reason (prec40 (q + fee)))"
        using b lq Some x by (auto simp: exit_ok_def)
      from book_ok_close [where xok = "exit_ok s cfg bars", OF book held \<open>fv_position st = Some p\<close> [unfolded p] grid k(1,2) this] good
      have "book_ok good (candle_end b) st'" by (simp add: st' five_trade_ok_def)
      moreover have "fv_position st' = None" "fv_pending st' = fv_pending st" by (simp_all add: st' five_close_keeps k)
      ultimately show ?thesis by (simp add: held_ok_def)
    qed
  qed
qed

lemma five_step_inv:
  assumes run: "five_step s cfg costs bars ss tm st = Inr st'" and inv: "slot_inv good (entry_ok cfg bars) ss tm st"
    and grid: "tm + FIVE \<le> dse_end ss" "dse_start ss \<le> tm" and good: "\<And>t. five_trade_ok s cfg bars ss t \<Longrightarrow> good t"
  shows "slot_inv good (entry_ok cfg bars) ss (tm + FIVE) st'"
proof -
  let ?e = "entry_ok cfg bars"
  from run obtain b st1 st2 where b: "bar_at bars tm = Some b"
    and e: "five_enter cfg costs b (candle_end b = dse_end ss) st = Inr st1"
    and l: "five_leave s cfg costs b (candle_end b = dse_end ss) st1 = Inr st2"
    and o: "five_observe s cfg b (candle_end b = dse_end ss) st2 = Inr st'"
    by (auto simp: five_step_def res_simps Let_def split: option.splits)
  from bar_at_Some [OF b] have bb: "b \<in> set bars" "bar_start b = tm" by simp_all
  then have c: "candle_end b = tm + FIVE" by (simp add: candle_end_def)
  from five_enter_inv [OF e bb(1)] inv grid c bb(2)
  have "book_ok good (bar_start b) st1" "held_ok ?e ss (bar_start b) st1" "fv_pending st1 = None" by simp_all
  from five_leave_inv [OF l bb(1) this(1,2)] this(3) good grid c
  have i: "book_ok good (tm + FIVE) st2" "held_ok ?e ss (tm + FIVE) st2" "fv_pending st2 = None"
    "tm + FIVE = dse_end ss \<longrightarrow> fv_position st2 = None" by simp_all
  have f: "fv_trades st' = fv_trades st2" "fv_exposure st' = fv_exposure st2" "fv_position st' = fv_position st2"
    and p: "fv_pending st' = None \<or> fv_pending st' = Some (tm + FIVE) \<and> fv_position st2 = None \<and> tm + FIVE \<noteq> dse_end ss"
    using o i(3) c by (auto simp: five_observe_def res_simps Let_def split: if_splits)
  have "book_ok good (tm + FIVE) st'" "held_ok ?e ss (tm + FIVE) st'"
    using i(1,2) f book_ok_cong held_ok_cong by blast+
  with f p i(4) grid show ?thesis by (auto simp: slot_inv_def)
qed

text \<open>The five-minute engine provides the interface.\<close>

definition five_start :: "dated_session \<Rightarrow> five \<Rightarrow> five res" where
  "five_start ss st = Inr (st\<lparr>fv_closes := [], fv_position := None, fv_pending := None\<rparr>)"

definition some_session :: "(dated_session \<Rightarrow> five_trade \<Rightarrow> bool) \<Rightarrow> dated_session set \<Rightarrow> five_trade \<Rightarrow> bool" where
  "some_session ok sss t \<longleftrightarrow> (\<exists>ss \<in> sss. ok ss t)"

interpretation fm: slot_engine sss five_start "five_step s cfg costs bars"
  "slot_inv (some_session (five_trade_ok s cfg bars) sss) (entry_ok cfg bars)"
  "book_ok (some_session (five_trade_ok s cfg bars) sss)" for sss s cfg costs bars
proof unfold_locales
  fix ss tm and st st' :: five
  assume "dse_start ss < dse_end ss" "book_ok (some_session (five_trade_ok s cfg bars) sss) tm st" "tm \<le> dse_start ss" "five_start ss st = Inr st'"
  then show "slot_inv (some_session (five_trade_ok s cfg bars) sss) (entry_ok cfg bars) ss (dse_start ss) st'"
    using book_ok_mono [of _ tm st "dse_start ss"] by (auto simp: five_start_def slot_inv_def held_ok_def book_ok_def)
next
  fix ss tm and st st' :: five
  assume "ss \<in> sss" "slot_inv (some_session (five_trade_ok s cfg bars) sss) (entry_ok cfg bars) ss tm st"
    "dse_start ss \<le> tm" "tm + FIVE \<le> dse_end ss" "five_step s cfg costs bars ss tm st = Inr st'"
  then show "slot_inv (some_session (five_trade_ok s cfg bars) sss) (entry_ok cfg bars) ss (tm + FIVE) st'"
    using five_step_inv by (blast intro: some_session_def [THEN iffD2])
next
  fix ss and st :: five
  assume "slot_inv (some_session (five_trade_ok s cfg bars) sss) (entry_ok cfg bars) ss (dse_end ss) st"
  then show "book_ok (some_session (five_trade_ok s cfg bars) sss) (dse_end ss) st" by (simp add: slot_inv_def)
qed

lemma five_session_run: "five_session s cfg costs bars = fm.session_run s cfg costs bars"
  by (intro ext) (simp add: five_session_def fm.session_run_def five_start_def)

lemma five_simulate_trades:
  assumes ok: "check_series sr = Inr ()" and run: "five_simulate sr s cfg costs = Inr r"
  shows "\<forall>t \<in> set (sim5_trades r). \<exists>ss \<in> set (sr_sessions sr). five_trade_ok s cfg (sr_bars sr) ss t"
    and "sorted_wrt (\<lambda>t u. ft_exit_at t \<le> ft_entry_at u) (sim5_trades r)"
    and "sim5_exposure_seconds r = exposure_of (sim5_trades r)"
proof -
  from run obtain st where st: "foldR (five_session s cfg costs (sr_bars sr)) (sr_sessions sr) (five_init cfg) = Inr st"
    and r: "sim5_trades r = fv_trades st" "sim5_exposure_seconds r = fv_exposure st"
    by (auto simp: five_simulate_def res_simps)
  let ?good = "some_session (five_trade_ok s cfg (sr_bars sr)) (set (sr_sessions sr))"
  have "book_ok ?good (sr_from sr) (five_init cfg)" by (simp add: five_init_def book_ok_def exposure_of_def)
  from fm.series_run_between [OF ok st [unfolded five_session_run] subset_refl this]
  obtain tm where tm: "book_ok ?good tm st" ..
  show "\<forall>t \<in> set (sim5_trades r). \<exists>ss \<in> set (sr_sessions sr). five_trade_ok s cfg (sr_bars sr) ss t"
    "sorted_wrt (\<lambda>t u. ft_exit_at t \<le> ft_entry_at u) (sim5_trades r)" "sim5_exposure_seconds r = exposure_of (sim5_trades r)"
    using tm by (simp_all add: book_ok_def r some_session_def)
qed

text \<open>
  C15: on a validated series the five-minute engine trades intraday and one position at a time.  Every trade lies in
  one session, after its first candle, decides and enters at the same instant, never enters on the session's last
  candle and is closed by the session's end; trades do not overlap; and the exposure is the sum of their durations.
\<close>

theorem five_trades_in_sessions:
  assumes "check_series sr = Inr ()" and "five_simulate sr s cfg costs = Inr r"
  shows "(\<forall>t \<in> set (sim5_trades r). \<exists>ss \<in> set (sr_sessions sr).
            dse_start ss + FIVE \<le> ft_signal_at t \<and> ft_signal_at t = ft_entry_at t \<and> ft_entry_at t + FIVE < dse_end ss
            \<and> ft_entry_at t < ft_exit_at t \<and> ft_exit_at t \<le> dse_end ss \<and> (ft_reason t = EOD \<longrightarrow> ft_exit_at t = dse_end ss))
     \<and> sorted_wrt (\<lambda>t u. ft_exit_at t \<le> ft_entry_at u) (sim5_trades r)
     \<and> sim5_exposure_seconds r = sum_list (map (\<lambda>t. (ft_exit_at t - ft_entry_at t) div 1000000) (sim5_trades r))"
proof (intro conjI ballI)
  fix t assume "t \<in> set (sim5_trades r)"
  then obtain ss where ss: "ss \<in> set (sr_sessions sr)" "five_trade_ok s cfg (sr_bars sr) ss t"
    using five_simulate_trades(1) [OF assms] by blast
  have "ft_exit_at t = dse_end ss" if "ft_reason t = EOD"
    using ss(2) that by (auto simp: five_trade_ok_def trade_good_def exit_ok_def exit_of_def Let_def split: if_splits)
  with ss show "\<exists>ss \<in> set (sr_sessions sr).
            dse_start ss + FIVE \<le> ft_signal_at t \<and> ft_signal_at t = ft_entry_at t \<and> ft_entry_at t + FIVE < dse_end ss
            \<and> ft_entry_at t < ft_exit_at t \<and> ft_exit_at t \<le> dse_end ss \<and> (ft_reason t = EOD \<longrightarrow> ft_exit_at t = dse_end ss)"
    by (intro bexI [of _ ss]) (auto simp: five_trade_ok_def trade_good_def entry_time_ok_def)
qed (use five_simulate_trades(2,3) [OF assms] in \<open>simp_all add: exposure_of_def\<close>)

lemma settings_slip: "check_settings cfg = Inr () \<Longrightarrow> slip_of cfg \<le> 1"
  unfolding slip_of_def by (rule round_at_most) (auto simp: check_settings_def res_simps)


section \<open>Metrics\<close>

lemma prec40_one [simp]: "prec40 1 = 1"
  using round_sig_of_int [of 1 40] by simp

lemma fm_step_inv:
  assumes "0 < capital" "capital \<le> peak" "0 \<le> dd"
  shows "\<exists>e p d. fm_step t (eq0, peak, dd) = Inr (e, p, d) \<and> capital \<le> p \<and> 0 \<le> d"
proof -
  let ?e = "prec40 (eq0 + ft_net t)" and ?p = "max peak (prec40 (eq0 + ft_net t))"
  have "?p \<noteq> 0" "capital \<le> ?p" using assms by auto
  then show ?thesis using assms by (auto simp: fm_step_def Let_def div40_def)
qed

lemma fm_steps_total:
  assumes "0 < capital" "capital \<le> peak" "0 \<le> dd"
  shows "\<exists>e p d. foldR fm_step ts (eq0, peak, dd) = Inr (e, p, d) \<and> 0 \<le> d"
  using assms(2,3)
proof (induction ts arbitrary: eq0 peak dd)
  case (Cons t ts)
  from fm_step_inv [OF assms(1) Cons.prems, of t eq0] obtain e p d
    where "fm_step t (eq0, peak, dd) = Inr (e, p, d)" "capital \<le> p" "0 \<le> d" by blast
  with Cons.IH [of p d e] show ?case by simp
qed simp

lemma five_metrics_total:
  assumes "0 < capital"
  obtains m where "five_metrics_of ts capital = Inr m" "0 \<le> fm_drawdown m" "fm_trades m = int (length ts)"
    "fm_wins m = int (length (filter (\<lambda>t. 0 < ft_net t) ts))"
    "fm_win_rate m = (if ts = [] then 0 else prec40 (of_int (fm_wins m) / of_int (fm_trades m)))"
    "fm_losses m = int (length (filter (\<lambda>t. ft_net t < 0) ts))" "fm_breakeven m = int (length (filter (\<lambda>t. ft_net t = 0) ts))"
proof -
  from fm_steps_total [OF assms, of capital 0 ts capital] obtain e p d
    where d: "foldR fm_step ts (capital, capital, 0) = Inr (e, p, d)" "0 \<le> d" by auto
  with assms show ?thesis by (intro that) (auto simp: five_metrics_of_def Let_def div40_def)
qed

text \<open>
  The metrics of the five-minute engine always exist for positive capital (its divisions cannot fail), wins,
  losses and break-even trades partition the trades, the win rate is between 0 and 1,
  and the drawdown is not negative.
\<close>

theorem five_metrics_sound:
  assumes "0 < capital"
  shows "\<exists>m. five_metrics_of ts capital = Inr m \<and> fm_trades m = int (length ts)
     \<and> fm_wins m + fm_losses m + fm_breakeven m = fm_trades m
     \<and> 0 \<le> fm_win_rate m \<and> fm_win_rate m \<le> 1 \<and> 0 \<le> fm_drawdown m"
proof -
  obtain m where m: "five_metrics_of ts capital = Inr m" "0 \<le> fm_drawdown m" "fm_trades m = int (length ts)"
    "fm_wins m = int (length (filter (\<lambda>t. 0 < ft_net t) ts))"
    "fm_win_rate m = (if ts = [] then 0 else prec40 (of_int (fm_wins m) / of_int (fm_trades m)))"
    "fm_losses m = int (length (filter (\<lambda>t. ft_net t < 0) ts))" "fm_breakeven m = int (length (filter (\<lambda>t. ft_net t = 0) ts))"
    by (rule five_metrics_total [OF assms])
  have "rat_of_int (fm_wins m) / of_int (fm_trades m) \<le> 1"
    unfolding m by (simp add: divide_simps length_filter_le)
  then have "fm_win_rate m \<le> 1" unfolding m(5) by (auto intro: round_at_most)
  moreover have "0 \<le> fm_win_rate m" unfolding m(5) by (simp add: m)
  moreover have "fm_wins m + fm_losses m + fm_breakeven m = fm_trades m"
    using length_filter_trichotomy [of 0 ft_net ts] unfolding m by linarith
  ultimately show ?thesis using m(1-3) by blast
qed

section \<open>Qualification\<close>

lemma folds_partition:
  assumes "sorted_wrt (<) bs" "bs \<noteq> []"
  shows "length (filter (entered_in (hd bs) (last bs)) ts)
    = sum_list (map (\<lambda>(a, b). length (filter (entered_in a b) ts)) (adjacent bs))"
  using assms
proof (induction bs)
  case (Cons a bs)
  show ?case
  proof (cases bs)
    case Nil
    then show ?thesis by (auto simp: filter_empty_conv entered_in_def)
  next
    case (Cons b cs)
    from Cons.prems Cons have ab: "a < b" "b \<le> last bs" by (auto simp: less_imp_le)
    have "length (filter (entered_in a (last bs)) ts)
      = length (filter (entered_in a b) ts) + length (filter (entered_in b (last bs)) ts)"
      using ab by (induction ts) (auto simp: entered_in_def)
    with Cons.IH Cons.prems Cons show ?thesis by simp
  qed
qed simp

lemma filter_fold_in_oos:
  assumes "sorted_wrt (<) bs" "(a, b) \<in> set (adjacent bs)"
  shows "filter (entered_in a b) (filter (entered_in (hd bs) (last bs)) ts) = filter (entered_in a b) ts"
proof -
  have "hd bs \<le> a \<and> b \<le> last bs" using assms
  proof (induction bs)
    case (Cons c cs)
    show ?case
    proof (cases cs)
      case (Cons d ds)
      with Cons.IH Cons.prems show ?thesis by (fastforce intro: less_imp_le)
    qed (use Cons.prems in simp)
  qed simp
  then show ?thesis by (auto simp: entered_in_def intro!: filter_cong)
qed

lemma int_sum_list_map: "int (sum_list (map f xs)) = sum_list (map (\<lambda>x. int (f x)) xs)"
  by (induction xs) auto

lemma reasons_of_Nil [simp]: "reasons_of cs = [] \<longleftrightarrow> (\<forall>c \<in> set cs. \<not> fst c)"
  by (auto simp: reasons_of_def filter_empty_conv)

text \<open>
  C18: qualification.  The walk-forward folds partition the out-of-sample trades, and a strategy is qualified exactly
  when the out-of-sample metrics and every fold meet the policy and the adjusted Wilson bound exceeds one half.  The
  Wilson bound, a floating point computation, is a parameter.
\<close>

theorem qualify_sound:
  assumes "qualify wilson trades capital oos_start bs p = Inr q" and "0 < capital"
  shows "fm_trades (qf_out_of_sample q) = sum_list (map fm_trades (qf_folds q))
     \<and> length (qf_folds q) = length bs - 1 \<and> 3 \<le> length (qf_folds q)
     \<and> (qf_qualified q \<longleftrightarrow>
          pol_min_oos_trades p \<le> fm_trades (qf_out_of_sample q) \<and> pol_min_win_rate p \<le> fm_win_rate (qf_out_of_sample q)
          \<and> 0 < fm_expectancy (qf_out_of_sample q) \<and> fm_drawdown (qf_out_of_sample q) \<le> pol_max_drawdown p
          \<and> (\<forall>f \<in> set (qf_folds q). pol_min_fold_trades p \<le> fm_trades f \<and> 0 < fm_expectancy f
                \<and> pol_min_fold_win_rate p \<le> fm_win_rate f \<and> fm_drawdown f \<le> pol_max_drawdown p)
          \<and> 1 / 2 < qf_adjusted_wilson_lower q)"
proof -
  let ?oos = "filter (entered_in oos_start (last bs)) trades"
  from assms(1) obtain m folds where b: "4 \<le> length bs" "hd bs = oos_start" "sorted_wrt (<) bs"
    and m: "five_metrics_of ?oos capital = Inr m"
    and f: "mapR (\<lambda>(a, b). five_metrics_of (filter (entered_in a b) ?oos) capital) (adjacent bs) = Inr folds"
    and q: "qf_out_of_sample q = m" "qf_folds q = folds"
    "qf_qualified q \<longleftrightarrow> \<not> (fm_trades m < pol_min_oos_trades p) \<and> \<not> (fm_win_rate m < pol_min_win_rate p)
       \<and> \<not> (fm_expectancy m \<le> 0) \<and> \<not> (pol_max_drawdown p < fm_drawdown m) \<and> \<not> list_ex (weak_fold p) folds
       \<and> \<not> (qf_adjusted_wilson_lower q \<le> 1 / 2)"
    by (auto simp: qualify_def res_simps Let_def strictly_increasing_iff)
  have tr: "fm_trades x = int (length ts)" if "five_metrics_of ts capital = Inr x" for x ts
    using that by (auto simp: five_metrics_of_def res_simps Let_def)
  have "map fm_trades folds = map (\<lambda>(a, b). int (length (filter (entered_in a b) ?oos))) (adjacent bs)"
    using f tr by (auto simp: mapR_Inr_list_all2 list_all2_conv_all_nth intro!: nth_equalityI split: prod.splits)
  also have "\<dots> = map (\<lambda>(a, b). int (length (filter (entered_in a b) trades))) (adjacent bs)"
    using filter_fold_in_oos [OF b(3)] b(2) by auto
  also have "sum_list \<dots> = int (length ?oos)"
    using arg_cong [where f = int, OF folds_partition [OF b(3), of trades]] b(1,2)
    by (cases "bs = []") (simp_all add: int_sum_list_map case_prod_unfold)
  finally have "fm_trades m = sum_list (map fm_trades folds)" using tr [OF m] by simp
  moreover have "length folds = length bs - 1" using mapR_length [OF f] by simp
  ultimately show ?thesis using q b(1) by (auto simp: list_ex_iff weak_fold_def not_le not_less)
qed

section \<open>A sample series\<close>

definition five_at :: "int \<Rightarrow> instant" where
  "five_at i = combine_nse 20732 (clock_at 9 (15 + 5 * i))"

definition five_bar :: "int \<Rightarrow> rat \<Rightarrow> rat \<Rightarrow> bar" where
  "five_bar i a z = \<lparr>bar_start = five_at i, bar_open = a, bar_high = max a z, bar_low = min a z, bar_close = z,
     bar_volume = 1000, bar_open_interest = None\<rparr>"

definition sample_series :: series where
  "sample_series = \<lparr>sr_symbol = ''S'', sr_instrument_token = ''7'', sr_source = ''V'', sr_synthetic = True,
     sr_source_hash = replicate 64 CHR ''a'', sr_master_hash = replicate 64 CHR ''a'', sr_calendar_hash = replicate 64 CHR ''a'',
     sr_as_of = five_at 4, sr_from = five_at 0, sr_to = five_at 4, sr_corporate_actions_reviewed = True,
     sr_sessions = [\<lparr>dse_start = five_at 0, dse_end = five_at 4\<rparr>], sr_non_trading_days = [],
     sr_bars = [five_bar 0 99 99, five_bar 1 99 101, five_bar 2 101 100, five_bar 3 100 101]\<rparr>"

definition sample_cross :: five_strategy where
  "sample_cross = \<lparr>fs_name = ''cross'', fs_version = ''1'', fs_confirmed = True,
     fs_conditions = [\<lparr>cr_left = \<lparr>opd_indicator = CLOSE, opd_period = 1, opd_value = 0, opd_lag = 0\<rparr>,
       cr_right = \<lparr>opd_indicator = CONSTANT, opd_period = 1, opd_value = 100, opd_lag = 0\<rparr>, cr_direction = ABOVE\<rparr>],
     fs_direction = LONG, fs_stop = 1 / 50, fs_target = 1 / 50\<rparr>"

definition sample_settings :: settings where
  "sample_settings = \<lparr>set_capital = 10000, set_order_ceiling = 10000, set_price_buffer = 105 / 100, set_quantity = 1,
     set_slippage_bps = 0, set_participation = 1 / 100, set_allow_long = True\<rparr>"

lemma sample_series_ok: "check_series sample_series = Inr ()"
  by code_simp

lemma sample_settings_ok: "check_settings sample_settings = Inr ()"
  by code_simp




definition sample_costs :: schedule where
  "sample_costs = (nse_intraday_snapshot (Some 20732))\<lparr>sch_stt_rate := 0, sch_exchange_rate := 0, sch_ipft_rate := 0, sch_sebi_rate := 0,
     sch_gst_rate := 0, sch_stamp_rate := 0\<rparr>"

lemma sample_five_run:
  "bindR (five_simulate sample_series sample_cross sample_settings sample_costs)
     (\<lambda>r. Inr (map ft_reason (sim5_trades r))) = Inr [EOD]"
  by code_simp

lemma sample_five_result:
  obtains r t where "five_simulate sample_series sample_cross sample_settings sample_costs = Inr r" "sim5_trades r = [t]" "ft_reason t = EOD"
proof -
  from sample_five_run obtain r where r: "five_simulate sample_series sample_cross sample_settings sample_costs = Inr r"
    and t: "map ft_reason (sim5_trades r) = [EOD]" by (auto simp: bindR_Inr_iff)
  from t obtain t where "sim5_trades r = [t]" "ft_reason t = EOD" by auto
  with r show ?thesis by (rule that)
qed


theorem five_trades_in_sessions_witness:
  "\<exists>r t. five_simulate sample_series sample_cross sample_settings sample_costs = Inr r \<and> sim5_trades r = [t]
     \<and> ft_signal_at t = ft_entry_at t \<and> ft_exit_at t = five_at 4"
proof -
  obtain r t where r: "five_simulate sample_series sample_cross sample_settings sample_costs = Inr r" "sim5_trades r = [t]"
    "ft_reason t = EOD" by (rule sample_five_result)
  have ses: "sr_sessions sample_series = [\<lparr>dse_start = five_at 0, dse_end = five_at 4\<rparr>]" by (simp add: sample_series_def)
  from five_trades_in_sessions [OF sample_series_ok r(1), unfolded r(2) ses] r(3)
  have "ft_signal_at t = ft_entry_at t" "ft_exit_at t = five_at 4" by simp_all
  with r(1,2) show ?thesis by blast
qed


definition sample_trade :: "instant \<Rightarrow> rat \<Rightarrow> five_trade" where
  "sample_trade tm x = \<lparr>ft_signal_at = tm, ft_entry_at = tm, ft_exit_at = tm + FIVE, ft_entry = 100, ft_exit = 100 + x,
     ft_quantity = 1, ft_reason = TARGET, ft_gross = x, ft_fees = 0, ft_net = x\<rparr>"

theorem five_metrics_sound_witness:
  "\<exists>m. five_metrics_of [sample_trade 0 1, sample_trade FIVE (- 1)] 100 = Inr m \<and> fm_trades m = 2 \<and> fm_win_rate m \<le> 1"
  using five_metrics_sound [of 100 "[sample_trade 0 1, sample_trade FIVE (- 1)]"] by auto

definition sample_policy :: policy where
  "sample_policy = \<lparr>pol_min_oos_trades = 30, pol_min_fold_trades = 10, pol_min_win_rate = 7 / 10, pol_max_drawdown = 1 / 10,
     pol_min_fold_win_rate = 6 / 10, pol_family_size = 1, pol_alpha = 5 / 100\<rparr>"

theorem qualify_sound_witness:
  "\<exists>q. qualify (\<lambda>p n w. w * 9 / 10) [sample_trade 0 1, sample_trade FIVE 1] 100 0 [0, 1, 2, FIVE + 1] sample_policy = Inr q
     \<and> sum_list (map fm_trades (qf_folds q)) = fm_trades (qf_out_of_sample q) \<and> \<not> qf_qualified q"
proof -
  let ?q = "qualify (\<lambda>p n w. w * 9 / 10) [sample_trade 0 1, sample_trade FIVE 1] 100 0 [0, 1, 2, FIVE + 1] sample_policy"
  have "bindR ?q (\<lambda>q. Inr (fm_trades (qf_out_of_sample q))) = Inr 2" by code_simp
  then obtain q where q: "?q = Inr q" "fm_trades (qf_out_of_sample q) = 2" by (auto simp: bindR_Inr_iff)
  from qualify_sound [OF q(1)] q(2)
  have "sum_list (map fm_trades (qf_folds q)) = fm_trades (qf_out_of_sample q)" "\<not> qf_qualified q"
    by (simp_all add: sample_policy_def)
  with q(1) show ?thesis by blast
qed

end
