(* ===== verification/Executor_Results.thy ===== *)
theory Executor_Results
  imports Session_Executor Five_Minute_Results
begin

text \<open>
  Properties of the registry, the bands and the session executor.  The executor provides the interface \<open>slot_engine\<close>
  with an invariant that has a second, halted mode for an unresolved exit.
\<close>

section \<open>Square roots and bands\<close>

lemma isqrt_bounds: "0 \<le> n \<Longrightarrow> 0 \<le> isqrt n \<and> isqrt n * isqrt n \<le> n \<and> n < (isqrt n + 1) * (isqrt n + 1)"
proof (induction n rule: isqrt.induct)
  case (1 n)
  show ?case
  proof (cases "n \<le> 0")
    case True
    with 1(2) show ?thesis by (simp add: isqrt.simps)
  next
    case False
    define r where "r = isqrt (n div 4)"
    have r: "0 \<le> r" "r * r \<le> n div 4" "n div 4 < (r + 1) * (r + 1)" using 1(1) [OF False] False by (simp_all add: r_def)
    have "4 * (r * r) \<le> n" using r(2) by linarith
    moreover have "n < 4 * ((r + 1) * (r + 1))" using r(3) by linarith
    ultimately have b: "(2 * r) * (2 * r) \<le> n" "n < (2 * r + 1 + 1) * (2 * r + 1 + 1)" by (simp_all add: algebra_simps)
    have "isqrt n = (if (2 * r + 1) * (2 * r + 1) \<le> n then 2 * r + 1 else 2 * r)"
      using False by (subst isqrt.simps) (simp add: r_def Let_def)
    then show ?thesis using b r(1) by (cases "(2 * r + 1) * (2 * r + 1) \<le> n") simp_all
  qed
qed

lemma sqrt40_units:
  assumes "0 < x"
  defines "u \<equiv> 10 powi (adjusted x div 2 - 39)"
  shows "\<exists>m. sqrt40 x = of_int m * u \<and> 0 \<le> m \<and> m \<le> 10 ^ 40
     \<and> (m = 0 \<or> (of_int m - 1 / 2) * (of_int m - 1 / 2) \<le> x / (u * u)) \<and> x / (u * u) \<le> (of_int m + 1 / 2) * (of_int m + 1 / 2)"
proof -
  define y where "y = x / (u * u)"
  define m where "m = isqrt \<lfloor>y\<rfloor>"
  have u: "0 < u" by (simp add: u_def)
  have y: "0 < y" using assms u by (simp add: y_def)
  have m: "0 \<le> m" "m * m \<le> \<lfloor>y\<rfloor>" "\<lfloor>y\<rfloor> < (m + 1) * (m + 1)" using isqrt_bounds [of "\<lfloor>y\<rfloor>"] y by (simp_all add: m_def)
  have lo: "of_int m * of_int m \<le> y" using m(2) le_floor_iff [of "m * m" y] by simp
  have hi: "y < of_int (m + 1) * of_int (m + 1)" using m(3) floor_less_iff [of y "(m + 1) * (m + 1)"] by simp
  have s: "sqrt40 x = (if y < (of_int m + 1 / 2) * (of_int m + 1 / 2) then of_int m * u else of_int (m + 1) * u)"
    using assms by (simp add: sqrt40_def Let_def u_def y_def m_def)
  have "y < 10 powi (adjusted x + 1) / (u * u)"
    using adjusted_bounds(2) [of x] assms(1) u by (simp add: y_def divide_strict_right_mono)
  also have "u * u = 10 powi ((adjusted x div 2 - 39) + (adjusted x div 2 - 39))"
    unfolding u_def by (rule power_int_add [symmetric]) simp
  also have "10 powi (adjusted x + 1) / \<dots> = 10 powi (adjusted x + 1 - ((adjusted x div 2 - 39) + (adjusted x div 2 - 39)))"
    by (rule power_int_diff [symmetric]) simp
  also have "\<dots> \<le> 10 powi 80" by (simp only: ten_powi_le_iff)
  finally have "rat_of_int (m * m) < of_int (10 ^ 40 * 10 ^ 40)" using lo by simp
  then have "m * m < 10 ^ 40 * 10 ^ 40" unfolding of_int_less_iff .
  then have d: "m < 10 ^ 40" using m(1) by (metis mult_mono not_le zero_le_numeral zero_le_power)
  show ?thesis
  proof (cases "y < (of_int m + 1 / 2) * (of_int m + 1 / 2)")
    case True
    have "m = 0 \<or> (of_int m - 1 / 2) * (of_int m - 1 / 2) \<le> y"
    proof (cases "m = 0")
      case False
      with m(1) have "1 \<le> rat_of_int m" by (metis int_one_le_iff_zero_less of_int_1_le_iff order_le_less)
      then have "(rat_of_int m - 1 / 2) * (of_int m - 1 / 2) \<le> of_int m * of_int m" by (intro mult_mono) auto
      with lo show ?thesis by linarith
    qed simp
    with True s m(1) d show ?thesis unfolding y_def by (intro exI [of _ m]) auto
  next
    case False
    then have "(of_int (m + 1) - 1 / 2) * (of_int (m + 1) - 1 / 2) \<le> y" by (simp add: algebra_simps)
    moreover have "rat_of_int (m + 1) * of_int (m + 1) \<le> (of_int (m + 1) + 1 / 2) * (of_int (m + 1) + 1 / 2)"
      using m(1) by (intro mult_mono) auto
    then have "y \<le> (of_int (m + 1) + 1 / 2) * (of_int (m + 1) + 1 / 2)" using hi by linarith
    ultimately show ?thesis using False s m(1) d unfolding y_def by (intro exI [of _ "m + 1"]) auto
  qed
qed



lemma sqrt40_nonneg: "0 \<le> sqrt40 x"
  using sqrt40_units [of x] by (cases "x \<le> 0") (auto simp: sqrt40_def)

lemma round_idem40 [simp]: "prec40 (prec40 x) = prec40 x"
  by (simp add: round_sig_idem)

text \<open>
  The Bollinger bands bracket the moving average they are computed from.
\<close>

theorem bands_bracket:
  assumes "bands xs n = Inr (Some (lower, upper))"
  shows "\<exists>mean. sma_of xs n = Inr (Some mean) \<and> lower \<le> mean \<and> mean \<le> upper"
proof -
  from assms obtain mean where mean: "sma_of xs n = Inr (Some mean)"
    by (auto simp: bands_def res_simps split: option.splits)
  define sd where "sd = sqrt40 (prec40 (sum40 (map (\<lambda>v. prec40 (prec40 (v - mean) * prec40 (v - mean))) (last_n (nat n) xs)) / of_int n))"
  have b: "lower = prec40 (mean - prec40 (2 * sd))" "upper = prec40 (mean + prec40 (2 * sd))"
    using assms by (simp_all add: bands_def mean sd_def Let_def)
  have sd: "0 \<le> sd" by (simp add: sd_def sqrt40_nonneg)
  have p: "prec40 mean = mean" using mean by (auto simp: sma_of_def split: if_splits)
  have "0 \<le> prec40 (2 * sd)" using sd by simp
  then have "lower \<le> mean" "mean \<le> upper" unfolding b using p by (auto intro: round_at_most round_at_least)
  with mean show ?thesis by blast
qed

theorem bands_bracket_witness:
  "\<exists>lower upper. bands [100, 102] 2 = Inr (Some (lower, upper)) \<and> lower \<le> upper"
proof -
  have "bindR (bands [100, 102] 2) (\<lambda>r. Inr (r \<noteq> None)) = Inr True" by code_simp
  then obtain lower upper where b: "bands [100, 102] 2 = Inr (Some (lower, upper))" by (auto simp: bindR_Inr_iff)
  from bands_bracket [OF b] b show ?thesis by auto
qed

section \<open>The registry\<close>

text \<open>
  C21: the registry is frozen.  It validates, and a definition accepted by \<open>validate_registry\<close> is one of its rows except
  for the stop, the target and the minimal volume.
\<close>

theorem registry_frozen:
  "validate_registry registry = Inr () \<and> (validate_registry [d] = Inr () \<longleftrightarrow>
     (\<exists>r \<in> set registry. \<exists>stop target volume.
        d = r\<lparr>def_stop := stop, def_target := target, def_minimum_volume := volume\<rparr>))"
proof
  show "validate_registry registry = Inr ()" by code_simp
  have "validate_registry [d] = Inr () \<longleftrightarrow> check_registered d = Inr ()"
    by (auto simp: validate_registry_def res_simps checks_Inr_iff)
  also have "\<dots> \<longleftrightarrow> (\<exists>r \<in> set registry. def_identifier r = def_identifier d
      \<and> d\<lparr>def_stop := def_stop r, def_target := def_target r, def_minimum_volume := def_minimum_volume r\<rparr> = r)"
    (is "_ = (\<exists>r \<in> set registry. ?same r)")
  proof -
    have dist: "distinct (map def_identifier registry)" by code_simp
    show ?thesis
    proof (cases "List.find (\<lambda>x. def_identifier x = def_identifier d) registry")
      case None
      then have "check_registered d = Inl StopIteration" by (simp add: check_registered_def)
      with None show ?thesis by (auto simp: find_None_iff)
    next
      case (Some r)
      then have r: "r \<in> set registry" "def_identifier r = def_identifier d" by (auto simp: find_Some_iff)
      have u: "r' = r" if "r' \<in> set registry" "def_identifier r' = def_identifier d" for r'
        using that r dist by (metis distinct_map inj_onD)
      have "check_registered d = (if d\<lparr>def_stop := def_stop r, def_target := def_target r,
          def_minimum_volume := def_minimum_volume r\<rparr> \<noteq> r
        then Inl (ValueError ''UNRECOGNIZED_DEFINITION_VERSION'') else Inr ())"
        by (simp only: check_registered_def Some option.case)
      then have "check_registered d = Inr () \<longleftrightarrow> ?same r" using r(2) by (simp split: if_splits)
      also have "\<dots> \<longleftrightarrow> (\<exists>r \<in> set registry. ?same r)"
      proof
        assume "?same r"
        with r(1) show "\<exists>r \<in> set registry. ?same r" by (rule bexI [rotated])
      next
        assume "\<exists>r \<in> set registry. ?same r"
        then obtain r' where r': "r' \<in> set registry" "?same r'" by (elim bexE)
        from u [OF r'(1) conjunct1 [OF r'(2)]] r'(2) show "?same r" by (simp only:)
      qed
      finally show ?thesis .
    qed
  qed
  also have "\<dots> \<longleftrightarrow> (\<exists>r \<in> set registry. \<exists>stop target volume.
      d = r\<lparr>def_stop := stop, def_target := target, def_minimum_volume := volume\<rparr>)"
  proof (intro bex_cong refl iffI)
    fix r assume e: "def_identifier r = def_identifier d
      \<and> d\<lparr>def_stop := def_stop r, def_target := def_target r, def_minimum_volume := def_minimum_volume r\<rparr> = r"
    have "d = d\<lparr>def_stop := x, def_target := y, def_minimum_volume := z\<rparr>
        \<lparr>def_stop := def_stop d, def_target := def_target d, def_minimum_volume := def_minimum_volume d\<rparr>" for x y z by simp
    from this [where x = "def_stop r" and y = "def_target r" and z = "def_minimum_volume r", unfolded conjunct2 [OF e]]
    show "\<exists>stop target volume. d = r\<lparr>def_stop := stop, def_target := target, def_minimum_volume := volume\<rparr>" by blast
  qed auto
  finally show "validate_registry [d] = Inr () \<longleftrightarrow> (\<exists>r \<in> set registry. \<exists>stop target volume.
      d = r\<lparr>def_stop := stop, def_target := target, def_minimum_volume := volume\<rparr>)" .
qed

section \<open>Exits\<close>

text \<open>
  C22: with the same stop and target, the executor's exit decision is the one of the five-minute engine.
\<close>

theorem exit_reference_refines:
  assumes "fs_stop s = def_stop d" "fs_target s = def_target d"
  shows "exit_of s b final entry = (case exit_reference b entry d final of (x, r) \<Rightarrow> map_option (Pair x) r)"
  using assms by (simp add: exit_of_def exit_reference_def Let_def)

theorem exit_reference_refines_witness:
  "exit_of sample_cross (five_bar 0 100 100) True 100
     = (case exit_reference (five_bar 0 100 100) 100 (registered S02 ''a'' ''b'' [''c'']) True of (x, r) \<Rightarrow> map_option (Pair x) r)"
  by (rule exit_reference_refines) (simp_all add: sample_cross_def registered_def)

section \<open>Trades of the executor\<close>

definition causal_entry :: "series \<Rightarrow> settings \<Rightarrow> instant \<Rightarrow> rat \<Rightarrow> bool" where
  "causal_entry sr cfg t entry \<longleftrightarrow>
     (\<exists>b \<in> set (sr_bars sr). bar_start b = t \<and> entry = prec40 (bar_open b * prec40 (1 + slip_of cfg)))
     \<and> (\<exists>b \<in> set (sr_bars sr). candle_end b = t \<and> is_liquid cfg b)
     \<and> set_allow_long cfg \<and> prec40 (times_quantity cfg entry * set_price_buffer cfg) \<le> set_order_ceiling cfg"

definition confirmed_exit :: "series \<Rightarrow> strategy_definition \<Rightarrow> settings \<Rightarrow> dated_session \<Rightarrow> five_trade \<Rightarrow> bool" where
  "confirmed_exit sr d cfg ss t \<longleftrightarrow>
     (\<exists>b \<in> set (sr_bars sr). \<exists>reference. candle_end b = ft_exit_at t \<and> is_liquid cfg b
        \<and> exit_reference b (ft_entry t) d (ft_exit_at t = dse_end ss) = (reference, Some (ft_reason t))
        \<and> ft_exit t = prec40 (reference * prec40 (1 - slip_of cfg)))"

definition exec_trade_ok :: "series \<Rightarrow> strategy_definition \<Rightarrow> settings \<Rightarrow> dated_session \<Rightarrow> five_trade \<Rightarrow> bool" where
  "exec_trade_ok sr d cfg = trade_good (causal_entry sr cfg) (confirmed_exit sr d cfg)"

definition unresolved_ok :: "series \<Rightarrow> settings \<Rightarrow> dated_session \<Rightarrow> unresolved \<Rightarrow> bool" where
  "unresolved_ok sr cfg ss u \<longleftrightarrow> entry_time_ok ss (un_entry_at u) \<and> un_signal_at u = un_entry_at u
     \<and> un_entry_at u < un_exit_at u \<and> un_exit_at u \<le> dse_end ss \<and> causal_entry sr cfg (un_entry_at u) (un_entry u)
     \<and> (\<exists>b \<in> set (sr_bars sr). candle_end b = un_exit_at u \<and> \<not> is_liquid cfg b)"

text \<open>After an unresolved exit the run is halted: one unresolved position, entered after every trade.\<close>

definition halted :: "series \<Rightarrow> settings \<Rightarrow> (five_trade \<Rightarrow> bool) \<Rightarrow> dated_session set \<Rightarrow> exec \<Rightarrow> bool" where
  "halted sr cfg good sss st \<longleftrightarrow>
     (\<exists>u. ex_unresolved st = [u] \<and> (\<exists>ss \<in> sss. unresolved_ok sr cfg ss u) \<and> (\<exists>tm. book_ok good tm st)
        \<and> (\<forall>t \<in> set (fv_trades st). ft_exit_at t \<le> un_entry_at u))"

definition exec_inside :: "series \<Rightarrow> settings \<Rightarrow> (five_trade \<Rightarrow> bool) \<Rightarrow> dated_session set \<Rightarrow> dated_session \<Rightarrow> instant \<Rightarrow> exec \<Rightarrow> bool" where
  "exec_inside sr cfg good sss ss tm st \<longleftrightarrow>
     (ex_unresolved st = [] \<and> slot_inv good (causal_entry sr cfg) ss tm st) \<or> halted sr cfg good sss st"

definition exec_between :: "series \<Rightarrow> settings \<Rightarrow> (five_trade \<Rightarrow> bool) \<Rightarrow> dated_session set \<Rightarrow> instant \<Rightarrow> exec \<Rightarrow> bool" where
  "exec_between sr cfg good sss tm st \<longleftrightarrow> (ex_unresolved st = [] \<and> book_ok good tm st) \<or> halted sr cfg good sss st"

lemma halted_unresolved: "halted sr cfg good sss st \<Longrightarrow> ex_unresolved st \<noteq> []"
  by (auto simp: halted_def)

lemma liquidity_bar_Inr:
  "liquidity_bar sr tm = Inr b \<Longrightarrow> b \<in> set (sr_bars sr) \<and> candle_end b = tm"
  by (auto simp: liquidity_bar_def res_simps find_Some_iff split: if_splits option.splits)

lemma exec_enter_inv:
  assumes run: "exec_enter sr cfg costs b (candle_end b = dse_end ss) st = Inr st'" and b: "b \<in> set (sr_bars sr)"
    and inv: "slot_inv good (causal_entry sr cfg) ss (bar_start b) st" and grid: "candle_end b \<le> dse_end ss"
  shows "book_ok good (bar_start b) st' \<and> held_ok (causal_entry sr cfg) ss (bar_start b) st' \<and> fv_pending st' = None
     \<and> ex_unresolved st' = ex_unresolved st"
proof (cases "fv_pending st")
  case (Some p)
  with inv have p: "p = bar_start b" "dse_start ss + FIVE \<le> bar_start b" "fv_position st = None"
    and bk: "book_ok good (bar_start b) st" by (auto simp: slot_inv_def)
  let ?entry = "prec40 (bar_open b * prec40 (1 + slip_of cfg))"
  let ?notional = "times_quantity cfg ?entry"
  define C where "C fee prior \<longleftrightarrow> \<not> set_allow_long cfg \<or> candle_end b = dse_end ss \<or> \<not> is_liquid cfg prior
     \<or> fv_cash st < prec40 (?notional + fee) \<or> set_order_ceiling cfg < prec40 (?notional * set_price_buffer cfg)" for fee prior
  from run Some obtain fee tim prior where pr: "liquidity_bar sr (bar_start b) = Inr prior"
    and st': "st' = (if C fee prior then st\<lparr>fv_no_fills := fv_no_fills st @ [iso_text (bar_start b) @ '':ENTRY_LIMIT_OR_LIQUIDITY'']\<rparr>
        else st\<lparr>fv_position := Some (p, bar_start b, ?entry, fee), fv_cash := prec40 (fv_cash st - prec40 (?notional + fee))\<rparr>)
        \<lparr>ex_decisions := ex_decisions st @ [\<lparr>ed_timing = (if C fee prior then tim\<lparr>tim_fill_confirmed_at := None\<rparr> else tim),
           ed_quantity = set_quantity cfg, ed_liquidity_volume = bar_volume prior, ed_filled = (\<not> C fee prior)\<rparr>], fv_pending := None\<rparr>"
    unfolding C_def by (auto simp only: exec_enter_def res_simps Let_def option.case sum.inject)
  from liquidity_bar_Inr [OF pr] have prior: "prior \<in> set (sr_bars sr)" "candle_end prior = bar_start b" by simp_all
  show ?thesis
  proof (cases "C fee prior")
    case False
    then have eo: "causal_entry sr cfg (bar_start b) ?entry" using b prior by (auto simp: causal_entry_def C_def)
    have et: "entry_time_ok ss (bar_start b)"
      using p(2) False grid by (simp add: entry_time_ok_def candle_end_def C_def)
    have "held_ok (causal_entry sr cfg) ss (bar_start b) st'"
      by (rule held_ok_open [where eok = "causal_entry sr cfg", OF bk _ _ et eo]) (use p(1) False in \<open>simp_all add: st'\<close>)
    moreover have "book_ok good (bar_start b) st'" using bk False by (simp add: st' book_ok_def)
    ultimately show ?thesis by (simp add: st')
  next
    case True
    with bk p(3) show ?thesis by (simp add: st' held_ok_def book_ok_def)
  qed
next
  case None
  with run inv show ?thesis by (simp add: exec_enter_def slot_inv_def)
qed

lemma exec_leave_inv:
  assumes run: "exec_leave d cfg costs b (candle_end b = dse_end ss) st = Inr st'" and b: "b \<in> set (sr_bars sr)"
    and book: "book_ok good (bar_start b) st" and held: "held_ok (causal_entry sr cfg) ss (bar_start b) st"
    and grid: "candle_end b \<le> dse_end ss" and good: "\<And>t. exec_trade_ok sr d cfg ss t \<Longrightarrow> good t"
    and ss: "ss \<in> sss" and un: "ex_unresolved st = []"
  shows "halted sr cfg good sss st' \<or> ex_unresolved st' = [] \<and> book_ok good (candle_end b) st'
     \<and> held_ok (causal_entry sr cfg) ss (candle_end b) st' \<and> fv_pending st' = fv_pending st
     \<and> (candle_end b = dse_end ss \<longrightarrow> fv_position st' = None)"
proof -
  have le: "bar_start b \<le> candle_end b" by (simp add: candle_end_def)
  note later = book_ok_mono [OF book le] held_ok_mono [OF held le]
  show ?thesis
  proof (cases "fv_position st")
    case None
    with run have "st' = st" by (simp add: exec_leave_def)
    with None later un show ?thesis by simp
  next
    case (Some p)
    obtain de en entry fee where p: "p = (de, en, entry, fee)" by (cases p) auto
    note pos = Some [unfolded p]
    obtain reference reason where x: "exit_reference b entry d (candle_end b = dse_end ss) = (reference, reason)" by fastforce
    from run pos obtain st1 where m: "five_mark cfg costs b entry st = Inr st1"
      and r: "(case reason of None \<Rightarrow> Inr st1
          | Some why \<Rightarrow>
              if \<not> is_liquid cfg b
              then Inr (st1\<lparr>ex_unresolved := ex_unresolved st @
                     [\<lparr>un_signal_at = de, un_entry_at = en, un_entry = entry, un_quantity = set_quantity cfg,
                       un_exit_at = candle_end b, un_reason = why\<rparr>]\<rparr>)
              else let exit_price = prec40 (reference * prec40 (1 - slip_of cfg)) in
                bindR (quote_total costs SELL (times_quantity cfg exit_price) (bar_start b) (Some (times_quantity cfg entry))) (\<lambda>q.
                Inr (five_close cfg b (de, en, entry, fee) exit_price why (prec40 (fee + q)) st1))) = Inr st'"
      by (auto simp only: exec_leave_def bindR_Inr_iff option.case prod.case x)
    note k = five_mark_keeps [OF m]
    have k6: "ex_unresolved st1 = []" using k(5) un by (cases st; cases st1) simp
    have bh: "book_ok good (candle_end b) st1" "held_ok (causal_entry sr cfg) ss (candle_end b) st1"
      using later book_ok_cong [OF k(1,2)] held_ok_cong [OF k(1,3)] by blast+
    show ?thesis
    proof (cases reason)
      case None
      then have nf: "candle_end b \<noteq> dse_end ss" using x by (auto simp: exit_reference_def Let_def split: if_splits)
      from r None have "st' = st1" by simp
      with nf k(4) k6 bh show ?thesis by simp
    next
      case (Some why)
      have h: "de = en" "entry_time_ok ss en" "en \<le> bar_start b" "causal_entry sr cfg en entry"
        "\<forall>t \<in> set (fv_trades st). ft_exit_at t \<le> en" using held pos by (auto simp: held_ok_def)
      show ?thesis
      proof (cases "is_liquid cfg b")
        case False
        let ?u = "\<lparr>un_signal_at = de, un_entry_at = en, un_entry = entry, un_quantity = set_quantity cfg,
                       un_exit_at = candle_end b, un_reason = why\<rparr>"
        from r Some False un have st': "st' = st1\<lparr>ex_unresolved := [?u]\<rparr>" by simp
        have "unresolved_ok sr cfg ss ?u" using h b False grid by (auto simp: unresolved_ok_def candle_end_def)
        moreover have "book_ok good (candle_end b) st'" using bh(1) by (simp add: st' book_ok_def)
        ultimately have "halted sr cfg good sss st'" using h(5) ss k(1) unfolding halted_def by (auto simp: st')
        then show ?thesis ..
      next
        case True
        from r Some True obtain q where st': "st' = five_close cfg b (de, en, entry, fee)
            (prec40 (reference * prec40 (1 - slip_of cfg))) why (prec40 (fee + q)) st1"
          by (simp only: option.case Let_def if_False not_True_eq_False simp_thms bindR_Inr_iff sum.inject)
            (elim exE conjE, rule that, erule sym)
        have "confirmed_exit sr d cfg ss (five_trade_of cfg b (de, en, entry, fee)
            (prec40 (reference * prec40 (1 - slip_of cfg))) why (prec40 (fee + q)))"
          using b True Some x by (auto simp: confirmed_exit_def)
        from book_ok_close [where xok = "confirmed_exit sr d cfg", OF book held pos grid k(1,2) this] good
        have "book_ok good (candle_end b) st'" by (simp add: st' exec_trade_ok_def)
        moreover have "fv_position st' = None" "fv_pending st' = fv_pending st" by (simp_all add: st' five_close_keeps k)
        moreover have "ex_unresolved st' = []"
          using k6 by (simp add: st' five_close_def)
        ultimately show ?thesis by (simp add: held_ok_def)
      qed
    qed
  qed
qed

lemma exec_observe_keeps:
  assumes "exec_observe d cfg b final st = Inr st'" and "fv_pending st = None"
  shows "fv_trades st' = fv_trades st" "fv_exposure st' = fv_exposure st" "fv_position st' = fv_position st"
    "ex_unresolved st' = ex_unresolved st"
    "fv_pending st' = None \<or> fv_pending st' = Some (candle_end b) \<and> fv_position st = None \<and> \<not> final"
  using assms by (auto simp: exec_observe_def res_simps Let_def split: if_splits)

lemma exec_step_inv:
  assumes run: "exec_step sr d cfg costs ss tm st = Inr st'" and inv: "exec_inside sr cfg good sss ss tm st"
    and grid: "tm + FIVE \<le> dse_end ss" "dse_start ss \<le> tm" and good: "\<And>t. exec_trade_ok sr d cfg ss t \<Longrightarrow> good t" and ss: "ss \<in> sss"
  shows "exec_inside sr cfg good sss ss (tm + FIVE) st'"
proof (cases "ex_unresolved st = []")
  case False
  with run inv show ?thesis by (auto simp: exec_step_def exec_inside_def)
next
  case True
  let ?e = "causal_entry sr cfg"
  from inv True have si: "slot_inv good ?e ss tm st" by (auto simp: exec_inside_def halted_def)
  from run True obtain b st1 st2 where b: "bar_at (sr_bars sr) tm = Some b"
    and e: "exec_enter sr cfg costs b (candle_end b = dse_end ss) st = Inr st1"
    and l: "exec_leave d cfg costs b (candle_end b = dse_end ss) st1 = Inr st2"
    and o: "(if ex_unresolved st2 \<noteq> [] then Inr st2 else exec_observe d cfg b (candle_end b = dse_end ss) st2) = Inr st'"
    by (auto simp: exec_step_def res_simps Let_def split: option.splits)
  from bar_at_Some [OF b] have bb: "b \<in> set (sr_bars sr)" "bar_start b = tm" by simp_all
  then have c: "candle_end b = tm + FIVE" by (simp add: candle_end_def)
  from exec_enter_inv [OF e bb(1)] si grid c bb(2) True
  have e1: "book_ok good (bar_start b) st1" "held_ok ?e ss (bar_start b) st1" "fv_pending st1 = None" "ex_unresolved st1 = []" by simp_all
  from exec_leave_inv [OF l bb(1) e1(1,2) _ good ss e1(4)] grid c
  consider "halted sr cfg good sss st2" | "ex_unresolved st2 = []" "book_ok good (tm + FIVE) st2" "held_ok ?e ss (tm + FIVE) st2"
    "fv_pending st2 = None" "tm + FIVE = dse_end ss \<longrightarrow> fv_position st2 = None"
    using e1(3) by auto
  then show ?thesis
  proof cases
    case 1
    with o halted_unresolved [OF 1] show ?thesis by (simp add: exec_inside_def)
  next
    case 2
    from o 2(1) have o': "exec_observe d cfg b (candle_end b = dse_end ss) st2 = Inr st'" by simp
    note f = exec_observe_keeps [OF o' 2(4)]
    have "book_ok good (tm + FIVE) st'" "held_ok ?e ss (tm + FIVE) st'"
      using 2(2,3) book_ok_cong [OF f(1,2)] held_ok_cong [OF f(1,3)] by blast+
    moreover have "ex_unresolved st' = []" using f(4) 2(1) by simp
    ultimately show ?thesis using f(3,5) 2(5) grid c by (auto simp: exec_inside_def slot_inv_def)
  qed
qed

definition exec_start :: "strategy_definition \<Rightarrow> dated_session \<Rightarrow> exec \<Rightarrow> exec res" where
  "exec_start d ss st =
     (if ex_unresolved st \<noteq> [] then Inr st
      else bindR (checks
        [(288 * FIVE < dse_end ss - dse_start ss, ''SESSION_RESOURCE_LIMIT''),
         (def_identifier d = S06 \<and> (nse_time (dse_start ss) div MINUTE \<noteq> 9 * 60 + 15
             \<or> dse_end ss - dse_start ss < 4 * FIVE), ''OPENING_RANGE_REQUIRES_REGULAR_SESSION'')]) (\<lambda>_.
      Inr (st\<lparr>fv_position := None, fv_pending := None, ex_history := []\<rparr>)))"

interpretation ex: slot_engine sss "exec_start d" "exec_step sr d cfg costs"
  "exec_inside sr cfg (some_session (exec_trade_ok sr d cfg) sss) sss"
  "exec_between sr cfg (some_session (exec_trade_ok sr d cfg) sss) sss" for sss sr d cfg costs
proof unfold_locales
  fix ss tm and st st' :: exec
  let ?g = "some_session (exec_trade_ok sr d cfg) sss"
  assume a: "dse_start ss < dse_end ss" "exec_between sr cfg ?g sss tm st" "tm \<le> dse_start ss" "exec_start d ss st = Inr st'"
  show "exec_inside sr cfg ?g sss ss (dse_start ss) st'"
  proof (cases "ex_unresolved st = []")
    case True
    with a(4) have "st' = st\<lparr>fv_position := None, fv_pending := None, ex_history := []\<rparr>"
      by (auto simp: exec_start_def res_simps)
    moreover have "book_ok ?g (dse_start ss) st"
      using a(2,3) True by (auto simp: exec_between_def halted_def intro: book_ok_mono)
    ultimately show ?thesis using True a(1) by (simp add: exec_inside_def slot_inv_def held_ok_def book_ok_def)
  qed (use a(2,4) in \<open>auto simp: exec_start_def exec_inside_def exec_between_def\<close>)
next
  fix ss tm and st st' :: exec
  let ?g = "some_session (exec_trade_ok sr d cfg) sss"
  assume "ss \<in> sss" "exec_inside sr cfg ?g sss ss tm st"
    "dse_start ss \<le> tm" "tm + FIVE \<le> dse_end ss" "exec_step sr d cfg costs ss tm st = Inr st'"
  then show "exec_inside sr cfg ?g sss ss (tm + FIVE) st'"
    using exec_step_inv [of sr d cfg costs ss tm st st' ?g sss] by (auto simp: some_session_def)
next
  fix ss and st :: exec
  let ?g = "some_session (exec_trade_ok sr d cfg) sss"
  assume "exec_inside sr cfg ?g sss ss (dse_end ss) st"
  then show "exec_between sr cfg ?g sss (dse_end ss) st" by (auto simp: exec_inside_def exec_between_def slot_inv_def)
qed

lemma exec_steps_halted: "ex_unresolved st \<noteq> [] \<Longrightarrow> foldR (exec_step sr d cfg costs ss) xs st = Inr st"
  by (induction xs) (simp_all add: exec_step_def)

lemma exec_session_run: "exec_session sr d cfg costs = ex.session_run d sr cfg costs"
proof (intro ext)
  fix ss st
  show "exec_session sr d cfg costs ss st = ex.session_run d sr cfg costs ss st"
    by (cases "ex_unresolved st = []") (simp_all add: exec_session_def ex.session_run_def exec_start_def bindR_assoc exec_steps_halted)
qed

text \<open>
  C23: the executor trades causally and halts on what it cannot value.  Every trade of a completed execution lies in one
  session, is decided and entered at the same instant at the slipped open, with liquidity observed on the candle that
  ended there, and does not overlap another; at most one position is left unresolved, entered after every trade has
  closed, on an illiquid exit candle.
\<close>

theorem execute_trades:
  assumes "check_series sr = Inr ()" and "execute sr d cfg costs = Inr r"
  shows "(\<forall>t \<in> set (sim5_trades r). \<exists>ss \<in> set (sr_sessions sr).
            dse_start ss + FIVE \<le> ft_entry_at t \<and> ft_signal_at t = ft_entry_at t \<and> ft_entry_at t < ft_exit_at t \<and> ft_exit_at t \<le> dse_end ss
            \<and> (\<exists>b \<in> set (sr_bars sr). bar_start b = ft_entry_at t \<and> ft_entry t = prec40 (bar_open b * prec40 (1 + slip_of cfg)))
            \<and> (\<exists>b \<in> set (sr_bars sr). candle_end b = ft_entry_at t \<and> is_liquid cfg b)
            \<and> (\<exists>b \<in> set (sr_bars sr). candle_end b = ft_exit_at t \<and> is_liquid cfg b))
     \<and> sorted_wrt (\<lambda>t u. ft_exit_at t \<le> ft_entry_at u) (sim5_trades r)
     \<and> (exn_unresolved r = [] \<or> (\<exists>u. exn_unresolved r = [u] \<and> (\<forall>t \<in> set (sim5_trades r). ft_exit_at t \<le> un_entry_at u)
          \<and> (\<exists>b \<in> set (sr_bars sr). candle_end b = un_exit_at u \<and> \<not> is_liquid cfg b)))"
proof -
  let ?sss = "set (sr_sessions sr)"
  let ?good = "some_session (exec_trade_ok sr d cfg) ?sss"
  from assms(2) obtain st where st: "foldR (exec_session sr d cfg costs) (sr_sessions sr) (exec_init cfg) = Inr st"
    and r: "sim5_trades r = fv_trades st" "exn_unresolved r = ex_unresolved st"
    by (auto simp: execute_def res_simps)
  have "exec_between sr cfg ?good ?sss (sr_from sr) (exec_init cfg)"
    by (simp add: exec_between_def exec_init_def book_ok_def exposure_of_def)
  from ex.series_run_between [OF assms(1) st [unfolded exec_session_run] subset_refl this]
  obtain tm where tm: "exec_between sr cfg ?good ?sss tm st" ..
  then obtain tm' where bk: "book_ok ?good tm' st" by (auto simp: exec_between_def halted_def)
  have "exn_unresolved r = [] \<or> (\<exists>u. exn_unresolved r = [u] \<and> (\<forall>t \<in> set (sim5_trades r). ft_exit_at t \<le> un_entry_at u)
          \<and> (\<exists>b \<in> set (sr_bars sr). candle_end b = un_exit_at u \<and> \<not> is_liquid cfg b))"
    using tm unfolding r exec_between_def halted_def unresolved_ok_def by blast
  moreover have "\<exists>ss \<in> ?sss. dse_start ss + FIVE \<le> ft_entry_at t \<and> ft_signal_at t = ft_entry_at t \<and> ft_entry_at t < ft_exit_at t \<and> ft_exit_at t \<le> dse_end ss
            \<and> (\<exists>b \<in> set (sr_bars sr). bar_start b = ft_entry_at t \<and> ft_entry t = prec40 (bar_open b * prec40 (1 + slip_of cfg)))
            \<and> (\<exists>b \<in> set (sr_bars sr). candle_end b = ft_entry_at t \<and> is_liquid cfg b)
            \<and> (\<exists>b \<in> set (sr_bars sr). candle_end b = ft_exit_at t \<and> is_liquid cfg b)" if "t \<in> set (sim5_trades r)" for t
  proof -
    from bk that r(1) obtain ss where "ss \<in> ?sss" "exec_trade_ok sr d cfg ss t" by (auto simp: book_ok_def some_session_def)
    then show ?thesis
      unfolding exec_trade_ok_def trade_good_def entry_time_ok_def causal_entry_def confirmed_exit_def by blast
  qed
  ultimately show ?thesis using bk r(1) by (simp add: book_ok_def)
qed

section \<open>No look-ahead\<close>

definition same_until :: "instant \<Rightarrow> series \<Rightarrow> series \<Rightarrow> bool" where
  "same_until tm sr sr' \<longleftrightarrow> sr_sessions sr = sr_sessions sr'
     \<and> filter (\<lambda>b. candle_end b \<le> tm) (sr_bars sr) = filter (\<lambda>b. candle_end b \<le> tm) (sr_bars sr')"

lemma find_filter: "(\<And>x. P x \<Longrightarrow> Q x) \<Longrightarrow> List.find P (filter Q xs) = List.find P xs"
  by (induction xs) auto

lemma map_of_filter_keys: "(\<And>x. x \<in> set xs \<Longrightarrow> k x = t \<Longrightarrow> Q x) \<Longrightarrow>
    map_of (map (\<lambda>x. (k x, x)) (filter Q xs)) t = map_of (map (\<lambda>x. (k x, x)) xs) t"
  by (induction xs) auto

lemma same_until_liquidity: "same_until T sr sr' \<Longrightarrow> tm \<le> T \<Longrightarrow> liquidity_bar sr tm = liquidity_bar sr' tm"
  using find_filter [of "\<lambda>b. candle_end b = tm" "\<lambda>b. candle_end b \<le> T" "sr_bars sr"]
    find_filter [of "\<lambda>b. candle_end b = tm" "\<lambda>b. candle_end b \<le> T" "sr_bars sr'"]
  by (simp add: same_until_def liquidity_bar_def)

lemma bar_at_filter: "tm + FIVE \<le> T \<Longrightarrow> bar_at (filter (\<lambda>b. candle_end b \<le> T) bars) tm = bar_at bars tm"
  unfolding bar_at_def rev_map rev_filter
  by (rule map_of_filter_keys) (simp add: candle_end_def)

lemma same_until_bar_at: "same_until T sr sr' \<Longrightarrow> tm + FIVE \<le> T \<Longrightarrow> bar_at (sr_bars sr) tm = bar_at (sr_bars sr') tm"
  using bar_at_filter [of tm T "sr_bars sr"] bar_at_filter [of tm T "sr_bars sr'"] by (simp add: same_until_def)

lemma same_until_enter:
  assumes "same_until T sr sr'" "bar_start b \<le> T" "bar_start b = bar_start b'" "bar_open b = bar_open b'"
  shows "exec_enter sr cfg costs b final st = exec_enter sr' cfg costs b' final st"
proof -
  have l: "liquidity_bar sr (bar_start b') = liquidity_bar sr' (bar_start b')"
    using same_until_liquidity [OF assms(1,2)] assms(3) by simp
  show ?thesis unfolding exec_enter_def decision_timing_def assms(3,4) l by (rule refl)
qed

text \<open>
  C24: the executor does not look ahead.  An entry at the open of a candle depends only on the candles completed by
  then and on that open; and the state after a slot depends only on the candles completed by the end of that slot.
\<close>

theorem executor_causal:
  "(same_until (bar_start b) sr sr' \<and> bar_start b = bar_start b' \<and> bar_open b = bar_open b'
       \<longrightarrow> exec_enter sr cfg costs b final st = exec_enter sr' cfg costs b' final st)
   \<and> (same_until T sr sr' \<and> (\<forall>tm \<in> set slots. tm + FIVE \<le> T)
       \<longrightarrow> foldR (exec_step sr d cfg costs ss) slots st = foldR (exec_step sr' d cfg costs ss) slots st)"
proof (intro conjI impI; elim conjE)
  show "exec_enter sr cfg costs b final st = exec_enter sr' cfg costs b' final st"
    if "same_until (bar_start b) sr sr'" "bar_start b = bar_start b'" "bar_open b = bar_open b'"
    using that by (intro same_until_enter [of "bar_start b"]) simp_all
  show "foldR (exec_step sr d cfg costs ss) slots st = foldR (exec_step sr' d cfg costs ss) slots st"
    if s: "same_until T sr sr'" and le: "\<forall>tm \<in> set slots. tm + FIVE \<le> T"
  proof (rule foldR_cong)
    fix tm u assume "tm \<in> set slots"
    with le have tm: "tm + FIVE \<le> T" by simp
    have e: "exec_enter sr cfg costs b f v = exec_enter sr' cfg costs b f v" if "bar_at (sr_bars sr') tm = Some b" for b f v
      by (rule same_until_enter [OF s]) (use bar_at_Some [OF that] tm in simp_all)
    show "exec_step sr d cfg costs ss tm u = exec_step sr' d cfg costs ss tm u"
      using e by (simp add: exec_step_def same_until_bar_at [OF s tm] Let_def split: option.splits)
  qed simp_all
qed

definition sample_reclaim :: strategy_definition where
  "sample_reclaim = registered S05 ''VWAP Reclaim'' ''close crossesHLC3VWAP,current volume>0,cumulative>=1000'' [''VWAP'']"

lemma sample_exec_state:
  "bindR (foldR (exec_session sample_series sample_reclaim sample_settings sample_costs) (sr_sessions sample_series)
      (exec_init sample_settings)) (\<lambda>st. Inr (map ft_reason (fv_trades st))) = Inr [EOD]"
  by code_simp

lemma sample_execution:
  obtains r t where "execute sample_series sample_reclaim sample_settings sample_costs = Inr r" "sim5_trades r = [t]"
proof -
  from sample_exec_state obtain st where st: "foldR (exec_session sample_series sample_reclaim sample_settings sample_costs)
      (sr_sessions sample_series) (exec_init sample_settings) = Inr st" "map ft_reason (fv_trades st) = [EOD]"
    by (auto simp: bindR_Inr_iff)
  then obtain t where t: "fv_trades st = [t]" by auto
  obtain m where m: "five_metrics_of (fv_trades st) (set_capital sample_settings) = Inr m"
    by (rule five_metrics_total [of "set_capital sample_settings" "fv_trades st"]) (simp_all add: sample_settings_def)
  have "validate_registry [sample_reclaim] = Inr ()" by code_simp
  moreover have "quality sample_series = ([], [])" by code_simp
  moreover have "sr_sessions sample_series \<noteq> []" "sr_corporate_actions_reviewed sample_series" "length (sr_bars sample_series) = 4"
    by (simp_all add: sample_series_def)
  ultimately show ?thesis using st(1) m t by (intro that) (auto simp: execute_def checks.simps)
qed

theorem execute_trades_witness:
  "\<exists>r t. execute sample_series sample_reclaim sample_settings sample_costs = Inr r \<and> sim5_trades r = [t]
     \<and> ft_signal_at t = ft_entry_at t \<and> ft_exit_at t \<le> five_at 4"
proof -
  obtain r t where r: "execute sample_series sample_reclaim sample_settings sample_costs = Inr r" and t: "sim5_trades r = [t]"
    by (rule sample_execution)
  have ses: "sr_sessions sample_series = [\<lparr>dse_start = five_at 0, dse_end = five_at 4\<rparr>]" by (simp add: sample_series_def)
  from execute_trades [OF sample_series_ok r, unfolded t ses]
  have "ft_signal_at t = ft_entry_at t" "ft_exit_at t \<le> five_at 4" by simp_all
  with r t show ?thesis by blast
qed

theorem executor_causal_witness:
  "\<forall>st. exec_enter sample_series sample_settings sample_costs (five_bar 2 101 100) False st
     = exec_enter sample_series sample_settings sample_costs (five_bar 2 101 120) False st"
  using executor_causal [of "five_bar 2 101 100" sample_series sample_series "five_bar 2 101 120"]
  by (simp add: same_until_def five_bar_def)
end
