(* ===== verification/Pair_Results.thy ===== *)
theory Pair_Results
  imports Pair_Research Executor_Results
begin

text \<open>
  Properties of the pair research: when a pair is qualified, that its chronological parts partition the trades, and
  that standard windows are well formed.
\<close>

section \<open>When a pair is qualified\<close>

lemma qualify_reasons: "qualify wilson trades capital oos bs p = Inr q \<Longrightarrow> qf_qualified q \<longleftrightarrow> qf_reasons q = []"
  by (auto simp: qualify_def res_simps Let_def)

lemma unqualified_simps [simp]:
  "pr_qualified (unqualified f g symbol d w dataset p status reasons) = False"
  "pr_data_status (unqualified f g symbol d w dataset p status reasons) = status"
  "pr_synthetic (unqualified f g symbol d w dataset p status reasons) = map_option (\<lambda>ds. sr_synthetic (pd_series ds)) dataset"
  "pr_training (unqualified f g symbol d w dataset p status reasons) = None"
  by (simp_all add: unqualified_def)

lemma primary_unqualified:
  "status = UNAVAILABLE \<or> status = QUARANTINED \<Longrightarrow> pr_data_status r = status \<Longrightarrow> primary r \<noteq> ''QUALIFIED''"
  by (auto simp: primary_def)

lemma primary_reasons:
  assumes "pr_data_status r = SYNTHETIC \<or> pr_data_status r = LOCAL_VERIFIED" "pr_qualification r \<noteq> None"
    "pr_qualified r \<longleftrightarrow> pr_reasons r = []" "pr_synthetic r = Some True \<longrightarrow> pr_reasons r \<noteq> []"
  shows "primary r = ''QUALIFIED'' \<longleftrightarrow> pr_reasons r = []"
proof (cases "pr_reasons r = []")
  case True
  then have "List.find (\<lambda>(reason, status). reason \<in> set (pr_reasons r)) status_mapping = None"
    by (simp add: find_None_iff)
  with True assms show ?thesis by (auto simp: primary_def)
next
  case False
  have "list_all (\<lambda>(reason, status). status \<noteq> ''QUALIFIED'') status_mapping" by code_simp
  then have "status \<noteq> ''QUALIFIED''" if "List.find (\<lambda>(reason, status). reason \<in> set (pr_reasons r)) status_mapping = Some (reason, status)"
    for reason status using that by (force simp: find_Some_iff list_all_iff in_set_conv_nth)
  with False assms(1) show ?thesis by (auto simp: primary_def split: option.splits)
qed

lemma evaluated_cases:
  assumes run: "evaluated wl w95 base w start sr capital p sim = Inr r"
  obtains (leak) "list_ex (\<lambda>t. cuts (split_boundaries w) (ft_signal_at t) (ft_exit_at t)) (sim5_trades sim)"
      "r = base\<lparr>pr_data_status := QUARANTINED, pr_reasons := [''SPLIT_TRADE_LEAKAGE'']\<rparr>"
    | (split) q a b c t where "\<not> list_ex (\<lambda>t. cuts (split_boundaries w) (ft_signal_at t) (ft_exit_at t)) (sim5_trades sim)"
      "qualify wl (sim5_trades sim) capital (rw_holdout_start w) (rw_folds w) p = Inr q"
      "part w95 sr (sim5_trades sim) capital start (rw_validation_start w) = Inr a"
      "part w95 sr (sim5_trades sim) capital (rw_validation_start w) (rw_holdout_start w) = Inr b"
      "part w95 sr (sim5_trades sim) capital (rw_holdout_start w) (rw_end w) = Inr c"
      "part w95 sr (sim5_trades sim) capital start (rw_end w) = Inr t"
      "r = (let reasons = qf_reasons q @ reasons_of
              [(pol_max_drawdown p < sim5_marked_drawdown sim, ''MARKED_DRAWDOWN_LIMIT''),
               (sr_synthetic sr, ''SYNTHETIC_NOT_HISTORICAL_PERFORMANCE'')]
           in base\<lparr>pr_data_status := (if sr_synthetic sr then SYNTHETIC else LOCAL_VERIFIED), pr_qualified := (reasons = []),
                  pr_reasons := reasons, pr_coverage := Some 1, pr_training := Some a, pr_validation := Some b,
                  pr_holdout := Some c, pr_total := Some t, pr_qualification := Some q, pr_trades := sim5_trades sim\<rparr>)"
proof (cases "list_ex (\<lambda>t. cuts (split_boundaries w) (ft_signal_at t) (ft_exit_at t)) (sim5_trades sim)")
  case True
  with run show ?thesis by (intro leak) (simp_all add: evaluated_def)
next
  case False
  have "evaluated wl w95 base w start sr capital p sim =
        bindR (qualify wl (sim5_trades sim) capital (rw_holdout_start w) (rw_folds w) p) (\<lambda>q.
        bindR (part w95 sr (sim5_trades sim) capital start (rw_validation_start w)) (\<lambda>a.
        bindR (part w95 sr (sim5_trades sim) capital (rw_validation_start w) (rw_holdout_start w)) (\<lambda>b.
        bindR (part w95 sr (sim5_trades sim) capital (rw_holdout_start w) (rw_end w)) (\<lambda>c.
        bindR (part w95 sr (sim5_trades sim) capital start (rw_end w)) (\<lambda>t.
        Inr (let reasons = qf_reasons q @ reasons_of
              [(pol_max_drawdown p < sim5_marked_drawdown sim, ''MARKED_DRAWDOWN_LIMIT''),
               (sr_synthetic sr, ''SYNTHETIC_NOT_HISTORICAL_PERFORMANCE'')]
           in base\<lparr>pr_data_status := (if sr_synthetic sr then SYNTHETIC else LOCAL_VERIFIED), pr_qualified := (reasons = []),
                  pr_reasons := reasons, pr_coverage := Some 1, pr_training := Some a, pr_validation := Some b,
                  pr_holdout := Some c, pr_total := Some t, pr_qualification := Some q, pr_trades := sim5_trades sim\<rparr>))))))"
    by (simp only: evaluated_def Let_def False if_False)
  from run [unfolded this bindR_Inr_iff sum.inject] show ?thesis
    by (elim exE conjE) (rule split [OF False], assumption+, erule sym)
qed

lemma evaluate_cases:
  assumes run: "evaluate wl w95 f g symbol d w dataset cfg costs p = Inr r"
  obtains (refused) "pr_data_status r = UNAVAILABLE \<or> pr_data_status r = QUARANTINED" "\<not> pr_qualified r" "pr_training r = None"
      "\<not> (\<exists>ds start sim. dataset = Some ds \<and> rw_start w = Inr start \<and> data_reasons symbol w start ds = []
          \<and> execute (pd_series ds) d cfg costs = Inr sim \<and> exn_unresolved sim = [])"
    | (ran) ds start sim where "dataset = Some ds" "rw_start w = Inr start" "data_reasons symbol w start ds = []"
      "execute (pd_series ds) d cfg costs = Inr sim" "exn_unresolved sim = []"
      "evaluated wl w95 (unqualified f g symbol d w dataset p QUARANTINED []) w start (pd_series ds) (set_capital cfg) p sim = Inr r"
proof (cases dataset)
  case None
  with run show ?thesis by (intro refused) (auto simp: evaluate_def)
next
  case (Some ds)
  let ?base = "unqualified f g symbol d w dataset p"
  from run Some obtain start where st: "rw_start w = Inr start"
    and r: "(if data_reasons symbol w start ds \<noteq> [] then Inr (?base QUARANTINED (data_reasons symbol w start ds))
          else case execute (pd_series ds) d cfg costs of
            Inl (ValueError _) \<Rightarrow> Inr (?base QUARANTINED [''EXECUTION_OR_DATA_REJECTED''])
          | Inl e \<Rightarrow> Inl e
          | Inr simulation \<Rightarrow>
              if exn_unresolved simulation \<noteq> [] then Inr (?base QUARANTINED [''EXECUTION_OR_DATA_REJECTED''])
              else evaluated wl w95 (?base QUARANTINED []) w start (pd_series ds) (set_capital cfg) p simulation) = Inr r"
    by (auto simp only: evaluate_def Let_def option.case bindR_Inr_iff)
  show ?thesis
  proof (cases "data_reasons symbol w start ds = [] \<and> (\<exists>sim. execute (pd_series ds) d cfg costs = Inr sim \<and> exn_unresolved sim = [])")
    case True
    then obtain sim where t: "data_reasons symbol w start ds = []" "execute (pd_series ds) d cfg costs = Inr sim" "exn_unresolved sim = []"
      by blast
    with r show ?thesis by (intro ran [OF Some st t]) simp
  next
    case False
    then have "r = ?base QUARANTINED (data_reasons symbol w start ds) \<or> r = ?base QUARANTINED [''EXECUTION_OR_DATA_REJECTED'']"
      using r by (auto split: if_splits sum.splits exc.splits)
    then have q: "pr_data_status r = QUARANTINED" "\<not> pr_qualified r" "pr_training r = None" by auto
    show ?thesis by (rule refused) (use q False Some st in auto)
  qed
qed

text \<open>
  C25: a pair is qualified exactly when its data is present, verified, complete, genuine and matches the declared window,
  no session and no trade straddles a split, the executor resolved every position, the predeclared policy holds on the
  holdout and on its folds, and the marked drawdown is within the policy; its primary status says so.
\<close>

theorem evaluate_qualified_iff:
  assumes "evaluate wl w95 f g symbol d w dataset cfg costs p = Inr r"
  shows "(pr_qualified r \<longleftrightarrow> (\<exists>ds start sim q. dataset = Some ds \<and> rw_start w = Inr start
       \<and> sr_symbol (pd_series ds) = symbol \<and> sr_from (pd_series ds) = start \<and> sr_to (pd_series ds) = rw_end w
       \<and> pd_calendar_verified ds \<and> pd_mapping_verified ds \<and> sr_corporate_actions_reviewed (pd_series ds)
       \<and> pd_corporate_action_evidence ds \<noteq> ''UNRESOLVED'' \<and> \<not> pd_quarantined ds
       \<and> pd_missing_sessions ds = 0 \<and> pd_duplicate_candles ds = 0 \<and> pd_out_of_order ds = 0
       \<and> quality (pd_series ds) = ([], []) \<and> \<not> sr_synthetic (pd_series ds)
       \<and> \<not> list_ex (\<lambda>s. cuts (split_boundaries w) (dse_start s) (dse_end s)) (sr_sessions (pd_series ds))
       \<and> execute (pd_series ds) d cfg costs = Inr sim \<and> exn_unresolved sim = []
       \<and> \<not> list_ex (\<lambda>t. cuts (split_boundaries w) (ft_signal_at t) (ft_exit_at t)) (sim5_trades sim)
       \<and> qualify wl (sim5_trades sim) (set_capital cfg) (rw_holdout_start w) (rw_folds w) p = Inr q \<and> qf_qualified q
       \<and> sim5_marked_drawdown sim \<le> pol_max_drawdown p))
     \<and> (primary r = ''QUALIFIED'' \<longleftrightarrow> pr_qualified r)"
  (is "(_ \<longleftrightarrow> (\<exists>ds start sim q. ?C ds start sim q)) \<and> _")
proof -
  have dr: "data_reasons symbol w start ds = [] \<longleftrightarrow> sr_symbol (pd_series ds) = symbol \<and> sr_from (pd_series ds) = start
       \<and> sr_to (pd_series ds) = rw_end w \<and> pd_calendar_verified ds \<and> pd_mapping_verified ds
       \<and> sr_corporate_actions_reviewed (pd_series ds) \<and> pd_corporate_action_evidence ds \<noteq> ''UNRESOLVED'' \<and> \<not> pd_quarantined ds
       \<and> pd_missing_sessions ds = 0 \<and> pd_duplicate_candles ds = 0 \<and> pd_out_of_order ds = 0 \<and> quality (pd_series ds) = ([], [])
       \<and> \<not> list_ex (\<lambda>s. cuts (split_boundaries w) (dse_start s) (dse_end s)) (sr_sessions (pd_series ds))" for start ds
    by (simp add: data_reasons_def Let_def) blast
  from assms show ?thesis
  proof (cases rule: evaluate_cases)
    case refused
    have "\<not> ?C ds start sim q" for ds start sim q using refused(4) dr by blast
    moreover have "primary r \<noteq> ''QUALIFIED''" using primary_unqualified refused(1) by blast
    ultimately show ?thesis using refused(2) by blast
  next
    case (ran ds start sim)
    from ran(6) show ?thesis
    proof (cases rule: evaluated_cases)
      case leak
      have "\<not> ?C ds' start' sim' q" for ds' start' sim' q
        using leak(1) ran(1,2,4) by (metis option.inject sum.inject(2))
      moreover have "primary r \<noteq> ''QUALIFIED''" by (rule primary_unqualified [of QUARANTINED]) (simp_all add: leak(2))
      moreover have "\<not> pr_qualified r" by (simp add: leak(2))
      ultimately show ?thesis by blast
    next
      case (split q a b c t)
      have q: "pr_qualified r \<longleftrightarrow> pr_reasons r = []" and rs: "pr_reasons r = qf_reasons q @ reasons_of
              [(pol_max_drawdown p < sim5_marked_drawdown sim, ''MARKED_DRAWDOWN_LIMIT''),
               (sr_synthetic (pd_series ds), ''SYNTHETIC_NOT_HISTORICAL_PERFORMANCE'')]"
        by (simp_all add: split(7) Let_def)
      have "primary r = ''QUALIFIED'' \<longleftrightarrow> pr_reasons r = []"
        by (rule primary_reasons) (use q in \<open>auto simp: split(7) Let_def ran(1)\<close>)
      moreover have "pr_reasons r = [] \<longleftrightarrow> ?C ds start sim q"
        using ran split(1,2) dr [of start ds] qualify_reasons [OF split(2)] by (auto simp: rs)
      moreover have "?C ds' start' sim' q' \<Longrightarrow> ds' = ds \<and> start' = start \<and> sim' = sim \<and> q' = q" for ds' start' sim' q'
        using ran(1,2,4) split(2) by (metis option.inject sum.inject(2))
      ultimately show ?thesis using q by blast
    qed
  qed
qed

section \<open>Chronological parts\<close>

lemma five_metrics_count: "five_metrics_of ts capital = Inr m \<Longrightarrow> fm_trades m = int (length ts)"
  by (auto simp: five_metrics_of_def res_simps Let_def)

lemma summarize_basic: "summarize w95 ts capital seconds = Inr s \<Longrightarrow> five_metrics_of ts capital = Inr (sum_basic s)"
  by (cases "fold streak_step ts (0, 0, 0, 0)") (auto simp: summarize_def res_simps Let_def)

lemma part_trades: "part w95 sr trades capital a b = Inr s \<Longrightarrow> fm_trades (sum_basic s) = int (length (filter (entered_in a b) trades))"
  unfolding part_def by (rule five_metrics_count [OF summarize_basic])

lemma entered_in_split: "a \<le> b \<Longrightarrow> b \<le> c \<Longrightarrow>
    length (filter (entered_in a c) ts) = length (filter (entered_in a b) ts) + length (filter (entered_in b c) ts)"
  by (induction ts) (auto simp: entered_in_def)

lemma check_research_window_Inr:
  assumes "check_research_window w = Inr u"
  obtains start where "rw_start w = Inr start" "start < rw_validation_start w" "rw_validation_start w < rw_holdout_start w"
    "rw_holdout_start w < rw_end w"
  using assms by (auto simp: check_research_window_def res_simps)

text \<open>
  For a validated window the training, validation and holdout parts of a result partition the trades of the window.
\<close>

theorem parts_partition:
  assumes "check_research_window w = Inr ()" and "evaluate wl w95 f g symbol d w dataset cfg costs p = Inr r"
    and "pr_training r \<noteq> None"
  shows "\<exists>a b c t. pr_training r = Some a \<and> pr_validation r = Some b \<and> pr_holdout r = Some c \<and> pr_total r = Some t
     \<and> fm_trades (sum_basic t) = fm_trades (sum_basic a) + fm_trades (sum_basic b) + fm_trades (sum_basic c)"
  using assms(2)
proof (cases rule: evaluate_cases)
  case refused
  with assms(3) show ?thesis by simp
next
  case (ran ds start sim)
  obtain start' where st: "rw_start w = Inr start'" "start' < rw_validation_start w" "rw_validation_start w < rw_holdout_start w"
    "rw_holdout_start w < rw_end w" by (rule check_research_window_Inr [OF assms(1)])
  with ran(2) have eq: "start' = start" by simp
  from ran(6) show ?thesis
  proof (cases rule: evaluated_cases)
    case leak
    with assms(3) show ?thesis by simp
  next
    case (split q a b c t)
    let ?ts = "sim5_trades sim"
    have "length (filter (entered_in start (rw_end w)) ?ts) = length (filter (entered_in start (rw_validation_start w)) ?ts)
        + (length (filter (entered_in (rw_validation_start w) (rw_holdout_start w)) ?ts)
           + length (filter (entered_in (rw_holdout_start w) (rw_end w)) ?ts))"
      using st eq entered_in_split [of start "rw_validation_start w" "rw_end w" ?ts]
        entered_in_split [of "rw_validation_start w" "rw_holdout_start w" "rw_end w" ?ts] by simp
    then have "fm_trades (sum_basic t) = fm_trades (sum_basic a) + fm_trades (sum_basic b) + fm_trades (sum_basic c)"
      using part_trades [OF split(3)] part_trades [OF split(4)] part_trades [OF split(5)] part_trades [OF split(6)] by simp
    then show ?thesis by (simp add: split(7) Let_def)
  qed
qed

section \<open>Standard windows\<close>

lemma midnight_iff: "nse_time t = 0 \<longleftrightarrow> (t + NSE_OFFSET) mod DAY_US = 0"
  by (simp add: nse_time_def)

lemma midnight_add: "nse_time t = 0 \<Longrightarrow> nse_time (t + k * DAY_US) = 0"
proof -
  assume "nse_time t = 0"
  moreover have "(t + k * DAY_US + NSE_OFFSET) mod DAY_US = (t + NSE_OFFSET) mod DAY_US"
    using mod_mult_self1 [of "t + NSE_OFFSET" k DAY_US] by (simp add: algebra_simps)
  ultimately show ?thesis by (simp only: midnight_iff)
qed

lemma midnight_diff: "nse_time s = 0 \<Longrightarrow> nse_time t = 0 \<Longrightarrow> \<exists>n. t = s + n * DAY_US"
proof -
  assume "nse_time s = 0" "nse_time t = 0"
  then have "DAY_US dvd (t + NSE_OFFSET) - (s + NSE_OFFSET)" unfolding midnight_iff by (intro dvd_diff) (auto simp: mod_eq_0_iff_dvd)
  then obtain n where "t - s = DAY_US * n" by (auto elim: dvdE)
  then show ?thesis by (intro exI [of _ n]) (simp add: algebra_simps)
qed

lemma start_of_midnight: "start_of e months = Inr s \<Longrightarrow> nse_time e = 0 \<Longrightarrow> nse_time s = 0"
  by (cases "civil (nse_date e)") (auto simp: start_of_def months_before_def res_simps Let_def split: if_splits)

text \<open>
  The standard window of a local midnight is always well formed: from twenty days of history on, the declared
  starts and the three holdout folds are in strict chronological order and the window passes its own validation.
\<close>

theorem standard_window_valid:
  assumes mid: "nse_time e = 0" and start: "start_of e months = Inr s" and long: "20 * DAY_US \<le> e - s"
  shows "\<exists>w. standard_window e months = Inr w \<and> check_research_window w = Inr () \<and> rw_start w = Inr s
     \<and> s < rw_validation_start w \<and> rw_validation_start w < rw_holdout_start w \<and> hd (rw_folds w) = rw_holdout_start w
     \<and> strictly_increasing (rw_folds w) \<and> length (rw_folds w) = 4 \<and> last (rw_folds w) = e"
proof -
  have months: "months \<in> {6, 12}" using start by (auto simp: start_of_def months_before_def res_simps split: if_splits)
  note ms = start_of_midnight [OF start mid]
  obtain n where n: "e = s + n * DAY_US" using midnight_diff [OF ms mid] by blast
  have n20: "20 \<le> n" using long unfolding n by simp
  define v where "v = n * 5 div 10"
  define h where "h = n * 7 div 10"
  have v2: "n div 2 = v" by (simp add: v_def)
  have b: "0 < v" "v < h" "h + 3 \<le> n" using n20 by (auto simp: v_def h_def)
  define k where "k = n - h"
  have k: "3 \<le> k" using b by (simp add: k_def)
  have f: "0 < k div 3" "k div 3 < 2 * k div 3" "2 * k div 3 < k" using k by auto
  have days: "(e - s) div DAY_US = n" "(e - (s + h * DAY_US)) div DAY_US = k" by (simp_all add: n k_def algebra_simps)
  let ?w = "\<lparr>rw_months = months, rw_end = e, rw_validation_start = s + v * DAY_US, rw_holdout_start = s + h * DAY_US,
      rw_folds = [s + h * DAY_US, s + h * DAY_US + (k div 3) * DAY_US, s + h * DAY_US + (2 * k div 3) * DAY_US, e],
      rw_parameters_frozen_at = s\<rparr>"
  have st: "rw_start ?w = Inr s" using start by (simp add: rw_start_def)
  have order: "s < s + v * DAY_US" "s + v * DAY_US < s + h * DAY_US" "s + h * DAY_US < e"
    "s + h * DAY_US + (2 * k div 3) * DAY_US < e" "(k div 3) * DAY_US < (2 * k div 3) * DAY_US"
    using b f unfolding n k_def by (simp_all add: algebra_simps)
  have midn: "nse_time (s + h * DAY_US + j * DAY_US) = 0" for j using midnight_add [OF midnight_add [OF ms, of h], of j] .
  have inc: "strictly_increasing (rw_folds ?w)" using order f by (simp add: strictly_increasing_iff)
  have ok: "check_research_window ?w = Inr ()"
    using months mid midnight_add [OF ms] midn order f inc st by (simp add: check_research_window_def res_simps checks_Inr_iff)
  have "standard_window e months = Inr ?w"
    using ok by (simp add: standard_window_def mid start checks.simps Let_def days v2 v_def [symmetric] h_def [symmetric])
  with ok st order inc show ?thesis by (intro exI [of _ ?w]) simp
qed

theorem standard_window_valid_witness:
  "\<exists>w. standard_window (combine_nse 20732 0) 6 = Inr w \<and> check_research_window w = Inr ()"
proof -
  have m: "nse_time (combine_nse 20732 0) = 0" by code_simp
  have s: "start_of (combine_nse 20732 0) 6 = Inr (combine_nse 20549 0)" by code_simp
  have l: "20 * DAY_US \<le> combine_nse 20732 0 - combine_nse 20549 0" by code_simp
  from standard_window_valid [OF m s l] show ?thesis by blast
qed

section \<open>A sample pair\<close>

definition flat_bar :: "int \<Rightarrow> bar" where
  "flat_bar i = \<lparr>bar_start = combine_nse 20600 (clock_at 9 (15 + 5 * i)), bar_open = 100, bar_high = 100, bar_low = 100, bar_close = 100,
     bar_volume = 1000, bar_open_interest = None\<rparr>"

definition flat_series :: series where
  "flat_series = sample_series\<lparr>sr_synthetic := False, sr_from := combine_nse 20549 0, sr_to := combine_nse 20732 0, sr_as_of := combine_nse 20732 0,
     sr_sessions := [\<lparr>dse_start = combine_nse 20600 (clock_at 9 15), dse_end = combine_nse 20600 (clock_at 9 25)\<rparr>],
     sr_bars := [flat_bar 0, flat_bar 1]\<rparr>"

definition flat_dataset :: pair_dataset where
  "flat_dataset = \<lparr>pd_series = flat_series, pd_sha256 = replicate 64 CHR ''a'', pd_acquired_at = combine_nse 20732 0,
     pd_calendar_version = ''1'', pd_calendar_source = ''c'', pd_calendar_verified = True, pd_corporate_action_evidence = ''e'',
     pd_missing_sessions = 0, pd_duplicate_candles = 0, pd_out_of_order = 0, pd_quarantined = False, pd_mapping_verified = True\<rparr>"

definition half_year :: research_window where
  "half_year = \<lparr>rw_months = 6, rw_end = combine_nse 20732 0, rw_validation_start = combine_nse 20640 0, rw_holdout_start = combine_nse 20677 0,
     rw_folds = [combine_nse 20677 0, combine_nse 20695 0, combine_nse 20713 0, combine_nse 20732 0],
     rw_parameters_frozen_at = combine_nse 20549 0\<rparr>"

definition sample_evaluate :: "pair_result res" where
  "sample_evaluate = evaluate (\<lambda>p n w. w * 9 / 10) (\<lambda>wins n. (0, 1)) def_name (\<lambda>p. ''policy'') ''S'' sample_reclaim half_year (Some flat_dataset)
     sample_settings sample_costs sample_policy"

lemma half_year_ok: "check_research_window half_year = Inr ()"
  by code_simp

lemma sample_evaluation: "bindR sample_evaluate (\<lambda>r. Inr (pr_training r \<noteq> None, pr_qualified r)) = Inr (True, False)"
  unfolding sample_evaluate_def by code_simp

lemma sample_evaluated:
  obtains r where "evaluate (\<lambda>p n w. w * 9 / 10) (\<lambda>wins n. (0, 1)) def_name (\<lambda>p. ''policy'') ''S'' sample_reclaim half_year (Some flat_dataset)
     sample_settings sample_costs sample_policy = Inr r" "pr_training r \<noteq> None" "\<not> pr_qualified r"
  using sample_evaluation by (auto simp: bindR_Inr_iff sample_evaluate_def)

theorem evaluate_qualified_iff_witness:
  "\<exists>r. sample_evaluate = Inr r \<and> primary r \<noteq> ''QUALIFIED''"
proof -
  obtain r where r: "evaluate (\<lambda>p n w. w * 9 / 10) (\<lambda>wins n. (0, 1)) def_name (\<lambda>p. ''policy'') ''S'' sample_reclaim half_year (Some flat_dataset)
     sample_settings sample_costs sample_policy = Inr r" "\<not> pr_qualified r" by (rule sample_evaluated)
  from evaluate_qualified_iff [OF r(1)] r(2) have "primary r \<noteq> ''QUALIFIED''" by (elim conjE) simp
  with r(1) show ?thesis by (auto simp: sample_evaluate_def)
qed

theorem parts_partition_witness:
  "\<exists>r a b c t. sample_evaluate = Inr r \<and> pr_training r = Some a \<and> pr_validation r = Some b \<and> pr_holdout r = Some c \<and> pr_total r = Some t
     \<and> fm_trades (sum_basic t) = fm_trades (sum_basic a) + fm_trades (sum_basic b) + fm_trades (sum_basic c)"
proof -
  obtain r where r: "evaluate (\<lambda>p n w. w * 9 / 10) (\<lambda>wins n. (0, 1)) def_name (\<lambda>p. ''policy'') ''S'' sample_reclaim half_year (Some flat_dataset)
     sample_settings sample_costs sample_policy = Inr r" "pr_training r \<noteq> None" by (rule sample_evaluated)
  from parts_partition [OF half_year_ok r] r(1) show ?thesis unfolding sample_evaluate_def by blast
qed
end
