(* ===== verification/Paper_Results.thy ===== *)
theory Paper_Results
  imports Paper Pair_Results
begin

text \<open>
  What the paper executor of phase1417/paper.py guarantees: the quantity its sizing loop picks is
  the largest one that fits, a log is accepted by replay exactly when the executor produces it,
  every produced log obeys the order life cycle, a run without an admitted record fills nothing,
  and every fill was paid for by the cash of its side.
\<close>

section \<open>Sizing\<close>

definition affordable :: "settings \<Rightarrow> schedule \<Rightarrow> rat \<Rightarrow> instant \<Rightarrow> rat \<Rightarrow> rat \<Rightarrow> rat \<Rightarrow> int \<Rightarrow> bool" where
  "affordable cfg costs price tm cash stop_fraction risk_per_trade q \<longleftrightarrow>
     (\<exists>buy_fee exit_fee. quote_total costs BUY (prec40 (price * of_int q)) tm None = Inr buy_fee
        \<and> quote_total costs SELL (planned_stop cfg stop_fraction (prec40 (price * of_int q))) tm (Some (prec40 (price * of_int q))) = Inr exit_fee
        \<and> fits cfg stop_fraction risk_per_trade cash (prec40 (price * of_int q)) buy_fee exit_fee)"

lemma size_loop_spec:
  "size_loop cfg costs price tm cash sf rpt q0 = Inr q \<Longrightarrow>
     0 \<le> q \<and> q \<le> max 0 q0 \<and> (0 < q \<longrightarrow> affordable cfg costs price tm cash sf rpt q)
     \<and> (\<forall>k. q < k \<and> k \<le> q0 \<longrightarrow> \<not> affordable cfg costs price tm cash sf rpt k)"
proof (induction cfg costs price tm cash sf rpt q0 rule: size_loop.induct)
  case (1 cfg costs price tm cash sf rpt q0)
  show ?case
  proof (cases "q0 \<le> 0")
    case True
    with 1(2) have "q = 0" by (simp add: size_loop.simps)
    with True show ?thesis by auto
  next
    case False
    let ?buy = "prec40 (price * of_int q0)"
    from 1(2) False obtain bf xf where b: "quote_total costs BUY ?buy tm None = Inr bf"
      and x: "quote_total costs SELL (planned_stop cfg sf ?buy) tm (Some ?buy) = Inr xf"
      and r: "(if fits cfg sf rpt cash ?buy bf xf then Inr q0 else size_loop cfg costs price tm cash sf rpt (q0 - 1)) = Inr q"
      by (subst (asm) size_loop.simps) (auto simp only: if_False Let_def bindR_Inr_iff)
    have a: "affordable cfg costs price tm cash sf rpt q0 \<longleftrightarrow> fits cfg sf rpt cash ?buy bf xf"
      using b x by (simp add: affordable_def)
    show ?thesis
    proof (cases "fits cfg sf rpt cash ?buy bf xf")
      case True
      with r have "q = q0" by simp
      with True a False show ?thesis by auto
    next
      case nofit: False
      with r have "size_loop cfg costs price tm cash sf rpt (q0 - 1) = Inr q" by simp
      from 1(1) [OF False refl b x nofit this] have ih: "0 \<le> q" "q \<le> max 0 (q0 - 1)"
        "0 < q \<longrightarrow> affordable cfg costs price tm cash sf rpt q"
        "\<forall>k. q < k \<and> k \<le> q0 - 1 \<longrightarrow> \<not> affordable cfg costs price tm cash sf rpt k" by auto
      have "\<not> affordable cfg costs price tm cash sf rpt k" if "q < k" "k \<le> q0" for k
        using ih(4) that a nofit by (cases "k = q0") auto
      with ih False show ?thesis by auto
    qed
  qed
qed

lemma paper_size_spec:
  assumes "paper_size r cfg costs price tm cash volume sf = Inr q" and "0 < q"
  obtains cap where "risk_gaps r = []" "0 < price" "0 < cash" "size_cap r cfg price cash volume sf = Inr cap" "q \<le> cap"
    "affordable cfg costs price tm cash sf (the (rk_risk_per_trade r)) q"
    "\<And>k. q < k \<Longrightarrow> k \<le> cap \<Longrightarrow> \<not> affordable cfg costs price tm cash sf (the (rk_risk_per_trade r)) k"
proof -
  have ok: "\<not> (risk_gaps r \<noteq> [] \<or> price \<le> 0 \<or> cash \<le> 0)"
  proof
    assume "risk_gaps r \<noteq> [] \<or> price \<le> 0 \<or> cash \<le> 0"
    then have "q = 0" using assms(1) by (simp add: paper_size_def)
    with assms(2) show False by simp
  qed
  with assms(1) obtain cap where cap: "size_cap r cfg price cash volume sf = Inr cap"
    and l: "size_loop cfg costs price tm cash sf (the (rk_risk_per_trade r)) cap = Inr q"
    by (auto simp: paper_size_def res_simps)
  from size_loop_spec [OF l] assms(2) show ?thesis
    by (intro that [of cap]) (use ok cap in auto)
qed

lemma size_cap_le:
  assumes "size_cap r cfg price cash volume sf = Inr cap"
  shows "cap \<le> set_quantity cfg" "cap \<le> the (rk_max_quantity r)" "cap \<le> trunc (prec40 (of_int volume * set_participation cfg))"
proof -
  from assms obtain x y z where "cap = min (min (min (min (min (set_quantity cfg) (the (rk_max_quantity r))) (trunc x)) (trunc y))
       (trunc (prec40 (of_int volume * set_participation cfg)))) (trunc z)"
    unfolding size_cap_def bindR_Inr_iff sum.inject by (elim exE conjE) (rule that, erule sym)
  then show "cap \<le> set_quantity cfg" "cap \<le> the (rk_max_quantity r)" "cap \<le> trunc (prec40 (of_int volume * set_participation cfg))"
    by (simp_all add: min_le_iff_disj)
qed


section \<open>The audit\<close>

inductive audit_run :: "(string \<Rightarrow> string) \<Rightarrow> (audit_body \<Rightarrow> string) \<Rightarrow> audit \<Rightarrow> audit \<Rightarrow> bool" for sha row_json where
  start: "audit_run sha row_json a a"
| step: "audit_run sha row_json a b \<Longrightarrow> emit sha row_json sig state tm v b = Inr c \<Longrightarrow> audit_run sha row_json a c"

lemma sealed_simps [simp]:
  "ab_signal (sealed h j (body_of h a sig state tm v)) = sig" "ab_state (sealed h j (body_of h a sig state tm v)) = state"
  "ab_timestamp (sealed h j (body_of h a sig state tm v)) = tm" "ab_values (sealed h j (body_of h a sig state tm v)) = v"
  "ab_previous_state (sealed h j (body_of h a sig state tm v)) = au_states a sig"
  "ar_current_hash (sealed h j b) = h (j b)"
  "ab_previous_hash (sealed h j (body_of h a sig state tm v)) = (if au_events a = [] then zero_hash else ar_current_hash (last (au_events a)))"
  "audit_body.truncate (sealed h j b) = b"
  by (simp_all add: sealed_def body_of_def audit_body.defs)

lemma emit_Inr:
  assumes "emit h j sig state tm v a = Inr c"
  shows "state \<in> paper_transitions (au_states a sig)" "au_events a \<noteq> [] \<Longrightarrow> ab_timestamp (last (au_events a)) \<le> tm"
    "length (au_events a) < 200000" "au_events c = au_events a @ [sealed h j (body_of h a sig state tm v)]"
    "au_states c = (au_states a)(sig \<mapsto> state)" "au_run_id c = au_run_id a" "au_binding c = au_binding a"
  using assms by (auto simp: emit_def res_simps Let_def)

lemma replay_step_emit: "emit h j sig state tm v a = Inr c \<Longrightarrow> replay_step h j (last (au_events c)) a = Inr c"
  using emit_Inr(4) [of h j sig state tm v a c] by (simp add: replay_step_def)

lemma replay_run:
  assumes "audit_run h j a c" and "au_events a = []"
  shows "foldR (replay_step h j) (au_events c) a = Inr c"
  using assms
proof (induction rule: audit_run.induct)
  case (step a b sig state tm v c)
  from emit_Inr(4) [OF step.hyps(2)] replay_step_emit [OF step.hyps(2)] step.IH [OF step.prems] show ?case by simp
qed simp

lemma run_replay:
  assumes "foldR (replay_step h j) rows a = Inr c"
  shows "audit_run h j a c \<and> au_events c = au_events a @ rows"
  using assms
proof (induction rows arbitrary: c rule: rev_induct)
  case (snoc row rows)
  from snoc.prems obtain b where b: "foldR (replay_step h j) rows a = Inr b" "replay_step h j row b = Inr c" by (auto simp: res_simps)
  from b(2) obtain e: "emit h j (ab_signal row) (ab_state row) (ab_timestamp row) (ab_values row) b = Inr c" and l: "last (au_events c) = row"
    by (auto simp: replay_step_def res_simps split: if_splits)
  from snoc.IH [OF b(1)] audit_run.step [OF _ e] emit_Inr(4) [OF e] l show ?case by auto
qed (auto intro: audit_run.start)

text \<open>
  C29: replay accepts exactly the logs that the audit itself can produce.  The log of every audit reached by \<open>emit\<close> from
  the initial one replays to that same audit, and an accepted log is the log of such an audit, with nothing added,
  removed or changed.
\<close>

theorem replay_iff_produced:
  "replay h bj j b rows = Inr a \<longleftrightarrow> (\<exists>a0. audit_init h bj b = Inr a0 \<and> audit_run h j a0 a \<and> au_events a = rows)"
proof
  assume "replay h bj j b rows = Inr a"
  then obtain a0 where a0: "audit_init h bj b = Inr a0" "foldR (replay_step h j) rows a0 = Inr a" by (auto simp: replay_def res_simps)
  then have "au_events a0 = []" by (auto simp: audit_init_def split: if_splits)
  with run_replay [OF a0(2)] a0(1) show "\<exists>a0. audit_init h bj b = Inr a0 \<and> audit_run h j a0 a \<and> au_events a = rows" by auto
next
  assume "\<exists>a0. audit_init h bj b = Inr a0 \<and> audit_run h j a0 a \<and> au_events a = rows"
  then obtain a0 where a0: "audit_init h bj b = Inr a0" "audit_run h j a0 a" "au_events a = rows" by blast
  then have "au_events a0 = []" by (auto simp: audit_init_def split: if_splits)
  with replay_run [OF a0(2)] a0 show "replay h bj j b rows = Inr a" by (simp add: replay_def)
qed

section \<open>Life cycles\<close>

fun lifecycle :: "paper_state option \<Rightarrow> paper_state list \<Rightarrow> bool" where
  "lifecycle p [] = True"
| "lifecycle p (s # ss) = (s \<in> paper_transitions p \<and> lifecycle (Some s) ss)"

definition final_state :: "paper_state list \<Rightarrow> paper_state option" where
  "final_state ss = (if ss = [] then None else Some (last ss))"

lemma lifecycle_snoc: "lifecycle p (ss @ [s]) \<longleftrightarrow> lifecycle p ss \<and> s \<in> paper_transitions (if ss = [] then p else Some (last ss))"
  by (induction ss arbitrary: p) auto

lemma lifecycle_prefix: "lifecycle p (xs @ ys) \<Longrightarrow> lifecycle p xs"
  by (induction xs arbitrary: p) auto

definition states_of :: "audit \<Rightarrow> string \<Rightarrow> paper_state list" where
  "states_of a sig = map ab_state (filter (\<lambda>e. ab_signal e = sig) (au_events a))"

definition chained :: "(string \<Rightarrow> string) \<Rightarrow> (audit_body \<Rightarrow> string) \<Rightarrow> audit_row list \<Rightarrow> bool" where
  "chained h j es \<longleftrightarrow> (\<forall>i < length es. ar_current_hash (es ! i) = h (j (audit_body.truncate (es ! i)))
     \<and> ab_previous_hash (es ! i) = (if i = 0 then zero_hash else ar_current_hash (es ! (i - 1))))"

definition audit_ok :: "(string \<Rightarrow> string) \<Rightarrow> (audit_body \<Rightarrow> string) \<Rightarrow> audit \<Rightarrow> bool" where
  "audit_ok h j a \<longleftrightarrow> (\<forall>sig. lifecycle None (states_of a sig) \<and> au_states a sig = final_state (states_of a sig))
     \<and> sorted (map ab_timestamp (au_events a)) \<and> chained h j (au_events a) \<and> length (au_events a) \<le> 200000"

lemma sorted_le_last: "sorted xs \<Longrightarrow> x \<in> set xs \<Longrightarrow> x \<le> last xs"
  by (induction xs rule: rev_induct) (auto simp: sorted_append)

lemma emit_ok:
  assumes e: "emit h j sig state tm v a = Inr c" and ok: "audit_ok h j a"
  shows "audit_ok h j c"
proof -
  note f = emit_Inr [OF e]
  let ?row = "sealed h j (body_of h a sig state tm v)"
  have st: "states_of c s = (if s = sig then states_of a s @ [state] else states_of a s)" for s by (simp add: states_of_def f(4))
  have "lifecycle None (states_of c s) \<and> au_states c s = final_state (states_of c s)" for s
  proof (cases "s = sig")
    case True
    from ok have "au_states a sig = final_state (states_of a sig)" "lifecycle None (states_of a sig)" by (auto simp: audit_ok_def)
    with f(1) have "lifecycle None (states_of a sig @ [state])" by (simp add: lifecycle_snoc final_state_def split: if_splits)
    with True f(5) st show ?thesis by (simp add: final_state_def)
  next
    case False
    with ok f(5) st show ?thesis by (simp add: audit_ok_def)
  qed
  moreover have "sorted (map ab_timestamp (au_events c))"
  proof -
    have s: "sorted (map ab_timestamp (au_events a))" using ok by (simp add: audit_ok_def)
    have "x \<le> tm" if "x \<in> set (map ab_timestamp (au_events a))" for x
    proof -
      have ne: "au_events a \<noteq> []" using that by auto
      then have "x \<le> last (map ab_timestamp (au_events a))" using s that by (rule_tac sorted_le_last)
      with f(2) ne show ?thesis by (simp add: last_map)
    qed
    with s show ?thesis by (simp add: f(4) sorted_append)
  qed
  moreover have "chained h j (au_events c)"
    using ok by (auto simp: chained_def audit_ok_def f(4) nth_append less_Suc_eq last_conv_nth)
  ultimately show ?thesis using f(3,4) by (simp add: audit_ok_def)
qed

lemma audit_run_ok: "audit_run h j a c \<Longrightarrow> audit_ok h j a \<Longrightarrow> audit_ok h j c"
  by (induction rule: audit_run.induct) (auto intro: emit_ok)

lemma audit_init_ok: "audit_init h bj b = Inr a \<Longrightarrow> audit_ok h j a"
  by (auto simp: audit_init_def audit_ok_def states_of_def final_state_def chained_def split: if_splits)

text \<open>A position is open, about to close or closed only after its fill.\<close>

lemma lifecycle_filled:
  "lifecycle None ss \<Longrightarrow> ss \<noteq> [] \<Longrightarrow> last ss \<in> {PAPER_POSITION_OPEN, PAPER_EXIT_PENDING, PAPER_POSITION_CLOSED} \<Longrightarrow> PAPER_FILLED \<in> set ss"
proof (induction ss rule: rev_induct)
  case (snoc s ss)
  from snoc.prems have l: "lifecycle None ss" "s \<in> paper_transitions (if ss = [] then None else Some (last ss))"
    by (auto simp: lifecycle_snoc)
  have ne: "ss \<noteq> []" using l(2) snoc.prems(3) by auto
  with l(2) have "s \<in> paper_transitions (Some (last ss))" by simp
  with snoc.prems(3) have "last ss \<in> {PAPER_FILLED, PAPER_POSITION_OPEN, PAPER_EXIT_PENDING}" by (cases "last ss") auto
  with snoc.IH [OF l(1) ne] last_in_set [OF ne] show ?case by auto
qed simp

text \<open>
  C30: whatever is emitted, the log of an audit stays sound.  The states of every signal follow the table of transitions
  from its first event on, so that a position is closed only if it was filled; timestamps never decrease; every row
  carries the digest of its own content and the digest of the row before it; and the log is bounded.
\<close>

theorem audit_log_sound:
  assumes "audit_init h bj b = Inr a0" and "audit_run h j a0 a"
  shows "(\<forall>sig. lifecycle None (states_of a sig)
            \<and> (PAPER_POSITION_CLOSED \<in> set (states_of a sig) \<longrightarrow> PAPER_FILLED \<in> set (states_of a sig)))
     \<and> sorted (map ab_timestamp (au_events a)) \<and> length (au_events a) \<le> 200000
     \<and> (\<forall>i < length (au_events a). ar_current_hash (au_events a ! i) = h (j (audit_body.truncate (au_events a ! i)))
          \<and> ab_previous_hash (au_events a ! i) = (if i = 0 then zero_hash else ar_current_hash (au_events a ! (i - 1))))"
proof -
  have ok: "audit_ok h j a" by (rule audit_run_ok [OF assms(2) audit_init_ok [OF assms(1)]])
  have "PAPER_FILLED \<in> set ss" if l: "lifecycle None ss" and c: "PAPER_POSITION_CLOSED \<in> set ss" for ss
  proof -
    from c obtain xs ys where ss: "ss = (xs @ [PAPER_POSITION_CLOSED]) @ ys" by (metis append.assoc append_Cons append_Nil in_set_conv_decomp)
    have "lifecycle None (xs @ [PAPER_POSITION_CLOSED])" using l unfolding ss by (rule lifecycle_prefix)
    from lifecycle_filled [OF this] show ?thesis by (auto simp: ss)
  qed
  with ok show ?thesis by (auto simp: audit_ok_def chained_def)
qed

section \<open>Runs\<close>

text \<open>What a run keeps: its audit grows by emitted rows that satisfy \<open>P\<close>.\<close>

definition grows :: "(audit_row \<Rightarrow> bool) \<Rightarrow> audit_row list \<Rightarrow> audit_row list \<Rightarrow> bool" where
  "grows P es es' \<longleftrightarrow> (\<exists>new. es' = es @ new \<and> list_all P new)"

lemma grows_refl [intro]: "grows P es es"
  by (simp add: grows_def)

lemma grows_trans [trans]: "grows P a b \<Longrightarrow> grows P b c \<Longrightarrow> grows P a c"
  by (auto simp: grows_def)

lemma paper_emit_grows:
  assumes "paper_emit xt sig state tm v st = Inr st'" and "\<And>b. ab_state b = state \<Longrightarrow> ab_values b = v \<Longrightarrow> P (b :: audit_row)"
  shows "grows P (au_events (pp_audit st)) (au_events (pp_audit st')) \<and> pp_cash st' = pp_cash st
     \<and> pp_day_start_cash st' = pp_day_start_cash st"
proof -
  from assms(1) obtain a where a: "emit (xt_sha xt) (xt_row_json xt) sig state tm v (pp_audit st) = Inr a" "st' = st\<lparr>pp_audit := a\<rparr>"
    by (auto simp: paper_emit_def res_simps)
  from emit_Inr(4) [OF a(1)] assms(2) show ?thesis by (auto simp: a(2) grows_def)
qed

text \<open>A filled row is funded.\<close>

definition funded :: "audit_row \<Rightarrow> bool" where
  "funded e \<longleftrightarrow> (ab_state e = PAPER_FILLED \<longrightarrow> 1 \<le> ev_quantity (ab_values e) \<and> (\<exists>c. ev_cash (ab_values e) = Some c \<and> 0 \<le> c))"

lemma funded_other: "state \<noteq> PAPER_FILLED \<Longrightarrow> ab_state b = state \<Longrightarrow> funded b"
  by (auto simp: funded_def)

lemma paper_emit_funded:
  assumes "paper_emit xt sig state tm v st = Inr st'" and "state \<noteq> PAPER_FILLED"
  shows "grows funded (au_events (pp_audit st)) (au_events (pp_audit st'))" "pp_cash st' = pp_cash st"
    "pp_day_start_cash st' = pp_day_start_cash st"
  using paper_emit_grows [OF assms(1), of funded] assms(2) funded_other by blast+

lemma paper_fill_funded:
  assumes run: "paper_fill xt sr costs key q entry tm st = Inr st'" and q: "0 < q"
    and aff: "affordable cfg costs entry tm (pp_cash st) sf rpt q"
  shows "grows funded (au_events (pp_audit st)) (au_events (pp_audit st'))"
proof -
  let ?buy = "prec40 (entry * of_int q)"
  from run obtain tim s1 s2 s3 s4 fee where
    e1: "paper_emit xt key RISK_APPROVED tm (no_values\<lparr>ev_quantity := q, ev_timing := Some tim\<rparr>) st = Inr s1"
    and e2: "paper_emit xt key PAPER_ORDER_CREATED tm (no_values\<lparr>ev_quantity := q, ev_timing := Some tim\<rparr>) s1 = Inr s2"
    and e3: "paper_emit xt key PAPER_ORDER_ACCEPTED tm (no_values\<lparr>ev_quantity := q, ev_timing := Some tim\<rparr>) s2 = Inr s3"
    and fee: "quote_total costs BUY ?buy tm None = Inr fee"
    and e4: "paper_emit xt key PAPER_FILLED tm (no_values\<lparr>ev_timing := Some tim, ev_price := Some entry, ev_quantity := q,
       ev_fees := Some fee, ev_cash := Some (prec40 (pp_cash s3 - prec40 (?buy + fee))), ev_position := q\<rparr>)
       (s3\<lparr>pp_cash := prec40 (pp_cash s3 - prec40 (?buy + fee))\<rparr>) = Inr s4"
    and e5: "paper_emit xt key PAPER_POSITION_OPEN tm (no_values\<lparr>ev_quantity := q, ev_cash := Some (prec40 (pp_cash s3 - prec40 (?buy + fee))),
       ev_position := q\<rparr>) s4 = Inr st'"
    unfolding paper_fill_def Let_def bindR_Inr_iff by (elim exE conjE) (rule that)
  have c: "pp_cash s3 = pp_cash st"
    using paper_emit_funded(2) [OF e1] paper_emit_funded(2) [OF e2] paper_emit_funded(2) [OF e3] by simp
  have "prec40 (?buy + fee) \<le> pp_cash st" using aff fee by (auto simp: affordable_def fits_def)
  then have nn: "0 \<le> prec40 (pp_cash s3 - prec40 (?buy + fee))" unfolding c by simp
  have "grows funded (au_events (pp_audit s3)) (au_events (pp_audit s4))"
    using paper_emit_grows [OF e4, of funded] nn q by (simp add: funded_def)
  with paper_emit_funded(1) [OF e1] paper_emit_funded(1) [OF e2] paper_emit_funded(1) [OF e3] paper_emit_funded(1) [OF e5]
  show ?thesis by (simp, meson grows_trans)
qed

lemma paper_exit_funded:
  assumes "paper_exit xt sr cfg costs key q buy tm why price st = Inr st'"
  shows "grows funded (au_events (pp_audit st)) (au_events (pp_audit st'))"
proof -
  from assms obtain b s1 where e1: "paper_emit xt key PAPER_EXIT_PENDING tm
       (no_values\<lparr>ev_quantity := q, ev_rejection := Some (reason_text why), ev_position := q\<rparr>) st = Inr s1"
    and r: "\<exists>v s2. (paper_emit xt key PAPER_HALTED tm v s1 = Inr s2 \<and> st' = s2\<lparr>pp_stopped := True\<rparr>)
        \<or> (\<exists>c. paper_emit xt key PAPER_POSITION_CLOSED tm v (s1\<lparr>pp_cash := c\<rparr>) = Inr st')"
    by (cases price) (auto simp: paper_exit_def res_simps Let_def split: if_splits)
  from r have "grows funded (au_events (pp_audit s1)) (au_events (pp_audit st'))"
  proof (elim exE disjE conjE)
    fix v s2 assume "paper_emit xt key PAPER_HALTED tm v s1 = Inr s2" "st' = s2\<lparr>pp_stopped := True\<rparr>"
    with paper_emit_funded(1) show ?thesis by fastforce
  next
    fix v c assume "paper_emit xt key PAPER_POSITION_CLOSED tm v (s1\<lparr>pp_cash := c\<rparr>) = Inr st'"
    from paper_emit_funded(1) [OF this] show ?thesis by simp
  qed
  with paper_emit_funded(1) [OF e1] show ?thesis by (meson grows_trans paper_state.distinct)
qed

lemma new_day_simps [simp]: "pp_audit (new_day tm st) = pp_audit st" "pp_cash (new_day tm st) = pp_cash st"
  by (simp_all add: new_day_def)

lemma paper_trade_funded:
  assumes "paper_trade xt sr d cfg costs rk sa tm entry xa why price st = Inr st'"
  shows "grows funded (au_events (pp_audit st)) (au_events (pp_audit st'))"
proof -
  obtain dl where dl: "rk_daily_loss rk = Some dl"
    using assms by (cases "rk_daily_loss rk") (auto simp: paper_trade_def res_simps Let_def)
  from assms obtain e s1 s2 q and prior :: bar where
    e1: "paper_emit xt (pe_idempotency_key e) SIGNAL_RECEIVED sa no_values (new_day tm st) = Inr s1"
    and e2: "paper_emit xt (pe_idempotency_key e) ELIGIBILITY_CHECKED tm no_values s1 = Inr s2"
    and q: "paper_size rk cfg costs entry tm (pp_cash s2) (bar_volume prior) (def_stop d) = Inr q"
    and r: "(case refusal tm e (pp_day_start_cash s2) (pp_cash s2) dl q of
            Some why \<Rightarrow> paper_emit xt (pe_idempotency_key e) PAPER_ORDER_REJECTED tm (no_values\<lparr>ev_rejection := Some why, ev_cash := Some (pp_cash s2)\<rparr>) s2
          | None \<Rightarrow> bindR (paper_fill xt sr costs (pe_idempotency_key e) q entry tm s2) (\<lambda>st.
               paper_exit xt sr cfg costs (pe_idempotency_key e) q (prec40 (entry * of_int q)) xa why price st)) = Inr st'"
    unfolding paper_trade_def Let_def bindR_Inr_iff dl option.case by (elim exE conjE) (rule that, assumption+)
  have g: "grows funded (au_events (pp_audit st)) (au_events (pp_audit s2))"
    using paper_emit_funded(1) [OF e1] paper_emit_funded(1) [OF e2] by (simp, meson grows_trans)
  show ?thesis
  proof (cases "refusal tm e (pp_day_start_cash s2) (pp_cash s2) dl q")
    case (Some y)
    with r paper_emit_funded(1) [of xt _ PAPER_ORDER_REJECTED] g show ?thesis by (simp, meson grows_trans paper_state.distinct)
  next
    case None
    then have qp: "0 < q" by (auto simp: refusal_def split: if_splits)
    from r None obtain s3 where f: "paper_fill xt sr costs (pe_idempotency_key e) q entry tm s2 = Inr s3"
      and x: "paper_exit xt sr cfg costs (pe_idempotency_key e) q (prec40 (entry * of_int q)) xa why price s3 = Inr st'"
      by (auto simp: res_simps)
    have "affordable cfg costs entry tm (pp_cash s2) (def_stop d) (the (rk_risk_per_trade rk)) q"
      by (rule paper_size_spec [OF q qp])
    from paper_fill_funded [OF f qp this] paper_exit_funded [OF x] g show ?thesis by (meson grows_trans)
  qed
qed

lemma paper_denied_funded:
  assumes "paper_denied xt sr d tm why st = Inr st'"
  shows "grows funded (au_events (pp_audit st)) (au_events (pp_audit st'))"
proof -
  from assms obtain key s1 s2 v where e: "paper_emit xt key SIGNAL_RECEIVED tm no_values st = Inr s1"
    "paper_emit xt key ELIGIBILITY_CHECKED tm no_values s1 = Inr s2" "paper_emit xt key PAPER_ORDER_REJECTED tm v s2 = Inr st'"
    by (auto simp: paper_denied_def res_simps Let_def)
  from paper_emit_funded(1) [OF e(1)] paper_emit_funded(1) [OF e(2)] paper_emit_funded(1) [OF e(3)] show ?thesis
    by (simp, meson grows_trans)
qed

lemma paper_step_funded:
  "paper_step xt sr d cfg costs rk c st = Inr st' \<Longrightarrow> grows funded (au_events (pp_audit st)) (au_events (pp_audit st'))"
  by (cases c) (auto simp: paper_step_def split: if_splits dest: paper_trade_funded paper_denied_funded)

lemma paper_steps_funded:
  assumes "foldR (paper_step xt sr d cfg costs rk) cs st = Inr st'"
  shows "grows funded (au_events (pp_audit st)) (au_events (pp_audit st'))"
  by (rule foldR_invariant [OF assms, of "\<lambda>s. grows funded (au_events (pp_audit st)) (au_events (pp_audit s))"])
    (auto intro: grows_trans dest: paper_step_funded)

definition unfilled :: "audit_row \<Rightarrow> bool" where
  "unfilled e \<longleftrightarrow> ab_state e \<noteq> PAPER_FILLED"

lemma paper_emit_unfilled:
  "paper_emit xt sig state tm v st = Inr st' \<Longrightarrow> state \<noteq> PAPER_FILLED \<Longrightarrow> grows unfilled (au_events (pp_audit st)) (au_events (pp_audit st'))"
  using paper_emit_grows [of xt sig state tm v st st' unfilled] by (simp add: unfilled_def)

lemma refuse_admission_unfilled:
  assumes "refuse_admission xt start halt failures st = Inr st'"
  shows "grows unfilled (au_events (pp_audit st)) (au_events (pp_audit st'))"
proof -
  from assms obtain sig s1 s2 v where "paper_emit xt sig SIGNAL_RECEIVED start no_values st = Inr s1"
    "paper_emit xt sig ELIGIBILITY_CHECKED start no_values s1 = Inr s2"
    "paper_emit xt sig (if halt then PAPER_HALTED else PAPER_ORDER_REJECTED) start v s2 = Inr st'"
    by (auto simp: refuse_admission_def res_simps Let_def)
  from paper_emit_unfilled [OF this(1)] paper_emit_unfilled [OF this(2)] paper_emit_unfilled [OF this(3)] show ?thesis
    by (cases halt) (simp_all, (meson grows_trans)+)
qed

lemma refuse_data_unfilled:
  assumes "refuse_data xt start why st = Inr st'"
  shows "grows unfilled (au_events (pp_audit st)) (au_events (pp_audit st'))"
proof -
  from assms obtain sig s1 v where "paper_emit xt sig SIGNAL_RECEIVED start no_values st = Inr s1"
    "paper_emit xt sig PAPER_HALTED start v s1 = Inr st'"
    by (auto simp: refuse_data_def res_simps Let_def)
  from paper_emit_unfilled [OF this(1)] paper_emit_unfilled [OF this(2)] show ?thesis by (simp, meson grows_trans)
qed

lemma paper_simulate_cases:
  assumes "paper_simulate xt b rw ds d cfg costs rk az = Inr st'"
  obtains (refused) a failures where "audit_init (xt_sha xt) (xt_binding_json xt) b = Inr a" "admission xt rw ds d cfg rk az = Inr failures"
      "failures \<noteq> [] \<or> az_paper_halt az"
      "refuse_admission xt (sr_from (pd_series ds)) (az_paper_halt az) failures
         \<lparr>pp_audit = a, pp_cash = set_capital cfg, pp_day = None, pp_day_start_cash = set_capital cfg, pp_stopped = False\<rparr> = Inr st'"
    | (unusable) a why where "audit_init (xt_sha xt) (xt_binding_json xt) b = Inr a" "admission xt rw ds d cfg rk az = Inr []" "\<not> az_paper_halt az"
      "refuse_data xt (sr_from (pd_series ds)) why
         \<lparr>pp_audit = a, pp_cash = set_capital cfg, pp_day = None, pp_day_start_cash = set_capital cfg, pp_stopped = False\<rparr> = Inr st'"
    | (traded) a x where "audit_init (xt_sha xt) (xt_binding_json xt) b = Inr a" "admission xt rw ds d cfg rk az = Inr []" "\<not> az_paper_halt az"
      "foldR (paper_step xt (pd_series ds) d cfg costs rk) (candidates_of x)
         \<lparr>pp_audit = a, pp_cash = set_capital cfg, pp_day = None, pp_day_start_cash = set_capital cfg, pp_stopped = False\<rparr> = Inr st'"
proof -
  let ?st = "\<lambda>a. \<lparr>pp_audit = a, pp_cash = set_capital cfg, pp_day = None, pp_day_start_cash = set_capital cfg, pp_stopped = False\<rparr>"
  from assms obtain a failures where a: "audit_init (xt_sha xt) (xt_binding_json xt) b = Inr a"
    and f: "admission xt rw ds d cfg rk az = Inr failures"
    and r: "(if failures \<noteq> [] \<or> az_paper_halt az then refuse_admission xt (sr_from (pd_series ds)) (az_paper_halt az) failures (?st a)
            else case execute (pd_series ds) d (cfg\<lparr>set_quantity := 1\<rparr>) costs of
              Inl (ValueError why) \<Rightarrow> refuse_data xt (sr_from (pd_series ds)) why (?st a)
            | Inl e \<Rightarrow> Inl e
            | Inr x \<Rightarrow> foldR (paper_step xt (pd_series ds) d cfg costs rk) (candidates_of x) (?st a)) = Inr st'"
    unfolding paper_simulate_def Let_def bindR_Inr_iff sum.inject by (elim exE conjE) (rule that, assumption+, simp)
  show ?thesis
  proof (cases "failures \<noteq> [] \<or> az_paper_halt az")
    case True
    with a f r show ?thesis by (intro refused) simp_all
  next
    case False
    then have ok: "failures = []" "\<not> az_paper_halt az" by simp_all
    from r ok have "(\<exists>x. foldR (paper_step xt (pd_series ds) d cfg costs rk) (candidates_of x) (?st a) = Inr st')
        \<or> (\<exists>why. refuse_data xt (sr_from (pd_series ds)) why (?st a) = Inr st')"
      by (auto split: sum.splits exc.splits)
    with a f ok show ?thesis using unusable traded by blast
  qed
qed

lemma audit_init_empty: "audit_init h bj b = Inr a \<Longrightarrow> au_events a = []"
  by (auto simp: audit_init_def split: if_splits)

lemma grows_Nil: "grows P [] es \<longleftrightarrow> list_all P es"
  by (simp add: grows_def)



section \<open>Samples\<close>

definition sample_risk :: risk where
  "sample_risk = \<lparr>rk_fixture_only = True, rk_reviewed_evidence = Some ''e'', rk_capital = Some 10000, rk_risk_per_trade = Some 5,
     rk_daily_loss = Some 100, rk_simultaneous_positions = Some 2, rk_symbol_exposure = Some 5000, rk_portfolio_exposure = Some 9000,
     rk_max_quantity = Some 4, rk_correlation_reviewed = True\<rparr>"

definition sample_order :: settings where
  "sample_order = sample_settings\<lparr>set_quantity := 3\<rparr>"

lemma sample_size: "paper_size sample_risk sample_order sample_costs 100 0 10000 1000 (2 / 100) = Inr 2"
  by code_simp


definition sample_binding :: binding where
  "sample_binding = \<lparr>bi_execution_policy_version = execution_version, bi_execution_policy_hash = execution_fingerprint,
     bi_qualification_hash = ''q'', bi_risk_hash = ''r'', bi_symbol = ''S'', bi_strategy_id = S05, bi_scope = ''SYNTHETIC_FIXTURE'', bi_rest = []\<rparr>"

text \<open>A hash that evaluates, and constant texts.\<close>

definition sample_externals :: externals where
  "sample_externals = \<lparr>xt_sha = (\<lambda>t. t), xt_wilson_lower = (\<lambda>p n w. w), xt_policy_hash = (\<lambda>p. ''p''), xt_software_hash = ''s'', xt_row_hash = (\<lambda>r. ''q''),
     xt_risk_hash = (\<lambda>r. ''r''), xt_definition_hash = def_name, xt_candle_json = (\<lambda>b. []), xt_binding_json = (\<lambda>b. []), xt_row_json = (\<lambda>b. [])\<rparr>"

definition sample_audit :: audit where
  "sample_audit = \<lparr>au_binding = sample_binding, au_run_id = [], au_events = [], au_states = Map.empty, au_keys = {}\<rparr>"

lemma sample_audit_init: "audit_init (\<lambda>t. t) (\<lambda>b. []) sample_binding = Inr sample_audit"
  by (simp add: audit_init_def sample_binding_def sample_audit_def)

lemma sample_emit: "\<exists>a. emit (\<lambda>t. t) (\<lambda>b. []) ''x'' SIGNAL_RECEIVED 0 no_values sample_audit = Inr a"
  by (simp add: emit_def sample_audit_def checks.simps Let_def)

theorem audit_log_sound_witness:
  "\<exists>a. audit_run (\<lambda>t. t) (\<lambda>b. []) sample_audit a \<and> length (au_events a) = 1 \<and> lifecycle None (states_of a ''x'')"
proof -
  obtain a where a: "emit (\<lambda>t. t) (\<lambda>b. []) ''x'' SIGNAL_RECEIVED 0 no_values sample_audit = Inr a" using sample_emit by blast
  have run: "audit_run (\<lambda>t. t) (\<lambda>b. []) sample_audit a" by (rule audit_run.step [OF audit_run.start a])
  from audit_log_sound [OF sample_audit_init run] have "lifecycle None (states_of a ''x'')" by blast
  moreover have "length (au_events a) = 1" using emit_Inr(4) [OF a] by (simp add: sample_audit_def)
  ultimately show ?thesis using run by blast
qed

definition sample_row :: "pair_result \<Rightarrow> row" where
  "sample_row r = \<lparr>row_schema_version = ''v0'', row_run_id = [], row_software_hash = ''s'', row_calendar_hash = None,
     row_corporate_action_policy = None, row_risk_policy_hash = ''r'', row_capital = 10000, row_result = r\<rparr>"

definition sample_refused :: row where
  "sample_refused = sample_row (unqualified def_name (\<lambda>p. ''p'') ''S'' sample_reclaim half_year (Some flat_dataset) sample_policy QUARANTINED [])"

definition sample_authorization :: authorization where
  "sample_authorization = \<lparr>az_mode = SYNTHETIC_FIXTURE, az_enabled = True, az_evidence_hash = ''e'', az_qualification_hash = ''q'', az_risk_hash = ''r'',
     az_dataset_hash = ''d'', az_valid_from = 0, az_valid_to = 1, az_partial_fills = False, az_paper_halt = True\<rparr>"

lemma sample_gate: "numerical_gate f g sw sample_refused = Inr False"
  by (simp add: numerical_gate_def sample_refused_def sample_row_def Let_def)

lemma sample_admission: "\<exists>fs. admission sample_externals sample_refused flat_dataset sample_reclaim sample_settings sample_risk sample_authorization = Inr fs"
  by (simp add: admission_def sample_gate Let_def)

definition sample_paper :: paper_run where
  "sample_paper = \<lparr>pp_audit = sample_audit, pp_cash = set_capital sample_settings, pp_day = None, pp_day_start_cash = set_capital sample_settings,
     pp_stopped = False\<rparr>"

lemma emit_success:
  assumes "state \<in> paper_transitions (au_states a sig)" "h (au_run_id a @ sig @ state_text state) \<notin> au_keys a" "length (au_events a) < 200000"
    "au_events a \<noteq> [] \<longrightarrow> ab_timestamp (last (au_events a)) \<le> tm"
  shows "\<exists>c. emit h j sig state tm v a = Inr c \<and> au_states c sig = Some state \<and> au_run_id c = au_run_id a
     \<and> au_keys c = insert (h (au_run_id a @ sig @ state_text state)) (au_keys a) \<and> length (au_events c) = Suc (length (au_events a))
     \<and> ab_timestamp (last (au_events c)) = tm"
  using assms by (auto simp: emit_def checks.simps Let_def)

lemma sample_refusal:
  "\<exists>st. refuse_admission sample_externals start True fs sample_paper = Inr st
     \<and> audit_run (\<lambda>t. t) (\<lambda>b. []) sample_audit (pp_audit st)"
proof -
  let ?e = "emit (\<lambda>t. t) (\<lambda>b. [])"
  obtain a1 where a1: "?e ''admission'' SIGNAL_RECEIVED start no_values sample_audit = Inr a1"
    "au_states a1 ''admission'' = Some SIGNAL_RECEIVED" "au_run_id a1 = []" "au_keys a1 = {''admissionSIGNAL_RECEIVED''}"
    "length (au_events a1) = Suc 0" "ab_timestamp (last (au_events a1)) = start"
    using emit_success [of SIGNAL_RECEIVED sample_audit "''admission''" "\<lambda>t. t" start "\<lambda>b. []" no_values] by (auto simp: sample_audit_def)
  obtain a2 where a2: "?e ''admission'' ELIGIBILITY_CHECKED start no_values a1 = Inr a2"
    "au_states a2 ''admission'' = Some ELIGIBILITY_CHECKED" "au_run_id a2 = []"
    "au_keys a2 = {''admissionELIGIBILITY_CHECKED'', ''admissionSIGNAL_RECEIVED''}"
    "length (au_events a2) = Suc (Suc 0)" "ab_timestamp (last (au_events a2)) = start"
    using emit_success [of ELIGIBILITY_CHECKED a1 "''admission''" "\<lambda>t. t" start "\<lambda>b. []" no_values] a1 by auto
  obtain a3 where a3: "?e ''admission'' PAPER_HALTED start (no_values\<lparr>ev_rejection := Some ''PAPER_HALT'', ev_cash := Some (pp_cash sample_paper)\<rparr>) a2 = Inr a3"
    using emit_success [of PAPER_HALTED a2 "''admission''" "\<lambda>t. t" start "\<lambda>b. []"
        "no_values\<lparr>ev_rejection := Some ''PAPER_HALT'', ev_cash := Some (pp_cash sample_paper)\<rparr>"] a2 by auto
  have "refuse_admission sample_externals start True fs sample_paper = Inr (sample_paper\<lparr>pp_audit := a3\<rparr>)"
    using a1(1) a2(1) a3 by (simp add: refuse_admission_def paper_emit_def sample_externals_def sample_paper_def sample_audit_def) 
  moreover have "audit_run (\<lambda>t. t) (\<lambda>b. []) sample_audit a3"
    by (rule audit_run.step [OF audit_run.step [OF audit_run.step [OF audit_run.start a1(1)] a2(1)] a3])
  ultimately show ?thesis by auto
qed

lemma sample_paper_run:
  obtains st where "paper_simulate sample_externals sample_binding sample_refused flat_dataset sample_reclaim sample_settings sample_costs sample_risk
     sample_authorization = Inr st"
proof -
  obtain fs where fs: "admission sample_externals sample_refused flat_dataset sample_reclaim sample_settings sample_risk sample_authorization = Inr fs"
    using sample_admission by blast
  obtain st where st: "refuse_admission sample_externals (sr_from (pd_series flat_dataset)) True fs sample_paper = Inr st"
    "audit_run (\<lambda>t. t) (\<lambda>b. []) sample_audit (pp_audit st)" using sample_refusal by blast
  have i: "audit_init (xt_sha sample_externals) (xt_binding_json sample_externals) sample_binding = Inr sample_audit"
    using sample_audit_init by (simp add: sample_externals_def)
  have "replay (\<lambda>t. t) (\<lambda>b. []) (\<lambda>b. []) sample_binding (au_events (pp_audit st)) = Inr (pp_audit st)"
    using replay_run [OF st(2)] sample_audit_init by (simp add: replay_def sample_audit_def)
  then have r: "replay (xt_sha sample_externals) (xt_binding_json sample_externals) (xt_row_json sample_externals) sample_binding (au_events (pp_audit st))
      = Inr (pp_audit st)" by (simp add: sample_externals_def)
  have h: "az_paper_halt sample_authorization" by (simp add: sample_authorization_def)
  show ?thesis
    by (rule that [of st]) (use st(1) r in \<open>simp add: paper_simulate_def i fs h Let_def sample_paper_def [symmetric]\<close>)
qed


end
