(* ===== verification/Canonical_Policy.thy ===== *)
theory Canonical_Policy
  imports Texts
begin

text \<open>
  \<open>phase1418/canonical_policy.py\<close>: the typed normal form of a policy value from which the fingerprint of a portfolio risk
  policy is computed.  \<open>pyvalue\<close> is the dynamically typed argument, \<open>json\<close> the nested lists the function returns.  The text of
  a JSON document (\<open>canonical\<close>) is a parameter of \<open>payload\<close>.
\<close>

section \<open>Normal forms\<close>

text \<open>A key of a mapping is \<open>None\<close> when it is not a text; \<open>POther\<close> is a value of any other type, with the type's name.\<close>

datatype pyvalue =
    PNone | PBool bool | PInt int | PStr string | PDecimal dec | PNonFinite
  | PMap "(string option \<times> pyvalue) list" | PSeq "pyvalue list" | POther string

datatype json = JBool bool | JInt int | JStr string | JList "json list"

text \<open>\<open>while digits[-1] == 0: digits.pop(); exponent += 1\<close>, on a coefficient that is not zero.\<close>

function strip_zeros :: "nat \<Rightarrow> int \<Rightarrow> nat \<times> int" where
  "strip_zeros c e = (if c \<noteq> 0 \<and> c mod 10 = 0 then strip_zeros (c div 10) (e + 1) else (c, e))"
  by pat_completeness auto
termination
  by (relation "measure fst") auto

declare strip_zeros.simps [simp del]

fun normalize_decimal :: "dec \<Rightarrow> json" where
  "normalize_decimal (Dec s c e) =
     (if c = 0 then JList [JStr ''decimal'', JInt 0, JStr ''0'', JInt 0]
      else case strip_zeros c e of (c', e') \<Rightarrow> JList [JStr ''decimal'', JInt (if s then 1 else 0), JStr (nat_str c'), JInt e'])"

lemma mapR_cong [fundef_cong]: "xs = ys \<Longrightarrow> (\<And>x. x \<in> set ys \<Longrightarrow> f x = g x) \<Longrightarrow> mapR f xs = mapR g ys"
  by (induction xs arbitrary: ys) (auto cong: bindR_cong)

definition by_key :: "(string option \<times> 'a) list \<Rightarrow> (string option \<times> 'a) list" where
  "by_key m = sort_key (\<lambda>p. the (fst p)) m"

lemma set_by_key [simp]: "set (by_key m) = set m"
  by (simp add: by_key_def)

lemma size_map_value: "p \<in> set m \<Longrightarrow> size (snd p) < Suc (size_list (size_prod (\<lambda>_. 0) size) m)"
  by (induction m) auto

function normalize :: "pyvalue \<Rightarrow> json res" where
  "normalize PNone = Inr (JList [JStr ''null''])"
| "normalize (PBool b) = Inr (JList [JStr ''bool'', JBool b])"
| "normalize (PInt i) = Inr (JList [JStr ''int'', JStr (int_str i)])"
| "normalize (PStr s) = Inr (JList [JStr ''str'', JStr s])"
| "normalize PNonFinite = Inl (ValueError ''NONFINITE_POLICY_NUMBER'')"
| "normalize (PDecimal d) = Inr (normalize_decimal d)"
| "normalize (PMap m) =
     (if list_ex (\<lambda>p. fst p = None) m then Inl (ValueError ''POLICY_MAPPING_KEYS_MUST_BE_STRINGS'')
      else bindR (mapR (\<lambda>p. bindR (normalize (snd p)) (\<lambda>j. Inr (JList [JStr (the (fst p)), j]))) (by_key m)) (\<lambda>items.
           Inr (JList [JStr ''map'', JList items])))"
| "normalize (PSeq vs) = bindR (mapR normalize vs) (\<lambda>items. Inr (JList [JStr ''sequence'', JList items]))"
| "normalize (POther name) = Inl (ValueError (''UNSUPPORTED_POLICY_VALUE:'' @ name))"
  by pat_completeness auto

termination
proof (relation "measure size", goal_cases)
  case (2 m p)
  then show ?case using size_map_value [of p m] by simp
qed (auto simp: less_Suc_eq_le size_list_estimation')

definition policy_version :: string where
  "policy_version = ''Phase1418RiskPolicyCanonical.v2''"

definition policy_payload :: "(string \<Rightarrow> json \<Rightarrow> string) \<Rightarrow> pyvalue \<Rightarrow> string \<Rightarrow> string res" where
  "policy_payload canonical v version =
     (if version \<noteq> policy_version then Inl (ValueError ''UNSUPPORTED_POLICY_FINGERPRINT_VERSION'')
      else bindR (normalize v) (\<lambda>j. Inr (canonical version j)))"

end
