(* ===== verification/Canonical_Results.thy ===== *)
theory Canonical_Results
  imports Canonical_Policy
begin

text \<open>
  The normal form of \<open>Canonical_Policy\<close> is faithful: it identifies exactly the policy values that mean the same.
\<close>

section \<open>Values\<close>

text \<open>
  When two policy values mean the same: equal texts, integers and truth values, decimals of equal value whatever their
  trailing zeros, sequences of the same elements, and mappings that give every key the same value, whatever their order.
\<close>

inductive same_value :: "pyvalue \<Rightarrow> pyvalue \<Rightarrow> bool" where
  same_none: "same_value PNone PNone"
| same_bool: "same_value (PBool b) (PBool b)"
| same_int: "same_value (PInt i) (PInt i)"
| same_str: "same_value (PStr s) (PStr s)"
| same_decimal: "dval d = dval e \<Longrightarrow> same_value (PDecimal d) (PDecimal e)"
| same_seq: "list_all2 same_value vs ws \<Longrightarrow> same_value (PSeq vs) (PSeq ws)"
| same_map: "(\<And>k. rel_option same_value (map_of m k) (map_of n k)) \<Longrightarrow> same_value (PMap m) (PMap n)"

inductive_simps same_simps:
  "same_value PNone w" "same_value (PBool b) w" "same_value (PInt i) w" "same_value (PStr s) w"
  "same_value (PDecimal d) w" "same_value (PSeq vs) w" "same_value (PMap m) w"

text \<open>A Python mapping has each key once.\<close>

fun is_pyvalue :: "pyvalue \<Rightarrow> bool" where
  "is_pyvalue (PMap m) = (distinct (map fst m) \<and> list_all (\<lambda>p. is_pyvalue (snd p)) m)"
| "is_pyvalue (PSeq vs) = list_all is_pyvalue vs"
| "is_pyvalue v = True"

section \<open>Decimals\<close>

lemma strip_zeros_value:
  "strip_zeros c e = (c', e') \<Longrightarrow> c \<noteq> 0 \<Longrightarrow> rat_of_nat c * 10 powi e = of_nat c' * 10 powi e' \<and> c' mod 10 \<noteq> 0"
proof (induction c e rule: strip_zeros.induct)
  case (1 c e)
  show ?case
  proof (cases "c mod 10 = 0")
    case True
    then have c: "c = 10 * (c div 10)" by auto
    have "rat_of_nat c * 10 powi e = of_nat (c div 10) * 10 powi (e + 1)"
      by (subst c) (simp add: power_int_add)
    moreover have "strip_zeros (c div 10) (e + 1) = (c', e')" using 1(2,3) True by (simp add: strip_zeros.simps [of c e])
    moreover have "c div 10 \<noteq> 0" using 1(3) c by (metis mult_0_right)
    ultimately show ?thesis using 1(1) 1(3) True by simp
  next
    case False
    then show ?thesis using 1(2) by (simp add: strip_zeros.simps [of c e])
  qed
qed

lemma ten_powi_inject [simp]: "(10::rat) powi i = 10 powi j \<longleftrightarrow> i = j"
proof -
  have "(10::rat) powi m < 10 powi n" if "m < n" for m n using that by (rule power_int_strict_increasing) simp
  then show ?thesis by (metis less_irrefl linorder_neqE)
qed

lemma not_ten_dvd_unique:
  assumes "rat_of_nat a * 10 powi i = of_nat b * 10 powi j" "a mod 10 \<noteq> 0" "b mod 10 \<noteq> 0"
  shows "a = b \<and> i = j"
proof -
  have ge: "i \<le> j \<and> a = b \<or> i < j \<and> False" if le: "i \<le> j" and eq: "rat_of_nat a * 10 powi i = of_nat b * 10 powi j"
    and na: "a mod 10 \<noteq> 0" for a b i j
  proof -
    define n where "n = nat (j - i)"
    have "(10::rat) powi j = 10 powi i * 10 ^ n" using le by (simp add: n_def power_int_add [symmetric] flip: power_int_of_nat)
    then have "rat_of_nat a = of_nat (b * 10 ^ n)" using eq by simp
    then have "a = b * 10 ^ n" by (simp only: of_nat_eq_iff)
    then show ?thesis using na le by (cases n) (auto simp: n_def)
  qed
  show ?thesis
  proof (cases "i \<le> j")
    case True
    from ge [OF this assms(1,2)] have "a = b" by blast
    moreover from this assms(1) have "(10::rat) powi i = 10 powi j" using assms(2) by (cases "a = 0") auto
    ultimately show ?thesis by simp
  next
    case False
    with ge [OF _ assms(1) [symmetric] assms(3)] have "b = a" by auto
    moreover from this assms(1) have "(10::rat) powi i = 10 powi j" using assms(2) by (cases "a = 0") auto
    ultimately show ?thesis by simp
  qed
qed

lemma nat_str_inject [simp]: "nat_str m = nat_str n \<longleftrightarrow> m = n"
  by (metis digits_val_nat_str)

lemma normalize_decimal_eq: "normalize_decimal d = normalize_decimal e \<longleftrightarrow> dval d = dval e"
proof -
  obtain s c x where d: "d = Dec s c x" by (cases d)
  obtain t b y where e: "e = Dec t b y" by (cases e)
  obtain c' x' where sc: "strip_zeros c x = (c', x')" by fastforce
  obtain b' y' where sb: "strip_zeros b y = (b', y')" by fastforce
  show ?thesis
  proof (cases "c = 0 \<or> b = 0")
    case True
    have "nat_str z \<noteq> ''0''" if "z mod 10 \<noteq> 0" for z
    proof -
      have "nat_str 0 = ''0''" by (simp add: nat_str.simps digit_def) code_simp
      then show ?thesis using that nat_str_inject [of z 0] by auto
    qed
    then have nz: "''0'' = nat_str z \<Longrightarrow> z mod 10 = 0" for z by (cases "z mod 10 = 0") (auto dest: sym)
    show ?thesis
      using True strip_zeros_value [OF sc] strip_zeros_value [OF sb] by (auto simp: d e sc sb dval_def dest: nz nz [OF sym])
  next
    case False
    have vc: "rat_of_nat c * 10 powi x = of_nat c' * 10 powi x'" "c' mod 10 \<noteq> 0"
      and vb: "rat_of_nat b * 10 powi y = of_nat b' * 10 powi y'" "b' mod 10 \<noteq> 0"
      using strip_zeros_value [OF sc] strip_zeros_value [OF sb] False by auto
    have pos: "0 < rat_of_nat c' * 10 powi x'" "0 < rat_of_nat b' * 10 powi y'" using vc(2) vb(2) by (auto intro!: mult_pos_pos Nat.gr0I)
    have "dval d = dval e \<longleftrightarrow> s = t \<and> rat_of_nat c' * 10 powi x' = of_nat b' * 10 powi y'"
      using pos by (auto simp: d e dval_def vc(1) vb(1) mult.assoc)
    moreover have "rat_of_nat c' * 10 powi x' = of_nat b' * 10 powi y' \<longleftrightarrow> c' = b' \<and> x' = y'"
      using not_ten_dvd_unique [OF _ vc(2) vb(2)] by auto
    ultimately show ?thesis using False by (auto simp: d e sc sb)
  qed
qed


section \<open>Mappings and sequences\<close>

lemma int_str_inject [simp]: "int_str i = int_str j \<longleftrightarrow> i = j"
proof
  assume eq: "int_str i = int_str j"
  have d: "hd (nat_str n) \<noteq> CHR ''-''" for n
  proof
    assume "hd (nat_str n) = CHR ''-''"
    moreover have "is_digit (hd (nat_str n))" using nat_str_digits [of n] by (cases "nat_str n") auto
    ultimately show False by (simp add: is_digit_def)
  qed
  show "i = j"
    using eq d [of "nat i"] d [of "nat j"] by (cases "i < 0"; cases "j < 0") (auto simp: int_str_def dest: arg_cong [of _ _ hd])
qed simp

text \<open>Two association lists with strictly increasing keys are equal when they map alike.\<close>

lemma sorted_alist_unique:
  fixes xs ys :: "('k::linorder \<times> 'v) list"
  assumes "sorted (map fst xs)" "distinct (map fst xs)" "sorted (map fst ys)" "distinct (map fst ys)"
    and m: "map_of xs = map_of ys"
  shows "xs = ys"
proof -
  have s: "set xs = set ys" using assms(2,4) m by (metis map_of_inject_set)
  show ?thesis
    by (rule map_sorted_distinct_set_unique [where f = fst]) (use assms s in \<open>auto simp: distinct_map\<close>)
qed


definition normal_form :: "pyvalue \<Rightarrow> json" where
  "normal_form v = projr (normalize v)"

definition normal_items :: "(string option \<times> pyvalue) list \<Rightarrow> (string \<times> json) list" where
  "normal_items m = map (\<lambda>p. (the (fst p), normal_form (snd p))) (by_key m)"

lemma mapR_eq_map:
  assumes "mapR f xs = Inr ys"
  shows "ys = map (\<lambda>x. projr (f x)) xs \<and> (\<forall>x \<in> set xs. f x = Inr (projr (f x)))"
  using assms by (induction xs arbitrary: ys) (auto simp: res_simps)

lemma normalize_map:
  assumes "normalize (PMap m) = Inr j"
  shows "j = JList [JStr ''map'', JList (map (\<lambda>p. JList [JStr (fst p), snd p]) (normal_items m))]"
    and "\<forall>p \<in> set m. normalize (snd p) = Inr (normal_form (snd p)) \<and> fst p \<noteq> None"
proof -
  let ?f = "\<lambda>p. bindR (normalize (snd p)) (\<lambda>j. Inr (JList [JStr (the (fst p)), j]))"
  from assms obtain items where i: "mapR ?f (by_key m) = Inr items" "j = JList [JStr ''map'', JList items]"
    and k: "\<forall>p \<in> set m. fst p \<noteq> None"
    by (auto simp: bindR_Inr_iff list_ex_iff split: if_splits)
  have all: "\<forall>p \<in> set m. ?f p = Inr (projr (?f p))" and items: "items = map (\<lambda>p. projr (?f p)) (by_key m)"
    using mapR_eq_map [OF i(1)] by simp_all
  have ok: "normalize (snd p) = Inr (normal_form (snd p))" if "p \<in> set m" for p
    using all that by (cases "normalize (snd p)") (auto simp: normal_form_def)
  then show "\<forall>p \<in> set m. normalize (snd p) = Inr (normal_form (snd p)) \<and> fst p \<noteq> None" using k by simp
  show "j = JList [JStr ''map'', JList (map (\<lambda>p. JList [JStr (fst p), snd p]) (normal_items m))]"
    using ok by (simp add: i(2) items normal_items_def)
qed

lemma normalize_seq:
  assumes "normalize (PSeq vs) = Inr j"
  shows "j = JList [JStr ''sequence'', JList (map normal_form vs)] \<and> (\<forall>v \<in> set vs. normalize v = Inr (normal_form v))"
  using assms by (auto simp: bindR_Inr_iff normal_form_def dest: mapR_eq_map)

lemma normal_items_sorted: "sorted (map fst (normal_items m))"
  by (simp add: normal_items_def by_key_def comp_def)

lemma normal_items_distinct:
  assumes "distinct (map fst m)" and "\<forall>p \<in> set m. fst p \<noteq> None"
  shows "distinct (map fst (normal_items m))"
proof -
  have "distinct (map fst (by_key m))"
    using assms(1) by (simp add: by_key_def distinct_map distinct_sort inj_on_def)
  moreover have "inj_on the (fst ` set m)" using assms(2) by (intro inj_onI) (metis imageE option.expand)
  ultimately have "distinct (map the (map fst (by_key m)))" by (simp only: distinct_map [of the] set_map set_by_key)
  then show ?thesis by (simp add: normal_items_def comp_def)
qed

lemma map_of_normal_items:
  assumes "distinct (map fst m)" and "\<forall>p \<in> set m. fst p \<noteq> None"
  shows "map_of (normal_items m) k = map_option normal_form (map_of m (Some k))"
proof -
  note d = normal_items_distinct [OF assms]
  have "map_of (normal_items m) k = Some j \<longleftrightarrow> map_option normal_form (map_of m (Some k)) = Some j" for j
    using d assms by (force simp: map_of_eq_Some_iff normal_items_def)
  then show ?thesis by (metis option.exhaust)
qed

lemma normal_items_eq:
  assumes m: "distinct (map fst m)" "\<forall>p \<in> set m. fst p \<noteq> None" and n: "distinct (map fst n)" "\<forall>p \<in> set n. fst p \<noteq> None"
  shows "normal_items m = normal_items n \<longleftrightarrow> (\<forall>k. map_option normal_form (map_of m k) = map_option normal_form (map_of n k))"
proof -
  have none: "map_of m None = None" "map_of n None = None" using m(2) n(2) by (auto simp: map_of_eq_None_iff image_iff)
  have "normal_items m = normal_items n \<longleftrightarrow> map_of (normal_items m) = map_of (normal_items n)"
    by (metis sorted_alist_unique normal_items_sorted normal_items_distinct m n)
  also have "\<dots> \<longleftrightarrow> (\<forall>k. map_option normal_form (map_of m (Some k)) = map_option normal_form (map_of n (Some k)))"
    by (simp add: fun_eq_iff map_of_normal_items [OF m] map_of_normal_items [OF n])
  also have "\<dots> \<longleftrightarrow> (\<forall>k. map_option normal_form (map_of m k) = map_option normal_form (map_of n k))"
  proof
    assume *: "\<forall>k. map_option normal_form (map_of m (Some k)) = map_option normal_form (map_of n (Some k))"
    show "\<forall>k. map_option normal_form (map_of m k) = map_option normal_form (map_of n k)"
    proof
      fix k show "map_option normal_form (map_of m k) = map_option normal_form (map_of n k)"
        using * none by (cases k) simp_all
    qed
  qed simp
  finally show ?thesis .
qed

lemma inj_on_pair_node: "inj (\<lambda>p. JList [JStr (fst p), snd p])"
  by (auto simp: inj_def prod_eq_iff)

section \<open>The normal form is faithful\<close>

text \<open>The kinds of node are told apart by their tags.\<close>

fun value_tag :: "pyvalue \<Rightarrow> string" where
  "value_tag PNone = ''null''" | "value_tag (PBool b) = ''bool''" | "value_tag (PInt i) = ''int''" | "value_tag (PStr s) = ''str''"
| "value_tag (PDecimal d) = ''decimal''" | "value_tag (PMap m) = ''map''" | "value_tag (PSeq vs) = ''sequence''"
| "value_tag PNonFinite = []" | "value_tag (POther t) = []"

lemma normalize_tag: "normalize v = Inr j \<Longrightarrow> \<exists>xs. j = JList (JStr (value_tag v) # xs)"
proof (cases v)
  case (PDecimal d)
  assume "normalize v = Inr j"
  then show ?thesis using PDecimal by (cases d) (auto split: prod.splits if_splits)
qed (auto simp: bindR_Inr_iff split: if_splits)

lemma same_value_tag: "same_value v w \<Longrightarrow> value_tag v = value_tag w"
  by (cases rule: same_value.cases) auto


lemma normal_form_faithful:
  "normalize v = Inr a \<Longrightarrow> normalize w = Inr b \<Longrightarrow> is_pyvalue v \<Longrightarrow> is_pyvalue w \<Longrightarrow> a = b \<longleftrightarrow> same_value v w"
proof (induction v arbitrary: w a b rule: normalize.induct)
  case (7 m)
  show ?case
  proof (cases w)
    case (PMap n)
    note nm = normalize_map [OF 7(2)] and nn = normalize_map [OF 7(3) [unfolded PMap]]
    have key: "\<not> list_ex (\<lambda>p. fst p = None) m" using nm(2) by (auto simp: list_ex_iff)
    have IH: "normal_form (snd p) = normal_form (snd q) \<longleftrightarrow> same_value (snd p) (snd q)" if "p \<in> set m" "q \<in> set n" for p q
      by (rule 7(1) [OF key]) (use that nm(2) nn(2) 7(4,5) in \<open>auto simp: PMap list_all_iff\<close>)
    have pt: "map_option normal_form (map_of m k) = map_option normal_form (map_of n k)
        \<longleftrightarrow> rel_option same_value (map_of m k) (map_of n k)" for k
      using IH [of "(k, the (map_of m k))" "(k, the (map_of n k))"]
      by (cases "map_of m k"; cases "map_of n k") (auto dest: map_of_SomeD)
    have "a = b \<longleftrightarrow> normal_items m = normal_items n"
      using inj_on_pair_node by (simp add: nm(1) nn(1) inj_map_eq_map)
    also have "\<dots> \<longleftrightarrow> (\<forall>k. rel_option same_value (map_of m k) (map_of n k))"
      by (subst normal_items_eq) (use 7(4,5) nm(2) nn(2) pt in \<open>auto simp: PMap\<close>)
    finally show ?thesis by (simp add: PMap same_simps)
  qed (use 7(2,3) normalize_tag [OF 7(2)] normalize_tag [OF 7(3)] in \<open>auto simp: same_simps\<close>)
next
  case (8 vs)
  show ?case
  proof (cases w)
    case (PSeq ws)
    note nv = normalize_seq [OF 8(2)] and nw = normalize_seq [OF 8(3) [unfolded PSeq]]
    have IH: "normal_form x = normal_form y \<longleftrightarrow> same_value x y" if "x \<in> set vs" "y \<in> set ws" for x y
      using that nv nw 8(4,5) by (intro 8(1)) (auto simp: PSeq list_all_iff)
    have "map normal_form vs = map normal_form ws \<longleftrightarrow> list_all2 same_value vs ws"
      using IH by (auto simp: list_eq_iff_nth_eq list_all2_conv_all_nth)
    then show ?thesis using nv nw by (simp add: PSeq same_simps)
  qed (use 8(2,3) normalize_tag [OF 8(2)] normalize_tag [OF 8(3)] in \<open>auto simp: same_simps\<close>)
next
  case (6 d)
  show ?case
  proof (cases w)
    case (PDecimal e)
    then show ?thesis using 6 by (auto simp: same_simps normalize_decimal_eq)
  qed (use 6(1,2) normalize_tag [OF 6(1)] normalize_tag [OF 6(2)] in \<open>auto simp: same_simps\<close>)
next
  case 1
  then show ?case using normalize_tag [OF 1(2)] by (cases w) (auto simp: same_simps)
next
  case (2 x)
  then show ?case using normalize_tag [OF 2(2)] by (cases w) (auto simp: same_simps)
next
  case (3 x)
  then show ?case using normalize_tag [OF 3(2)] by (cases w) (auto simp: same_simps)
next
  case (4 x)
  then show ?case using normalize_tag [OF 4(2)] by (cases w) (auto simp: same_simps)
qed simp_all


section \<open>Fingerprints\<close>

text \<open>
  C33: the normal form of a policy is faithful.  Two policies (nested mappings, sequences, decimals, integers, texts, truth
  values and nulls, every mapping with distinct keys) have the same normal form exactly when they mean the same: whatever the
  order of their mappings and the trailing zeros of their decimals, and never across types.
\<close>

theorem normalize_faithful:
  assumes "is_pyvalue v" and "is_pyvalue w" and "normalize v = Inr a" and "normalize w = Inr b"
  shows "a = b \<longleftrightarrow> same_value v w"
  using assms by (intro normal_form_faithful)

definition sample_policy_value :: pyvalue where
  "sample_policy_value = PMap [(Some ''limit'', PDecimal (Dec False 1500 (- 2))), (Some ''base'', PSeq [PNone, PInt 15, PBool True])]"

definition sample_policy_copy :: pyvalue where
  "sample_policy_copy = PMap [(Some ''base'', PSeq [PNone, PInt 15, PBool True]), (Some ''limit'', PDecimal (Dec False 15 0))]"

definition sample_policy_other :: pyvalue where
  "sample_policy_other = PMap [(Some ''base'', PSeq [PNone, PInt 15, PBool True]), (Some ''limit'', PInt 15)]"

lemma sample_normal_forms:
  "normalize sample_policy_value = normalize sample_policy_copy" "\<exists>a. normalize sample_policy_value = Inr a"
  "\<exists>a. normalize sample_policy_other = Inr a" "normalize sample_policy_value \<noteq> normalize sample_policy_other"
  "is_pyvalue sample_policy_value \<and> is_pyvalue sample_policy_copy \<and> is_pyvalue sample_policy_other"
proof -
  have "normalize sample_policy_value = Inr (JList [JStr ''map'', JList [
      JList [JStr ''base'', JList [JStr ''sequence'', JList [JList [JStr ''null''], JList [JStr ''int'', JStr ''15''], JList [JStr ''bool'', JBool True]]]],
      JList [JStr ''limit'', JList [JStr ''decimal'', JInt 0, JStr ''15'', JInt 0]]]])" (is "_ = Inr ?j")
    by code_simp
  moreover have "normalize sample_policy_copy = Inr ?j" by code_simp
  moreover have "normalize sample_policy_other = Inr (JList [JStr ''map'', JList [
      JList [JStr ''base'', JList [JStr ''sequence'', JList [JList [JStr ''null''], JList [JStr ''int'', JStr ''15''], JList [JStr ''bool'', JBool True]]]],
      JList [JStr ''limit'', JList [JStr ''int'', JStr ''15'']]]])"
    by code_simp
  ultimately show "normalize sample_policy_value = normalize sample_policy_copy" "\<exists>a. normalize sample_policy_value = Inr a"
    "\<exists>a. normalize sample_policy_other = Inr a" "normalize sample_policy_value \<noteq> normalize sample_policy_other"
    by simp_all
qed code_simp

theorem normalize_faithful_witness:
  "same_value sample_policy_value sample_policy_copy \<and> \<not> same_value sample_policy_value sample_policy_other"
proof -
  obtain a b where a: "normalize sample_policy_value = Inr a" and b: "normalize sample_policy_other = Inr b"
    using sample_normal_forms by blast
  have "same_value sample_policy_value sample_policy_copy"
    using normalize_faithful [OF _ _ a, of sample_policy_copy a] sample_normal_forms(1,5) a by simp
  moreover have "\<not> same_value sample_policy_value sample_policy_other"
    using normalize_faithful [OF _ _ a b] sample_normal_forms(4,5) a b by simp
  ultimately show ?thesis ..
qed

end
