(* ===== verification/Portfolio.thy ===== *)
theory Portfolio
  imports Paper Canonical_Policy "HOL-Library.AList" "HOL-Library.Product_Lexorder"
begin

text \<open>
  \<open>phase1418/portfolio.py\<close>: the single writer that merges the candidate streams of many paper runs into one portfolio.

  The dictionaries of the coordinator whose order matters are association lists (\<open>AList.update\<close> replaces in place or
  appends, as assignment to a Python dictionary does).  Every amount that the code stores as text is kept as a number;
  the whole run is under the 40-digit context, so every operation rounds.  \<open>portfolio_event\<close> is the state name of an
  \<open>emit\<close> together with its keyword arguments.  The hash function, the JSON texts, the fingerprints, the symbols of the
  universe file and the binding of each candidate's paper run are parameters, gathered in \<open>portfolio_externals\<close>.
\<close>

section \<open>Policy, requests and control\<close>

record portfolio_policy =
  pf_version :: string
  pf_base :: risk
  pf_strategy_exposure :: "rat option"
  pf_sector_exposure :: "rat option"
  pf_sectors :: "(string \<times> string) list"
  pf_sector_evidence :: "string option"
  pf_correlation_positions :: "int option"

definition portfolio_gaps :: "portfolio_policy \<Rightarrow> string list \<Rightarrow> string list" where
  "portfolio_gaps p symbols = risk_gaps (pf_base p) @ reasons_of
     [(falsy (pf_strategy_exposure p), gap ''strategy_exposure''), (falsy (pf_sector_exposure p), gap ''sector_exposure''),
      (absent (pf_sector_evidence p), gap ''sector_evidence''), (falsy (pf_correlation_positions p), gap ''correlation_positions''),
      (list_ex (\<lambda>s. absent (map_of (pf_sectors p) s)) symbols, gap ''sector_mapping'')]"

record request =
  rq_qualification :: row
  rq_data :: pair_dataset
  rq_definition :: strategy_definition
  rq_settings :: settings
  rq_costs :: schedule
  rq_authorization :: authorization

abbreviation rq_series :: "request \<Rightarrow> series" where
  "rq_series r \<equiv> pd_series (rq_data r)"

abbreviation rq_symbol :: "request \<Rightarrow> string" where
  "rq_symbol r \<equiv> sr_symbol (rq_series r)"

record control =
  ct_version :: string
  ct_policy_hash :: string
  ct_authorization_evidence :: string
  ct_enabled :: bool
  ct_paper_halt :: bool
  ct_delivery_end :: "instant option"
  ct_cancel_signals :: "string list"

section \<open>Orders and events\<close>

datatype order_state = PROPOSED | RISK_CHECKED | RESERVED | ACCEPTED | FILLED | EXIT_PENDING | CLOSED | REJECTED | CANCELLED

fun order_transitions :: "order_state option \<Rightarrow> order_state set" where
  "order_transitions None = {PROPOSED}"
| "order_transitions (Some PROPOSED) = {RISK_CHECKED, REJECTED, CANCELLED}"
| "order_transitions (Some RISK_CHECKED) = {RESERVED, REJECTED, CANCELLED}"
| "order_transitions (Some RESERVED) = {ACCEPTED, CANCELLED}"
| "order_transitions (Some ACCEPTED) = {FILLED, CANCELLED}"
| "order_transitions (Some FILLED) = {EXIT_PENDING}"
| "order_transitions (Some EXIT_PENDING) = {CLOSED}"
| "order_transitions _ = {}"

record order =
  or_state :: order_state
  or_symbol :: string
  or_strategy_id :: definition_id
  or_signal :: string
  or_signal_at :: instant
  or_qualification_hash :: string
  or_quantity :: int
  or_entry :: rat
  or_entry_fee :: rat
  or_stop :: "rat option"
  or_target :: "rat option"
  or_entry_at :: "instant option"
  or_exit :: "rat option"
  or_exit_at :: "instant option"
  or_net :: "rat option"
  or_exit_reason :: "string option"
  or_order_id :: string

datatype portfolio_event =
    Propose string definition_id string string
  | Risk_Check
  | Reject "string option"
  | Reserve rat int timing
  | Accept
  | Fill rat timing int rat rat rat
  | Exit_Pending "string option"
  | Close rat rat "string option"
  | Cancel string
  | Mark string rat
  | Session_End bool
  | Halt "string option"

text \<open>The order state an event moves to; the states that are not part of an order's life cycle have none.\<close>

fun order_state_of :: "portfolio_event \<Rightarrow> order_state option" where
  "order_state_of (Propose symbol strategy qualification sig) = Some PROPOSED"
| "order_state_of Risk_Check = Some RISK_CHECKED"
| "order_state_of (Reject reason) = Some REJECTED"
| "order_state_of (Reserve amount quantity tim) = Some RESERVED"
| "order_state_of Accept = Some ACCEPTED"
| "order_state_of (Fill price tim quantity fees stop target) = Some FILLED"
| "order_state_of (Exit_Pending reason) = Some EXIT_PENDING"
| "order_state_of (Close price fees reason) = Some CLOSED"
| "order_state_of (Cancel reason) = Some CANCELLED"
| "order_state_of _ = None"

text \<open>\<open>values.get("fees", "0")\<close> and \<open>values.get("symbol")\<close>.\<close>

fun fees_of :: "portfolio_event \<Rightarrow> rat" where
  "fees_of (Fill price tim quantity fees stop target) = fees"
| "fees_of (Close price fees reason) = fees"
| "fees_of _ = 0"

fun symbol_of :: "portfolio_event \<Rightarrow> string option" where
  "symbol_of (Mark symbol price) = Some symbol"
| "symbol_of _ = None"

record account =
  ac_cash :: rat
  ac_available :: rat
  ac_reserved :: rat
  ac_cost_basis :: rat
  ac_marked_value :: rat
  ac_equity :: rat
  ac_realized :: rat
  ac_unrealized :: rat
  ac_fees :: rat
  ac_positions :: "(string \<times> order) list"
  ac_reservations :: "(string \<times> rat) list"
  ac_halted :: bool

record portfolio_binding =
  pb_policy :: portfolio_policy
  pb_control :: control
  pb_requests :: "string list"
  pb_scope :: string
  pb_installation :: string

record journal_body =
  je_sequence :: nat
  je_run_id :: string
  je_event_id :: string
  je_timestamp :: instant
  je_order_id :: string
  je_event :: portfolio_event
  je_previous_state :: "order_state option"
  je_symbol :: "string option"
  je_strategy_id :: "definition_id option"
  je_signal :: "string option"
  je_qualification :: "string option"
  je_risk_policy_hash :: string
  je_scope :: string
  je_cash_delta :: rat
  je_reservation_delta :: rat
  je_position_delta :: int
  je_fees :: rat
  je_account :: account
  je_previous_hash :: string

record journal_row = journal_body +
  je_current_hash :: string

text \<open>The computations outside of the model, together.\<close>

record portfolio_externals =
  xp_paper :: externals
  xp_paper_binding :: "request \<Rightarrow> portfolio_policy \<Rightarrow> binding"
  xp_universe :: "string list"
  xp_installation :: string
  xp_request_hash :: "request \<Rightarrow> string"
  xp_policy_hash :: "portfolio_policy \<Rightarrow> string"
  xp_binding_json :: "portfolio_binding \<Rightarrow> string"
  xp_event_json :: "journal_body \<Rightarrow> string"

abbreviation xp_sha :: "portfolio_externals \<Rightarrow> string \<Rightarrow> string" where
  "xp_sha xp \<equiv> xt_sha (xp_paper xp)"

section \<open>The coordinator\<close>

record coordinator =
  co_binding :: portfolio_binding
  co_run_id :: string
  co_cash :: rat
  co_opening :: rat
  co_fees :: rat
  co_realized :: rat
  co_orders :: "(string \<times> order) list"
  co_positions :: "(string \<times> string) list"
  co_reservations :: "(string \<times> rat) list"
  co_marks :: "(string \<times> rat) list"
  co_consumed :: "string list"
  co_events :: "journal_row list"
  co_halted :: bool
  co_day :: "date option"
  co_day_equity :: rat

abbreviation co_policy :: "coordinator \<Rightarrow> portfolio_policy" where
  "co_policy c \<equiv> pb_policy (co_binding c)"

definition capital_of :: "risk \<Rightarrow> rat" where
  "capital_of r = (case rk_capital r of None \<Rightarrow> 0 | Some x \<Rightarrow> x)"

definition coordinator_init :: "portfolio_externals \<Rightarrow> portfolio_binding \<Rightarrow> coordinator" where
  "coordinator_init xp b =
     (let cash = capital_of (pf_base (pb_policy b)) in
      \<lparr>co_binding = b, co_run_id = xp_sha xp (xp_binding_json xp b), co_cash = cash, co_opening = cash, co_fees = 0, co_realized = 0,
       co_orders = [], co_positions = [], co_reservations = [], co_marks = [], co_consumed = [], co_events = [], co_halted = False,
       co_day = None, co_day_equity = cash\<rparr>)"

subsection \<open>Account\<close>

definition order_at :: "coordinator \<Rightarrow> string \<Rightarrow> order res" where
  "order_at c k = (case map_of (co_orders c) k of None \<Rightarrow> Inl KeyError | Some r \<Rightarrow> Inr r)"

definition held_orders :: "coordinator \<Rightarrow> (string \<times> order) list res" where
  "held_orders c = mapR (\<lambda>p. bindR (order_at c (snd p)) (\<lambda>r. Inr (fst p, r))) (co_positions c)"

definition mark_of :: "coordinator \<Rightarrow> string \<times> order \<Rightarrow> rat" where
  "mark_of c p = (case map_of (co_marks c) (fst p) of None \<Rightarrow> or_entry (snd p) | Some x \<Rightarrow> x)"

definition times40 :: "rat \<Rightarrow> int \<Rightarrow> rat" where
  "times40 x q = prec40 (x * of_int q)"

definition basis_of :: "string \<times> order \<Rightarrow> rat" where
  "basis_of p = times40 (or_entry (snd p)) (or_quantity (snd p))"

definition marked_of :: "coordinator \<Rightarrow> string \<times> order \<Rightarrow> rat" where
  "marked_of c p = times40 (mark_of c p) (or_quantity (snd p))"

definition unrealized_of :: "coordinator \<Rightarrow> string \<times> order \<Rightarrow> rat" where
  "unrealized_of c p = prec40 (times40 (prec40 (mark_of c p - or_entry (snd p))) (or_quantity (snd p)) - or_entry_fee (snd p))"

definition account_of :: "coordinator \<Rightarrow> account res" where
  "account_of c =
     bindR (held_orders c) (\<lambda>held.
     let reserved = sum40 (map snd (co_reservations c)); marked = sum40 (map (marked_of c) held);
         unrealized = sum40 (map (unrealized_of c) held); equity = prec40 (co_cash c + marked) in
     bindR (checks
       [(\<not> (reserved \<le> co_cash c \<and> 0 \<le> reserved), ''PAPER_HALTED:INVALID_ACCOUNTING''),
        (equity \<noteq> prec40 (prec40 (co_opening c + co_realized c) + unrealized), ''PAPER_HALTED:UNBALANCED_EQUITY'')]) (\<lambda>_.
     Inr \<lparr>ac_cash = co_cash c, ac_available = prec40 (co_cash c - reserved), ac_reserved = reserved,
          ac_cost_basis = sum40 (map basis_of held), ac_marked_value = marked, ac_equity = equity,
          ac_realized = co_realized c, ac_unrealized = unrealized, ac_fees = co_fees c,
          ac_positions = sort_key fst held, ac_reservations = sort_key fst (co_reservations c), ac_halted = co_halted c\<rparr>))"

subsection \<open>Emission\<close>

definition new_order :: "string \<Rightarrow> string \<Rightarrow> definition_id \<Rightarrow> string \<Rightarrow> string \<Rightarrow> instant \<Rightarrow> order" where
  "new_order key symbol strategy qualification sig tm =
     \<lparr>or_state = PROPOSED, or_symbol = symbol, or_strategy_id = strategy, or_signal = sig, or_signal_at = tm,
      or_qualification_hash = qualification, or_quantity = 0, or_entry = 0, or_entry_fee = 0, or_stop = None, or_target = None,
      or_entry_at = None, or_exit = None, or_exit_at = None, or_net = None, or_exit_reason = None, or_order_id = key\<rparr>"

definition put_order :: "string \<Rightarrow> order \<Rightarrow> coordinator \<Rightarrow> coordinator" where
  "put_order key r c = c\<lparr>co_orders := AList.update key r (co_orders c)\<rparr>"

text \<open>The transition of the order itself.\<close>

definition move_order :: "string \<Rightarrow> portfolio_event \<Rightarrow> instant \<Rightarrow> coordinator \<Rightarrow> coordinator res" where
  "move_order key ev tm c =
     (case order_state_of ev of
        None \<Rightarrow> Inr c
      | Some state \<Rightarrow>
          if state \<notin> order_transitions (map_option or_state (map_of (co_orders c) key))
          then Inl (ValueError ''INVALID_OR_DUPLICATE_TRANSITION'')
          else case ev of
            Propose symbol strategy qualification sig \<Rightarrow> Inr (put_order key (new_order key symbol strategy qualification sig tm) c)
          | _ \<Rightarrow> (case map_of (co_orders c) key of
                None \<Rightarrow> Inl AssertionError
              | Some r \<Rightarrow> Inr (put_order key (r\<lparr>or_state := state\<rparr>) c)))"

text \<open>What the new state does to cash, reservations, positions and marks.\<close>

definition reserve_cash :: "string \<Rightarrow> rat \<Rightarrow> coordinator \<Rightarrow> coordinator res" where
  "reserve_cash key amount c =
     (if map_of (co_reservations c) key \<noteq> None then Inl (ValueError ''DOUBLE_RESERVATION'')
      else Inr (c\<lparr>co_reservations := AList.update key amount (co_reservations c)\<rparr>))"

definition open_position :: "string \<Rightarrow> order \<Rightarrow> rat \<Rightarrow> int \<Rightarrow> rat \<Rightarrow> rat \<Rightarrow> rat \<Rightarrow> instant \<Rightarrow> coordinator \<Rightarrow> coordinator res" where
  "open_position key r price quantity fees stop target tm c =
     (let debit = prec40 (times40 price quantity + fees) in
      bindR (checks
        [(map_of (co_positions c) (or_symbol r) \<noteq> None, ''SYMBOL_ALREADY_OWNED''),
         (map_of (co_reservations c) key \<noteq> Some debit, ''PAPER_HALTED:UNRECONCILED_RESERVATION'')]) (\<lambda>_.
      Inr (put_order key (r\<lparr>or_quantity := quantity, or_entry := price, or_entry_fee := fees, or_stop := Some stop,
             or_target := Some target, or_entry_at := Some tm\<rparr>)
        (c\<lparr>co_reservations := AList.delete key (co_reservations c), co_cash := prec40 (co_cash c - debit),
          co_fees := prec40 (co_fees c + fees), co_positions := AList.update (or_symbol r) key (co_positions c),
          co_marks := AList.update (or_symbol r) price (co_marks c)\<rparr>))))"

definition close_position :: "string \<Rightarrow> order \<Rightarrow> rat \<Rightarrow> rat \<Rightarrow> string option \<Rightarrow> instant \<Rightarrow> coordinator \<Rightarrow> coordinator res" where
  "close_position key r price fee reason tm c =
     (let sell = times40 price (or_quantity r);
          net = prec40 (prec40 (prec40 (sell - times40 (or_entry r) (or_quantity r)) - or_entry_fee r) - fee) in
      bindR (checks [(map_of (co_positions c) (or_symbol r) \<noteq> Some key, ''PAPER_HALTED:POSITION_OWNERSHIP_MISMATCH'')]) (\<lambda>_.
      Inr (put_order key (r\<lparr>or_exit := Some price, or_exit_at := Some tm, or_net := Some net, or_exit_reason := reason\<rparr>)
        (c\<lparr>co_positions := AList.delete (or_symbol r) (co_positions c), co_cash := prec40 (co_cash c + prec40 (sell - fee)),
          co_fees := prec40 (co_fees c + fee), co_realized := prec40 (co_realized c + net)\<rparr>))))"

fun effect :: "string \<Rightarrow> portfolio_event \<Rightarrow> instant \<Rightarrow> coordinator \<Rightarrow> coordinator res" where
  "effect key (Reserve amount quantity tim) tm c = reserve_cash key amount c"
| "effect key (Fill price tim quantity fees stop target) tm c =
     bindR (order_at c key) (\<lambda>r. open_position key r price quantity fees stop target tm c)"
| "effect key (Close price fees reason) tm c = bindR (order_at c key) (\<lambda>r. close_position key r price fees reason tm c)"
| "effect key (Cancel reason) tm c = Inr (c\<lparr>co_reservations := AList.delete key (co_reservations c)\<rparr>)"
| "effect key (Mark symbol price) tm c = Inr (c\<lparr>co_marks := AList.update symbol price (co_marks c)\<rparr>)"
| "effect key (Halt reason) tm c = Inr (c\<lparr>co_halted := True\<rparr>)"
| "effect key ev tm c = Inr c"

definition journal_limit :: int where
  "journal_limit = 200000"

definition last_hash :: "journal_row list \<Rightarrow> string" where
  "last_hash es = (if es = [] then zero_hash else je_current_hash (last es))"

definition journal_entry ::
  "portfolio_externals \<Rightarrow> string \<Rightarrow> portfolio_event \<Rightarrow> instant \<Rightarrow> order_state option \<Rightarrow> order option \<Rightarrow> account \<Rightarrow> account \<Rightarrow> coordinator
     \<Rightarrow> journal_row" where
  "journal_entry xp key ev tm before_state r before_account after_account c =
     (let n = length (co_events c);
          body = \<lparr>je_sequence = n, je_run_id = co_run_id c, je_event_id = xp_sha xp (co_run_id c @ nat_str n), je_timestamp = tm,
            je_order_id = key, je_event = ev, je_previous_state = before_state,
            je_symbol = (case r of None \<Rightarrow> symbol_of ev | Some x \<Rightarrow> Some (or_symbol x)),
            je_strategy_id = map_option or_strategy_id r, je_signal = map_option or_signal r,
            je_qualification = map_option or_qualification_hash r,
            je_risk_policy_hash = xp_policy_hash xp (co_policy c), je_scope = pb_scope (co_binding c),
            je_cash_delta = prec40 (ac_cash after_account - ac_cash before_account),
            je_reservation_delta = prec40 (ac_reserved after_account - ac_reserved before_account),
            je_position_delta = int (length (ac_positions after_account)) - int (length (ac_positions before_account)),
            je_fees = fees_of ev, je_account = after_account, je_previous_hash = last_hash (co_events c)\<rparr>
      in journal_body.extend body \<lparr>je_current_hash = xp_sha xp (xp_event_json xp body)\<rparr>)"

definition portfolio_emit :: "portfolio_externals \<Rightarrow> string \<Rightarrow> portfolio_event \<Rightarrow> instant \<Rightarrow> coordinator \<Rightarrow> coordinator res" where
  "portfolio_emit xp key ev tm c =
     bindR (checks
       [(journal_limit \<le> int (length (co_events c)), ''PAPER_HALTED:JOURNAL_LIMIT''),
        (co_events c \<noteq> [] \<and> tm < je_timestamp (last (co_events c)), ''PAPER_HALTED:OUT_OF_ORDER_EVENT'')]) (\<lambda>_.
     bindR (account_of c) (\<lambda>before_account.
     bindR (move_order key ev tm c) (\<lambda>c1.
     bindR (effect key ev tm c1) (\<lambda>c2.
     bindR (account_of c2) (\<lambda>after_account.
     Inr (c2\<lparr>co_events := co_events c2 @ [journal_entry xp key ev tm (map_option or_state (map_of (co_orders c) key))
            (map_of (co_orders c2) key) before_account after_account c]\<rparr>))))))"

text \<open>The key of the events that belong to no order.\<close>

definition portfolio_key :: string where
  "portfolio_key = ''portfolio''"

definition portfolio_halt :: "portfolio_externals \<Rightarrow> instant \<Rightarrow> string option \<Rightarrow> coordinator \<Rightarrow> coordinator res" where
  "portfolio_halt xp tm reason c = (if co_halted c then Inr c else portfolio_emit xp portfolio_key (Halt reason) tm c)"

definition portfolio_guard :: "portfolio_externals \<Rightarrow> instant \<Rightarrow> coordinator \<Rightarrow> coordinator res" where
  "portfolio_guard xp tm c =
     bindR (if co_day c \<noteq> Some (nse_date tm)
            then bindR (account_of c) (\<lambda>a. Inr (c\<lparr>co_day := Some (nse_date tm), co_day_equity := ac_equity a\<rparr>))
            else Inr c) (\<lambda>c.
     case rk_daily_loss (pf_base (co_policy c)) of
       None \<Rightarrow> Inr c
     | Some limit \<Rightarrow>
         if limit = 0 then Inr c
         else bindR (account_of c) (\<lambda>a.
           if limit \<le> prec40 (co_day_equity c - ac_equity a) then portfolio_halt xp tm (Some ''DAILY_LOSS_BREACH'') c else Inr c))"

subsection \<open>Entry\<close>

definition position_limit :: "portfolio_policy \<Rightarrow> int" where
  "position_limit p = min (case rk_simultaneous_positions (pf_base p) of None \<Rightarrow> 0 | Some n \<Rightarrow> n)
                          (case pf_correlation_positions p of None \<Rightarrow> 0 | Some n \<Rightarrow> n)"

definition entry_refusal :: "order \<Rightarrow> instant \<Rightarrow> coordinator \<Rightarrow> string option" where
  "entry_refusal r tm c =
     (let reason = (if or_signal_at r + FIVE \<le> tm then Some ''EXPIRED_SIGNAL''
                    else if co_halted c then Some ''PAPER_HALT''
                    else if map_of (co_positions c) (or_symbol r) \<noteq> None then Some ''ONE_POSITION_PER_SYMBOL'' else None)
      in if reason = None \<and> position_limit (co_policy c) \<le> int (length (co_positions c)) + int (length (co_reservations c))
         then Some ''POSITION_OR_CORRELATION_LIMIT'' else reason)"

definition sector_of :: "coordinator \<Rightarrow> string \<Rightarrow> string res" where
  "sector_of c s = (case map_of (pf_sectors (co_policy c)) s of None \<Rightarrow> Inl KeyError | Some x \<Rightarrow> Inr x)"

text \<open>One iteration of the exposure loop, over the totals of the portfolio, the order's strategy and its sector.\<close>

definition exposure_step :: "coordinator \<Rightarrow> order \<Rightarrow> string \<times> string \<Rightarrow> rat \<times> rat \<times> rat \<Rightarrow> (rat \<times> rat \<times> rat) res" where
  "exposure_step c r p totals =
     (case map_of (co_marks c) (fst p) of
        None \<Rightarrow> Inl KeyError
      | Some x \<Rightarrow> bindR (order_at c (snd p)) (\<lambda>held.
          let worth = times40 x (or_quantity held) in
          bindR (sector_of c (fst p)) (\<lambda>sector.
          bindR (sector_of c (or_symbol r)) (\<lambda>own.
          case totals of (overall, strategy, same_sector) \<Rightarrow>
          Inr (prec40 (overall + worth),
               if or_strategy_id held = or_strategy_id r then prec40 (strategy + worth) else strategy,
               if sector = own then prec40 (same_sector + worth) else same_sector)))))"

definition remaining_exposure :: "coordinator \<Rightarrow> order \<Rightarrow> rat res" where
  "remaining_exposure c r =
     bindR (foldR (exposure_step c r) (co_positions c) (0, 0, 0)) (\<lambda>totals.
     case (totals, rk_portfolio_exposure (pf_base (co_policy c)), pf_strategy_exposure (co_policy c), pf_sector_exposure (co_policy c)) of
       ((overall, strategy, same_sector), Some by_portfolio, Some by_strategy, Some by_sector) \<Rightarrow>
         if by_portfolio = 0 \<or> by_strategy = 0 \<or> by_sector = 0 then Inl AssertionError
         else Inr (min (min (prec40 (by_portfolio - overall)) (prec40 (by_strategy - strategy))) (prec40 (by_sector - same_sector)))
     | _ \<Rightarrow> Inl AssertionError)"

definition entry_size :: "request \<Rightarrow> rat \<Rightarrow> int \<Rightarrow> instant \<Rightarrow> rat \<Rightarrow> coordinator \<Rightarrow> int res" where
  "entry_size rq price quantity tm remaining c =
     (if remaining \<le> 0 then Inr 0
      else bindR (account_of c) (\<lambda>a.
        bindR (liquidity_bar (rq_series rq) tm) (\<lambda>prior.
        paper_size ((pf_base (co_policy c))\<lparr>rk_portfolio_exposure := Some remaining\<rparr>) ((rq_settings rq)\<lparr>set_quantity := quantity\<rparr>)
          (rq_costs rq) price tm (ac_available a) (bar_volume prior) (def_stop (rq_definition rq)))))"

definition reserve_and_fill ::
  "portfolio_externals \<Rightarrow> string \<Rightarrow> request \<Rightarrow> order \<Rightarrow> rat \<Rightarrow> int \<Rightarrow> instant \<Rightarrow> string list \<Rightarrow> coordinator \<Rightarrow> coordinator res" where
  "reserve_and_fill xp key rq r price quantity tm cancel_signals c =
     bindR (quote_total (rq_costs rq) BUY (times40 price quantity) tm None) (\<lambda>fee.
     bindR (decision_timing (rq_series rq) tm) (\<lambda>tim.
     bindR (portfolio_emit xp key (Reserve (prec40 (times40 price quantity + fee)) quantity tim) tm c) (\<lambda>c.
     if or_signal r \<in> set cancel_signals then portfolio_emit xp key (Cancel ''EXPLICIT_PAPER_CANCEL'') tm c
     else
       bindR (portfolio_emit xp key Accept tm c) (\<lambda>c.
       portfolio_emit xp key (Fill price tim quantity fee (prec40 (price * prec40 (1 - def_stop (rq_definition rq))))
         (prec40 (price * prec40 (1 + def_target (rq_definition rq))))) tm c))))"

definition portfolio_enter ::
  "portfolio_externals \<Rightarrow> string \<Rightarrow> request \<Rightarrow> rat option \<Rightarrow> int \<Rightarrow> instant \<Rightarrow> control \<Rightarrow> coordinator \<Rightarrow> coordinator res" where
  "portfolio_enter xp key rq price quantity tm ct c =
     bindR (order_at c key) (\<lambda>r.
     if or_state r \<noteq> PROPOSED then Inr c
     else
       bindR (portfolio_emit xp key Risk_Check tm c) (\<lambda>c.
       case entry_refusal r tm c of
         Some reason \<Rightarrow> portfolio_emit xp key (Reject (Some reason)) tm c
       | None \<Rightarrow>
           (case price of
              None \<Rightarrow> Inl TypeError
            | Some price \<Rightarrow>
                bindR (remaining_exposure c r) (\<lambda>remaining.
                if bar_at (sr_bars (rq_series rq)) tm = None
                then bindR (portfolio_halt xp tm (Some ''MISSING_ENTRY_DATA'') c)
                       (portfolio_emit xp key (Reject (Some ''MISSING_ENTRY_DATA'')) tm)
                else
                  bindR (entry_size rq price quantity tm remaining c) (\<lambda>size.
                  if size \<le> 0 then portfolio_emit xp key (Reject (Some ''CASH_EXPOSURE_LIQUIDITY_OR_RISK'')) tm c
                  else reserve_and_fill xp key rq r price size tm (ct_cancel_signals ct) c)))))"

section \<open>Actions\<close>

datatype action_kind =
    Do_Propose
  | Do_Enter "rat option" int
  | Do_Exit "rat option" "string option"
  | Do_Reject "string option"
  | Do_Halt "string option"
  | Do_Mark rat
  | Do_End

fun action_priority :: "action_kind \<Rightarrow> nat" where
  "action_priority (Do_Exit price reason) = 0"
| "action_priority (Do_Halt reason) = 1"
| "action_priority (Do_Mark price) = 2"
| "action_priority Do_Propose = 3"
| "action_priority (Do_Enter price quantity) = 4"
| "action_priority (Do_Reject reason) = 5"
| "action_priority Do_End = 6"

record action =
  at_time :: instant
  at_rank :: nat
  at_identifier :: string
  at_signal :: string
  at_index :: nat
  at_kind :: action_kind

text \<open>
  The tuples are compared on time, priority, rank, identifier, signal and index; the kind follows from the priority.
  Two tuples that agree so far and differ in the event would compare two dictionaries, which raises.
\<close>

definition action_key :: "action \<Rightarrow> instant \<times> nat \<times> nat \<times> string \<times> string \<times> nat" where
  "action_key a = (at_time a, action_priority (at_kind a), at_rank a, at_identifier a, at_signal a, at_index a)"

definition sorted_actions :: "action list \<Rightarrow> action list res" where
  "sorted_actions as = (let ordered = sort_key action_key as in
     if list_ex (\<lambda>(a, b). action_key a = action_key b \<and> a \<noteq> b) (adjacent ordered) then Inl TypeError else Inr ordered)"

fun identifier_text :: "definition_id \<Rightarrow> string" where
  "identifier_text S01 = ''S01''" | "identifier_text S02 = ''S02''" | "identifier_text S03 = ''S03''"
| "identifier_text S04 = ''S04''" | "identifier_text S05 = ''S05''" | "identifier_text S06 = ''S06''"

text \<open>\<open>rank.get(symbol, 1115)\<close>; where the code writes \<open>rank[symbol]\<close>, membership has been checked.\<close>

definition rank_of :: "string list \<Rightarrow> string \<Rightarrow> nat" where
  "rank_of universe s = length (takeWhile (\<lambda>x. x \<noteq> s) universe)"

fun kind_of :: "paper_state \<Rightarrow> emit_values \<Rightarrow> action_kind option" where
  "kind_of SIGNAL_RECEIVED v = Some Do_Propose"
| "kind_of PAPER_FILLED v = Some (Do_Enter (ev_price v) (ev_quantity v))"
| "kind_of PAPER_POSITION_CLOSED v = Some (Do_Exit (ev_price v) (ev_rejection v))"
| "kind_of PAPER_ORDER_REJECTED v = Some (Do_Reject (ev_rejection v))"
| "kind_of PAPER_HALTED v = Some (Do_Halt (ev_rejection v))"
| "kind_of _ v = None"

definition delivered :: "control \<Rightarrow> instant \<Rightarrow> bool" where
  "delivered ct tm = (case ct_delivery_end ct of None \<Rightarrow> True | Some e \<Rightarrow> tm \<le> e)"

definition event_actions :: "string list \<Rightarrow> control \<Rightarrow> nat \<Rightarrow> request \<Rightarrow> audit_row list \<Rightarrow> action list" where
  "event_actions universe ct index rq rows =
     concat (map (\<lambda>e. case kind_of (ab_state e) (ab_values e) of
         Some k \<Rightarrow> if delivered ct (ab_timestamp e)
                   then [\<lparr>at_time = ab_timestamp e, at_rank = rank_of universe (rq_symbol rq),
                          at_identifier = identifier_text (def_identifier (rq_definition rq)), at_signal = ab_signal e,
                          at_index = index, at_kind = k\<rparr>]
                   else []
       | None \<Rightarrow> []) rows)"

text \<open>The marks of one request; \<open>seen\<close> are the marks added before, by symbol and time.\<close>

fun mark_actions ::
  "string list \<Rightarrow> control \<Rightarrow> nat \<Rightarrow> request \<Rightarrow> bar list \<Rightarrow> (string \<times> instant) list \<Rightarrow> action list \<times> (string \<times> instant) list" where
  "mark_actions universe ct index rq [] seen = ([], seen)"
| "mark_actions universe ct index rq (b # bs) seen =
     (if \<not> delivered ct (candle_end b) \<or> (rq_symbol rq, candle_end b) \<in> set seen then mark_actions universe ct index rq bs seen
      else case mark_actions universe ct index rq bs ((rq_symbol rq, candle_end b) # seen) of (as, seen') \<Rightarrow>
        (\<lparr>at_time = candle_end b, at_rank = rank_of universe (rq_symbol rq), at_identifier = [], at_signal = [], at_index = index,
          at_kind = Do_Mark (bar_close b)\<rparr> # as, seen'))"

text \<open>The loop over the requests: the candidate's events, then its marks.\<close>

fun request_actions ::
  "portfolio_externals \<Rightarrow> portfolio_policy \<Rightarrow> control \<Rightarrow> nat \<Rightarrow> request list \<Rightarrow> (string \<times> instant) list \<Rightarrow> action list res" where
  "request_actions xp p ct index [] seen = Inr []"
| "request_actions xp p ct index (rq # rqs) seen =
     bindR (paper_simulate (xp_paper xp) (xp_paper_binding xp rq p) (rq_qualification rq) (rq_data rq) (rq_definition rq)
        (rq_settings rq) (rq_costs rq) (pf_base p) (rq_authorization rq)) (\<lambda>output.
     case mark_actions (xp_universe xp) ct index rq (sr_bars (rq_series rq)) seen of (marks, seen') \<Rightarrow>
     bindR (request_actions xp p ct (Suc index) rqs seen') (\<lambda>rest.
     Inr (event_actions (xp_universe xp) ct index rq (au_events (pp_audit output)) @ marks @ rest)))"

definition session_ends :: "request list \<Rightarrow> instant list" where
  "session_ends rqs = remdups (concat (map (\<lambda>rq. map dse_end (sr_sessions (rq_series rq))) rqs))"

definition plain_action :: "instant \<Rightarrow> action_kind \<Rightarrow> action" where
  "plain_action tm k = \<lparr>at_time = tm, at_rank = 0, at_identifier = [], at_signal = [], at_index = 0, at_kind = k\<rparr>"

definition delivery_action :: "control \<Rightarrow> instant \<Rightarrow> instant list \<Rightarrow> action list res" where
  "delivery_action ct start ends =
     (case ct_delivery_end ct of
        None \<Rightarrow> Inr []
      | Some e \<Rightarrow>
          if ends = [] then Inl (ValueError ''max() iterable argument is empty'')
          else let final = fold max (tl ends) (hd ends) in
            Inr (if e < final then [plain_action (max start (min (e + FIVE) final)) (Do_Halt (Some ''MANDATORY_DELIVERY_MISSING''))]
                 else []))"

definition portfolio_actions :: "portfolio_externals \<Rightarrow> portfolio_policy \<Rightarrow> control \<Rightarrow> request list \<Rightarrow> instant \<Rightarrow> action list res" where
  "portfolio_actions xp p ct rqs start =
     bindR (request_actions xp p ct 0 rqs []) (\<lambda>streams.
     bindR (delivery_action ct start (session_ends rqs)) (\<lambda>missing.
     let as = streams @ map (\<lambda>tm. plain_action tm Do_End) (session_ends rqs) @ missing in
     if journal_limit < int (length as) then Inl (ValueError ''PORTFOLIO_EVENT_BUDGET'') else sorted_actions as))"

subsection \<open>The action loop\<close>

definition occurs_in :: "string \<Rightarrow> string \<Rightarrow> bool" where
  "occurs_in t s \<longleftrightarrow> list_ex (\<lambda>i. take (length t) (drop i s) = t) [0..<Suc (length s)]"

definition action_order_key :: "portfolio_externals \<Rightarrow> action \<Rightarrow> coordinator \<Rightarrow> string" where
  "action_order_key xp a c = xp_sha xp (co_run_id c @ nat_str (at_index a) @ at_signal a)"

definition act_propose :: "portfolio_externals \<Rightarrow> string \<Rightarrow> request \<Rightarrow> string \<Rightarrow> instant \<Rightarrow> coordinator \<Rightarrow> coordinator res" where
  "act_propose xp key rq sig tm c =
     bindR (portfolio_emit xp key (Propose (rq_symbol rq) (def_identifier (rq_definition rq))
        (xt_row_hash (xp_paper xp) (rq_qualification rq)) sig) tm c) (\<lambda>c.
     if sig \<in> set (co_consumed c) then portfolio_emit xp key (Reject (Some ''DUPLICATE_SIGNAL'')) tm c
     else Inr (c\<lparr>co_consumed := sig # co_consumed c\<rparr>))"

definition act_reject :: "portfolio_externals \<Rightarrow> string \<Rightarrow> string option \<Rightarrow> instant \<Rightarrow> coordinator \<Rightarrow> coordinator res" where
  "act_reject xp key reason tm c =
     (case reason of
        None \<Rightarrow> Inl TypeError
      | Some t \<Rightarrow>
          bindR (if occurs_in ''PAPER_DATA_QUALITY'' t \<or> occurs_in ''PAPER_BINDING_CONFLICT'' t then portfolio_halt xp tm reason c else Inr c) (\<lambda>c.
          bindR (order_at c key) (\<lambda>r.
          if or_state r = PROPOSED then portfolio_emit xp key (Reject reason) tm c else Inr c)))"

definition act_exit :: "portfolio_externals \<Rightarrow> string \<Rightarrow> request \<Rightarrow> rat option \<Rightarrow> string option \<Rightarrow> instant \<Rightarrow> coordinator \<Rightarrow> coordinator res" where
  "act_exit xp key rq price reason tm c =
     (case map_of (co_orders c) key of
        None \<Rightarrow> Inr c
      | Some r \<Rightarrow>
          if or_state r \<noteq> FILLED then Inr c
          else case price of
            None \<Rightarrow> Inl TypeError
          | Some price \<Rightarrow>
              bindR (quote_total (rq_costs rq) SELL (times40 price (or_quantity r)) (tm - FIVE)
                 (Some (times40 (or_entry r) (or_quantity r)))) (\<lambda>fee.
              bindR (portfolio_emit xp key (Exit_Pending reason) tm c) (\<lambda>c.
              bindR (portfolio_emit xp key (Close price fee reason) tm c) (\<lambda>c.
              portfolio_guard xp tm c))))"

definition unfinished :: "order_state \<Rightarrow> bool" where
  "unfinished s \<longleftrightarrow> s \<in> {PROPOSED, RISK_CHECKED, RESERVED, ACCEPTED}"

definition cancel_order :: "portfolio_externals \<Rightarrow> instant \<Rightarrow> string \<times> order \<Rightarrow> coordinator \<Rightarrow> coordinator res" where
  "cancel_order xp tm p c = (if unfinished (or_state (snd p)) then portfolio_emit xp (fst p) (Cancel ''EOD_CANCEL'') tm c else Inr c)"

definition act_end :: "portfolio_externals \<Rightarrow> instant \<Rightarrow> coordinator \<Rightarrow> coordinator res" where
  "act_end xp tm c =
     bindR (foldR (cancel_order xp tm) (co_orders c) c) (\<lambda>c.
     bindR (if co_positions c \<noteq> [] then portfolio_halt xp tm (Some ''EOD_UNRESOLVED_POSITION'') c else Inr c) (\<lambda>c.
     portfolio_emit xp portfolio_key (Session_End (co_positions c = [] \<and> co_reservations c = [])) tm c))"

definition portfolio_act :: "portfolio_externals \<Rightarrow> control \<Rightarrow> request list \<Rightarrow> action \<Rightarrow> coordinator \<Rightarrow> coordinator res" where
  "portfolio_act xp ct rqs a c =
     (if length rqs \<le> at_index a then Inl IndexError
      else let rq = rqs ! at_index a; tm = at_time a; key = action_order_key xp a c in
        bindR (portfolio_guard xp tm c) (\<lambda>c.
        case at_kind a of
          Do_Propose \<Rightarrow> act_propose xp key rq (at_signal a) tm c
        | Do_Enter price quantity \<Rightarrow> portfolio_enter xp key rq price quantity tm ct c
        | Do_Reject reason \<Rightarrow> act_reject xp key reason tm c
        | Do_Halt reason \<Rightarrow> portfolio_halt xp tm reason c
        | Do_Mark price \<Rightarrow> bindR (portfolio_emit xp portfolio_key (Mark (rq_symbol rq) price) tm c) (portfolio_guard xp tm)
        | Do_Exit price reason \<Rightarrow> act_exit xp key rq price reason tm c
        | Do_End \<Rightarrow> act_end xp tm c))"

end
