(* ===== verification/Portfolio_Run.thy ===== *)
theory Portfolio_Run
  imports Portfolio
begin

text \<open>
  The outer part of \<open>phase1418/portfolio.py\<close>: the admission of a batch of requests, the simulation from the sorted actions,
  the reports, and the publication of plan, journal, reports and summary with \<open>publish\<close> of \<open>phase1416/imports.py\<close>.  A run
  returns its result together with the directory it leaves behind, so that an interrupted run can be resumed.  The plan, the
  journal and the remaining files are the parts of the directory that the run writes itself; the transcripts of the candidates
  are left out, as in \<open>Paper\<close>.
\<close>

section \<open>Reports\<close>

datatype report_value =
    Rows "journal_row list"
  | Orders "order list"
  | Holdings "(string \<times> order) list"
  | Cash_Ledger "(nat \<times> instant \<times> rat \<times> rat \<times> account) list"
  | Equity_Curve "(instant \<times> rat) list"
  | Table "(string \<times> rat) list"
  | Exposure "(instant \<times> (string \<times> order) list \<times> rat \<times> rat) list"

text \<open>The exit time and the net result of a closed order.\<close>

definition closed_exit :: "order \<Rightarrow> (order \<times> instant \<times> rat) res" where
  "closed_exit r = (case (or_exit_at r, or_net r) of (Some tm, Some net) \<Rightarrow> Inr (r, tm, net) | _ \<Rightarrow> Inl KeyError)"

definition closed_exits :: "coordinator \<Rightarrow> (order \<times> instant \<times> rat) list res" where
  "closed_exits c = mapR closed_exit (filter (\<lambda>r. or_state r = CLOSED) (map snd (co_orders c)))"

text \<open>The tables of results are summed in the decimal context of the caller, so that the number of its digits is an argument.\<close>

definition add_net :: "nat \<Rightarrow> string \<times> rat \<Rightarrow> (string \<times> rat) list \<Rightarrow> (string \<times> rat) list" where
  "add_net digits p table = AList.update (fst p) (round_sig digits ((case map_of table (fst p) of None \<Rightarrow> 0 | Some x \<Rightarrow> x) + snd p)) table"

definition net_table :: "nat \<Rightarrow> (order \<times> instant \<Rightarrow> string) \<Rightarrow> (order \<times> instant \<times> rat) list \<Rightarrow> (string \<times> rat) list" where
  "net_table digits key exits = fold (add_net digits) (map (\<lambda>(r, tm, net). (key (r, tm), net)) exits) []"

definition rows_in :: "order_state set \<Rightarrow> journal_row list \<Rightarrow> journal_row list" where
  "rows_in states rows = filter (\<lambda>e. \<exists>s \<in> states. order_state_of (je_event e) = Some s) rows"

fun is_halt :: "portfolio_event \<Rightarrow> bool" where
  "is_halt (Halt reason) = True" | "is_halt _ = False"

fun is_session_end :: "portfolio_event \<Rightarrow> bool" where
  "is_session_end (Session_End finished) = True" | "is_session_end _ = False"

definition portfolio_reports :: "nat \<Rightarrow> coordinator \<Rightarrow> (string \<times> report_value) list res" where
  "portfolio_reports digits c =
     bindR (closed_exits c) (\<lambda>exits.
     bindR (account_of c) (\<lambda>a.
     let rows = co_events c in
     Inr [(''signal-decisions.json'', Rows (rows_in {PROPOSED, REJECTED, RISK_CHECKED} rows)),
          (''orders.json'', Orders (map snd (co_orders c))),
          (''positions.json'', Holdings (ac_positions a)),
          (''cash-ledger.json'', Cash_Ledger (map (\<lambda>e. (je_sequence e, je_timestamp e, je_cash_delta e, je_reservation_delta e, je_account e)) rows)),
          (''equity-curve.json'', Equity_Curve (map (\<lambda>e. (je_timestamp e, ac_equity (je_account e))) rows)),
          (''daily-pnl.json'', Table (net_table digits (\<lambda>(r, tm). date_text (nse_date tm)) exits)),
          (''strategy-pnl.json'', Table (net_table digits (\<lambda>(r, tm). identifier_text (or_strategy_id r)) exits)),
          (''symbol-pnl.json'', Table (net_table digits (\<lambda>(r, tm). or_symbol r) exits)),
          (''exposure.json'', Exposure (map (\<lambda>e. (je_timestamp e, ac_positions (je_account e), ac_marked_value (je_account e),
             ac_reserved (je_account e))) rows)),
          (''risk-rejections.json'', Rows (rows_in {REJECTED, CANCELLED} rows)),
          (''paper-halt.json'', Rows (filter (\<lambda>e. is_halt (je_event e)) rows)),
          (''eod-reconciliation.json'', Rows (filter (\<lambda>e. is_session_end (je_event e)) rows))]))"

section \<open>Admission of a batch\<close>

record portfolio_summary =
  su_run_id :: string
  su_risk_policy_hash :: string
  su_scope :: string
  su_event_count :: nat
  su_final_hash :: string
  su_account :: account
  su_reports :: "(string \<times> string) list"
  su_simulation_complete :: bool
  su_halted :: bool
  su_qualified_genuine :: nat

record run_externals =
  xr_portfolio :: portfolio_externals
  xr_plan_ok :: "string \<Rightarrow> bool"
  xr_row_json :: "journal_row \<Rightarrow> string"
  xr_report_json :: "report_value \<Rightarrow> string"
  xr_summary_json :: "portfolio_summary \<Rightarrow> string"

definition byte_limit :: int where
  "byte_limit = 256 * 1024 * 1024"

definition check_batch :: "string list \<Rightarrow> request list \<Rightarrow> unit res" where
  "check_batch universe rqs =
     bindR (checks [(rqs = [] \<or> 6690 < int (length rqs) \<or> 100000 < sum_list (map (\<lambda>rq. int (length (sr_bars (rq_series rq)))) rqs),
       ''PORTFOLIO_INPUT_BUDGET'')]) (\<lambda>_.
     if int (length universe) = 1115 \<and> distinct universe then Inr () else Inl AssertionError)"

definition ordered_requests :: "portfolio_externals \<Rightarrow> request list \<Rightarrow> request list" where
  "ordered_requests xp rqs = sort_key (\<lambda>rq. (rank_of (xp_universe xp) (rq_symbol rq),
     identifier_text (def_identifier (rq_definition rq)), xp_request_hash xp rq)) rqs"

definition claim_dataset :: "request \<Rightarrow> (string \<times> string) list \<Rightarrow> (string \<times> string) list res" where
  "claim_dataset rq datasets =
     (case map_of datasets (rq_symbol rq) of
        Some h \<Rightarrow> if h \<noteq> pd_sha256 (rq_data rq) then Inl (ValueError ''CONFLICTING_SYMBOL_DATASETS'') else Inr datasets
      | None \<Rightarrow> Inr (AList.update (rq_symbol rq) (pd_sha256 (rq_data rq)) datasets))"

definition binding_of :: "portfolio_externals \<Rightarrow> request list \<Rightarrow> portfolio_policy \<Rightarrow> control \<Rightarrow> portfolio_binding" where
  "binding_of xp rqs p ct =
     \<lparr>pb_policy = p, pb_control = ct, pb_requests = map (xp_request_hash xp) rqs,
      pb_scope = (if rk_fixture_only (pf_base p) then ''SYNTHETIC_FIXTURE'' else ''AUTHORIZED_LOCAL_PAPER''),
      pb_installation = xp_installation xp\<rparr>"

definition run_gaps :: "portfolio_externals \<Rightarrow> request list \<Rightarrow> portfolio_policy \<Rightarrow> control \<Rightarrow> string list" where
  "run_gaps xp rqs p ct = portfolio_gaps p (map rq_symbol rqs) @ reasons_of
     [(ct_policy_hash ct \<noteq> xp_policy_hash xp p, ''RISK_POLICY_MISMATCH''),
      (\<not> ct_enabled ct, ''PAPER_AUTHORIZATION_REQUIRED''),
      (list_ex (\<lambda>rq. rq_symbol rq \<notin> set (xp_universe xp)) rqs, ''NONCANONICAL_SYMBOL'')]"

definition run_start :: "request list \<Rightarrow> instant" where
  "run_start rqs = fold min (map (\<lambda>rq. sr_from (rq_series rq)) (tl rqs)) (sr_from (rq_series (hd rqs)))"

text \<open>The simulation between the publication of the plan and the journal.\<close>

definition portfolio_simulate :: "portfolio_externals \<Rightarrow> request list \<Rightarrow> portfolio_policy \<Rightarrow> control \<Rightarrow> coordinator res" where
  "portfolio_simulate xp rqs p ct =
     (let c = coordinator_init xp (binding_of xp rqs p ct); gaps = run_gaps xp rqs p ct in
      if gaps \<noteq> [] \<or> ct_paper_halt ct
      then portfolio_halt xp (run_start rqs) (Some (if gaps \<noteq> [] then join_texts gaps else ''EXPLICIT_PAPER_HALT'')) c
      else bindR (portfolio_actions xp p ct rqs (run_start rqs)) (\<lambda>as. foldR (portfolio_act xp ct rqs) as c))"

section \<open>Publication\<close>

record directory =
  dir_plan :: "string option"
  dir_journal :: "(string \<times> string) list"
  dir_files :: "(string \<times> string) list"

definition publish :: "string \<times> string \<Rightarrow> (string \<times> string) list \<Rightarrow> (string \<times> string) list res" where
  "publish p files = (case map_of files (fst p) of
      Some raw \<Rightarrow> if raw \<noteq> snd p then Inl (ValueError ''CONTENT_CONFLICT'') else Inr files
    | None \<Rightarrow> Inr (files @ [p]))"

text \<open>Publications in sequence, cut off before the \<open>stop\<close>-th one; what was written before a failure stays.\<close>

fun publish_all :: "int option \<Rightarrow> (string \<times> string) list \<Rightarrow> (string \<times> string) list \<Rightarrow> unit res \<times> (string \<times> string) list" where
  "publish_all stop [] files = (Inr (), files)"
| "publish_all stop (p # ps) files =
     (if (case stop of None \<Rightarrow> False | Some n \<Rightarrow> n \<le> 0) then (Inl (InterruptedError ''SYNTHETIC_CRASH_BEFORE_EVENT''), files)
      else case publish p files of
        Inl e \<Rightarrow> (Inl e, files)
      | Inr files' \<Rightarrow> publish_all (map_option (\<lambda>n. n - 1) stop) ps files')"

definition event_name :: "nat \<Rightarrow> string" where
  "event_name i = zero_pad 6 (nat_str i) @ ''.json''"

definition journal_files :: "run_externals \<Rightarrow> coordinator \<Rightarrow> (string \<times> string) list" where
  "journal_files xr c = map (\<lambda>(i, e). (event_name i, xr_row_json xr e)) (enumerate 0 (co_events c))"

definition summary_name :: string where
  "summary_name = ''run-summary.json''"

definition check_journal :: "run_externals \<Rightarrow> coordinator \<Rightarrow> directory \<Rightarrow> unit res" where
  "check_journal xr c d =
     (let existing = sort_key fst (dir_journal d); n = length existing in checks
       [(map_of (dir_files d) summary_name \<noteq> None \<and> n \<noteq> length (co_events c), ''PAPER_HALTED:TRUNCATED_COMPLETED_JOURNAL''),
        (map fst existing \<noteq> map event_name [0..<n] \<or> length (co_events c) < n, ''PAPER_HALTED:CORRUPT_JOURNAL''),
        (map snd existing \<noteq> map (xr_row_json xr) (take n (co_events c)), ''PAPER_HALTED:JOURNAL_REPLAY_MISMATCH'')])"

definition report_files :: "run_externals \<Rightarrow> coordinator \<Rightarrow> (string \<times> string) list res" where
  "report_files xr c = bindR (portfolio_reports 40 c) (\<lambda>rs. Inr (map (\<lambda>(name, v). (name, xr_report_json xr v)) rs))"

definition check_outputs :: "(string \<times> string) list \<Rightarrow> (string \<times> string) list \<Rightarrow> int option \<Rightarrow> directory \<Rightarrow> unit res" where
  "check_outputs journal reports interrupt_after d = checks
     [(map_of (dir_files d) summary_name \<noteq> None \<and> list_ex (\<lambda>p. map_of (dir_files d) (fst p) \<noteq> Some (snd p)) reports,
       ''PAPER_HALTED:COMPLETED_REPORT_MISMATCH''),
      (byte_limit < sum_list (map (\<lambda>p. int (length (snd p))) reports) + sum_list (map (\<lambda>p. int (length (snd p))) journal), ''PORTFOLIO_OUTPUT_BUDGET''),
      (case interrupt_after of None \<Rightarrow> False | Some n \<Rightarrow> n < 0, ''INVALID_INTERRUPT'')]"

definition summary_of :: "run_externals \<Rightarrow> request list \<Rightarrow> (string \<times> string) list \<Rightarrow> coordinator \<Rightarrow> portfolio_summary res" where
  "summary_of xr rqs reports c =
     bindR (account_of c) (\<lambda>a.
     Inr \<lparr>su_run_id = co_run_id c, su_risk_policy_hash = xp_policy_hash (xr_portfolio xr) (co_policy c),
          su_scope = pb_scope (co_binding c), su_event_count = length (co_events c), su_final_hash = last_hash (co_events c),
          su_account = a, su_reports = map (\<lambda>p. (fst p, xp_sha (xr_portfolio xr) (snd p))) reports,
          su_simulation_complete = (\<not> co_halted c \<and> co_positions c = [] \<and> co_reservations c = []), su_halted = co_halted c,
          su_qualified_genuine = (if rk_fixture_only (pf_base (co_policy c)) then 0
            else length (remdups (map (\<lambda>rq. (pr_symbol (row_result (rq_qualification rq)), pr_strategy_id (row_result (rq_qualification rq))))
              (filter (\<lambda>rq. primary (row_result (rq_qualification rq)) = ''QUALIFIED'') rqs))))\<rparr>)"

text \<open>From the simulated coordinator to the published summary.\<close>

definition publish_run :: "run_externals \<Rightarrow> request list \<Rightarrow> int option \<Rightarrow> coordinator \<Rightarrow> directory \<Rightarrow> portfolio_summary res \<times> directory" where
  "publish_run xr rqs interrupt_after c d =
     (case bindR (check_journal xr c d) (\<lambda>_. bindR (report_files xr c) (\<lambda>reports.
             bindR (check_outputs (journal_files xr c) reports interrupt_after d) (\<lambda>_. Inr reports))) of
        Inl e \<Rightarrow> (Inl e, d)
      | Inr reports \<Rightarrow>
          (case publish_all interrupt_after (journal_files xr c) (dir_journal d) of
             (Inl e, journal) \<Rightarrow> (Inl e, d\<lparr>dir_journal := journal\<rparr>)
           | (Inr _, journal) \<Rightarrow>
               (case publish_all None reports (dir_files d) of
                  (Inl e, files) \<Rightarrow> (Inl e, d\<lparr>dir_journal := journal, dir_files := files\<rparr>)
                | (Inr _, files) \<Rightarrow>
                    (case summary_of xr rqs reports c of
                       Inl e \<Rightarrow> (Inl e, d\<lparr>dir_journal := journal, dir_files := files\<rparr>)
                     | Inr s \<Rightarrow>
                         (case publish (summary_name, xr_summary_json xr s) files of
                            Inl e \<Rightarrow> (Inl e, d\<lparr>dir_journal := journal, dir_files := files\<rparr>)
                          | Inr files' \<Rightarrow> (Inr s, d\<lparr>dir_journal := journal, dir_files := files'\<rparr>))))))"

definition admit_batch ::
  "run_externals \<Rightarrow> request list \<Rightarrow> portfolio_policy \<Rightarrow> control \<Rightarrow> directory \<Rightarrow> (request list \<times> string) res" where
  "admit_batch xr rqs p ct d =
     (let xp = xr_portfolio xr in
      bindR (checks
        [(pf_version p \<noteq> policy_version \<or> ct_version ct \<noteq> policy_version, ''PAPER_HALTED:UNSUPPORTED_POLICY_FINGERPRINT_VERSION''),
         (case dir_plan d of None \<Rightarrow> False | Some t \<Rightarrow> \<not> xr_plan_ok xr t, ''PAPER_HALTED:INCOMPATIBLE_CHECKPOINT_VERSION'')]) (\<lambda>_.
      bindR (check_batch (xp_universe xp) rqs) (\<lambda>_.
      let rqs = ordered_requests xp rqs; plan = xp_binding_json xp (binding_of xp rqs p ct) in
      bindR (foldR claim_dataset rqs []) (\<lambda>_.
      bindR (checks
        [(byte_limit < int (length plan), ''PORTFOLIO_INPUT_BUDGET''),
         (case dir_plan d of None \<Rightarrow> False | Some t \<Rightarrow> t \<noteq> plan, ''PAPER_HALTED:REPLAY_BINDING_MISMATCH'')]) (\<lambda>_.
      Inr (rqs, plan))))))"

definition portfolio_run ::
  "run_externals \<Rightarrow> request list \<Rightarrow> portfolio_policy \<Rightarrow> control \<Rightarrow> int option \<Rightarrow> directory \<Rightarrow> portfolio_summary res \<times> directory" where
  "portfolio_run xr rqs p ct interrupt_after d =
     (case admit_batch xr rqs p ct d of
        Inl e \<Rightarrow> (Inl e, d)
      | Inr (rqs', plan) \<Rightarrow>
          (case portfolio_simulate (xr_portfolio xr) rqs' p ct of
             Inl e \<Rightarrow> (Inl e, d\<lparr>dir_plan := Some plan\<rparr>)
           | Inr c \<Rightarrow> publish_run xr rqs' interrupt_after c (d\<lparr>dir_plan := Some plan\<rparr>)))"

end
