(* ===== verification/Coordinator.thy ===== *)
theory Coordinator
  imports Portfolio_Run
begin

text \<open>
  Reasoning about the portfolio coordinator: what one \<open>emit\<close> changes, and the two locales through which an invariant of
  the coordinator is carried from single emissions to whole runs.  \<open>portfolio_writer\<close> treats the reservation and fill of an
  entry as one block, \<open>portfolio_emitter\<close> is the special case of an invariant that every single emission keeps.
\<close>

section \<open>One emission\<close>

lemma portfolio_emitE:
  assumes "portfolio_emit xp key ev tm c = Inr c'"
  obtains a c1 c2 a' where "account_of c = Inr a" "move_order key ev tm c = Inr c1" "effect key ev tm c1 = Inr c2"
    "account_of c2 = Inr a'" "co_events c \<noteq> [] \<longrightarrow> je_timestamp (last (co_events c)) \<le> tm"
    "c' = c2\<lparr>co_events := co_events c2 @ [journal_entry xp key ev tm (map_option or_state (map_of (co_orders c) key))
       (map_of (co_orders c2) key) a a' c]\<rparr>"
  using assms by (auto simp: portfolio_emit_def bindR_Inr_iff checks_Inr_iff)

text \<open>The order that a life cycle event leaves at its key.\<close>

lemma transition_from_None [simp]: "s \<in> order_transitions None \<longleftrightarrow> s = PROPOSED"
  by simp

lemma no_transition_to_PROPOSED [simp]: "PROPOSED \<notin> order_transitions (Some s)"
  by (cases s) auto

lemma move_order_None: "order_state_of ev = None \<Longrightarrow> move_order key ev tm c = Inr c1 \<longleftrightarrow> c1 = c"
  by (auto simp: move_order_def)

lemma move_order_SomeE:
  assumes "move_order key ev tm c = Inr c1" and "order_state_of ev = Some s"
  obtains r where "c1 = put_order key r c" "or_state r = s" "s \<in> order_transitions (map_option or_state (map_of (co_orders c) key))"
    "map_of (co_orders c) key = None \<and> s = PROPOSED \<or> (\<exists>r0. map_of (co_orders c) key = Some r0 \<and> r = r0\<lparr>or_state := s\<rparr> \<and> s \<noteq> PROPOSED)"
proof -
  have t: "s \<in> order_transitions (map_option or_state (map_of (co_orders c) key))"
    using assms by (auto simp: move_order_def split: if_splits)
  show ?thesis
  proof (cases "map_of (co_orders c) key")
    case None
    with t have s: "s = PROPOSED" by simp
    then obtain symbol strategy qualification sig where ev: "ev = Propose symbol strategy qualification sig"
      using assms(2) by (cases ev) auto
    have "c1 = put_order key (new_order key symbol strategy qualification sig tm) c"
      using assms(1) None by (simp add: move_order_def ev)
    then show ?thesis by (rule that) (use s t None in \<open>simp_all add: new_order_def\<close>)
  next
    case (Some r0)
    with t have s: "s \<noteq> PROPOSED" by (cases "or_state r0") auto
    have "c1 = put_order key (r0\<lparr>or_state := s\<rparr>) c"
      using assms s Some t by (cases ev) (auto simp: move_order_def)
    then show ?thesis by (rule that) (use s t Some in simp_all)
  qed
qed

lemma put_order_simps [simp]:
  "co_positions (put_order key r c) = co_positions c" "co_reservations (put_order key r c) = co_reservations c"
  "co_marks (put_order key r c) = co_marks c" "co_events (put_order key r c) = co_events c"
  "co_halted (put_order key r c) = co_halted c" "co_binding (put_order key r c) = co_binding c"
  "co_run_id (put_order key r c) = co_run_id c" "co_cash (put_order key r c) = co_cash c"
  "co_opening (put_order key r c) = co_opening c" "co_realized (put_order key r c) = co_realized c"
  "map_of (co_orders (put_order key r c)) = (map_of (co_orders c))(key \<mapsto> r)"
  by (simp_all add: put_order_def update_conv')

lemma order_at_put [simp]: "order_at (put_order key r c) key = Inr r"
  by (simp add: order_at_def)

text \<open>What a move and an effect leave alone.\<close>

lemma move_order_frame:
  assumes "move_order key ev tm c = Inr c1"
  shows "co_positions c1 = co_positions c" "co_reservations c1 = co_reservations c" "co_events c1 = co_events c"
    "co_halted c1 = co_halted c" "co_binding c1 = co_binding c" "co_run_id c1 = co_run_id c" "co_opening c1 = co_opening c"
  using assms by (auto simp: move_order_def split: option.splits if_splits portfolio_event.splits)

lemma effect_frame:
  assumes "effect key ev tm c = Inr c2"
  shows "co_events c2 = co_events c" "co_binding c2 = co_binding c" "co_run_id c2 = co_run_id c" "co_opening c2 = co_opening c"
    "co_halted c2 \<longleftrightarrow> co_halted c \<or> is_halt ev"
  using assms by (cases ev; auto simp: reserve_cash_def open_position_def close_position_def bindR_Inr_iff Let_def split: if_splits)+

lemma portfolio_emit_frame:
  assumes "portfolio_emit xp key ev tm c = Inr c'"
  shows "co_binding c' = co_binding c" "co_run_id c' = co_run_id c" "co_opening c' = co_opening c"
    "co_halted c' \<longleftrightarrow> co_halted c \<or> is_halt ev"
    "\<exists>e. co_events c' = co_events c @ [e] \<and> je_event e = ev"
  using assms
  by (auto elim!: portfolio_emitE simp: move_order_frame effect_frame journal_entry_def Let_def journal_body.defs)

section \<open>Blocks of emissions\<close>

fun is_reserve :: "portfolio_event \<Rightarrow> bool" where
  "is_reserve (Reserve amount quantity tim) = True" | "is_reserve _ = False"

definition entering :: "portfolio_event \<Rightarrow> bool" where
  "entering ev \<longleftrightarrow> (\<exists>s \<in> {RESERVED, ACCEPTED, FILLED}. order_state_of ev = Some s)"

lemma entering_simps [simp]:
  "\<not> entering (Propose symbol strategy qualification sig)" "\<not> entering Risk_Check" "\<not> entering (Reject reason)"
  "entering (Reserve amount quantity tim)" "entering Accept" "entering (Fill price tim quantity fees stop target)"
  "\<not> entering (Exit_Pending reason)" "\<not> entering (Close price fees reason)" "\<not> entering (Cancel why)"
  "\<not> entering (Mark symbol price)" "\<not> entering (Session_End finished)" "\<not> entering (Halt reason)"
  by (simp_all add: entering_def)

definition exposed :: "coordinator \<Rightarrow> int" where
  "exposed c = int (length (co_positions c)) + int (length (co_reservations c))"

text \<open>A session end tells the truth: it is complete when the book is flat, and a book that is not flat has halted.\<close>

definition truthful :: "portfolio_event \<Rightarrow> coordinator \<Rightarrow> bool" where
  "truthful ev c \<longleftrightarrow> (\<forall>finished. ev = Session_End finished \<longrightarrow>
     (finished \<longleftrightarrow> co_positions c = [] \<and> co_reservations c = []) \<and> (co_positions c = [] \<or> co_halted c))"

lemma truthful_simps [simp]:
  "\<not> is_session_end ev \<Longrightarrow> truthful ev c"
  "truthful (Session_End finished) c \<longleftrightarrow>
     (finished \<longleftrightarrow> co_positions c = [] \<and> co_reservations c = []) \<and> (co_positions c = [] \<or> co_halted c)"
  by (auto simp: truthful_def)

lemma reserve_and_fillE:
  assumes "reserve_and_fill xp key rq r price quantity tm cancel_signals c = Inr c'"
  obtains amount fee tim d where "portfolio_emit xp key (Reserve amount quantity tim) tm c = Inr d"
    "(\<exists>why. portfolio_emit xp key (Cancel why) tm d = Inr c') \<or> (\<exists>e stop target. portfolio_emit xp key Accept tm d = Inr e
       \<and> portfolio_emit xp key (Fill price tim quantity fee stop target) tm e = Inr c')"
proof -
  from assms obtain fee tim d
    where d: "portfolio_emit xp key (Reserve (prec40 (times40 price quantity + fee)) quantity tim) tm c = Inr d"
      and rest: "(if or_signal r \<in> set cancel_signals then portfolio_emit xp key (Cancel ''EXPLICIT_PAPER_CANCEL'') tm d
         else bindR (portfolio_emit xp key Accept tm d)
           (portfolio_emit xp key (Fill price tim quantity fee (prec40 (price * prec40 (1 - def_stop (rq_definition rq))))
              (prec40 (price * prec40 (1 + def_target (rq_definition rq))))) tm)) = Inr c'"
    unfolding reserve_and_fill_def bindR_Inr_iff [of "quote_total _ _ _ _ _"] bindR_Inr_iff [of "decision_timing _ _"]
      bindR_Inr_iff [of "portfolio_emit _ _ (Reserve _ _ _) _ _"] by blast
  show thesis
  proof (rule that [OF d], cases "or_signal r \<in> set cancel_signals")
    case True
    with rest show "(\<exists>why. portfolio_emit xp key (Cancel why) tm d = Inr c') \<or> (\<exists>e stop target. portfolio_emit xp key Accept tm d = Inr e
       \<and> portfolio_emit xp key (Fill price tim quantity fee stop target) tm e = Inr c')" by (simp only: if_True) blast
  next
    case False
    with rest show "(\<exists>why. portfolio_emit xp key (Cancel why) tm d = Inr c') \<or> (\<exists>e stop target. portfolio_emit xp key Accept tm d = Inr e
       \<and> portfolio_emit xp key (Fill price tim quantity fee stop target) tm e = Inr c')" by (simp only: if_False bindR_Inr_iff) blast
  qed
qed

locale portfolio_writer =
  fixes xp :: portfolio_externals and inv :: "coordinator \<Rightarrow> bool"
  assumes plain: "inv c \<Longrightarrow> \<not> entering ev \<Longrightarrow> truthful ev c \<Longrightarrow> portfolio_emit xp key ev tm c = Inr c' \<Longrightarrow> inv c'"
    and block: "inv c \<Longrightarrow> \<not> co_halted c \<Longrightarrow> exposed c < position_limit (co_policy c) \<Longrightarrow>
      reserve_and_fill xp key rq r price quantity tm cancel_signals c = Inr c' \<Longrightarrow> inv c'"
    and new_day: "inv c \<Longrightarrow> inv (c\<lparr>co_day := day, co_day_equity := equity\<rparr>)"
    and consume: "inv c \<Longrightarrow> inv (c\<lparr>co_consumed := sigs\<rparr>)"
begin

lemma emitted: "portfolio_emit xp key ev tm c = Inr c' \<Longrightarrow> inv c \<Longrightarrow> \<not> entering ev \<Longrightarrow> \<not> is_session_end ev \<Longrightarrow> inv c'"
  by (rule plain) simp_all

lemma keeps_halt: "inv c \<Longrightarrow> portfolio_halt xp tm reason c = Inr c' \<Longrightarrow> inv c'"
  by (auto simp: portfolio_halt_def split: if_splits elim: emitted)

lemma keeps_guard:
  assumes "inv c" and "portfolio_guard xp tm c = Inr c'"
  shows "inv c'"
proof -
  from assms(2) obtain d where m: "(if co_day c \<noteq> Some (nse_date tm)
            then bindR (account_of c) (\<lambda>a. Inr (c\<lparr>co_day := Some (nse_date tm), co_day_equity := ac_equity a\<rparr>))
            else Inr c) = Inr d"
    and rest: "(case rk_daily_loss (pf_base (co_policy d)) of None \<Rightarrow> Inr d | Some limit \<Rightarrow> if limit = 0 then Inr d
       else bindR (account_of d) (\<lambda>a. if limit \<le> prec40 (co_day_equity d - ac_equity a)
         then portfolio_halt xp tm (Some ''DAILY_LOSS_BREACH'') d else Inr d)) = Inr c'"
    unfolding portfolio_guard_def bindR_Inr_iff by blast
  have d: "inv d" using m assms(1) new_day by (auto simp: bindR_Inr_iff split: if_splits)
  have "c' = d \<or> portfolio_halt xp tm (Some ''DAILY_LOSS_BREACH'') d = Inr c'"
    using rest by (auto simp: bindR_Inr_iff split: option.splits if_splits)
  then show ?thesis using d keeps_halt by blast
qed

lemma keeps_enter:
  assumes "inv c" and "portfolio_enter xp key rq price quantity tm ct c = Inr c'"
  shows "inv c'"
proof -
  from assms(2) obtain r where r: "order_at c key = Inr r"
    and rest: "or_state r \<noteq> PROPOSED \<and> c' = c \<or> (\<exists>d. portfolio_emit xp key Risk_Check tm c = Inr d)"
    by (auto simp: portfolio_enter_def bindR_Inr_iff split: if_splits)
  show ?thesis
  proof (cases "or_state r = PROPOSED")
    case False
    then show ?thesis using assms r by (simp add: portfolio_enter_def)
  next
    case True
    with rest obtain d where d: "portfolio_emit xp key Risk_Check tm c = Inr d" by blast
    have id: "inv d" by (rule emitted [OF d assms(1)]) simp_all
    show ?thesis
    proof (cases "entry_refusal r tm d")
      case (Some reason)
      then have "portfolio_emit xp key (Reject (Some reason)) tm d = Inr c'" using assms(2) r True d by (simp add: portfolio_enter_def)
      then show ?thesis by (rule emitted) (simp_all add: id)
    next
      case None
      then have free: "\<not> co_halted d" "exposed d < position_limit (co_policy d)"
        by (auto simp: entry_refusal_def exposed_def Let_def split: if_splits)
      show ?thesis
        using assms(2) r True d None id keeps_halt block [OF id free]
        by (auto simp: portfolio_enter_def bindR_Inr_iff Let_def split: option.splits if_splits elim!: emitted)
    qed
  qed
qed

lemma keeps_cancel: "inv c \<Longrightarrow> cancel_order xp tm p c = Inr c' \<Longrightarrow> inv c'"
  by (auto simp: cancel_order_def split: if_splits elim: emitted)

lemma keeps_end:
  assumes "inv c" and "act_end xp tm c = Inr c'"
  shows "inv c'"
proof -
  from assms(2) obtain d e where d: "foldR (cancel_order xp tm) (co_orders c) c = Inr d"
    and e: "(if co_positions d \<noteq> [] then portfolio_halt xp tm (Some ''EOD_UNRESOLVED_POSITION'') d else Inr d) = Inr e"
    and f: "portfolio_emit xp portfolio_key (Session_End (co_positions e = [] \<and> co_reservations e = [])) tm e = Inr c'"
    by (auto simp: act_end_def bindR_Inr_iff)
  have "inv d" using d assms(1) by (rule foldR_invariant) (rule keeps_cancel)
  then have ie: "inv e" using e keeps_halt by (auto split: if_splits)
  have "co_positions e = [] \<or> co_halted e"
    using e by (auto simp: portfolio_halt_def portfolio_emit_frame split: if_splits)
  then show ?thesis by (intro plain [OF ie _ _ f]) simp_all
qed

lemma keeps_act:
  assumes "inv c" and "portfolio_act xp ct rqs a c = Inr c'"
  shows "inv c'"
proof -
  from assms(2) obtain d where d: "portfolio_guard xp (at_time a) c = Inr d"
    by (auto simp: portfolio_act_def bindR_Inr_iff Let_def split: if_splits)
  have id: "inv d" using assms(1) d by (rule keeps_guard)
  let ?key = "action_order_key xp a c"
  let ?rq = "rqs ! at_index a"
  have "\<not> length rqs \<le> at_index a" using assms(2) by (auto simp: portfolio_act_def)
  note step = assms(2) [unfolded portfolio_act_def Let_def, simplified d bindR_simps if_not_P [OF this]]
  show ?thesis
  proof (cases "at_kind a")
    case Do_Propose
    with step obtain x where x: "portfolio_emit xp ?key (Propose (rq_symbol ?rq) (def_identifier (rq_definition ?rq))
        (xt_row_hash (xp_paper xp) (rq_qualification ?rq)) (at_signal a)) (at_time a) d = Inr x"
      and y: "(if at_signal a \<in> set (co_consumed x) then portfolio_emit xp ?key (Reject (Some ''DUPLICATE_SIGNAL'')) (at_time a) x
         else Inr (x\<lparr>co_consumed := at_signal a # co_consumed x\<rparr>)) = Inr c'"
      by (auto simp: act_propose_def bindR_Inr_iff)
    have ix: "inv x" by (rule emitted [OF x id]) simp_all
    show ?thesis
    proof (cases "at_signal a \<in> set (co_consumed x)")
      case True
      with y have "portfolio_emit xp ?key (Reject (Some ''DUPLICATE_SIGNAL'')) (at_time a) x = Inr c'" by simp
      then show ?thesis by (rule emitted) (simp_all add: ix)
    qed (use y ix consume in auto)
  next
    case (Do_Enter price quantity)
    then show ?thesis using step id keeps_enter by simp
  next
    case (Do_Exit price reason)
    have "c' = d \<or> (\<exists>x y w fee. portfolio_emit xp ?key (Exit_Pending reason) (at_time a) d = Inr x
        \<and> portfolio_emit xp ?key (Close w fee reason) (at_time a) x = Inr y \<and> portfolio_guard xp (at_time a) y = Inr c')"
      using step Do_Exit by (auto simp: act_exit_def bindR_Inr_iff split: option.splits if_splits)
    then show ?thesis
    proof (elim disjE exE conjE)
      fix x y w fee assume x: "portfolio_emit xp ?key (Exit_Pending reason) (at_time a) d = Inr x"
        and y: "portfolio_emit xp ?key (Close w fee reason) (at_time a) x = Inr y" and z: "portfolio_guard xp (at_time a) y = Inr c'"
      have "inv x" by (rule emitted [OF x id]) simp_all
      then have "inv y" by (rule emitted [OF y]) simp_all
      then show "inv c'" using z by (rule keeps_guard)
    qed (simp add: id)
  next
    case (Do_Reject reason)
    then obtain t x where x: "x = d \<or> portfolio_halt xp (at_time a) reason d = Inr x"
      and y: "c' = x \<or> portfolio_emit xp ?key (Reject reason) (at_time a) x = Inr c'"
      using step by (auto simp: act_reject_def bindR_Inr_iff split: option.splits if_splits)
    have ix: "inv x" using x id keeps_halt by blast
    from y show ?thesis
    proof
      assume "portfolio_emit xp ?key (Reject reason) (at_time a) x = Inr c'"
      then show ?thesis by (rule emitted) (simp_all add: ix)
    qed (simp add: ix)
  next
    case (Do_Halt reason)
    then show ?thesis using step id keeps_halt by simp
  next
    case (Do_Mark price)
    with step obtain x where x: "portfolio_emit xp portfolio_key (Mark (rq_symbol ?rq) price) (at_time a) d = Inr x"
      and y: "portfolio_guard xp (at_time a) x = Inr c'"
      by (auto simp: bindR_Inr_iff)
    have "inv x" by (rule emitted [OF x id]) simp_all
    then show ?thesis using y by (rule keeps_guard)
  next
    case Do_End
    then show ?thesis using step id keeps_end by simp
  qed
qed

lemma keeps_acts: "inv c \<Longrightarrow> foldR (portfolio_act xp ct rqs) as c = Inr c' \<Longrightarrow> inv c'"
  by (rule foldR_invariant) (auto intro: keeps_act)

lemma simulated:
  assumes "portfolio_simulate xp rqs p ct = Inr c" and "inv (coordinator_init xp (binding_of xp rqs p ct))"
  shows "inv c"
proof (cases "run_gaps xp rqs p ct \<noteq> [] \<or> ct_paper_halt ct")
  case True
  with assms(1) have "\<exists>reason. portfolio_halt xp (run_start rqs) reason (coordinator_init xp (binding_of xp rqs p ct)) = Inr c"
    by (simp only: portfolio_simulate_def Let_def if_True) blast
  then show ?thesis using keeps_halt [OF assms(2)] by blast
next
  case False
  with assms(1) have "\<exists>as. foldR (portfolio_act xp ct rqs) as (coordinator_init xp (binding_of xp rqs p ct)) = Inr c"
    by (simp only: portfolio_simulate_def Let_def if_False bindR_Inr_iff) blast
  then show ?thesis using keeps_acts [OF assms(2)] by blast
qed

end

text \<open>
  An invariant that every emission keeps, where an entering emission may rely on a portfolio that has not halted, and a
  reservation on one below its position limit.
\<close>

locale portfolio_emitter =
  fixes xp :: portfolio_externals and inv :: "coordinator \<Rightarrow> bool"
  assumes emits: "inv c \<Longrightarrow> entering ev \<longrightarrow> \<not> co_halted c \<Longrightarrow> is_reserve ev \<longrightarrow> exposed c < position_limit (co_policy c) \<Longrightarrow>
      portfolio_emit xp key ev tm c = Inr c' \<Longrightarrow> inv c'"
    and day: "inv c \<Longrightarrow> inv (c\<lparr>co_day := day, co_day_equity := equity\<rparr>)"
    and consumed: "inv c \<Longrightarrow> inv (c\<lparr>co_consumed := sigs\<rparr>)"

sublocale portfolio_emitter \<subseteq> portfolio_writer
proof
  fix c c' :: coordinator and ev key tm
  assume i: "inv c" and n: "\<not> entering ev" and e: "portfolio_emit xp key ev tm c = Inr c'"
  have "\<not> is_reserve ev" using n by (cases ev) simp_all
  then show "inv c'" by (intro emits [OF i _ _ e]) (simp_all add: n)
next
  fix c c' :: coordinator and key rq r price quantity tm cancel_signals
  assume i: "inv c" and h: "\<not> co_halted c" and l: "exposed c < position_limit (co_policy c)"
    and f: "reserve_and_fill xp key rq r price quantity tm cancel_signals c = Inr c'"
  from f obtain amount fee tim d where d: "portfolio_emit xp key (Reserve amount quantity tim) tm c = Inr d"
    and rest: "(\<exists>why. portfolio_emit xp key (Cancel why) tm d = Inr c') \<or> (\<exists>e stop target. portfolio_emit xp key Accept tm d = Inr e
       \<and> portfolio_emit xp key (Fill price tim quantity fee stop target) tm e = Inr c')"
    by (rule reserve_and_fillE)
  have id: "inv d" by (rule emits [OF i _ _ d]) (use h l in simp_all)
  have hd: "\<not> co_halted d" using h portfolio_emit_frame(4) [OF d] by simp
  from rest show "inv c'"
  proof (elim disjE exE conjE)
    fix why assume x: "portfolio_emit xp key (Cancel why) tm d = Inr c'"
    show ?thesis by (rule emits [OF id _ _ x]) simp_all
  next
    fix e stop target assume x: "portfolio_emit xp key Accept tm d = Inr e"
      and y: "portfolio_emit xp key (Fill price tim quantity fee stop target) tm e = Inr c'"
    have "inv e" by (rule emits [OF id _ _ x]) (use hd in simp_all)
    moreover have "\<not> co_halted e" using hd portfolio_emit_frame(4) [OF x] by simp
    ultimately show ?thesis by (intro emits [OF _ _ _ y]) simp_all
  qed
qed (rule day consumed, assumption)+

end
