(* ===== verification/Portfolio_Books.thy ===== *)
theory Portfolio_Books
  imports Coordinator
begin

text \<open>
  Four invariants of the portfolio coordinator, each an interpretation of a locale of \<open>Coordinator\<close>: the books agree with the
  states of the orders, the journal is a chain of legal moves, every recorded account is balanced and within the position
  limit, and nothing is entered after a halt.
\<close>

section \<open>Books and orders\<close>

definition books_match :: "coordinator \<Rightarrow> bool" where
  "books_match c \<longleftrightarrow>
     distinct (map fst (co_positions c)) \<and> distinct (map fst (co_reservations c))
     \<and> (\<forall>s k. map_of (co_positions c) s = Some k \<longleftrightarrow>
          (\<exists>r. map_of (co_orders c) k = Some r \<and> or_symbol r = s \<and> or_state r \<in> {FILLED, EXIT_PENDING}))
     \<and> (\<forall>k. map_of (co_reservations c) k \<noteq> None \<longleftrightarrow> (\<exists>r. map_of (co_orders c) k = Some r \<and> or_state r \<in> {RESERVED, ACCEPTED}))"

text \<open>The same on the maps alone.\<close>

definition maps_match :: "(string \<rightharpoonup> order) \<Rightarrow> (string \<rightharpoonup> string) \<Rightarrow> (string \<rightharpoonup> rat) \<Rightarrow> bool" where
  "maps_match orders positions reservations \<longleftrightarrow>
     (\<forall>s k. positions s = Some k \<longleftrightarrow> (\<exists>r. orders k = Some r \<and> or_symbol r = s \<and> or_state r \<in> {FILLED, EXIT_PENDING}))
     \<and> (\<forall>k. reservations k \<noteq> None \<longleftrightarrow> (\<exists>r. orders k = Some r \<and> or_state r \<in> {RESERVED, ACCEPTED}))"

lemma books_match_maps:
  "books_match c \<longleftrightarrow> distinct (map fst (co_positions c)) \<and> distinct (map fst (co_reservations c))
     \<and> maps_match (map_of (co_orders c)) (map_of (co_positions c)) (map_of (co_reservations c))"
  by (simp add: books_match_def maps_match_def)

text \<open>Moves that touch neither book.\<close>

definition booked :: "order_state \<Rightarrow> bool" where
  "booked s \<longleftrightarrow> s \<in> {RESERVED, ACCEPTED, FILLED, EXIT_PENDING}"

lemma maps_match_outside:
  assumes "maps_match orders positions reservations" "\<not> booked (or_state r)"
    "orders k = None \<or> (\<exists>r0. orders k = Some r0 \<and> \<not> booked (or_state r0))"
  shows "maps_match (orders(k \<mapsto> r)) positions reservations"
  using assms by (auto simp: maps_match_def booked_def)

lemma maps_match_same_side:
  assumes "maps_match orders positions reservations" "orders k = Some r0" "or_symbol r = or_symbol r0"
    "or_state r0 \<in> {RESERVED, ACCEPTED} \<and> or_state r \<in> {RESERVED, ACCEPTED}
       \<or> or_state r0 \<in> {FILLED, EXIT_PENDING} \<and> or_state r \<in> {FILLED, EXIT_PENDING}"
  shows "maps_match (orders(k \<mapsto> r)) positions reservations"
  using assms by (auto simp: maps_match_def)

lemma maps_match_reserve:
  assumes "maps_match orders positions reservations" "orders k = Some r0" "\<not> booked (or_state r0)" "or_state r = RESERVED"
  shows "maps_match (orders(k \<mapsto> r)) positions (reservations(k \<mapsto> amount))"
  using assms by (auto simp: maps_match_def booked_def)

lemma maps_match_held:
  "maps_match orders positions reservations \<Longrightarrow> positions s = Some k \<longleftrightarrow>
     (\<exists>r. orders k = Some r \<and> or_symbol r = s \<and> or_state r \<in> {FILLED, EXIT_PENDING})"
  by (simp only: maps_match_def)

lemma maps_match_fill:
  assumes m: "maps_match orders positions reservations" and k: "orders k = Some r0" and s0: "or_state r0 \<in> {RESERVED, ACCEPTED}"
    and r: "or_state r = FILLED" "or_symbol r = or_symbol r0" and free: "positions (or_symbol r0) = None"
  shows "maps_match (orders(k \<mapsto> r)) (positions(or_symbol r0 \<mapsto> k)) (reservations(k := None))"
  unfolding maps_match_def
proof (intro conjI allI)
  fix s j
  show "(positions(or_symbol r0 \<mapsto> k)) s = Some j \<longleftrightarrow>
      (\<exists>x. (orders(k \<mapsto> r)) j = Some x \<and> or_symbol x = s \<and> or_state x \<in> {FILLED, EXIT_PENDING})"
  proof (cases "j = k")
    case True
    then show ?thesis using maps_match_held [OF m, of s k] k s0 r by auto
  next
    case False
    then show ?thesis using maps_match_held [OF m, of s j] free by auto
  qed
next
  fix j
  show "(reservations(k := None)) j \<noteq> None \<longleftrightarrow> (\<exists>x. (orders(k \<mapsto> r)) j = Some x \<and> or_state x \<in> {RESERVED, ACCEPTED})"
    using m r by (auto simp: maps_match_def)
qed

lemma maps_match_close:
  assumes m: "maps_match orders positions reservations" and k: "orders k = Some r0" and s0: "or_state r0 = EXIT_PENDING"
    and r: "or_state r = CLOSED" "or_symbol r = or_symbol r0"
  shows "maps_match (orders(k \<mapsto> r)) (positions(or_symbol r0 := None)) reservations"
  unfolding maps_match_def
proof (intro conjI allI)
  fix s j
  have own: "positions (or_symbol r0) = Some k" using k s0 by (simp add: maps_match_held [OF m])
  show "(positions(or_symbol r0 := None)) s = Some j \<longleftrightarrow>
      (\<exists>x. (orders(k \<mapsto> r)) j = Some x \<and> or_symbol x = s \<and> or_state x \<in> {FILLED, EXIT_PENDING})"
  proof (cases "j = k")
    case True
    then show ?thesis using maps_match_held [OF m, of s k] k r own by auto
  next
    case False
    then show ?thesis using maps_match_held [OF m, of s j] own by (cases "s = or_symbol r0") auto
  qed
next
  fix j
  show "reservations j \<noteq> None \<longleftrightarrow> (\<exists>x. (orders(k \<mapsto> r)) j = Some x \<and> or_state x \<in> {RESERVED, ACCEPTED})"
    using m k s0 r by (auto simp: maps_match_def)
qed

lemma maps_match_cancel:
  assumes "maps_match orders positions reservations" "orders k = Some r0" "or_state r0 \<notin> {FILLED, EXIT_PENDING}"
    "or_state r = CANCELLED"
  shows "maps_match (orders(k \<mapsto> r)) positions (reservations(k := None))"
  using assms by (auto simp: maps_match_def)

lemma transition_sources:
  "s \<in> order_transitions x \<Longrightarrow> s \<in> {PROPOSED, RISK_CHECKED, REJECTED} \<Longrightarrow> x = None \<or> (\<exists>t. x = Some t \<and> \<not> booked t)"
  "RESERVED \<in> order_transitions x \<Longrightarrow> x = Some RISK_CHECKED"
  "ACCEPTED \<in> order_transitions x \<Longrightarrow> x = Some RESERVED"
  "FILLED \<in> order_transitions x \<Longrightarrow> x = Some ACCEPTED"
  "EXIT_PENDING \<in> order_transitions x \<Longrightarrow> x = Some FILLED"
  "CLOSED \<in> order_transitions x \<Longrightarrow> x = Some EXIT_PENDING"
  "CANCELLED \<in> order_transitions x \<Longrightarrow> \<exists>t \<in> {PROPOSED, RISK_CHECKED, RESERVED, ACCEPTED}. x = Some t"
  by (cases x rule: order_transitions.cases; auto simp: booked_def)+


text \<open>One emission keeps the books in step.\<close>

lemma emit_keeps_books:
  assumes b: "books_match c" and e: "portfolio_emit xp key ev tm c = Inr c'"
  shows "books_match c'"
proof -
  from e obtain a c1 c2 a' row where c1: "move_order key ev tm c = Inr c1" and c2: "effect key ev tm c1 = Inr c2"
    and c': "c' = c2\<lparr>co_events := co_events c2 @ [row]\<rparr>"
    by (rule portfolio_emitE)
  let ?O = "map_of (co_orders c)" and ?P = "map_of (co_positions c)" and ?R = "map_of (co_reservations c)"
  have m: "maps_match ?O ?P ?R" and dp: "distinct (map fst (co_positions c))" and dr: "distinct (map fst (co_reservations c))"
    using b by (simp_all add: books_match_maps)
  have "books_match c2"
  proof (cases "order_state_of ev")
    case None
    then have "c1 = c" using c1 by (simp add: move_order_None)
    then show ?thesis using b c2 None by (cases ev) (auto simp: books_match_maps)
  next
    case (Some s)
    from c1 Some obtain r where put: "c1 = put_order key r c" and s: "or_state r = s"
      and t: "s \<in> order_transitions (map_option or_state (?O key))"
      and old: "?O key = None \<and> s = PROPOSED \<or> (\<exists>r0. ?O key = Some r0 \<and> r = r0\<lparr>or_state := s\<rparr> \<and> s \<noteq> PROPOSED)"
      by (rule move_order_SomeE)
    consider (out) "s \<in> {PROPOSED, RISK_CHECKED, REJECTED}" | (reserve) "s = RESERVED" | (accept) "s = ACCEPTED" | (filled) "s = FILLED"
      | (pending) "s = EXIT_PENDING" | (closed) "s = CLOSED" | (cancelled) "s = CANCELLED" by (cases s) auto
    then show ?thesis
    proof cases
      case out
      have "maps_match (?O(key \<mapsto> r)) ?P ?R"
        by (rule maps_match_outside [OF m]) (use out s old transition_sources(1) [OF t out] in \<open>auto simp: booked_def\<close>)
      moreover have "c2 = c1" using c2 Some out by (cases ev) auto
      ultimately show ?thesis using dp dr by (simp add: books_match_maps put)
    next
      case reserve
      obtain r0 where r0: "?O key = Some r0" "or_state r0 = RISK_CHECKED"
        using old reserve transition_sources(2) [OF t [unfolded reserve]] by auto
      have "maps_match (?O(key \<mapsto> r)) ?P (?R(key \<mapsto> amount))" for amount
        by (rule maps_match_reserve [OF m r0(1)]) (simp_all add: r0 s reserve booked_def)
      then show ?thesis
        using c2 Some reserve dp dr
        by (cases ev) (auto simp: books_match_maps put reserve_cash_def update_conv' distinct_update split: if_splits)
    next
      case accept
      obtain r0 where r0: "?O key = Some r0" "or_state r0 = RESERVED" "or_symbol r = or_symbol r0"
        using old accept transition_sources(3) [OF t [unfolded accept]] by auto
      have "maps_match (?O(key \<mapsto> r)) ?P ?R"
        by (rule maps_match_same_side [OF m r0(1,3)]) (simp add: r0 s accept)
      moreover have "c2 = c1" using c2 Some accept by (cases ev) auto
      ultimately show ?thesis using dp dr by (simp add: books_match_maps put)
    next
      case filled
      obtain r0 where r0: "?O key = Some r0" "or_state r0 = ACCEPTED" "or_symbol r = or_symbol r0"
        using old filled transition_sources(4) [OF t [unfolded filled]] by auto
      from c2 Some filled obtain price tim quantity fees stop target
        where ev: "ev = Fill price tim quantity fees stop target" by (cases ev) auto
      let ?r = "r\<lparr>or_quantity := quantity, or_entry := price, or_entry_fee := fees, or_stop := Some stop,
             or_target := Some target, or_entry_at := Some tm\<rparr>"
      have free: "?P (or_symbol r0) = None" and c2': "map_of (co_orders c2) = ?O(key \<mapsto> ?r)"
        "co_positions c2 = AList.update (or_symbol r0) key (co_positions c)" "co_reservations c2 = AList.delete key (co_reservations c)"
        using c2 by (auto simp: ev open_position_def Let_def bindR_Inr_iff checks_Inr_iff put r0)
      have "maps_match (?O(key \<mapsto> ?r)) (?P(or_symbol r0 \<mapsto> key)) (?R(key := None))"
        by (rule maps_match_fill [OF m r0(1) _ _ _ free]) (simp_all add: r0 s filled)
      then show ?thesis using dp dr by (simp add: books_match_maps c2' update_conv' delete_conv' distinct_update distinct_delete)
    next
      case pending
      obtain r0 where r0: "?O key = Some r0" "or_state r0 = FILLED" "or_symbol r = or_symbol r0"
        using old pending transition_sources(5) [OF t [unfolded pending]] by auto
      have "maps_match (?O(key \<mapsto> r)) ?P ?R"
        by (rule maps_match_same_side [OF m r0(1,3)]) (simp add: r0 s pending)
      moreover have "c2 = c1" using c2 Some pending by (cases ev) auto
      ultimately show ?thesis using dp dr by (simp add: books_match_maps put)
    next
      case closed
      obtain r0 where r0: "?O key = Some r0" "or_state r0 = EXIT_PENDING" "or_symbol r = or_symbol r0"
        using old closed transition_sources(6) [OF t [unfolded closed]] by auto
      from c2 Some closed obtain price fees reason where ev: "ev = Close price fees reason" by (cases ev) auto
      obtain r' where c2': "map_of (co_orders c2) = ?O(key \<mapsto> r')" "or_state r' = CLOSED" "or_symbol r' = or_symbol r0"
        "co_positions c2 = AList.delete (or_symbol r0) (co_positions c)" "co_reservations c2 = co_reservations c"
        using c2 by (auto simp: ev close_position_def Let_def bindR_Inr_iff checks_Inr_iff put r0 s closed)
      have "maps_match (?O(key \<mapsto> r')) (?P(or_symbol r0 := None)) ?R"
        by (rule maps_match_close [OF m r0(1,2)]) (simp_all add: c2')
      then show ?thesis using dp dr by (simp add: books_match_maps c2' delete_conv' distinct_delete)
    next
      case cancelled
      obtain r0 where r0: "?O key = Some r0" "or_state r0 \<in> {PROPOSED, RISK_CHECKED, RESERVED, ACCEPTED}"
        using old cancelled transition_sources(7) [OF t [unfolded cancelled]] by auto
      have "maps_match (?O(key \<mapsto> r)) ?P (?R(key := None))"
        by (rule maps_match_cancel [OF m r0(1)]) (use r0 s cancelled in auto)
      then show ?thesis
        using c2 Some cancelled dp dr by (cases ev) (auto simp: books_match_maps put delete_conv' distinct_delete)
    qed
  qed
  then show ?thesis by (simp add: c' books_match_maps)
qed

interpretation books: portfolio_emitter xp books_match for xp
proof
  fix c c' ev key tm
  assume "books_match c" "portfolio_emit xp key ev tm c = Inr c'"
  then show "books_match c'" by (rule emit_keeps_books)
qed (simp_all add: books_match_maps)

lemma books_match_init: "books_match (coordinator_init xp b)"
  by (simp add: books_match_def coordinator_init_def Let_def)

section \<open>The journal\<close>

definition journal_chained :: "portfolio_externals \<Rightarrow> journal_row list \<Rightarrow> bool" where
  "journal_chained xp es \<longleftrightarrow> (\<forall>i < length es. je_sequence (es ! i) = i \<and> je_previous_hash (es ! i) = last_hash (take i es)
     \<and> je_current_hash (es ! i) = xp_sha xp (xp_event_json xp (journal_body.truncate (es ! i))))"

lemma journal_chained_snoc:
  "journal_chained xp (es @ [e]) \<longleftrightarrow> journal_chained xp es \<and> je_sequence e = length es \<and> je_previous_hash e = last_hash es
     \<and> je_current_hash e = xp_sha xp (xp_event_json xp (journal_body.truncate e))"
  by (auto simp: journal_chained_def nth_append less_Suc_eq)

text \<open>The states an order passes through, in the order of the journal.\<close>

definition order_path :: "string \<Rightarrow> journal_row list \<Rightarrow> order_state list" where
  "order_path k es = List.map_filter (\<lambda>e. if je_order_id e = k then order_state_of (je_event e) else None) es"

fun legal_path :: "order_state option \<Rightarrow> order_state list \<Rightarrow> bool" where
  "legal_path s [] = True"
| "legal_path s (t # ts) = (t \<in> order_transitions s \<and> legal_path (Some t) ts)"

definition path_end :: "order_state list \<Rightarrow> order_state option" where
  "path_end ts = (if ts = [] then None else Some (last ts))"

lemma legal_path_snoc:
  "legal_path s (ts @ [t]) \<longleftrightarrow> legal_path s ts \<and> t \<in> order_transitions (if ts = [] then s else Some (last ts))"
  by (induction ts arbitrary: s) auto

lemma order_path_snoc:
  "order_path k (es @ [e]) = order_path k es @ (if je_order_id e = k then (case order_state_of (je_event e) of None \<Rightarrow> [] | Some s \<Rightarrow> [s]) else [])"
  by (auto simp: order_path_def List.map_filter_def split: option.splits)

definition journal_inv :: "portfolio_externals \<Rightarrow> coordinator \<Rightarrow> bool" where
  "journal_inv xp c \<longleftrightarrow> journal_chained xp (co_events c) \<and> sorted (map je_timestamp (co_events c))
     \<and> (\<forall>k. legal_path None (order_path k (co_events c))
            \<and> path_end (order_path k (co_events c)) = map_option or_state (map_of (co_orders c) k))"

text \<open>Effects leave the states of the orders as the move set them.\<close>

lemma effect_states:
  assumes "effect key ev tm c = Inr c2"
  shows "map_option or_state (map_of (co_orders c2) k) = map_option or_state (map_of (co_orders c) k)"
  using assms
  by (cases ev) (auto simp: reserve_cash_def open_position_def close_position_def order_at_def bindR_Inr_iff Let_def
      split: if_splits option.splits)

lemma move_states:
  assumes "move_order key ev tm c = Inr c1"
  shows "map_option or_state (map_of (co_orders c1) k) =
     (if k = key \<and> order_state_of ev \<noteq> None then order_state_of ev else map_option or_state (map_of (co_orders c) k))"
    and "order_state_of ev = Some s \<Longrightarrow> s \<in> order_transitions (map_option or_state (map_of (co_orders c) key))"
proof -
  show "map_option or_state (map_of (co_orders c1) k) =
     (if k = key \<and> order_state_of ev \<noteq> None then order_state_of ev else map_option or_state (map_of (co_orders c) k))"
  proof (cases "order_state_of ev")
    case None
    then show ?thesis using assms by (simp add: move_order_None)
  next
    case (Some s)
    from assms Some obtain r where "c1 = put_order key r c" "or_state r = s" by (rule move_order_SomeE)
    then show ?thesis using Some by simp
  qed
  show "order_state_of ev = Some s \<Longrightarrow> s \<in> order_transitions (map_option or_state (map_of (co_orders c) key))"
    using assms by (auto elim: move_order_SomeE)
qed

lemma journal_entry_fields [simp]:
  "je_sequence (journal_entry xp key ev tm st r a a' c) = length (co_events c)"
  "je_previous_hash (journal_entry xp key ev tm st r a a' c) = last_hash (co_events c)"
  "je_timestamp (journal_entry xp key ev tm st r a a' c) = tm" "je_order_id (journal_entry xp key ev tm st r a a' c) = key"
  "je_event (journal_entry xp key ev tm st r a a' c) = ev" "je_account (journal_entry xp key ev tm st r a a' c) = a'"
  "je_current_hash (journal_entry xp key ev tm st r a a' c)
     = xp_sha xp (xp_event_json xp (journal_body.truncate (journal_entry xp key ev tm st r a a' c)))"
  by (simp_all add: journal_entry_def Let_def journal_body.defs)

lemma emit_keeps_journal:
  assumes j: "journal_inv xp c" and e: "portfolio_emit xp key ev tm c = Inr c'"
  shows "journal_inv xp c'"
proof -
  from e obtain a c1 c2 a' where c1: "move_order key ev tm c = Inr c1" and c2: "effect key ev tm c1 = Inr c2"
    and tm: "co_events c \<noteq> [] \<longrightarrow> je_timestamp (last (co_events c)) \<le> tm"
    and c': "c' = c2\<lparr>co_events := co_events c2 @ [journal_entry xp key ev tm (map_option or_state (map_of (co_orders c) key))
       (map_of (co_orders c2) key) a a' c]\<rparr>"
    by (rule portfolio_emitE)
  let ?e = "journal_entry xp key ev tm (map_option or_state (map_of (co_orders c) key)) (map_of (co_orders c2) key) a a' c"
  have ev: "co_events c' = co_events c @ [?e]" using c' by (simp add: effect_frame [OF c2] move_order_frame [OF c1])
  have st: "map_option or_state (map_of (co_orders c') k) =
      (if k = key \<and> order_state_of ev \<noteq> None then order_state_of ev else map_option or_state (map_of (co_orders c) k))" for k
    by (simp add: c' effect_states [OF c2] move_states(1) [OF c1])
  have "journal_chained xp (co_events c')" using j by (simp add: journal_inv_def ev journal_chained_snoc)
  moreover have "sorted (map je_timestamp (co_events c'))"
  proof -
    have "\<forall>x \<in> set (co_events c). je_timestamp x \<le> tm"
    proof (cases "co_events c" rule: rev_cases)
      case (snoc es y)
      then show ?thesis using j tm by (auto simp: journal_inv_def sorted_append)
    qed simp
    then show ?thesis using j by (simp add: journal_inv_def ev sorted_append)
  qed
  moreover have "legal_path None (order_path k (co_events c'))
      \<and> path_end (order_path k (co_events c')) = map_option or_state (map_of (co_orders c') k)" for k
  proof -
    have old: "legal_path None (order_path k (co_events c))"
      and oe: "path_end (order_path k (co_events c)) = map_option or_state (map_of (co_orders c) k)"
      using j by (simp_all add: journal_inv_def)
    show ?thesis
    proof (cases "k = key \<and> order_state_of ev \<noteq> None")
      case True
      then obtain s where s: "order_state_of ev = Some s" by auto
      then have "s \<in> order_transitions (path_end (order_path k (co_events c)))"
        using move_states(2) [OF c1 s] True oe by simp
      then show ?thesis using True s old
        by (simp add: ev order_path_snoc legal_path_snoc st) (simp add: path_end_def split: if_splits)
    next
      case False
      then have "order_path k (co_events c') = order_path k (co_events c)" by (auto simp: ev order_path_snoc)
      then show ?thesis using old oe False st [of k] by auto
    qed
  qed
  ultimately show ?thesis by (simp add: journal_inv_def)
qed

interpretation journal: portfolio_emitter xp "journal_inv xp" for xp
proof
  fix c c' ev key tm
  assume "journal_inv xp c" "portfolio_emit xp key ev tm c = Inr c'"
  then show "journal_inv xp c'" by (rule emit_keeps_journal)
qed (simp_all add: journal_inv_def)

lemma journal_inv_init: "journal_inv xp (coordinator_init xp b)"
  by (simp add: journal_inv_def coordinator_init_def Let_def journal_chained_def order_path_def List.map_filter_def path_end_def)

section \<open>Accounts and the position limit\<close>

definition sound_account :: "portfolio_policy \<Rightarrow> rat \<Rightarrow> account \<Rightarrow> bool" where
  "sound_account p opening_cash a \<longleftrightarrow>
     0 \<le> ac_reserved a \<and> ac_reserved a \<le> ac_cash a
     \<and> ac_equity a = prec40 (ac_cash a + ac_marked_value a)
     \<and> ac_equity a = prec40 (prec40 (opening_cash + ac_realized a) + ac_unrealized a)
     \<and> distinct (map fst (ac_positions a))
     \<and> int (length (ac_positions a)) + int (length (ac_reservations a)) \<le> max 0 (position_limit p)"

lemma held_orders_symbols: "held_orders c = Inr held \<Longrightarrow> map fst held = map fst (co_positions c)"
proof (rule nth_equalityI)
  assume h: "held_orders c = Inr held"
  then have l: "length held = length (co_positions c)" by (simp add: held_orders_def mapR_length)
  then show "length (map fst held) = length (map fst (co_positions c))" by simp
  fix i assume "i < length (map fst held)"
  then show "map fst held ! i = map fst (co_positions c) ! i"
    using h l by (auto simp: held_orders_def mapR_Inr_list_all2 list_all2_conv_all_nth bindR_Inr_iff dest!: spec [of _ i] sym [of "(_, _)"])
qed

lemma account_of_sound:
  assumes "account_of c = Inr a" and "distinct (map fst (co_positions c))" and "exposed c \<le> max 0 (position_limit p)"
  shows "sound_account p (co_opening c) a"
proof -
  from assms(1) obtain held where h: "held_orders c = Inr held" and a: "ac_positions a = sort_key fst held"
      "ac_reservations a = sort_key fst (co_reservations c)"
    and rest: "0 \<le> ac_reserved a" "ac_reserved a \<le> ac_cash a" "ac_equity a = prec40 (ac_cash a + ac_marked_value a)"
      "ac_equity a = prec40 (prec40 (co_opening c + ac_realized a) + ac_unrealized a)"
    by (auto simp: account_of_def bindR_Inr_iff checks_Inr_iff Let_def)
  have m: "map fst held = map fst (co_positions c)" using h by (rule held_orders_symbols)
  then have l: "length held = length (co_positions c)" by (metis length_map)
  have "distinct (map fst (sort_key fst held))"
    using assms(2) m by (metis distinct_map distinct_sort set_sort)
  then show ?thesis using rest assms(3) l by (simp add: sound_account_def a exposed_def)
qed

lemma length_update: "length (AList.update k v xs) = length xs + (if map_of xs k = None then 1 else 0)"
  by (induction xs) auto

lemma length_delete_present: "map_of xs k \<noteq> None \<Longrightarrow> length (AList.delete k xs) < length xs"
proof -
  assume "map_of xs k \<noteq> None"
  then have "k \<in> fst ` set xs" by (simp add: map_of_eq_None_iff)
  then show ?thesis unfolding AList.delete_eq by (auto intro!: length_filter_less)
qed

lemma effect_exposed:
  assumes "effect key ev tm c = Inr c2"
  shows "exposed c2 \<le> exposed c + (if is_reserve ev then 1 else 0)"
proof (cases ev)
  case (Reserve amount quantity tim)
  then show ?thesis using assms by (auto simp: reserve_cash_def exposed_def length_update split: if_splits)
next
  case (Fill price tim quantity fees stop target)
  with assms obtain r where r: "open_position key r price quantity fees stop target tm c = Inr c2" by (auto simp: bindR_Inr_iff)
  then have "map_of (co_reservations c) key \<noteq> None" and c2: "co_reservations c2 = AList.delete key (co_reservations c)"
      "length (co_positions c2) = length (co_positions c) + 1"
    by (auto simp: open_position_def Let_def bindR_Inr_iff checks_Inr_iff length_update)
  then show ?thesis using length_delete_present [of "co_reservations c" key] by (simp add: exposed_def Fill)
next
  case (Close price fees reason)
  with assms obtain r where "close_position key r price fees reason tm c = Inr c2" by (auto simp: bindR_Inr_iff)
  then have "co_positions c2 = AList.delete (or_symbol r) (co_positions c)" "co_reservations c2 = co_reservations c"
    by (auto simp: close_position_def Let_def bindR_Inr_iff)
  then show ?thesis using Close AList.length_delete_le [of "or_symbol r" "co_positions c"] by (simp add: exposed_def)
next
  case (Cancel why)
  then show ?thesis using assms AList.length_delete_le [of key "co_reservations c"] by (auto simp: exposed_def)
qed (use assms in \<open>auto simp: exposed_def\<close>)

definition account_inv :: "coordinator \<Rightarrow> bool" where
  "account_inv c \<longleftrightarrow> books_match c \<and> exposed c \<le> max 0 (position_limit (co_policy c))
     \<and> (\<forall>e \<in> set (co_events c). sound_account (co_policy c) (co_opening c) (je_account e))"

interpretation accounts: portfolio_emitter xp account_inv for xp
proof
  fix c c' ev key tm
  assume inv: "account_inv c" and l: "is_reserve ev \<longrightarrow> exposed c < position_limit (co_policy c)"
    and e: "portfolio_emit xp key ev tm c = Inr c'"
  from e obtain a c1 c2 a' where c1: "move_order key ev tm c = Inr c1" and c2: "effect key ev tm c1 = Inr c2"
    and a': "account_of c2 = Inr a'"
    and c': "c' = c2\<lparr>co_events := co_events c2 @ [journal_entry xp key ev tm (map_option or_state (map_of (co_orders c) key))
       (map_of (co_orders c2) key) a a' c]\<rparr>"
    by (rule portfolio_emitE)
  have "books_match c'" using inv e by (auto simp: account_inv_def intro: emit_keeps_books)
  moreover have x: "exposed c' \<le> max 0 (position_limit (co_policy c))"
  proof -
    have "exposed c1 = exposed c" by (simp add: exposed_def move_order_frame [OF c1])
    moreover have "exposed c' = exposed c2" by (simp add: exposed_def c')
    ultimately show ?thesis using effect_exposed [OF c2] l inv by (auto simp: account_inv_def split: if_splits)
  qed
  moreover have "sound_account (co_policy c) (co_opening c) a'"
  proof -
    have "exposed c2 \<le> max 0 (position_limit (co_policy c))" using x by (simp add: exposed_def c')
    moreover have "distinct (map fst (co_positions c2))" using \<open>books_match c'\<close> by (simp add: books_match_def c')
    ultimately show ?thesis
      using account_of_sound [OF a'] by (simp add: effect_frame [OF c2] move_order_frame [OF c1])
  qed
  ultimately show "account_inv c'"
    using inv by (auto simp: account_inv_def c' effect_frame [OF c2] move_order_frame [OF c1])
qed (simp_all add: account_inv_def books_match_maps exposed_def)

interpretation accounts_frame: portfolio_emitter xp "\<lambda>c. account_inv c \<and> co_binding c = b \<and> co_opening c = x" for xp b x
proof
  fix c c' ev key tm
  assume i: "account_inv c \<and> co_binding c = b \<and> co_opening c = x"
    and h: "entering ev \<longrightarrow> \<not> co_halted c" and l: "is_reserve ev \<longrightarrow> exposed c < position_limit (co_policy c)"
    and e: "portfolio_emit xp key ev tm c = Inr c'"
  have "account_inv c'" by (rule accounts.emits [OF conjunct1 [OF i] h l e])
  then show "account_inv c' \<and> co_binding c' = b \<and> co_opening c' = x"
    using i portfolio_emit_frame [OF e] by simp
qed (auto intro: accounts.day accounts.consumed)

lemma account_inv_init: "account_inv (coordinator_init xp b)"
  by (simp add: account_inv_def books_match_init) (simp add: exposed_def coordinator_init_def Let_def)

section \<open>Halts\<close>

definition quiet_after_halt :: "journal_row list \<Rightarrow> bool" where
  "quiet_after_halt es \<longleftrightarrow> sorted_wrt (\<lambda>x y. is_halt (je_event x) \<longrightarrow> \<not> entering (je_event y)) es"

lemma quiet_after_halt_snoc:
  "quiet_after_halt (es @ [e]) \<longleftrightarrow> quiet_after_halt es \<and> ((\<exists>x \<in> set es. is_halt (je_event x)) \<longrightarrow> \<not> entering (je_event e))"
  by (auto simp: quiet_after_halt_def sorted_wrt_append)

definition halt_inv :: "coordinator \<Rightarrow> bool" where
  "halt_inv c \<longleftrightarrow> quiet_after_halt (co_events c) \<and> (co_halted c \<longleftrightarrow> (\<exists>e \<in> set (co_events c). is_halt (je_event e)))"

interpretation halts: portfolio_emitter xp halt_inv for xp
proof
  fix c c' ev key tm
  assume inv: "halt_inv c" and n: "entering ev \<longrightarrow> \<not> co_halted c" and e: "portfolio_emit xp key ev tm c = Inr c'"
  obtain row where row: "co_events c' = co_events c @ [row]" "je_event row = ev"
    using portfolio_emit_frame(5) [OF e] by blast
  show "halt_inv c'"
    using inv n by (auto simp: halt_inv_def row quiet_after_halt_snoc portfolio_emit_frame(4) [OF e])
qed (simp_all add: halt_inv_def)

lemma halt_inv_init: "halt_inv (coordinator_init xp b)"
  by (simp add: halt_inv_def coordinator_init_def Let_def quiet_after_halt_def)

section \<open>Session ends\<close>

definition end_inv :: "coordinator \<Rightarrow> bool" where
  "end_inv c \<longleftrightarrow> co_reservations c = [] \<and> (\<forall>e \<in> set (co_events c). \<forall>finished. je_event e = Session_End finished \<longrightarrow>
     ac_reservations (je_account e) = [] \<and> (finished \<longleftrightarrow> ac_positions (je_account e) = []) \<and> (finished \<or> ac_halted (je_account e)))"

text \<open>What an emission does to the reservations, and that a session end records the book as it is.\<close>

lemma emit_reservations:
  assumes "portfolio_emit xp key ev tm c = Inr c'"
  shows "\<not> is_reserve ev \<Longrightarrow> set (co_reservations c') \<subseteq> set (co_reservations c)"
    and "is_reserve ev \<Longrightarrow> co_reservations c = [] \<Longrightarrow> \<exists>amount. co_reservations c' = [(key, amount)]"
    and "order_state_of ev \<in> {Some CANCELLED, Some FILLED} \<Longrightarrow> co_reservations c = [(key, amount)] \<Longrightarrow> co_reservations c' = []"
proof -
  from assms obtain a c1 c2 a' row where m: "move_order key ev tm c = Inr c1" and c2: "effect key ev tm c1 = Inr c2"
    and "c' = c2\<lparr>co_events := co_events c2 @ [row]\<rparr>"
    by (rule portfolio_emitE)
  then have c': "co_reservations c' = co_reservations c2" and c1: "co_reservations c1 = co_reservations c"
    by (simp_all add: move_order_frame(2) [OF m])
  note defs = c1 [symmetric] c' reserve_cash_def open_position_def close_position_def bindR_Inr_iff Let_def
  show "set (co_reservations c') \<subseteq> set (co_reservations c)" if "\<not> is_reserve ev"
    using c2 that by (cases ev) (auto simp: defs AList.delete_eq)
  show "\<exists>amount. co_reservations c' = [(key, amount)]" if "is_reserve ev" "co_reservations c = []"
    using c2 that by (cases ev) (auto simp: defs split: if_splits)
  show "co_reservations c' = []" if "order_state_of ev \<in> {Some CANCELLED, Some FILLED}" "co_reservations c = [(key, amount)]"
    using c2 that by (cases ev) (auto simp: defs)
qed

lemma emit_session_end:
  assumes "portfolio_emit xp key (Session_End finished) tm c = Inr c'" and "truthful (Session_End finished) c"
    and "co_reservations c = []"
  shows "\<exists>row. co_events c' = co_events c @ [row] \<and> ac_reservations (je_account row) = []
     \<and> (finished \<longleftrightarrow> ac_positions (je_account row) = []) \<and> (finished \<or> ac_halted (je_account row))"
proof -
  from assms(1) obtain a where a: "account_of c = Inr a" and row: "\<exists>row. co_events c' = co_events c @ [row] \<and> je_account row = a"
    by (auto elim!: portfolio_emitE simp: move_order_None)
  from a obtain held where h: "held_orders c = Inr held" and f: "ac_positions a = sort_key fst held" "ac_reservations a = []"
      "ac_halted a = co_halted c"
    using assms(3) by (auto simp: account_of_def bindR_Inr_iff Let_def)
  have "ac_positions a = [] \<longleftrightarrow> co_positions c = []"
    using held_orders_symbols [OF h] by (metis f(1) length_0_conv length_map length_sort)
  then show ?thesis using row assms(2,3) f by auto
qed

interpretation ends: portfolio_writer xp end_inv for xp
proof
  fix c c' ev key tm
  assume inv: "end_inv c" and n: "\<not> entering ev" and t: "truthful ev c" and e: "portfolio_emit xp key ev tm c = Inr c'"
  have "\<not> is_reserve ev" using n by (cases ev) simp_all
  then have r: "co_reservations c' = []" using emit_reservations(1) [OF e] inv by (simp add: end_inv_def)
  obtain row where row: "co_events c' = co_events c @ [row]" "je_event row = ev"
    using portfolio_emit_frame(5) [OF e] by blast
  show "end_inv c'"
  proof (cases "is_session_end ev")
    case True
    then obtain finished where ev: "ev = Session_End finished" by (cases ev) simp_all
    have "ac_reservations (je_account row) = [] \<and> (finished \<longleftrightarrow> ac_positions (je_account row) = []) \<and> (finished \<or> ac_halted (je_account row))"
      using emit_session_end [OF e [unfolded ev] t [unfolded ev]] inv row by (auto simp: end_inv_def)
    then show ?thesis using inv r row ev by (auto simp: end_inv_def)
  next
    case False
    then show ?thesis using inv r row by (auto simp: end_inv_def)
  qed
next
  fix c c' :: coordinator and key rq r price quantity tm cancel_signals
  assume inv: "end_inv c" and f: "reserve_and_fill xp key rq r price quantity tm cancel_signals c = Inr c'"
  from f obtain amount fee tim d where d: "portfolio_emit xp key (Reserve amount quantity tim) tm c = Inr d"
    and rest: "(\<exists>why. portfolio_emit xp key (Cancel why) tm d = Inr c') \<or> (\<exists>e stop target. portfolio_emit xp key Accept tm d = Inr e
       \<and> portfolio_emit xp key (Fill price tim quantity fee stop target) tm e = Inr c')"
    by (rule reserve_and_fillE)
  define rows_ok where "rows_ok x \<longleftrightarrow> (\<forall>e \<in> set (co_events x). \<forall>finished. je_event e = Session_End finished \<longrightarrow>
     ac_reservations (je_account e) = [] \<and> (finished \<longleftrightarrow> ac_positions (je_account e) = []) \<and> (finished \<or> ac_halted (je_account e)))"
    for x :: coordinator
  have keep: "rows_ok x \<Longrightarrow> portfolio_emit xp key ev tm x = Inr y \<Longrightarrow> \<not> is_session_end ev \<Longrightarrow> rows_ok y" for x y ev
    using portfolio_emit_frame(5) [of xp key ev tm x y] by (auto simp: rows_ok_def)
  have rc: "rows_ok c" using inv unfolding end_inv_def rows_ok_def by (rule conjunct2)
  have rd: "rows_ok d" by (rule keep [OF rc d]) simp
  obtain amount' where resd: "co_reservations d = [(key, amount')]" using emit_reservations(2) [OF d] inv by (auto simp: end_inv_def)
  from rest have "rows_ok c' \<and> co_reservations c' = []"
  proof (elim disjE exE conjE)
    fix why assume x: "portfolio_emit xp key (Cancel why) tm d = Inr c'"
    show ?thesis by (intro conjI keep [OF rd x] emit_reservations(3) [OF x _ resd]) simp_all
  next
    fix e stop target assume x: "portfolio_emit xp key Accept tm d = Inr e"
      and y: "portfolio_emit xp key (Fill price tim quantity fee stop target) tm e = Inr c'"
    have re: "rows_ok e" by (rule keep [OF rd x]) simp
    have rese: "co_reservations e = [(key, amount')]"
      by (rule portfolio_emitE [OF x]) (auto simp: move_order_frame(2) resd)
    show ?thesis by (intro conjI keep [OF re y] emit_reservations(3) [OF y _ rese]) simp_all
  qed
  then show "end_inv c'" unfolding end_inv_def rows_ok_def by (rule conj_commute [THEN iffD1])
qed (simp_all add: end_inv_def)

lemma end_inv_init: "end_inv (coordinator_init xp b)"
  by (simp add: end_inv_def coordinator_init_def Let_def)

end
