(* ===== verification/Portfolio_Results.thy ===== *)
theory Portfolio_Results
  imports Portfolio_Books Paper_Results
begin

text \<open>
  What the portfolio coordinator guarantees for every sequence of actions and for every simulated batch, from the invariants
  of \<open>Portfolio_Books\<close>.
\<close>

section \<open>Every sequence of actions\<close>

text \<open>
  C34: after any sequence of actions, in whatever order they come, the books agree with the orders.  A symbol is owned by a key
  exactly when that key's order is for that symbol and is filled or waiting for its exit, cash is reserved for a key exactly
  when its order is reserved or accepted, and no symbol is owned and no key reserved twice.
\<close>

theorem portfolio_books:
  assumes "foldR (portfolio_act xp ct rqs) as (coordinator_init xp b) = Inr c"
  shows "distinct (map fst (co_positions c)) \<and> distinct (map fst (co_reservations c))
    \<and> (\<forall>s k. map_of (co_positions c) s = Some k \<longleftrightarrow>
         (\<exists>r. map_of (co_orders c) k = Some r \<and> or_symbol r = s \<and> or_state r \<in> {FILLED, EXIT_PENDING}))
    \<and> (\<forall>k. map_of (co_reservations c) k \<noteq> None \<longleftrightarrow> (\<exists>r. map_of (co_orders c) k = Some r \<and> or_state r \<in> {RESERVED, ACCEPTED}))"
  using books.keeps_acts [OF books_match_init assms] unfolding books_match_def .

text \<open>
  C35: the journal of any sequence of actions is a hash chain in the order of its sequence numbers and of time, and for every
  order the states recorded for it are a path of \<open>TRANSITIONS\<close> that starts at a proposal and ends at the order's present state.
\<close>

theorem portfolio_journal:
  assumes "foldR (portfolio_act xp ct rqs) as (coordinator_init xp b) = Inr c"
  shows "journal_chained xp (co_events c) \<and> sorted (map je_timestamp (co_events c))
    \<and> (\<forall>k. legal_path None (order_path k (co_events c))
           \<and> path_end (order_path k (co_events c)) = map_option or_state (map_of (co_orders c) k))"
  using journal.keeps_acts [OF journal_inv_init assms] unfolding journal_inv_def .

text \<open>
  C36: nothing is entered after a halt.  In the journal of any sequence of actions no reservation, acceptance or fill follows a
  halt, and the coordinator is halted exactly when a halt is recorded.
\<close>

theorem halted_enters_nothing:
  assumes "foldR (portfolio_act xp ct rqs) as (coordinator_init xp b) = Inr c"
  shows "(\<forall>before e rest x. co_events c = before @ e # rest \<and> is_halt (je_event e) \<and> x \<in> set rest \<longrightarrow>
            order_state_of (je_event x) \<notin> {Some RESERVED, Some ACCEPTED, Some FILLED})
    \<and> (co_halted c \<longleftrightarrow> (\<exists>e \<in> set (co_events c). is_halt (je_event e)))"
proof -
  have inv: "halt_inv c" using halt_inv_init assms by (rule halts.keeps_acts)
  have "order_state_of (je_event x) \<notin> {Some RESERVED, Some ACCEPTED, Some FILLED}"
    if "co_events c = before @ e # rest" "is_halt (je_event e)" "x \<in> set rest" for before e rest x
  proof -
    have "\<not> entering (je_event x)"
      using inv that by (auto simp: halt_inv_def quiet_after_halt_def sorted_wrt_append)
    then show ?thesis by (auto simp: entering_def)
  qed
  moreover have "co_halted c \<longleftrightarrow> (\<exists>e \<in> set (co_events c). is_halt (je_event e))" using inv by (simp only: halt_inv_def)
  ultimately show ?thesis by blast
qed

text \<open>
  C37: every session end in any sequence of actions is reconciled: no cash is reserved any more, the end is recorded as complete
  exactly when no position is left, and an end that leaves a position leaves the portfolio halted.
\<close>

theorem session_ends_reconciled:
  assumes "foldR (portfolio_act xp ct rqs) as (coordinator_init xp b) = Inr c" and "e \<in> set (co_events c)" and "je_event e = Session_End finished"
  shows "ac_reservations (je_account e) = [] \<and> (finished \<longleftrightarrow> ac_positions (je_account e) = []) \<and> (finished \<or> ac_halted (je_account e))"
  using ends.keeps_acts [OF end_inv_init assms(1)] assms(2,3) by (auto simp: end_inv_def)

section \<open>Every simulated batch\<close>

text \<open>
  C38: every account that a simulated batch records is balanced and within its limits: reserved cash is not negative and is
  covered by cash, equity is cash and marked value and equals the opening cash with realized and unrealized results (each
  operation rounded to 40 digits), no symbol is held twice, and positions and reservations together never exceed the smaller of
  the limits on simultaneous and on correlated positions.
\<close>

theorem portfolio_accounts:
  assumes "portfolio_simulate xp rqs p ct = Inr c" and "e \<in> set (co_events c)"
  shows "sound_account p (capital_of (pf_base p)) (je_account e)"
proof -
  have "account_inv c \<and> co_binding c = binding_of xp rqs p ct \<and> co_opening c = capital_of (pf_base p)"
    using assms(1)
  proof (rule accounts_frame.simulated)
    show "account_inv (coordinator_init xp (binding_of xp rqs p ct))
      \<and> co_binding (coordinator_init xp (binding_of xp rqs p ct)) = binding_of xp rqs p ct
      \<and> co_opening (coordinator_init xp (binding_of xp rqs p ct)) = capital_of (pf_base p)"
      using account_inv_init [of xp "binding_of xp rqs p ct"] by (simp add: coordinator_init_def binding_of_def Let_def)
  qed
  then have "account_inv c" "co_policy c = p" "co_opening c = capital_of (pf_base p)" by (simp_all add: binding_of_def)
  then show ?thesis using assms(2) by (auto simp: account_inv_def)
qed

section \<open>A sample portfolio\<close>

definition sample_request :: request where
  "sample_request = \<lparr>rq_qualification = sample_refused, rq_data = flat_dataset\<lparr>pd_series := sample_series\<rparr>, rq_definition = sample_reclaim,
     rq_settings = sample_settings, rq_costs = sample_costs, rq_authorization = sample_authorization\<rparr>"

definition sample_limits :: portfolio_policy where
  "sample_limits = \<lparr>pf_version = policy_version, pf_base = sample_risk, pf_strategy_exposure = Some 9000, pf_sector_exposure = Some 9000,
     pf_sectors = [(''S'', ''sector'')], pf_sector_evidence = Some ''e'', pf_correlation_positions = Some 1\<rparr>"

definition sample_control :: control where
  "sample_control = \<lparr>ct_version = policy_version, ct_policy_hash = ''h'', ct_authorization_evidence = ''e'', ct_enabled = False,
     ct_paper_halt = False, ct_delivery_end = None, ct_cancel_signals = []\<rparr>"

definition sample_portfolio :: portfolio_externals where
  "sample_portfolio = \<lparr>xp_paper = sample_externals, xp_paper_binding = (\<lambda>rq p. \<lparr>bi_execution_policy_version = [], bi_execution_policy_hash = [], bi_qualification_hash = [],
       bi_risk_hash = [], bi_symbol = ''S'', bi_strategy_id = S05, bi_scope = [], bi_rest = []\<rparr>), xp_universe = [''S''], xp_installation = [],
     xp_request_hash = (\<lambda>rq. []), xp_policy_hash = (\<lambda>p. ''h''), xp_binding_json = (\<lambda>b. ''run''), xp_event_json = (\<lambda>b. [])\<rparr>"

definition sample_start :: coordinator where
  "sample_start = coordinator_init sample_portfolio (binding_of sample_portfolio [sample_request] sample_limits sample_control)"

definition sample_action :: "int \<Rightarrow> action_kind \<Rightarrow> action" where
  "sample_action i k = \<lparr>at_time = five_at i, at_rank = 0, at_identifier = ''S05'', at_signal = ''x'', at_index = 0, at_kind = k\<rparr>"

definition sample_actions :: "action list" where
  "sample_actions = [sample_action 2 Do_Propose, sample_action 2 (Do_Enter (Some 101) 1), sample_action 3 (Do_Mark 100),
     sample_action 4 (Do_Exit (Some 101) (Some ''EOD'')), sample_action 4 Do_End]"

definition sample_acts :: "action list \<Rightarrow> coordinator res" where
  "sample_acts as = foldR (portfolio_act sample_portfolio sample_control [sample_request]) as sample_start"

lemma sample_filled:
  "bindR (sample_acts (take 2 sample_actions)) (\<lambda>c. Inr (map fst (co_positions c), map (\<lambda>e. order_state_of (je_event e)) (co_events c)))
     = Inr ([''S''], [Some PROPOSED, Some RISK_CHECKED, Some RESERVED, Some ACCEPTED, Some FILLED])"
  by code_simp

lemma sample_halted:
  "bindR (sample_acts [sample_action 2 (Do_Halt None), sample_action 2 Do_Propose, sample_action 2 (Do_Enter (Some 101) 1)])
     (\<lambda>c. Inr (co_halted c, map (\<lambda>e. order_state_of (je_event e)) (co_events c)))
     = Inr (True, [None, Some PROPOSED, Some RISK_CHECKED, Some REJECTED])"
  by code_simp

lemma sample_actsD:
  assumes "sample_acts as = Inr c"
  shows "foldR (portfolio_act sample_portfolio sample_control [sample_request]) as
    (coordinator_init sample_portfolio (binding_of sample_portfolio [sample_request] sample_limits sample_control)) = Inr c"
  using assms by (simp only: sample_acts_def sample_start_def)

lemma sample_ended: "bindR (sample_acts [sample_action 4 Do_End]) (\<lambda>c. Inr (map je_event (co_events c))) = Inr [Session_End True]"
  by code_simp

lemma evaluatedE:
  assumes "bindR m (\<lambda>x. Inr (f x)) = Inr y"
  obtains x where "m = Inr x" "f x = y"
  using assms by (cases m) auto

theorem portfolio_books_witness:
  "\<exists>c. sample_acts (take 2 sample_actions) = Inr c \<and> map fst (co_positions c) = [''S'']
     \<and> (\<exists>k r. map_of (co_positions c) ''S'' = Some k \<and> map_of (co_orders c) k = Some r \<and> or_state r \<in> {FILLED, EXIT_PENDING})"
proof -
  from sample_filled obtain c where c: "sample_acts (take 2 sample_actions) = Inr c"
    and f: "(map fst (co_positions c), map (\<lambda>e. order_state_of (je_event e)) (co_events c))
      = ([''S''], [Some PROPOSED, Some RISK_CHECKED, Some RESERVED, Some ACCEPTED, Some FILLED])" by (rule evaluatedE)
  from f have p: "map fst (co_positions c) = [''S'']" by (rule Pair_inject)
  obtain k where k: "map_of (co_positions c) ''S'' = Some k" using p by (cases "co_positions c") auto
  with portfolio_books [OF sample_actsD [OF c]] obtain r where "map_of (co_orders c) k = Some r" "or_state r \<in> {FILLED, EXIT_PENDING}"
    by blast
  with c p k show ?thesis by (intro exI conjI)
qed

theorem portfolio_journal_witness:
  "\<exists>c. sample_acts (take 2 sample_actions) = Inr c \<and> length (co_events c) = 5 \<and> journal_chained sample_portfolio (co_events c)"
proof -
  from sample_filled obtain c where c: "sample_acts (take 2 sample_actions) = Inr c"
    and f: "(map fst (co_positions c), map (\<lambda>e. order_state_of (je_event e)) (co_events c))
      = ([''S''], [Some PROPOSED, Some RISK_CHECKED, Some RESERVED, Some ACCEPTED, Some FILLED])" by (rule evaluatedE)
  have "length (co_events c) = 5" using arg_cong [OF f, of "\<lambda>p. length (snd p)"] by simp
  with c portfolio_journal [OF sample_actsD [OF c]] show ?thesis by blast
qed

theorem halted_enters_nothing_witness:
  "\<exists>c as. sample_acts as = Inr c \<and> length (co_events c) = 4 \<and> (\<exists>e \<in> set (co_events c). is_halt (je_event e))"
proof -
  from sample_halted obtain c where c: "sample_acts [sample_action 2 (Do_Halt None), sample_action 2 Do_Propose, sample_action 2 (Do_Enter (Some 101) 1)] = Inr c"
    and f: "(co_halted c, map (\<lambda>e. order_state_of (je_event e)) (co_events c)) = (True, [None, Some PROPOSED, Some RISK_CHECKED, Some REJECTED])"
    by (rule evaluatedE)
  have "length (co_events c) = 4" and h: "co_halted c"
    using arg_cong [OF f, of "\<lambda>p. length (snd p)"] arg_cong [OF f, of fst] by simp_all
  with c h halted_enters_nothing [OF sample_actsD [OF c]] show ?thesis by blast
qed

theorem session_ends_reconciled_witness:
  "\<exists>c e. sample_acts [sample_action 4 Do_End] = Inr c \<and> e \<in> set (co_events c) \<and> je_event e = Session_End True \<and> ac_positions (je_account e) = []"
proof -
  from sample_ended obtain c where c: "sample_acts [sample_action 4 Do_End] = Inr c" and f: "map je_event (co_events c) = [Session_End True]"
    by (rule evaluatedE)
  from f obtain e where e: "e \<in> set (co_events c)" "je_event e = Session_End True" by auto
  from session_ends_reconciled [OF sample_actsD [OF c] e] c e show ?thesis by blast
qed

lemma sample_refused_batch:
  "bindR (portfolio_simulate sample_portfolio [sample_request] sample_limits sample_control) (\<lambda>c. Inr (co_halted c, length (co_events c)))
     = Inr (True, 1)"
  by code_simp

theorem portfolio_accounts_witness:
  "\<exists>c e. portfolio_simulate sample_portfolio [sample_request] sample_limits sample_control = Inr c \<and> e \<in> set (co_events c)
     \<and> sound_account sample_limits 10000 (je_account e)"
proof -
  from sample_refused_batch obtain c where c: "portfolio_simulate sample_portfolio [sample_request] sample_limits sample_control = Inr c"
    and f: "(co_halted c, length (co_events c)) = (True, 1)" by (rule evaluatedE)
  from f obtain e where e: "e \<in> set (co_events c)" by (cases "co_events c") auto
  have "capital_of (pf_base sample_limits) = 10000" by code_simp
  with c e portfolio_accounts [OF c e] show ?thesis by auto
qed

end
