(* ===== verification/Portfolio_Recovery.thy ===== *)
theory Portfolio_Recovery
  imports Portfolio_Results
begin

text \<open>
  Interrupted portfolio runs.  A run that is cut off between two journal entries leaves a prefix of its journal; a later run
  on the same directory accepts that prefix and completes it, to the same summary and the same files.
\<close>

section \<open>Names of journal entries\<close>

lemma digits_val_Cons: "digits_val (x # xs) = (of_char x - 48) * 10 ^ length xs + digits_val xs"
  using digits_val_append [of "[x]" xs] by (simp add: digits_val_def)

lemma digits_val_upper: "list_all is_digit xs \<Longrightarrow> digits_val xs < 10 ^ length xs"
proof (induction xs)
  case (Cons x xs)
  then have "of_char x - 48 \<le> (9::nat)" "digits_val xs < 10 ^ length xs" by (auto simp: is_digit_def)
  then have "(of_char x - 48) * 10 ^ length xs + digits_val xs < 9 * 10 ^ length xs + 10 ^ length xs"
    by (intro add_le_less_mono mult_le_mono1) simp_all
  then show ?case by (simp add: digits_val_Cons)
qed (simp add: digits_val_def)

lemma digits_val_mono:
  assumes "length s = length t" "list_all is_digit s" "list_all is_digit t" "s \<le> t"
  shows "digits_val s \<le> digits_val t"
  using assms
proof (induction s t rule: list_induct2)
  case (Cons x xs y ys)
  show ?case
  proof (cases "x = y")
    case True
    with Cons show ?thesis by (simp add: digits_val_Cons)
  next
    case False
    with Cons.prems have "x < y" by simp
    then have "of_char x < (of_char y :: nat)" by (simp add: less_char_def)
    then have "(of_char x - 48) + 1 \<le> (of_char y - 48 :: nat)" using Cons.prems(1,2) unfolding is_digit_def list.pred_inject by linarith
    then have "((of_char x - 48) + 1) * 10 ^ length xs \<le> (of_char y - 48 :: nat) * 10 ^ length xs" by (rule mult_le_mono1)
    moreover have "digits_val xs < 10 ^ length xs" using Cons.prems by (intro digits_val_upper) simp
    ultimately show ?thesis using Cons.hyps by (simp add: digits_val_Cons)
  qed
qed simp

lemma append_less:
  fixes s t :: "'a::linorder list"
  assumes "length s = length t" "s < t"
  shows "s @ u < t @ v"
  using assms by (induction s t rule: list_induct2) auto

lemma event_name_less:
  assumes "i < j" "j < 10 ^ 6"
  shows "event_name i < event_name j"
proof -
  let ?s = "zero_pad 6 (nat_str i)" and ?t = "zero_pad 6 (nat_str j)"
  have "length (nat_str i) \<le> 6" "length (nat_str j) \<le> 6" using assms by (auto intro!: length_nat_str_le)
  then have l: "length ?s = length ?t" by (simp add: zero_pad_def)
  have d: "list_all is_digit ?s" "list_all is_digit ?t" by (simp_all add: zero_pad_digits nat_str_digits)
  have "\<not> ?t \<le> ?s" using digits_val_mono [OF l [symmetric] d(2,1)] assms by auto
  then show ?thesis unfolding event_name_def by (intro append_less l) simp
qed

lemma event_name_inject [simp]: "event_name i = event_name j \<longleftrightarrow> i = j"
proof
  assume "event_name i = event_name j"
  then have "digits_val (zero_pad 6 (nat_str i)) = digits_val (zero_pad 6 (nat_str j))" by (simp add: event_name_def)
  then show "i = j" by simp
qed simp

lemma event_names_sorted: "n \<le> 10 ^ 6 \<Longrightarrow> sorted (map event_name [0..<n])"
  by (auto simp: sorted_wrt_map sorted_wrt_iff_nth_less intro!: less_imp_le event_name_less)

section \<open>Publications\<close>

lemma publish_present: "map_of files (fst p) = Some (snd p) \<Longrightarrow> publish p files = Inr files"
  by (simp add: publish_def)

lemma publish_new: "map_of files (fst p) = None \<Longrightarrow> publish p files = Inr (files @ [p])"
  by (simp add: publish_def)

lemma publish_all_present:
  "(\<And>p. p \<in> set ps \<Longrightarrow> map_of files (fst p) = Some (snd p)) \<Longrightarrow> publish_all None ps files = (Inr (), files)"
  by (induction ps) (simp_all add: publish_present)

text \<open>Publishing a list of which a prefix is there already.\<close>

lemma publish_all_prefix:
  assumes "distinct (map fst (before @ ps))" and "case stop of None \<Rightarrow> True | Some n \<Rightarrow> 0 \<le> n"
  shows "publish_all stop ps (before @ take k ps) =
    (case stop of None \<Rightarrow> (Inr (), before @ ps)
     | Some n \<Rightarrow> if n < int (length ps) then (Inl (InterruptedError ''SYNTHETIC_CRASH_BEFORE_EVENT''), before @ take (max k (nat n)) ps)
                 else (Inr (), before @ ps))"
  using assms
proof (induction ps arbitrary: before stop k)
  case Nil
  then show ?case by (auto split: option.splits)
next
  case (Cons p ps)
  show ?case
  proof (cases "stop = Some 0")
    case True
    then show ?thesis by simp
  next
    case False
    have pub: "publish p (before @ take k (p # ps)) = Inr ((before @ [p]) @ take (k - 1) ps)"
    proof (cases k)
      case 0
      have "map_of before (fst p) = None" using Cons.prems(1) by (auto simp: map_of_eq_None_iff)
      then show ?thesis by (simp add: 0 publish_new)
    next
      case (Suc m)
      have "map_of before (fst p) = None" using Cons.prems(1) by (auto simp: map_of_eq_None_iff)
      then have "map_of (before @ p # take m ps) (fst p) = Some (snd p)" by (simp add: map_add_def)
      then show ?thesis by (simp add: Suc publish_present)
    qed
    have d: "distinct (map fst ((before @ [p]) @ ps))" using Cons.prems(1) by simp
    have s: "case map_option (\<lambda>n. n - 1) stop of None \<Rightarrow> True | Some n \<Rightarrow> 0 \<le> n"
      using Cons.prems(2) False by (cases stop) auto
    have go: "\<not> (case stop of None \<Rightarrow> False | Some n \<Rightarrow> n \<le> 0)" using Cons.prems(2) False by (cases stop) auto
    have "publish_all stop (p # ps) (before @ take k (p # ps)) = publish_all (map_option (\<lambda>n. n - 1) stop) ps ((before @ [p]) @ take (k - 1) ps)"
      using go pub by simp
    also have "\<dots> = (case stop of None \<Rightarrow> (Inr (), before @ p # ps)
     | Some n \<Rightarrow> if n < int (length (p # ps)) then (Inl (InterruptedError ''SYNTHETIC_CRASH_BEFORE_EVENT''), before @ take (max k (nat n)) (p # ps))
                 else (Inr (), before @ p # ps))"
    proof (cases stop)
      case None
      then show ?thesis using Cons.IH [OF d s] by simp
    next
      case (Some n)
      with go have n: "0 < n" by simp
      have "take (max k (nat n)) (p # ps) = p # take (max (k - 1) (nat (n - 1))) ps"
        using n by (cases k; cases "nat n") (auto simp: nat_diff_distrib max_def take_Cons')
      then show ?thesis using Cons.IH [OF d s, of "k - 1"] Some n by simp
    qed
    finally show ?thesis .
  qed
qed

section \<open>Resumption\<close>

text \<open>The bound on the journal is kept by every emission.\<close>

interpretation bounded: portfolio_emitter xp "\<lambda>c. int (length (co_events c)) \<le> journal_limit" for xp
proof
  fix c c' ev key tm
  assume e: "portfolio_emit xp key ev tm c = Inr c'"
  then have "int (length (co_events c)) < journal_limit" by (auto simp: portfolio_emit_def bindR_Inr_iff checks_Inr_iff)
  then show "int (length (co_events c')) \<le> journal_limit" using portfolio_emit_frame(5) [OF e] by auto
qed simp_all

lemma simulated_length: "portfolio_simulate xp rqs p ct = Inr c \<Longrightarrow> length (co_events c) \<le> 10 ^ 6"
  using bounded.simulated [of xp rqs p ct c] by (simp add: coordinator_init_def Let_def journal_limit_def)

definition empty_directory :: directory where
  "empty_directory = \<lparr>dir_plan = None, dir_journal = [], dir_files = []\<rparr>"

text \<open>The directories that interrupted runs of one batch can leave, from an empty one.\<close>

inductive crashed :: "run_externals \<Rightarrow> request list \<Rightarrow> portfolio_policy \<Rightarrow> control \<Rightarrow> directory \<Rightarrow> bool"
  for xr rqs p ct where
  fresh: "crashed xr rqs p ct empty_directory"
| crash: "crashed xr rqs p ct d \<Longrightarrow> portfolio_run xr rqs p ct (Some n) d = (result, d') \<Longrightarrow> crashed xr rqs p ct d'"

lemma journal_files_nth: "journal_files xr c = map (\<lambda>i. (event_name i, xr_row_json xr (co_events c ! i))) [0..<length (co_events c)]"
  by (auto simp: journal_files_def enumerate_eq_zip intro!: nth_equalityI)

lemma length_journal_files [simp]: "length (journal_files xr c) = length (co_events c)"
  by (simp add: journal_files_nth)

lemma journal_names: "map fst (journal_files xr c) = map event_name [0..<length (co_events c)]"
  by (simp add: journal_files_nth comp_def)

lemma journal_names_distinct: "distinct (map fst (journal_files xr c))"
  by (simp add: journal_names distinct_map inj_on_def)

text \<open>A prefix of its own journal passes the checks of a resumed run.\<close>

lemma check_journal_prefix:
  assumes "length (co_events c) \<le> 10 ^ 6" and "dir_journal d = take k (journal_files xr c)"
    and "map_of (dir_files d) summary_name = None \<or> length (co_events c) \<le> k"
  shows "check_journal xr c d = Inr ()"
proof -
  let ?n = "min k (length (co_events c))"
  have "map fst (dir_journal d) = take k (map event_name [0..<length (co_events c)])"
    by (simp add: assms(2) take_map [symmetric] journal_names)
  also have "\<dots> = map event_name [0..<?n]" by (simp add: take_map min_def)
  finally have names: "map fst (dir_journal d) = map event_name [0..<?n]" .
  have "sorted (map fst (dir_journal d))" unfolding names by (rule event_names_sorted) (use assms(1) in simp)
  then have sorted: "sort_key fst (dir_journal d) = dir_journal d" by (rule sort_key_id_if_sorted)
  have len: "length (dir_journal d) = ?n" by (simp add: assms(2))
  have texts: "map snd (dir_journal d) = map (xr_row_json xr) (take ?n (co_events c))"
    by (auto simp: assms(2) journal_files_nth intro!: nth_equalityI)
  show ?thesis using assms(3) by (auto simp: check_journal_def sorted len names texts Let_def checks_Inr_iff)
qed

lemma report_titles:
  assumes "portfolio_reports digits c = Inr rs"
  shows "map fst rs = [''signal-decisions.json'', ''orders.json'', ''positions.json'', ''cash-ledger.json'', ''equity-curve.json'',
      ''daily-pnl.json'', ''strategy-pnl.json'', ''symbol-pnl.json'', ''exposure.json'', ''risk-rejections.json'', ''paper-halt.json'',
      ''eod-reconciliation.json'']"
  using assms by (auto simp: portfolio_reports_def bindR_Inr_iff Let_def)

lemma report_names:
  assumes "report_files xr c = Inr reports"
  shows "distinct (map fst (reports @ [(summary_name, raw)]))"
proof -
  from assms obtain rs where rs: "portfolio_reports 40 c = Inr rs" and r: "reports = map (\<lambda>(name, v). (name, xr_report_json xr v)) rs"
    by (auto simp: report_files_def bindR_Inr_iff)
  have "map fst reports = map fst rs" by (simp add: r comp_def case_prod_beta)
  then show ?thesis using report_titles [OF rs] by (simp add: summary_name_def)
qed

lemma admit_resume:
  assumes "admit_batch xr rqs p ct empty_directory = Inr (rqs', plan)" "xr_plan_ok xr plan" "dir_plan d \<in> {None, Some plan}"
  shows "admit_batch xr rqs p ct d = Inr (rqs', plan)"
proof (cases "dir_plan d")
  case None
  then have "admit_batch xr rqs p ct d = admit_batch xr rqs p ct empty_directory" by (simp add: admit_batch_def empty_directory_def)
  then show ?thesis using assms(1) by simp
next
  case (Some t)
  with assms(3) have d: "dir_plan d = Some plan" by simp
  show ?thesis using assms(1,2)
    by (auto simp: admit_batch_def d empty_directory_def bindR_Inr_iff checks_Inr_iff Let_def)
qed

text \<open>A directory on the way to the completed one.\<close>

definition on_the_way :: "run_externals \<Rightarrow> string \<Rightarrow> coordinator \<Rightarrow> directory \<Rightarrow> directory \<Rightarrow> bool" where
  "on_the_way xr plan c finished d \<longleftrightarrow> d = empty_directory \<or> d = finished
     \<or> (\<exists>k. d = \<lparr>dir_plan = Some plan, dir_journal = take k (journal_files xr c), dir_files = []\<rparr>)"

lemma publish_run_resumed:
  fixes finished :: directory
  assumes l: "length (co_events c) \<le> 10 ^ 6" and r: "report_files xr c = Inr reports"
    and b: "check_outputs (journal_files xr c) reports None empty_directory = Inr ()"
    and s: "summary_of xr rqs reports c = Inr su"
    and fin: "finished = \<lparr>dir_plan = Some plan, dir_journal = journal_files xr c, dir_files = reports @ [(summary_name, xr_summary_json xr su)]\<rparr>"
    and d: "d = finished \<or> (\<exists>k. d = \<lparr>dir_plan = Some plan, dir_journal = take k (journal_files xr c), dir_files = []\<rparr>)"
  shows "publish_run xr rqs None c d = (Inr su, finished)"
    and "\<exists>result d'. publish_run xr rqs (Some n) c d = (result, d') \<and> on_the_way xr plan c finished d'"
proof -
  let ?J = "journal_files xr c"
  note dr = report_names [OF r, of "xr_summary_json xr su"]
  have dJ: "distinct (map fst ([] @ ?J))" using journal_names_distinct by simp
  have present: "map_of (dir_files finished) (fst p) = Some (snd p)" if "p \<in> set (reports @ [(summary_name, xr_summary_json xr su)])" for p
    using dr that by (simp only: fin directory.simps) (metis map_of_eq_Some_iff prod.collapse)
  have plan: "dir_plan d = Some plan" using d fin by auto
  obtain k where k: "dir_journal d = take k ?J" "map_of (dir_files d) summary_name = None \<or> length (co_events c) \<le> k"
    and files: "dir_files d = [] \<or> d = finished"
    using d by (metis directory.select_convs(2,3) fin length_journal_files map_of.simps(1) order.refl take_all)
  have cj: "check_journal xr c d = Inr ()" using l k by (rule check_journal_prefix)
  have co: "check_outputs ?J reports stop d = (if (case stop of None \<Rightarrow> False | Some n \<Rightarrow> n < 0) then Inl (ValueError ''INVALID_INTERRUPT'') else Inr ())" for stop
  proof -
    have "\<not> (map_of (dir_files d) summary_name \<noteq> None \<and> list_ex (\<lambda>p. map_of (dir_files d) (fst p) \<noteq> Some (snd p)) reports)"
      using files present by (auto simp: list_ex_iff)
    moreover have "\<not> byte_limit < sum_list (map (\<lambda>p. int (length (snd p))) reports) + sum_list (map (\<lambda>p. int (length (snd p))) ?J)"
      using b by (auto simp: check_outputs_def checks_Inr_iff)
    ultimately show ?thesis by (simp only: check_outputs_def checks.simps fst_conv snd_conv if_False)
  qed
  have reps: "publish_all None reports (dir_files d) = (Inr (), if d = finished then dir_files finished else reports)"
    using files publish_all_prefix [of "[]" reports None 0] dr publish_all_present [of reports "dir_files d"] present by auto
  have sum: "publish (summary_name, xr_summary_json xr su) (if d = finished then dir_files finished else reports) = Inr (dir_files finished)"
  proof (cases "d = finished")
    case True
    then show ?thesis using present [of "(summary_name, xr_summary_json xr su)"] by (simp add: publish_present)
  next
    case False
    have "map_of reports summary_name = None" using dr by (auto simp: map_of_eq_None_iff)
    then show ?thesis using False by (simp add: publish_new fin)
  qed
  have complete: "publish_run xr rqs stop c d = (Inr su, finished)"
    if "\<not> (case stop of None \<Rightarrow> False | Some n \<Rightarrow> n < 0)" "publish_all stop ?J (dir_journal d) = (Inr (), ?J)" for stop
    using that plan by (simp add: publish_run_def cj r co reps s sum) (simp add: fin)
  show "publish_run xr rqs None c d = (Inr su, finished)"
    using publish_all_prefix [OF dJ, of None k] k(1) by (intro complete) simp_all
  show "\<exists>result d'. publish_run xr rqs (Some n) c d = (result, d') \<and> on_the_way xr plan c finished d'"
  proof (cases "n < 0")
    case True
    then show ?thesis using d by (simp add: publish_run_def cj r co on_the_way_def)
  next
    case False
    then have pa: "publish_all (Some n) ?J (dir_journal d) = (if n < int (length ?J)
        then (Inl (InterruptedError ''SYNTHETIC_CRASH_BEFORE_EVENT''), take (max k (nat n)) ?J) else (Inr (), ?J))"
      using publish_all_prefix [OF dJ, of "Some n" k] k(1) by simp
    show ?thesis
    proof (cases "n < int (length ?J)")
      case True
      have "on_the_way xr plan c finished (d\<lparr>dir_journal := take (max k (nat n)) ?J\<rparr>)"
        using d
      proof
        assume "d = finished"
        moreover from this have "length (co_events c) \<le> k" using k(2) present [of "(summary_name, xr_summary_json xr su)"] by auto
        ultimately show ?thesis by (simp add: on_the_way_def fin)
      next
        assume "\<exists>k. d = \<lparr>dir_plan = Some plan, dir_journal = take k (journal_files xr c), dir_files = []\<rparr>"
        then show ?thesis by (auto simp: on_the_way_def)
      qed
      then show ?thesis using True False by (simp add: publish_run_def cj r co pa)
    next
      case nn: False
      have "publish_run xr rqs (Some n) c d = (Inr su, finished)" by (rule complete) (use pa nn False in simp_all)
      then show ?thesis by (simp add: on_the_way_def)
    qed
  qed
qed

lemma completed_run:
  assumes "portfolio_run xr rqs p ct None empty_directory = (Inr su, finished)"
  obtains rqs' plan c reports where "admit_batch xr rqs p ct empty_directory = Inr (rqs', plan)"
    "portfolio_simulate (xr_portfolio xr) rqs' p ct = Inr c" "report_files xr c = Inr reports"
    "check_outputs (journal_files xr c) reports None empty_directory = Inr ()" "summary_of xr rqs' reports c = Inr su"
    "finished = \<lparr>dir_plan = Some plan, dir_journal = journal_files xr c, dir_files = reports @ [(summary_name, xr_summary_json xr su)]\<rparr>"
proof -
  from assms obtain rqs' plan c where a: "admit_batch xr rqs p ct empty_directory = Inr (rqs', plan)"
    and c: "portfolio_simulate (xr_portfolio xr) rqs' p ct = Inr c" and pr: "publish_run xr rqs' None c (empty_directory\<lparr>dir_plan := Some plan\<rparr>) = (Inr su, finished)"
    by (auto simp: portfolio_run_def split: sum.splits prod.splits)
  from pr obtain reports where r: "report_files xr c = Inr reports" and o: "check_outputs (journal_files xr c) reports None (empty_directory\<lparr>dir_plan := Some plan\<rparr>) = Inr ()"
    by (cases "check_journal xr c (empty_directory\<lparr>dir_plan := Some plan\<rparr>)"; cases "report_files xr c"; cases "check_outputs (journal_files xr c) (projr (report_files xr c)) None (empty_directory\<lparr>dir_plan := Some plan\<rparr>)")
      (auto simp: publish_run_def)
  have o': "check_outputs (journal_files xr c) reports None empty_directory = Inr ()"
    using o by (simp add: check_outputs_def empty_directory_def)
  from pr obtain su' where s: "summary_of xr rqs' reports c = Inr su'"
    by (cases "summary_of xr rqs' reports c") (auto simp: publish_run_def r bindR_Inr_iff split: sum.splits prod.splits)
  let ?f = "\<lparr>dir_plan = Some plan, dir_journal = journal_files xr c, dir_files = reports @ [(summary_name, xr_summary_json xr su')]\<rparr>"
  have "publish_run xr rqs' None c (empty_directory\<lparr>dir_plan := Some plan\<rparr>) = (Inr su', ?f)"
    by (rule publish_run_resumed(1) [OF simulated_length [OF c] r o' s refl])
      (auto simp: empty_directory_def intro!: exI [of _ 0])
  with pr have "su = su'" "finished = ?f" by auto
  with a c r o' s that show thesis by blast
qed


section \<open>A batch that is interrupted\<close>

definition sample_universe :: "string list" where
  "sample_universe = map nat_str [0..<1115]"

definition sample_run :: run_externals where
  "sample_run = \<lparr>xr_portfolio = sample_portfolio\<lparr>xp_universe := sample_universe\<rparr>, xr_plan_ok = (\<lambda>t. t = ''run''), xr_row_json = (\<lambda>e. []),
     xr_report_json = (\<lambda>v. []), xr_summary_json = (\<lambda>s. [])\<rparr>"

lemma sample_universe_ok: "int (length sample_universe) = 1115 \<and> distinct sample_universe"
  by (simp add: sample_universe_def distinct_map inj_on_def) (metis digits_val_nat_str)

lemma sample_admitted: "admit_batch sample_run [sample_request] sample_limits sample_control empty_directory = Inr ([sample_request], ''run'')"
proof -
  have "bindR (foldR claim_dataset [sample_request] []) (\<lambda>_. Inr ()) = Inr ()" by code_simp
  then obtain x where x: "foldR claim_dataset [sample_request] [] = Inr x" by (rule evaluatedE)
  have bars: "int (length (sr_bars (rq_series sample_request))) = 4" by code_simp
  have v: "pf_version sample_limits = policy_version" "ct_version sample_control = policy_version"
    by (simp_all add: sample_limits_def sample_control_def)
  show ?thesis
    using sample_universe_ok x bars v
    by (simp add: admit_batch_def empty_directory_def check_batch_def ordered_requests_def sample_run_def sample_portfolio_def checks.simps
        byte_limit_def Let_def)
qed

text \<open>A portfolio without orders, of capital that fits the context, is always balanced.\<close>

lemma account_without_orders:
  assumes "co_positions c = []" "co_reservations c = []" "0 \<le> co_cash c" "co_opening c = co_cash c" "co_realized c = 0"
    "prec40 (co_cash c) = co_cash c"
  obtains a where "account_of c = Inr a"
  using assms by (simp add: account_of_def held_orders_def sum40_def checks.simps Let_def)

lemma sample_simulated:
  obtains c where "portfolio_simulate (xr_portfolio sample_run) [sample_request] sample_limits sample_control = Inr c"
    "co_orders c = []" "length (co_events c) = 1" "\<exists>a. account_of c = Inr a"
proof -
  let ?xp = "xr_portfolio sample_run"
  let ?c0 = "coordinator_init ?xp (binding_of ?xp [sample_request] sample_limits sample_control)"
  let ?gaps = "run_gaps ?xp [sample_request] sample_limits sample_control"
  have "''PAPER_AUTHORIZATION_REQUIRED'' \<in> set ?gaps" by (simp add: run_gaps_def reasons_of_def sample_control_def)
  then have g: "?gaps \<noteq> []" by auto
  have cash: "capital_of (pf_base sample_limits) = 10000" "prec40 10000 = 10000" by code_simp+
  let ?c1 = "\<lambda>es. ?c0\<lparr>co_halted := True, co_events := es\<rparr>"
  obtain a where a: "account_of ?c0 = Inr a"
    by (rule account_without_orders [of ?c0]) (simp_all add: coordinator_init_def binding_of_def Let_def cash)
  have a': "\<exists>a. account_of (?c1 es) = Inr a" for es
    by (rule account_without_orders [of "?c1 es"]) (simp_all add: coordinator_init_def binding_of_def Let_def cash)
  have "\<exists>row. portfolio_halt ?xp (run_start [sample_request]) (Some (join_texts ?gaps)) ?c0 = Inr (?c1 [row])"
    using a a' [of "[]"]
    by (auto simp: portfolio_halt_def portfolio_emit_def move_order_def coordinator_init_def Let_def checks.simps journal_limit_def)
  then obtain row where "portfolio_halt ?xp (run_start [sample_request]) (Some (join_texts ?gaps)) ?c0 = Inr (?c1 [row])" by blast
  then have "portfolio_simulate ?xp [sample_request] sample_limits sample_control = Inr (?c1 [row])"
    using g by (simp add: portfolio_simulate_def Let_def)
  then show thesis by (rule that) (use a' in \<open>simp_all add: coordinator_init_def Let_def\<close>)
qed

lemma sample_completed:
  obtains su finished where "portfolio_run sample_run [sample_request] sample_limits sample_control None empty_directory = (Inr su, finished)"
    "dir_plan finished = Some ''run''"
proof -
  obtain c where c: "portfolio_simulate (xr_portfolio sample_run) [sample_request] sample_limits sample_control = Inr c"
    and o: "co_orders c = []" and l: "length (co_events c) = 1" and a: "\<exists>a. account_of c = Inr a"
    by (rule sample_simulated)
  obtain reports where r: "report_files sample_run c = Inr reports"
    using a o by (auto simp: report_files_def portfolio_reports_def closed_exits_def Let_def)
  then have "\<forall>p \<in> set reports. snd p = []" by (auto simp: report_files_def bindR_Inr_iff sample_run_def)
  moreover have "\<forall>p \<in> set (journal_files sample_run c). snd p = []" by (auto simp: journal_files_nth sample_run_def)
  moreover have "(\<forall>p \<in> set ps. snd p = []) \<Longrightarrow> sum_list (map (\<lambda>p. int (length (snd p))) ps) = 0" for ps :: "(string \<times> string) list"
    by (induction ps) auto
  ultimately have "sum_list (map (\<lambda>p. int (length (snd p))) reports) = 0" "sum_list (map (\<lambda>p. int (length (snd p))) (journal_files sample_run c)) = 0"
    by blast+
  then have b: "check_outputs (journal_files sample_run c) reports None empty_directory = Inr ()"
    by (simp add: check_outputs_def checks.simps empty_directory_def byte_limit_def)
  obtain su where s: "summary_of sample_run [sample_request] reports c = Inr su" using a by (auto simp: summary_of_def)
  let ?f = "\<lparr>dir_plan = Some ''run'', dir_journal = journal_files sample_run c, dir_files = reports @ [(summary_name, xr_summary_json sample_run su)]\<rparr>"
  have "publish_run sample_run [sample_request] None c (empty_directory\<lparr>dir_plan := Some ''run''\<rparr>) = (Inr su, ?f)"
    by (rule publish_run_resumed(1) [OF simulated_length [OF c] r b s refl]) (auto simp: empty_directory_def intro!: exI [of _ 0])
  then have "portfolio_run sample_run [sample_request] sample_limits sample_control None empty_directory = (Inr su, ?f)"
    using sample_admitted c by (simp add: portfolio_run_def)
  then show thesis by (rule that) simp
qed


end
