(* ===== verification/Effects.thy ===== *)
theory Effects
  imports Prelude
begin

text \<open>
  Statements that change a state and may raise.  Where an exception is caught, what it leaves behind matters: a statement is a
  function to the exception, if any, and the state at that point.  \<open>leads P f Q E\<close> is the triple for such a statement: started
  in \<open>P\<close> it ends normally in \<open>Q\<close> or raises \<open>e\<close> in a state with \<open>E e\<close>.  There is one rule per construct.
\<close>

section \<open>Statements\<close>

type_synonym 's eff = "'s \<Rightarrow> exc option \<times> 's"

definition skipE :: "'s eff" where
  "skipE s = (None, s)"

definition raiseE :: "exc \<Rightarrow> 's eff" where
  "raiseE e s = (Some e, s)"

definition updateE :: "('s \<Rightarrow> 's) \<Rightarrow> 's eff" where
  "updateE f s = (None, f s)"

definition seqE :: "'s eff \<Rightarrow> 's eff \<Rightarrow> 's eff" where
  "seqE f g s = (case f s of (None, t) \<Rightarrow> g t | (Some e, t) \<Rightarrow> (Some e, t))"

text \<open>A statement that reads the state, and one that continues with the value of a call that may raise.\<close>

definition readE :: "('s \<Rightarrow> 's eff) \<Rightarrow> 's eff" where
  "readE f s = f s s"

definition withR :: "'a res \<Rightarrow> ('a \<Rightarrow> 's eff) \<Rightarrow> 's eff" where
  "withR m f s = (case m of Inl e \<Rightarrow> (Some e, s) | Inr x \<Rightarrow> f x s)"

definition checkE :: "(bool \<times> string) list \<Rightarrow> 's eff" where
  "checkE cs = withR (checks cs) (\<lambda>_. skipE)"

primrec eachE :: "('a \<Rightarrow> 's eff) \<Rightarrow> 'a list \<Rightarrow> 's eff" where
  "eachE f [] = skipE"
| "eachE f (x # xs) = seqE (f x) (eachE f xs)"

text \<open>A statement on a part of the state.\<close>

definition partE :: "('s \<Rightarrow> 't) \<Rightarrow> ('t \<Rightarrow> 's \<Rightarrow> 's) \<Rightarrow> 't eff \<Rightarrow> 's eff" where
  "partE get put f s = (case f (get s) of (e, t) \<Rightarrow> (e, put t s))"

section \<open>Triples\<close>

definition leads :: "('s \<Rightarrow> bool) \<Rightarrow> 's eff \<Rightarrow> ('s \<Rightarrow> bool) \<Rightarrow> (exc \<Rightarrow> 's \<Rightarrow> bool) \<Rightarrow> bool" where
  "leads P f Q E \<longleftrightarrow> (\<forall>s. P s \<longrightarrow> (case f s of (None, t) \<Rightarrow> Q t | (Some e, t) \<Rightarrow> E e t))"

named_theorems leads_intros \<open>one rule per construct\<close>

lemma leadsI:
  assumes "\<And>s t. P s \<Longrightarrow> f s = (None, t) \<Longrightarrow> Q t" and "\<And>s e t. P s \<Longrightarrow> f s = (Some e, t) \<Longrightarrow> E e t"
  shows "leads P f Q E"
  using assms by (auto simp: leads_def split: option.splits)

lemma leadsD:
  assumes "leads P f Q E" and "P s"
  shows "f s = (None, t) \<Longrightarrow> Q t" and "f s = (Some e, t) \<Longrightarrow> E e t"
  using assms by (force simp: leads_def)+

lemma leads_weaken:
  assumes "leads P' f Q' E'" and "\<And>s. P s \<Longrightarrow> P' s" and "\<And>s. Q' s \<Longrightarrow> Q s" and "\<And>e s. E' e s \<Longrightarrow> E e s"
  shows "leads P f Q E"
  using assms by (fastforce simp: leads_def split: option.splits prod.splits)

lemma leads_skip [leads_intros]: "(\<And>s. P s \<Longrightarrow> Q s) \<Longrightarrow> leads P skipE Q E"
  by (simp add: leads_def skipE_def)

lemma leads_raise [leads_intros]: "(\<And>s. P s \<Longrightarrow> E e s) \<Longrightarrow> leads P (raiseE e) Q E"
  by (simp add: leads_def raiseE_def)

lemma leads_update [leads_intros]: "(\<And>s. P s \<Longrightarrow> Q (f s)) \<Longrightarrow> leads P (updateE f) Q E"
  by (simp add: leads_def updateE_def)

lemma leads_seq: "leads P f R E \<Longrightarrow> leads R g Q E \<Longrightarrow> leads P (seqE f g) Q E"
  by (fastforce simp: leads_def seqE_def split: option.splits prod.splits)

lemma leads_read [leads_intros]: "(\<And>s0. P s0 \<Longrightarrow> leads (\<lambda>s. s = s0 \<and> P s) (f s0) Q E) \<Longrightarrow> leads P (readE f) Q E"
  by (fastforce simp: leads_def readE_def)

lemma leads_with [leads_intros]:
  "(\<And>e s. P s \<Longrightarrow> m = Inl e \<Longrightarrow> E e s) \<Longrightarrow> (\<And>x. m = Inr x \<Longrightarrow> leads P (f x) Q E) \<Longrightarrow> leads P (withR m f) Q E"
  by (cases m) (auto simp: leads_def withR_def)

lemma leads_check [leads_intros]:
  "(\<And>e s. P s \<Longrightarrow> checks cs = Inl e \<Longrightarrow> E e s) \<Longrightarrow> (\<And>s. P s \<Longrightarrow> \<forall>c \<in> set cs. \<not> fst c \<Longrightarrow> Q s) \<Longrightarrow> leads P (checkE cs) Q E"
  unfolding checkE_def by (intro leads_with leads_skip) (auto simp: checks_Inr_iff)

lemma leads_if [leads_intros]: "(b \<Longrightarrow> leads P f Q E) \<Longrightarrow> (\<not> b \<Longrightarrow> leads P g Q E) \<Longrightarrow> leads P (if b then f else g) Q E"
  by simp

lemma leads_option [leads_intros]:
  "(x = None \<Longrightarrow> leads P f Q E) \<Longrightarrow> (\<And>y. x = Some y \<Longrightarrow> leads P (g y) Q E) \<Longrightarrow>
     leads P (case x of None \<Rightarrow> f | Some y \<Rightarrow> g y) Q E"
  by (cases x) simp_all

lemma leads_let [leads_intros]: "(\<And>x. x = t \<Longrightarrow> leads P (f x) Q E) \<Longrightarrow> leads P (Let t f) Q E"
  by simp

text \<open>A loop keeps an invariant that each iteration keeps.\<close>

lemma leads_each: "(\<And>x. x \<in> set xs \<Longrightarrow> leads P (f x) P E) \<Longrightarrow> leads P (eachE f xs) P E"
proof (induction xs)
  case (Cons x xs)
  have "leads P (f x) P E" "leads P (eachE f xs) P E" using Cons by simp_all
  then show ?case by (simp only: eachE.simps) (rule leads_seq)
qed (simp add: leads_skip)

text \<open>Two invariants together.\<close>

lemma leads_conj:
  "leads P f Q E \<Longrightarrow> leads P' f Q' E' \<Longrightarrow> leads (\<lambda>s. P s \<and> P' s) f (\<lambda>s. Q s \<and> Q' s) (\<lambda>e s. E e s \<and> E' e s)"
  by (fastforce simp: leads_def split: option.splits prod.splits)

lemma leads_part:
  assumes "\<And>s. P s \<Longrightarrow> leads (\<lambda>c. c = get s) f (\<lambda>c. Q (put c s)) (\<lambda>e c. E e (put c s))"
  shows "leads P (partE get put f) Q E"
  using assms by (fastforce simp: leads_def partE_def split: option.splits prod.splits)

text \<open>An outcome of a statement, taken apart.\<close>

lemma seqE_None: "seqE f g s = (None, t) \<longleftrightarrow> (\<exists>u. f s = (None, u) \<and> g u = (None, t))"
  by (auto simp: seqE_def split: prod.splits option.splits)

lemma withR_None: "withR m f s = (None, t) \<longleftrightarrow> (\<exists>x. m = Inr x \<and> f x s = (None, t))"
  by (auto simp: withR_def split: sum.splits)

end
