(* ===== verification/Portfolio_Statements.thy ===== *)
theory Portfolio_Statements
  imports Effects Portfolio_Run
begin

text \<open>
  The methods of the portfolio coordinator as statements: the same \<open>emit\<close>, \<open>halt\<close>, \<open>guard\<close> and \<open>enter\<close> of
  \<open>phase1418/portfolio.py\<close>, with the state that an exception leaves behind.  The session scheduler of
  \<open>phase1419/scheduler.py\<close> catches \<open>ValueError\<close> and goes on with that state.  Its subclass \<open>Portfolio\<close> overrides
  \<open>emit\<close> to simulate a crash after a chosen state.
\<close>

fun event_state :: "portfolio_event \<Rightarrow> string" where
  "event_state (Propose symbol strategy qualification sig) = ''PROPOSED''"
| "event_state Risk_Check = ''RISK_CHECKED''"
| "event_state (Reject reason) = ''REJECTED''"
| "event_state (Reserve amount quantity tim) = ''RESERVED''"
| "event_state Accept = ''ACCEPTED''"
| "event_state (Fill price tim quantity fees stop target) = ''FILLED''"
| "event_state (Exit_Pending reason) = ''EXIT_PENDING''"
| "event_state (Close price fees reason) = ''CLOSED''"
| "event_state (Cancel reason) = ''CANCELLED''"
| "event_state (Mark symbol price) = ''MARK''"
| "event_state (Session_End finished) = ''SESSION_END''"
| "event_state (Halt reason) = ''PAPER_HALTED''"

definition crash_text :: "string \<Rightarrow> string" where
  "crash_text t = ''SYNTHETIC_CRASH:'' @ t"

text \<open>
  What a failed \<open>emit\<close> leaves: nothing is changed before the order is moved, the order is moved before its effect is
  checked, and the effect has happened when the final account is drawn.
\<close>

definition emit_left :: "string \<Rightarrow> portfolio_event \<Rightarrow> instant \<Rightarrow> coordinator \<Rightarrow> coordinator" where
  "emit_left key ev tm c =
     (if journal_limit \<le> int (length (co_events c)) \<or> co_events c \<noteq> [] \<and> tm < je_timestamp (last (co_events c)) then c
      else case account_of c of
        Inl e \<Rightarrow> c
      | Inr a \<Rightarrow>
          (case move_order key ev tm c of
             Inl e \<Rightarrow> c
           | Inr c1 \<Rightarrow> (case effect key ev tm c1 of Inl e \<Rightarrow> c1 | Inr c2 \<Rightarrow> c2)))"

definition emitE :: "portfolio_externals \<Rightarrow> string option \<Rightarrow> string \<Rightarrow> portfolio_event \<Rightarrow> instant \<Rightarrow> coordinator eff" where
  "emitE xp crash key ev tm c =
     (case portfolio_emit xp key ev tm c of
        Inl e \<Rightarrow> (Some e, emit_left key ev tm c)
      | Inr c' \<Rightarrow> (if crash = Some (event_state ev) then Some (InterruptedError (crash_text (event_state ev))) else None, c'))"

definition haltE :: "portfolio_externals \<Rightarrow> string option \<Rightarrow> instant \<Rightarrow> string \<Rightarrow> coordinator eff" where
  "haltE xp crash tm reason = readE (\<lambda>c. if co_halted c then skipE else emitE xp crash portfolio_key (Halt (Some reason)) tm)"

definition start_dayE :: "instant \<Rightarrow> coordinator eff" where
  "start_dayE tm = readE (\<lambda>c.
     if co_day c \<noteq> Some (nse_date tm)
     then seqE (updateE (\<lambda>c. c\<lparr>co_day := Some (nse_date tm)\<rparr>))
       (readE (\<lambda>c. withR (account_of c) (\<lambda>a. updateE (\<lambda>c. c\<lparr>co_day_equity := ac_equity a\<rparr>))))
     else skipE)"

definition guardE :: "portfolio_externals \<Rightarrow> string option \<Rightarrow> instant \<Rightarrow> coordinator eff" where
  "guardE xp crash tm = seqE (start_dayE tm) (readE (\<lambda>c.
     case rk_daily_loss (pf_base (co_policy c)) of
       None \<Rightarrow> skipE
     | Some limit \<Rightarrow>
         if limit = 0 then skipE
         else withR (account_of c) (\<lambda>a.
           if limit \<le> prec40 (co_day_equity c - ac_equity a) then haltE xp crash tm ''DAILY_LOSS_BREACH'' else skipE)))"

definition reserve_and_fillE ::
  "portfolio_externals \<Rightarrow> string option \<Rightarrow> string \<Rightarrow> request \<Rightarrow> order \<Rightarrow> rat \<Rightarrow> int \<Rightarrow> instant \<Rightarrow> string list \<Rightarrow> coordinator eff" where
  "reserve_and_fillE xp crash key rq r price quantity tm cancel_signals =
     withR (quote_total (rq_costs rq) BUY (times40 price quantity) tm None) (\<lambda>fee.
     withR (decision_timing (rq_series rq) tm) (\<lambda>tim.
     seqE (emitE xp crash key (Reserve (prec40 (times40 price quantity + fee)) quantity tim) tm)
       (if or_signal r \<in> set cancel_signals then emitE xp crash key (Cancel ''EXPLICIT_PAPER_CANCEL'') tm
        else seqE (emitE xp crash key Accept tm)
          (emitE xp crash key (Fill price tim quantity fee (prec40 (price * prec40 (1 - def_stop (rq_definition rq))))
             (prec40 (price * prec40 (1 + def_target (rq_definition rq))))) tm))))"

definition enterE ::
  "portfolio_externals \<Rightarrow> string option \<Rightarrow> string \<Rightarrow> request \<Rightarrow> rat \<Rightarrow> int \<Rightarrow> instant \<Rightarrow> control \<Rightarrow> coordinator eff" where
  "enterE xp crash key rq price quantity tm ct = readE (\<lambda>c. withR (order_at c key) (\<lambda>r.
     if or_state r \<noteq> PROPOSED then skipE
     else seqE (emitE xp crash key Risk_Check tm) (readE (\<lambda>c.
       case entry_refusal r tm c of
         Some reason \<Rightarrow> emitE xp crash key (Reject (Some reason)) tm
       | None \<Rightarrow>
           withR (remaining_exposure c r) (\<lambda>remaining.
           if bar_at (sr_bars (rq_series rq)) tm = None
           then seqE (haltE xp crash tm ''MISSING_ENTRY_DATA'') (emitE xp crash key (Reject (Some ''MISSING_ENTRY_DATA'')) tm)
           else withR (entry_size rq price quantity tm remaining c) (\<lambda>size.
             if size \<le> 0 then emitE xp crash key (Reject (Some ''CASH_EXPOSURE_LIQUIDITY_OR_RISK'')) tm
             else reserve_and_fillE xp crash key rq r price size tm (ct_cancel_signals ct)))))))"

text \<open>The account does not depend on the day's opening equity, on the signals seen or on the journal.\<close>

lemma account_of_day: "account_of (c\<lparr>co_day := day\<rparr>) = account_of c"
proof -
  have "marked_of (c\<lparr>co_day := day\<rparr>) = marked_of c" "unrealized_of (c\<lparr>co_day := day\<rparr>) = unrealized_of c"
    by (simp_all add: fun_eq_iff marked_of_def unrealized_of_def mark_of_def)
  then show ?thesis by (simp add: account_of_def held_orders_def order_at_def)
qed

section \<open>Agreement with the functional coordinator\<close>

text \<open>
  The outcome of a statement agrees with the result of a function when a normal end is that result and when, if the agreement
  is exact, the result is a normal end and the function's exception is the one raised.
\<close>

definition agrees :: "bool \<Rightarrow> exc option \<times> 's \<Rightarrow> 's res \<Rightarrow> bool" where
  "agrees exact out m \<longleftrightarrow> (\<forall>c. out = (None, c) \<longrightarrow> m = Inr c)
     \<and> (exact \<longrightarrow> (case m of Inr c \<Rightarrow> out = (None, c) | Inl e \<Rightarrow> fst out = Some e))"

named_theorems agrees_intros \<open>one rule per construct\<close>

lemma agrees_skip [agrees_intros]: "agrees exact (skipE c) (Inr c)"
  by (simp add: agrees_def skipE_def)

lemma agrees_seq [agrees_intros]:
  assumes "agrees exact (f c) m" and "\<And>d. m = Inr d \<Longrightarrow> agrees exact (g d) (h d)"
  shows "agrees exact (seqE f g c) (bindR m h)"
proof -
  obtain x d where f: "f c = (x, d)" by (cases "f c")
  show ?thesis
  proof (cases x)
    case None
    then have "m = Inr d" using assms(1) f by (simp add: agrees_def)
    then show ?thesis using assms(2) f None by (simp add: seqE_def)
  next
    case (Some e)
    then show ?thesis using assms(1) f by (cases m) (auto simp: agrees_def seqE_def)
  qed
qed

lemma agrees_read [agrees_intros]: "agrees exact (f c c) m \<Longrightarrow> agrees exact (readE f c) m"
  by (simp add: readE_def)

lemma agrees_with [agrees_intros]: "(\<And>x. m = Inr x \<Longrightarrow> agrees exact (f x c) (g x)) \<Longrightarrow> agrees exact (withR m f c) (bindR m g)"
  by (cases m) (simp_all add: agrees_def withR_def)

lemma agrees_if [agrees_intros]:
  "(b \<Longrightarrow> agrees exact (f c) m) \<Longrightarrow> (\<not> b \<Longrightarrow> agrees exact (g c) n) \<Longrightarrow>
     agrees exact ((if b then f else g) c) (if b then m else n)"
  by simp

lemma agrees_option [agrees_intros]:
  "(x = None \<Longrightarrow> agrees exact (f c) m) \<Longrightarrow> (\<And>y. x = Some y \<Longrightarrow> agrees exact (g y c) (n y)) \<Longrightarrow>
     agrees exact ((case x of None \<Rightarrow> f | Some y \<Rightarrow> g y) c) (case x of None \<Rightarrow> m | Some y \<Rightarrow> n y)"
  by (cases x) simp_all

lemma emit_agrees [agrees_intros]: "agrees (crash = None) (emitE xp crash key ev tm c) (portfolio_emit xp key ev tm c)"
  by (auto simp: agrees_def emitE_def split: sum.splits if_splits)

lemma halt_agrees [agrees_intros]: "agrees (crash = None) (haltE xp crash tm reason c) (portfolio_halt xp tm (Some reason) c)"
  unfolding haltE_def portfolio_halt_def by (intro agrees_intros)

lemma guard_agrees [agrees_intros]: "agrees (crash = None) (guardE xp crash tm c) (portfolio_guard xp tm c)"
  unfolding guardE_def portfolio_guard_def
proof (intro agrees_intros)
  show "agrees (crash = None) (start_dayE tm c)
     (if co_day c \<noteq> Some (nse_date tm)
      then bindR (account_of c) (\<lambda>a. Inr (c\<lparr>co_day := Some (nse_date tm), co_day_equity := ac_equity a\<rparr>)) else Inr c)"
    by (cases "account_of c") (simp_all add: start_dayE_def readE_def seqE_def updateE_def withR_def skipE_def agrees_def account_of_day)
qed

lemma reserve_and_fill_agrees [agrees_intros]:
  "agrees (crash = None) (reserve_and_fillE xp crash key rq r price quantity tm cancel_signals c)
     (reserve_and_fill xp key rq r price quantity tm cancel_signals c)"
  unfolding reserve_and_fillE_def reserve_and_fill_def by (intro agrees_intros)

lemma enter_agrees [agrees_intros]:
  "agrees (crash = None) (enterE xp crash key rq price quantity tm ct c) (portfolio_enter xp key rq (Some price) quantity tm ct c)"
  unfolding enterE_def portfolio_enter_def option.simps
  by (intro agrees_intros)

end
