(* ===== verification/Sha_Eval.thy ===== *)
theory Sha_Eval
  imports Paper
begin

unbundle bit_operations_syntax

text \<open>
  SHA-256 on integers: the same rounds as \<open>Texts\<close> with every word replaced by its value, so that the simplifier can run
  them on numerals.  The equations of \<open>digest\<close> are exchanged for these, and the fingerprint of the execution policy is
  computed once and for all.
\<close>

section \<open>Rounds on integers\<close>

datatype sha_ints = Ints int int int int int int int int

fun uints :: "sha_state \<Rightarrow> sha_ints" where
  "uints (Sha a b c d e f g h) = Ints (uint a) (uint b) (uint c) (uint d) (uint e) (uint f) (uint g) (uint h)"

text \<open>Shifts and remainders by a power of two, by the bits of the numeral; the exponent counts in unary.\<close>

definition half :: "int \<Rightarrow> int" where
  "half x = x div 2"

lemma half_code [code]:
  "half (Int.Pos (num.Bit0 n)) = Int.Pos n" "half (Int.Pos (num.Bit1 n)) = Int.Pos n" "half (Int.Pos num.One) = 0" "half 0 = 0"
  "half (Int.Neg n) = Int.Neg n div 2"
  by (simp_all add: half_def)

fun shifted :: "unit list \<Rightarrow> int \<Rightarrow> int" where
  "shifted [] x = x"
| "shifted (u # us) x = shifted us (half x)"

lemma shifted_div: "shifted us x = x div 2 ^ length us"
  by (induction us arbitrary: x) (simp_all add: half_def zdiv_zmult2_eq)

definition low_bits :: "unit list \<Rightarrow> int \<Rightarrow> int" where
  "low_bits us x = x mod 2 ^ length us"

lemma low_bits_code [code]:
  "low_bits [] x = 0"
  "low_bits us 0 = 0"
  "low_bits (u # us) (Int.Pos num.One) = 1"
  "low_bits (u # us) (Int.Pos (num.Bit0 n)) = Int.dup (low_bits us (Int.Pos n))"
  "low_bits (u # us) (Int.Pos (num.Bit1 n)) = Int.dup (low_bits us (Int.Pos n)) + 1"
  "low_bits us (Int.Neg n) = Int.Neg n mod 2 ^ length us"
proof -
  have double: "(2 * y) mod (2 * m) = 2 * (y mod m)" "(2 * y + 1) mod (2 * m) = 2 * (y mod m) + 1" if "0 < m" for y m :: int
    using that pos_zmod_mult_2 [of m y] by (simp_all add: mod_mult_mult1 add.commute)
  have p: "(0::int) < 2 ^ length us" by simp
  have dup: "Int.dup k = 2 * k" for k by (simp add: Int.dup_def)
  have n: "(numeral (num.Bit0 n) :: int) = 2 * numeral n" "(numeral (num.Bit1 n) :: int) = 2 * numeral n + 1"
    by (simp_all only: numeral.simps distrib_right mult_1_left)
  show "low_bits (u # us) (Int.Pos (num.Bit0 n)) = Int.dup (low_bits us (Int.Pos n))"
    by (simp only: low_bits_def Int.Pos_def n list.size power_Suc add_Suc_right add_0_right double(1) [OF p] dup)
  show "low_bits (u # us) (Int.Pos (num.Bit1 n)) = Int.dup (low_bits us (Int.Pos n)) + 1"
    by (simp only: low_bits_def Int.Pos_def n list.size power_Suc add_Suc_right add_0_right double(2) [OF p] dup)
  have "(1::int) < 2 ^ Suc (length us)" by (rule one_less_power) simp_all
  then show "low_bits (u # us) (Int.Pos num.One) = 1" by (simp add: low_bits_def mod_pos_pos_trivial)
qed (simp_all add: low_bits_def)

definition wrap32 :: "int \<Rightarrow> int" where
  "wrap32 x = x mod 4294967296"

lemma wrap32_code [code]:
  "wrap32 x = low_bits [(), (), (), (), (), (), (), (), (), (), (), (), (), (), (), (), (), (), (), (), (), (), (), (), (), (), (), (), (), (), (), ()] x"
  by (simp add: wrap32_def low_bits_def)

text \<open>Rotation to the right by the length of the first argument, where \<open>high\<close> and \<open>low\<close> are the powers of two to shift by.\<close>

definition rotr_int :: "unit list \<Rightarrow> int \<Rightarrow> int \<Rightarrow> int \<Rightarrow> int" where
  "rotr_int us low high x = (let y = shifted us x in y + (x - y * low) * high)"

lemma uint_wrap32: "uint (a + b :: u32) = wrap32 (uint a + uint b)"
  by (simp add: wrap32_def uint_word_ariths)

lemma take_bit_uint [simp]: "take_bit 32 (uint (x :: u32)) = uint x"
  using take_bit_length_eq [of x] by (simp add: unsigned_take_bit_eq [symmetric])

lemma uint_rotr:
  assumes "n \<le> 32"
  shows "uint (rotr n x) = rotr_int (replicate n ()) (2 ^ n) (2 ^ (32 - n)) (uint x)"
proof -
  have "uint (rotr n x) = drop_bit n (uint x) OR push_bit (32 - n) (take_bit n (uint x))"
    using assms by (simp add: rotr_def unsigned_or_eq unsigned_drop_bit_eq unsigned_push_bit_eq take_bit_push_bit)
  also have "\<dots> = drop_bit n (uint x) + push_bit (32 - n) (take_bit n (uint x))"
  proof (rule disjunctive_add_eq_or [symmetric], rule bit_eqI)
    fix k
    have "\<not> bit (uint x) i" if "32 \<le> i" for i
      using that bit_take_bit_iff [of 32 "uint x" i] by simp
    then show "bit (drop_bit n (uint x) AND push_bit (32 - n) (take_bit n (uint x))) k = bit 0 k"
      using assms by (auto simp: bit_and_iff bit_drop_bit_eq bit_push_bit_iff bit_take_bit_iff)
  qed
  also have "\<dots> = rotr_int (replicate n ()) (2 ^ n) (2 ^ (32 - n)) (uint x)"
    by (simp add: rotr_int_def Let_def shifted_div drop_bit_eq_div push_bit_eq_mult take_bit_eq_mod minus_div_mult_eq_mod)
  finally show ?thesis .
qed

definition turn2 :: "int \<Rightarrow> int" where
  "turn2 = rotr_int [(), ()] 4 1073741824"

definition turn6 :: "int \<Rightarrow> int" where
  "turn6 = rotr_int [(), (), (), (), (), ()] 64 67108864"

definition turn7 :: "int \<Rightarrow> int" where
  "turn7 = rotr_int [(), (), (), (), (), (), ()] 128 33554432"

definition turn11 :: "int \<Rightarrow> int" where
  "turn11 = rotr_int [(), (), (), (), (), (), (), (), (), (), ()] 2048 2097152"

definition turn13 :: "int \<Rightarrow> int" where
  "turn13 = rotr_int [(), (), (), (), (), (), (), (), (), (), (), (), ()] 8192 524288"

definition turn17 :: "int \<Rightarrow> int" where
  "turn17 = rotr_int [(), (), (), (), (), (), (), (), (), (), (), (), (), (), (), (), ()] 131072 32768"

definition turn18 :: "int \<Rightarrow> int" where
  "turn18 = rotr_int [(), (), (), (), (), (), (), (), (), (), (), (), (), (), (), (), (), ()] 262144 16384"

definition turn19 :: "int \<Rightarrow> int" where
  "turn19 = rotr_int [(), (), (), (), (), (), (), (), (), (), (), (), (), (), (), (), (), (), ()] 524288 8192"

definition turn22 :: "int \<Rightarrow> int" where
  "turn22 = rotr_int [(), (), (), (), (), (), (), (), (), (), (), (), (), (), (), (), (), (), (), (), (), ()] 4194304 1024"

definition turn25 :: "int \<Rightarrow> int" where
  "turn25 = rotr_int [(), (), (), (), (), (), (), (), (), (), (), (), (), (), (), (), (), (), (), (), (), (), (), (), ()] 33554432 128"

lemmas turn_defs = turn2_def turn6_def turn7_def turn11_def turn13_def turn17_def turn18_def turn19_def turn22_def turn25_def

lemma uint_turn:
  "uint (rotr 2 x) = turn2 (uint x)"
  "uint (rotr 6 x) = turn6 (uint x)"
  "uint (rotr 7 x) = turn7 (uint x)"
  "uint (rotr 11 x) = turn11 (uint x)"
  "uint (rotr 13 x) = turn13 (uint x)"
  "uint (rotr 17 x) = turn17 (uint x)"
  "uint (rotr 18 x) = turn18 (uint x)"
  "uint (rotr 19 x) = turn19 (uint x)"
  "uint (rotr 22 x) = turn22 (uint x)"
  "uint (rotr 25 x) = turn25 (uint x)"
  by (simp_all add: uint_rotr turn_defs) (simp_all add: eval_nat_numeral)

lemma uint_NOT: "uint (NOT w :: u32) = 4294967295 - uint w"
  by (simp add: unsigned_not_eq take_bit_not_eq_mask_diff mask_eq_exp_minus_1)

fun sha_round_ints :: "sha_ints \<Rightarrow> int \<times> int \<Rightarrow> sha_ints" where
  "sha_round_ints (Ints a b c d e f g h) (k, w) =
     (let s1 = turn6 e XOR turn11 e XOR turn25 e;
          ch = (e AND f) XOR ((4294967295 - e) AND g);
          t1 = wrap32 (h + s1 + ch + k + w);
          s0 = turn2 a XOR turn13 a XOR turn22 a;
          maj = (a AND b) XOR (a AND c) XOR (b AND c)
      in Ints (wrap32 (t1 + s0 + maj)) a b c (wrap32 (d + t1)) e f g)"

lemma wrap32_simps [simp]:
  "wrap32 (wrap32 x + y) = wrap32 (x + y)" "wrap32 (x + wrap32 y) = wrap32 (x + y)"
  by (simp_all add: wrap32_def mod_simps)

lemma uints_round: "uints (sha_round st (k, w)) = sha_round_ints (uints st) (uint k, uint w)"
  by (cases st) (simp add: Let_def uint_wrap32 uint_turn uint_NOT unsigned_xor_eq unsigned_and_eq add.assoc)

lemma uints_rounds: "uints (foldl sha_round st (zip ks ws)) = foldl sha_round_ints (uints st) (zip (map uint ks) (map uint ws))"
  by (induction ks arbitrary: st ws; case_tac ws) (simp_all add: uints_round)

fun extend_ints :: "nat \<Rightarrow> int list \<Rightarrow> int list" where
  "extend_ints 0 w = w"
| "extend_ints (Suc n) w =
     (let w2 = w ! 1; w15 = w ! 14;
          s0 = turn7 w15 XOR turn18 w15 XOR shifted [(), (), ()] w15;
          s1 = turn17 w2 XOR turn19 w2 XOR shifted [(), (), (), (), (), (), (), (), (), ()] w2
      in extend_ints n (wrap32 (w ! 15 + s0 + w ! 6 + s1) # w))"

lemma uint_drop_bit: "uint (drop_bit n (w :: u32)) = uint w div 2 ^ n"
  by (simp add: unsigned_drop_bit_eq drop_bit_eq_div [symmetric])

lemma uints_extend: "16 \<le> length w \<Longrightarrow> map uint (sha_extend n w) = extend_ints n (map uint w)"
  by (induction n w rule: sha_extend.induct)
    (simp_all add: Let_def uint_wrap32 uint_turn uint_drop_bit shifted_div unsigned_xor_eq add.assoc)

fun add_ints :: "sha_ints \<Rightarrow> sha_ints \<Rightarrow> sha_ints" where
  "add_ints (Ints a b c d e f g h) (Ints a' b' c' d' e' f' g' h') =
     Ints (wrap32 (a + a')) (wrap32 (b + b')) (wrap32 (c + c')) (wrap32 (d + d'))
       (wrap32 (e + e')) (wrap32 (f + f')) (wrap32 (g + g')) (wrap32 (h + h'))"

lemma uints_add: "uints (sha_add s t) = add_ints (uints s) (uints t)"
  by (cases s; cases t) (simp add: uint_wrap32)

definition round_constants :: "int list" where
  "round_constants = map uint sha_K"

definition block_ints :: "sha_ints \<Rightarrow> int list \<Rightarrow> sha_ints" where
  "block_ints st m = add_ints st (foldl sha_round_ints st (zip round_constants (rev (extend_ints 48 (rev m)))))"

lemma uints_block: "length m = 16 \<Longrightarrow> uints (sha_block st m) = block_ints (uints st) (map uint m)"
  by (simp add: sha_block_def block_ints_def uints_add uints_rounds uints_extend rev_map [symmetric] round_constants_def)

section \<open>The digest\<close>

fun word_ints :: "int list \<Rightarrow> int list" where
  "word_ints (a # b # c # d # bs) = wrap32 (((a * 256 + b) * 256 + c) * 256 + d) # word_ints bs"
| "word_ints _ = []"

lemma uint_word_of_int: "uint (word_of_int x :: u32) = wrap32 x"
  by (simp add: wrap32_def unsigned_of_int take_bit_eq_mod)

lemma uint_words: "map uint (sha_words bs) = word_ints bs"
  by (induction bs rule: sha_words.induct) (simp_all only: sha_words.simps word_ints.simps list.map uint_word_of_int)

lemma length_sha_words: "length (sha_words bs) = length bs div 4"
  by (induction bs rule: sha_words.induct) simp_all

fun blocks_ints :: "nat \<Rightarrow> sha_ints \<Rightarrow> int list \<Rightarrow> sha_ints" where
  "blocks_ints 0 st ws = st"
| "blocks_ints (Suc n) st ws = blocks_ints n (block_ints st (take 16 ws)) (drop 16 ws)"

lemma uints_blocks: "16 * n \<le> length ws \<Longrightarrow> uints (sha_blocks n st ws) = blocks_ints n (uints st) (map uint ws)"
  by (induction n arbitrary: st ws) (simp_all add: uints_block take_map drop_map)

definition hex_int :: "int \<Rightarrow> string" where
  "hex_int x = map (\<lambda>i. hex_digit (x div 16 ^ (7 - i) mod 16)) [0..<8]"

fun hex_ints :: "sha_ints \<Rightarrow> string" where
  "hex_ints (Ints a b c d e f g h) = concat (map hex_int [a, b, c, d, e, f, g, h])"

lemma hex_state_uints: "hex_state st = hex_ints (uints st)"
  by (cases st) (simp add: hex_word_def hex_int_def)

definition init_ints :: sha_ints where
  "init_ints = Ints 1779033703 3144134277 1013904242 2773480762 1359893119 2600822924 528734635 1541459225"

lemma init_ints: "uints sha_init = init_ints"
  by (simp add: sha_init_def init_ints_def)

lemma digest_ints [code]:
  "digest text = (let bs = sha_pad (map of_char text) in hex_ints (blocks_ints (length bs div 64) init_ints (word_ints bs)))"
proof -
  have "16 * (n div 64) \<le> n div 4" for n :: nat by simp
  then show ?thesis
    by (simp add: digest_def Let_def hex_state_uints uints_blocks length_sha_words init_ints uint_words)
qed

lemma round_constants_code [code]:
  "round_constants =
    [1116352408, 1899447441, 3049323471, 3921009573, 961987163, 1508970993, 2453635748, 2870763221,
     3624381080, 310598401, 607225278, 1426881987, 1925078388, 2162078206, 2614888103, 3248222580,
     3835390401, 4022224774, 264347078, 604807628, 770255983, 1249150122, 1555081692, 1996064986,
     2554220882, 2821834349, 2952996808, 3210313671, 3336571891, 3584528711, 113926993, 338241895,
     666307205, 773529912, 1294757372, 1396182291, 1695183700, 1986661051, 2177026350, 2456956037,
     2730485921, 2820302411, 3259730800, 3345764771, 3516065817, 3600352804, 4094571909, 275423344,
     430227734, 506948616, 659060556, 883997877, 958139571, 1322822218, 1537002063, 1747873779,
     1955562222, 2024104815, 2227730452, 2361852424, 2428436474, 2756734187, 3204031479, 3329325298]"
  by (simp add: round_constants_def sha_K_def)

section \<open>The fingerprint of the execution policy\<close>

text \<open>The seven blocks of the padded policy text.\<close>

definition policy_block0 :: "int list" where
  "policy_block0 =
    [2065851758, 1953659170, 975326789, 1481924431, 1346719327, 1347568982, 1229935955, 1598246733,
     1347175764, 1162108758, 1330402637, 1163870540, 1281314642, 1598967630, 1159867426, 1702390132]"

definition policy_block1 :: "int list" where
  "policy_block1 =
    [574235219, 1414484063, 1179210323, 1415533633, 1380402516, 1598377796, 1598246734, 1179210317,
     1598116959, 1128353348, 1279614789, 1313088044, 577530225, 1969841257, 1954095674, 575229261]"

definition policy_block2 :: "int list" where
  "policy_block2 =
    [1162103105, 1413827673, 1599099461, 1128612937, 1313300291, 1330466892, 1163150660, 1599291725,
     1163875141, 1397967183, 1314865985, 1313098821, 573317741, 1769173865, 1852268396, 1769043305]"

definition policy_block3 :: "int list" where
  "policy_block3 =
    [1684632697, 574235218, 1162495299, 1415532111, 1598439756, 1279410499, 1260530722, 1885434484,
     1767992415, 1718185068, 1931623014, 1634497381, 740454773, 1634628713, 1954095674, 575031640]"

definition policy_block4 :: "int list" where
  "policy_block4 =
    [1162108737, 1415532370, 1145393759, 1129465153, 1414090574, 1599555924, 1214205776, 1162758478,
     1197428818, 1229145439, 1329746757, 1381384532, 1229934114, 740455790, 1718185068, 1701076837]"

definition policy_block5 :: "int list" where
  "policy_block5 =
    [2020176930, 975325249, 1280597842, 1163149641, 1314869327, 1397314633, 1330520620, 578184562,
     1936289646, 574235216, 1751216997, 825504056, 1111712117, 1935764549, 2019910517, 1953066862]"

definition policy_block6 :: "int list" where
  "policy_block6 =
    [779497762, 2105540608, 0, 0, 0, 0, 0, 0,
     0, 0, 0, 0, 0, 0, 0, 3112]"

lemma policy_words:
  "word_ints (sha_pad (map of_char execution_policy_text)) = policy_block0 @ policy_block1 @ policy_block2 @ policy_block3 @ policy_block4 @ policy_block5 @ policy_block6"
  by code_simp

lemma policy_state0:
  "block_ints (Ints 1779033703 3144134277 1013904242 2773480762 1359893119 2600822924 528734635 1541459225) policy_block0
     = Ints 4248129531 4270406367 1450325563 3529704591 1289074283 27188994 1784856037 2080456924"
  by code_simp

lemma policy_state1:
  "block_ints (Ints 4248129531 4270406367 1450325563 3529704591 1289074283 27188994 1784856037 2080456924) policy_block1
     = Ints 2051559198 3668837425 138487202 3690644915 3683538383 3303016005 797078245 2731840455"
  by code_simp

lemma policy_state2:
  "block_ints (Ints 2051559198 3668837425 138487202 3690644915 3683538383 3303016005 797078245 2731840455) policy_block2
     = Ints 69454612 3256138420 198437403 2488407388 86831948 3132069822 3399857573 2935769150"
  by code_simp

lemma policy_state3:
  "block_ints (Ints 69454612 3256138420 198437403 2488407388 86831948 3132069822 3399857573 2935769150) policy_block3
     = Ints 4269340642 212556532 3638498935 1607579212 4212077118 852879834 1384264322 424029317"
  by code_simp

lemma policy_state4:
  "block_ints (Ints 4269340642 212556532 3638498935 1607579212 4212077118 852879834 1384264322 424029317) policy_block4
     = Ints 3224147903 1305811801 4029388924 364569654 4280899216 642909625 2476493067 576045129"
  by code_simp

lemma policy_state5:
  "block_ints (Ints 3224147903 1305811801 4029388924 364569654 4280899216 642909625 2476493067 576045129) policy_block5
     = Ints 2494140103 843857260 242721423 4030470750 3734177988 697118014 1378228852 3843532829"
  by code_simp

lemma policy_state6:
  "block_ints (Ints 2494140103 843857260 242721423 4030470750 3734177988 697118014 1378228852 3843532829) policy_block6
     = Ints 544776462 3403144975 2935372003 3873668788 2156677772 867131320 411284519 3505215781"
  by code_simp

lemmas policy_states = policy_state0 policy_state1 policy_state2 policy_state3 policy_state4 policy_state5 policy_state6

lemma policy_block_lengths: "length policy_block0 = 16" "length policy_block1 = 16" "length policy_block2 = 16" "length policy_block3 = 16" "length policy_block4 = 16" "length policy_block5 = 16" "length policy_block6 = 16"
  by (simp_all add: policy_block0_def policy_block1_def policy_block2_def policy_block3_def policy_block4_def policy_block5_def policy_block6_def)

lemma blocks_ints_step:
  "length b = 16 \<Longrightarrow> blocks_ints (Suc n) st (b @ ws) = blocks_ints n (block_ints st b) ws"
  "length b = 16 \<Longrightarrow> blocks_ints (Suc 0) st b = block_ints st b"
  by simp_all

text \<open>\<open>EXECUTION_HASH\<close> of the session scheduler is the fingerprint that \<open>execution_fingerprint()\<close> computes.\<close>

lemma execution_fingerprint_value [code]:
  "execution_fingerprint = ''2078a10ecad7df0faef638e3e6e37eb4808c4a8c33af5fb81883b427d0ed5925''"
proof -
  have n: "length (sha_pad (map of_char execution_policy_text)) div 64 = Suc (Suc (Suc (Suc (Suc (Suc (Suc 0))))))" by code_simp
  have h: "hex_ints (Ints 544776462 3403144975 2935372003 3873668788 2156677772 867131320 411284519 3505215781)
     = ''2078a10ecad7df0faef638e3e6e37eb4808c4a8c33af5fb81883b427d0ed5925''" by code_simp
  show ?thesis
    unfolding execution_fingerprint_def digest_ints Let_def n policy_words init_ints_def
    by (simp only: blocks_ints_step policy_block_lengths policy_states append_assoc h)
qed

end
