(* ===== verification/Scheduler.thy ===== *)
theory Scheduler
  imports Portfolio_Statements Sha_Eval
begin

text \<open>
  \<open>phase1419/scheduler.py\<close>: a session driven by explicit commands over the strategy and portfolio components.  The engine is a
  state machine from creation over preflight, open, steps and close to reconciliation.  Every command is applied as a whole: a
  \<open>ValueError\<close> anywhere in it is caught, halts the session and is written to the row of the command; any other exception ends the
  run.  The statements of \<open>Effects\<close> keep track of what was changed before the exception.

  Candles are \<open>bar\<close>s, dictionaries are association lists.  The texts of pydantic validation errors are represented by their
  codes.  The JSON texts, the fingerprint of a calendar, the installed software, the universe file and the registry hash are
  parameters, gathered in \<open>session_externals\<close>; the local list \<open>candle_ids\<close> of \<open>_apply\<close> is a field of the engine that each
  command resets.
\<close>

section \<open>States\<close>

datatype session_state =
    CREATED | PREMARKET_CHECK | READY | SESSION_OPEN | RUNNING | ENTRY_CUTOFF | EOD_LIQUIDATION | RECONCILING
  | HALTED | FAILED | COMPLETED | RECOVERY_PENDING

fun session_state_text :: "session_state \<Rightarrow> string" where
  "session_state_text CREATED = ''CREATED''"
| "session_state_text PREMARKET_CHECK = ''PREMARKET_CHECK''"
| "session_state_text READY = ''READY''"
| "session_state_text SESSION_OPEN = ''SESSION_OPEN''"
| "session_state_text RUNNING = ''RUNNING''"
| "session_state_text ENTRY_CUTOFF = ''ENTRY_CUTOFF''"
| "session_state_text EOD_LIQUIDATION = ''EOD_LIQUIDATION''"
| "session_state_text RECONCILING = ''RECONCILING''"
| "session_state_text HALTED = ''PAPER_HALTED''"
| "session_state_text FAILED = ''FAILED''"
| "session_state_text COMPLETED = ''COMPLETED''"
| "session_state_text RECOVERY_PENDING = ''RECOVERY_PENDING''"

fun session_transitions :: "session_state \<Rightarrow> session_state set" where
  "session_transitions CREATED = {PREMARKET_CHECK}"
| "session_transitions PREMARKET_CHECK = {READY}"
| "session_transitions READY = {SESSION_OPEN}"
| "session_transitions SESSION_OPEN = {RUNNING, ENTRY_CUTOFF, EOD_LIQUIDATION}"
| "session_transitions RUNNING = {ENTRY_CUTOFF, EOD_LIQUIDATION}"
| "session_transitions ENTRY_CUTOFF = {EOD_LIQUIDATION}"
| "session_transitions EOD_LIQUIDATION = {RECONCILING}"
| "session_transitions RECONCILING = {COMPLETED}"
| "session_transitions HALTED = {EOD_LIQUIDATION}"
| "session_transitions FAILED = {}"
| "session_transitions COMPLETED = {}"
| "session_transitions RECOVERY_PENDING = {CREATED, READY, SESSION_OPEN, RUNNING, ENTRY_CUTOFF}"

section \<open>Inputs\<close>

record session_calendar =
  sc_version :: string
  sc_source_hash :: string
  sc_sessions :: "dated_session list"
  sc_holidays :: "date list"

definition check_session_calendar :: "session_calendar \<Rightarrow> unit res" where
  "check_session_calendar k =
     (let days = map (\<lambda>s. nse_date (dse_start s)) (sc_sessions k) in checks
       [(sc_version k = [] \<or> \<not> is_hash (sc_source_hash k), ''FIELD_CONSTRAINT''),
        (\<not> distinct days \<or> list_ex (\<lambda>d. d \<in> set (sc_holidays k)) days, ''CALENDAR_CONFLICT''),
        (sort_key dse_start (sc_sessions k) \<noteq> sc_sessions k, ''CALENDAR_ORDER'')])"

record session_config =
  cf_name :: string
  cf_trading_date :: date
  cf_cutoff :: instant
  cf_authorization :: string
  cf_prior_session_resolved :: bool
  cf_risk_version :: string
  cf_risk_hash :: string
  cf_execution_version :: string
  cf_execution_hash :: string

definition check_session_config :: "session_config \<Rightarrow> unit res" where
  "check_session_config cfg = checks
     [(cf_name cfg = [] \<or> \<not> is_hash (cf_authorization cfg) \<or> \<not> is_hash (cf_risk_hash cfg) \<or> \<not> is_hash (cf_execution_hash cfg),
       ''FIELD_CONSTRAINT'')]"

record completed_candle =
  cc_symbol :: string
  cc_instrument_token :: string
  cc_bar :: bar
  cc_complete :: bool

record opening_price =
  op_symbol :: string
  op_instrument_token :: string
  op_price :: rat

datatype command_kind = Preflight | Open_Session | Step | Close_Session

record command =
  cm_kind :: command_kind
  cm_at :: instant
  cm_completed :: "completed_candle list"
  cm_openings :: "opening_price list"

definition check_command :: "command \<Rightarrow> unit res" where
  "check_command cmd = checks
     [(1115 < int (length (cm_completed cmd)) \<or> 1115 < int (length (cm_openings cmd))
       \<or> list_ex (\<lambda>o1. \<not> is_money (op_price o1) \<or> op_price o1 \<le> 0) (cm_openings cmd), ''FIELD_CONSTRAINT'')]"

definition risk_hash :: string where
  "risk_hash = ''3dd7a1cf99042ce027011f6a99ca1f298ab62c6254bc85e584171250a925c7d1''"

definition execution_hash :: string where
  "execution_hash = ''2078a10ecad7df0faef638e3e6e37eb4808c4a8c33af5fb81883b427d0ed5925''"

definition session_schema :: string where
  "session_schema = ''Phase1419Session.v1''"

definition max_bars :: int where
  "max_bars = 100000"

record session_binding =
  sb_schema :: string
  sb_config :: session_config
  sb_calendar :: session_calendar
  sb_calendar_hash :: string
  sb_policy :: portfolio_policy
  sb_risk_version :: string
  sb_risk_hash :: string
  sb_execution_version :: string
  sb_execution_hash :: string
  sb_control :: control
  sb_requests :: "string list"
  sb_qualifications :: "string list"
  sb_datasets :: "(string \<times> string) list"
  sb_registry :: string
  sb_universe :: string
  sb_family_size :: int
  sb_software :: "(string \<times> string) list"
  sb_scope :: string

record session_row_body =
  ro_sequence :: nat
  ro_session_id :: string
  ro_trading_date :: date
  ro_timestamp :: instant
  ro_command :: command
  ro_recovered :: bool
  ro_state :: session_state
  ro_transitions :: "(session_state \<times> session_state) list"
  ro_calendar_hash :: string
  ro_registry_hash :: string
  ro_qualifications :: "string list"
  ro_datasets :: "(string \<times> string) list"
  ro_risk_version :: string
  ro_risk_hash :: string
  ro_execution_version :: string
  ro_execution_hash :: string
  ro_candle_ids :: "string list"
  ro_portfolio_events :: "journal_row list"
  ro_account :: account
  ro_rejection :: "string option"
  ro_previous_hash :: string

record session_row = session_row_body +
  ro_current_hash :: string

record session_externals =
  xs_portfolio :: portfolio_externals
  xs_calendar_hash :: "session_calendar \<Rightarrow> string"
  xs_registry_hash :: string
  xs_universe_hash :: string
  xs_software :: "(string \<times> string) list"
  xs_binding_json :: "session_binding \<Rightarrow> string"
  xs_row_json :: "session_row_body \<Rightarrow> string"

abbreviation xs_sha :: "session_externals \<Rightarrow> string \<Rightarrow> string" where
  "xs_sha xs \<equiv> xp_sha (xs_portfolio xs)"

section \<open>The engine\<close>

record signal_decision =
  sd_timestamp :: instant
  sd_symbol :: string
  sd_strategy :: definition_id
  sd_signal :: string
  sd_rejection :: "string option"

record engine =
  en_requests :: "request list"
  en_sources :: "(string \<times> request) list"
  en_policy :: portfolio_policy
  en_control :: control
  en_calendar :: session_calendar
  en_config :: session_config
  en_session :: "dated_session option"
  en_binding :: session_binding
  en_identifier :: string
  en_crash :: "string option"
  en_portfolio :: coordinator
  en_state :: session_state
  en_clock :: "instant option"
  en_history :: "(string \<times> bar list) list"
  en_pending :: "(string \<times> request) list"
  en_seen :: "(string \<times> instant) list"
  en_audit :: "session_row list"
  en_transitions :: "(session_state \<times> session_state) list"
  en_gaps :: "string list"
  en_signal_decisions :: "signal_decision list"
  en_candle_ids :: "string list"

abbreviation en_cutoff :: "engine \<Rightarrow> instant" where
  "en_cutoff s \<equiv> cf_cutoff (en_config s)"

text \<open>\<open>tuple(sorted(requests, key=...))\<close> and \<open>{r.data.series.symbol: r for r in self.requests}\<close>.\<close>

definition session_requests :: "session_externals \<Rightarrow> request list \<Rightarrow> request list" where
  "session_requests xs rqs = sort_key (\<lambda>rq. (rank_of (xp_universe (xs_portfolio xs)) (rq_symbol rq),
     identifier_text (def_identifier (rq_definition rq)))) rqs"

definition session_sources :: "request list \<Rightarrow> (string \<times> request) list" where
  "session_sources rqs = fold (\<lambda>rq. AList.update (rq_symbol rq) rq) rqs []"

definition binding_of_session ::
  "session_externals \<Rightarrow> request list \<Rightarrow> portfolio_policy \<Rightarrow> control \<Rightarrow> session_calendar \<Rightarrow> session_config \<Rightarrow> session_binding" where
  "binding_of_session xs rqs p ct k cfg =
     \<lparr>sb_schema = session_schema, sb_config = cfg, sb_calendar = k, sb_calendar_hash = xs_calendar_hash xs k, sb_policy = p,
      sb_risk_version = policy_version, sb_risk_hash = xp_policy_hash (xs_portfolio xs) p,
      sb_execution_version = execution_version, sb_execution_hash = execution_fingerprint, sb_control = ct,
      sb_requests = map (xp_request_hash (xs_portfolio xs)) rqs,
      sb_qualifications = map (\<lambda>rq. xt_row_hash (xp_paper (xs_portfolio xs)) (rq_qualification rq)) rqs,
      sb_datasets = map (\<lambda>(s, rq). (s, pd_sha256 (rq_data rq))) (session_sources rqs),
      sb_registry = xs_registry_hash xs, sb_universe = xs_universe_hash xs, sb_family_size = 13380, sb_software = xs_software xs,
      sb_scope = ''SYNTHETIC_FIXTURE''\<rparr>"

text \<open>The coordinator reads the policy and the scope of the binding; its run is the hash of the whole binding.\<close>

definition session_portfolio :: "session_externals \<Rightarrow> session_binding \<Rightarrow> coordinator" where
  "session_portfolio xs b = (coordinator_init (xs_portfolio xs)
     \<lparr>pb_policy = sb_policy b, pb_control = sb_control b, pb_requests = sb_requests b, pb_scope = sb_scope b,
      pb_installation = xp_installation (xs_portfolio xs)\<rparr>)\<lparr>co_run_id := xs_sha xs (xs_binding_json xs b)\<rparr>"

definition session_of :: "session_calendar \<Rightarrow> session_config \<Rightarrow> dated_session option" where
  "session_of k cfg = List.find (\<lambda>s. nse_date (dse_start s) = cf_trading_date cfg) (sc_sessions k)"

definition engine_of ::
  "session_externals \<Rightarrow> request list \<Rightarrow> portfolio_policy \<Rightarrow> control \<Rightarrow> session_calendar \<Rightarrow> session_config \<Rightarrow> string option \<Rightarrow> engine" where
  "engine_of xs rqs p ct k cfg crash =
     (let rqs = session_requests xs rqs; b = binding_of_session xs rqs p ct k cfg; sources = session_sources rqs in
      \<lparr>en_requests = rqs, en_sources = sources, en_policy = p, en_control = ct, en_calendar = k, en_config = cfg,
       en_session = session_of k cfg, en_binding = b, en_identifier = xs_sha xs (xs_binding_json xs b), en_crash = crash,
       en_portfolio = session_portfolio xs b, en_state = CREATED, en_clock = None, en_history = map (\<lambda>(s, rq). (s, [])) sources,
       en_pending = [], en_seen = [], en_audit = [], en_transitions = [], en_gaps = [], en_signal_decisions = [], en_candle_ids = []\<rparr>)"

definition check_engine :: "session_externals \<Rightarrow> request list \<Rightarrow> unit res" where
  "check_engine xs rqs =
     (let universe = xp_universe (xs_portfolio xs); sources = session_sources (session_requests xs rqs) in checks
       [(rqs = [] \<or> 6690 < int (length rqs), ''SESSION_RESOURCE_LIMIT''),
        (int (length universe) \<noteq> 1115 \<or> \<not> distinct universe, ''UNIVERSE_CONFLICT''),
        (\<not> distinct (map (\<lambda>rq. (rq_symbol rq, def_identifier (rq_definition rq))) rqs), ''DUPLICATE_PAIR''),
        (max_bars < sum_list (map (\<lambda>(s, rq). int (length (sr_bars (rq_series rq)))) sources), ''SESSION_RESOURCE_LIMIT''),
        (1115 < int (length sources)
          \<or> list_ex (\<lambda>rq. map_option (\<lambda>x. pd_sha256 (rq_data x)) (map_of sources (rq_symbol rq)) \<noteq> Some (pd_sha256 (rq_data rq))) rqs,
         ''CONFLICTING_DATASET'')])"

definition engine_init ::
  "session_externals \<Rightarrow> request list \<Rightarrow> portfolio_policy \<Rightarrow> control \<Rightarrow> session_calendar \<Rightarrow> session_config \<Rightarrow> string option \<Rightarrow> engine res" where
  "engine_init xs rqs p ct k cfg crash = bindR (check_engine xs rqs) (\<lambda>_. Inr (engine_of xs rqs p ct k cfg crash))"

section \<open>Transitions\<close>

definition allowed_states :: "session_state \<Rightarrow> session_state set" where
  "allowed_states st = session_transitions st \<union> {HALTED, FAILED} \<union> (if st \<in> {COMPLETED, HALTED, FAILED} then {} else {RECOVERY_PENDING})"

definition transition :: "session_state \<Rightarrow> engine eff" where
  "transition st = readE (\<lambda>s.
     if en_state s \<in> {COMPLETED, FAILED} then raiseE (ValueError ''TERMINAL_SESSION'')
     else if st \<notin> allowed_states (en_state s) \<or> st = en_state s
     then raiseE (ValueError (''INVALID_SESSION_TRANSITION:'' @ session_state_text (en_state s) @ '':'' @ session_state_text st))
     else seqE (updateE (\<lambda>s. s\<lparr>en_transitions := en_transitions s @ [(en_state s, st)], en_state := st\<rparr>))
       (if en_crash s = Some (session_state_text st) then raiseE (InterruptedError (crash_text (session_state_text st))) else skipE))"

text \<open>A statement of the coordinator, as part of the engine.\<close>

definition on_portfolio :: "(string option \<Rightarrow> coordinator eff) \<Rightarrow> engine eff" where
  "on_portfolio f = readE (\<lambda>s. partE en_portfolio (\<lambda>c s. s\<lparr>en_portfolio := c\<rparr>) (f (en_crash s)))"

definition session_emit :: "session_externals \<Rightarrow> string \<Rightarrow> portfolio_event \<Rightarrow> instant \<Rightarrow> engine eff" where
  "session_emit xs key ev tm = on_portfolio (\<lambda>crash. emitE (xs_portfolio xs) crash key ev tm)"

definition session_halt :: "session_externals \<Rightarrow> string \<Rightarrow> instant \<Rightarrow> engine eff" where
  "session_halt xs reason tm = seqE (on_portfolio (\<lambda>crash. haltE (xs_portfolio xs) crash tm reason))
     (readE (\<lambda>s. if en_state s \<noteq> HALTED then transition HALTED else skipE))"

section \<open>Readiness\<close>

definition policy_mismatch :: "session_externals \<Rightarrow> engine \<Rightarrow> bool" where
  "policy_mismatch xs s \<longleftrightarrow>
     cf_risk_version (en_config s) \<noteq> policy_version \<or> pf_version (en_policy s) \<noteq> policy_version
     \<or> ct_version (en_control s) \<noteq> policy_version \<or> cf_risk_hash (en_config s) \<noteq> risk_hash
     \<or> xp_policy_hash (xs_portfolio xs) (en_policy s) \<noteq> risk_hash \<or> ct_policy_hash (en_control s) \<noteq> risk_hash
     \<or> cf_execution_version (en_config s) \<noteq> execution_version \<or> cf_execution_hash (en_config s) \<noteq> execution_hash
     \<or> execution_fingerprint \<noteq> execution_hash"

definition request_failures :: "session_externals \<Rightarrow> engine \<Rightarrow> request \<Rightarrow> string list res" where
  "request_failures xs s rq =
     (let xp = xs_portfolio xs; az = rq_authorization rq in
      bindR (admission (xp_paper xp) (rq_qualification rq) (rq_data rq) (rq_definition rq) (rq_settings rq) (pf_base (en_policy s)) az) (\<lambda>failures.
      case List.find (\<lambda>d. def_identifier d = def_identifier (rq_definition rq)) registry of
        None \<Rightarrow> Inl StopIteration
      | Some d \<Rightarrow> Inr (failures @ reasons_of
          [(az_mode az \<noteq> SYNTHETIC_FIXTURE \<or> \<not> rk_fixture_only (pf_base (en_policy s)) \<or> az_paper_halt az
             \<or> rq_symbol rq \<notin> set (xp_universe xp), ''SYNTHETIC_ONLY_OR_AUTHORIZATION''),
           (case en_session s of None \<Rightarrow> False | Some ses \<Rightarrow> sr_sessions (rq_series rq) \<noteq> [ses]
              \<or> sr_calendar_hash (rq_series rq) \<noteq> sc_source_hash (en_calendar s), ''CALENDAR_BINDING''),
           (rq_definition rq \<noteq> d, ''STRATEGY_MUTATION'')])))"

definition readiness :: "session_externals \<Rightarrow> engine \<Rightarrow> string list res" where
  "readiness xs s =
     bindR (mapR (request_failures xs s) (en_requests s)) (\<lambda>failures.
     Inr (sorted_unique (portfolio_gaps (en_policy s) (map fst (en_sources s)) @ reasons_of
       [(en_session s = None \<or> cf_trading_date (en_config s) \<in> set (sc_holidays (en_calendar s)), ''NON_TRADING_DAY''),
        (case en_session s of None \<Rightarrow> False | Some ses \<Rightarrow> cf_trading_date (en_config s) \<notin> set (sc_holidays (en_calendar s))
           \<and> \<not> (dse_start ses < en_cutoff s \<and> en_cutoff s < dse_end ses), ''INVALID_CUTOFF''),
        (\<not> cf_prior_session_resolved (en_config s), ''UNRESOLVED_PRIOR_SESSION''),
        (\<not> ct_enabled (en_control s) \<or> ct_paper_halt (en_control s)
           \<or> cf_authorization (en_config s) \<noteq> ct_authorization_evidence (en_control s), ''PAPER_AUTHORIZATION_OR_HALT''),
        (policy_mismatch xs s, ''POLICY_MISMATCH'')] @ concat failures)))"

section \<open>Commands\<close>

definition preflight :: "session_externals \<Rightarrow> command \<Rightarrow> engine eff" where
  "preflight xs cmd = readE (\<lambda>s. seqE
     (checkE [(cm_completed cmd \<noteq> [] \<or> cm_openings cmd \<noteq> []
        \<or> (case en_session s of None \<Rightarrow> False | Some ses \<Rightarrow> dse_start ses \<le> cm_at cmd), ''INVALID_PREFLIGHT_TIME'')])
     (seqE (transition PREMARKET_CHECK)
     (readE (\<lambda>s. withR (readiness xs s) (\<lambda>gaps. seqE (updateE (\<lambda>s. s\<lparr>en_gaps := gaps\<rparr>))
       (if gaps \<noteq> [] then raiseE (ValueError (join_texts gaps)) else transition READY))))))"

definition open_session :: "command \<Rightarrow> engine eff" where
  "open_session cmd = readE (\<lambda>s. seqE
     (checkE [(map_option dse_start (en_session s) \<noteq> Some (cm_at cmd) \<or> cm_completed cmd \<noteq> [] \<or> cm_openings cmd \<noteq> [], ''INVALID_OPEN'')])
     (transition SESSION_OPEN))"

subsection \<open>Observations\<close>

definition check_completed :: "dated_session \<Rightarrow> instant \<Rightarrow> engine \<Rightarrow> completed_candle \<Rightarrow> unit res" where
  "check_completed ses tm s o1 =
     (case (map_of (en_sources s) (cc_symbol o1), map_of (en_history s) (cc_symbol o1)) of
        (Some rq, Some bars) \<Rightarrow>
          let expected = (if bars = [] then dse_start ses else candle_end (last bars)) in checks
            [(\<not> cc_complete o1 \<or> candle_end (cc_bar o1) \<noteq> tm \<or> bar_start (cc_bar o1) \<noteq> expected, ''INCOMPLETE_OR_NONCONTIGUOUS_CANDLE''),
             ((cc_symbol o1, bar_start (cc_bar o1)) \<in> set (en_seen s), ''DUPLICATE_CANDLE''),
             (cc_instrument_token o1 \<noteq> sr_instrument_token (rq_series rq) \<or> cc_bar o1 \<notin> set (sr_bars (rq_series rq)),
              ''DATASET_OBSERVATION_MISMATCH'')]
      | _ \<Rightarrow> Inl KeyError)"

definition check_opening :: "dated_session \<Rightarrow> instant \<Rightarrow> engine \<Rightarrow> opening_price \<Rightarrow> unit res" where
  "check_opening ses tm s o1 =
     (case (map_of (en_sources s) (op_symbol o1), tm = dse_end ses) of
        (Some rq, False) \<Rightarrow>
          (case bar_at (sr_bars (rq_series rq)) tm of
             None \<Rightarrow> Inl (ValueError ''OPENING_IDENTITY_OR_PRICE'')
           | Some b \<Rightarrow> checks
               [(op_instrument_token o1 \<noteq> sr_instrument_token (rq_series rq) \<or> op_price o1 \<noteq> bar_open b, ''OPENING_IDENTITY_OR_PRICE'')])
      | _ \<Rightarrow> Inl (ValueError ''UNEXPECTED_OPENING''))"

definition check_observations :: "dated_session \<Rightarrow> command \<Rightarrow> engine \<Rightarrow> unit res" where
  "check_observations ses cmd s =
     bindR (checks
       [(\<not> distinct (map cc_symbol (cm_completed cmd)) \<or> \<not> distinct (map op_symbol (cm_openings cmd)), ''DUPLICATE_OBSERVATION''),
        (set (map cc_symbol (cm_completed cmd)) \<noteq> set (map fst (en_sources s)), ''MANDATORY_CANDLE_MISSING'')]) (\<lambda>_.
     bindR (mapR (check_completed ses (cm_at cmd) s) (cm_completed cmd)) (\<lambda>_.
     bindR (mapR (check_opening ses (cm_at cmd) s) (cm_openings cmd)) (\<lambda>_. Inr ())))"

subsection \<open>Completed candles\<close>

definition request_of :: "engine \<Rightarrow> string \<Rightarrow> definition_id \<Rightarrow> request res" where
  "request_of s symbol strategy =
     (case List.find (\<lambda>rq. rq_symbol rq = symbol \<and> def_identifier (rq_definition rq) = strategy) (en_requests s) of
        None \<Rightarrow> Inl StopIteration | Some rq \<Rightarrow> Inr rq)"

text \<open>The exit of the position in a symbol, if it has one; a key that is an empty text counts as none.\<close>

definition exit_position :: "session_externals \<Rightarrow> dated_session \<Rightarrow> instant \<Rightarrow> string \<Rightarrow> bar \<Rightarrow> engine eff" where
  "exit_position xs ses tm symbol b = readE (\<lambda>s.
     case map_of (co_positions (en_portfolio s)) symbol of
       None \<Rightarrow> skipE
     | Some key \<Rightarrow>
         if key = [] then skipE
         else withR (order_at (en_portfolio s) key) (\<lambda>r.
           withR (request_of s symbol (or_strategy_id r)) (\<lambda>rq.
           let reference = fst (exit_reference b (or_entry r) (rq_definition rq) (tm = dse_end ses)) in
           case snd (exit_reference b (or_entry r) (rq_definition rq) (tm = dse_end ses)) of
             None \<Rightarrow> skipE
           | Some why \<Rightarrow>
               seqE (if or_state r = FILLED then session_emit xs key (Exit_Pending (Some (reason_text why))) tm else skipE)
                 (if prec40 (of_int (bar_volume b) * set_participation (rq_settings rq)) < of_int (or_quantity r)
                  then session_halt xs ''EXIT_LIQUIDITY_UNVALUED'' tm
                  else let price = prec40 (reference * prec40 (1 - slip_of (rq_settings rq))) in
                    withR (quote_total (rq_costs rq) SELL (times40 price (or_quantity r)) (bar_start b)
                      (Some (times40 (or_entry r) (or_quantity r)))) (\<lambda>fee.
                    session_emit xs key (Close price fee (Some (reason_text why))) tm)))))"

definition history_of :: "engine \<Rightarrow> string \<Rightarrow> bar list" where
  "history_of s symbol = (case map_of (en_history s) symbol of None \<Rightarrow> [] | Some bars \<Rightarrow> bars)"

definition record_candle :: "session_externals \<Rightarrow> string \<Rightarrow> bar \<Rightarrow> engine \<Rightarrow> engine" where
  "record_candle xs symbol b s = s\<lparr>en_history := AList.update symbol (history_of s symbol @ [b]) (en_history s),
     en_seen := (symbol, bar_start b) # en_seen s,
     en_candle_ids := en_candle_ids s @ [xs_sha xs (symbol @ xt_candle_json (xp_paper (xs_portfolio xs)) b)]\<rparr>"

definition process_candle :: "session_externals \<Rightarrow> dated_session \<Rightarrow> instant \<Rightarrow> completed_candle \<Rightarrow> engine eff" where
  "process_candle xs ses tm o1 =
     seqE (exit_position xs ses tm (cc_symbol o1) (cc_bar o1))
     (seqE (session_emit xs portfolio_key (Mark (cc_symbol o1) (bar_close (cc_bar o1))) tm)
     (seqE (on_portfolio (\<lambda>crash. guardE (xs_portfolio xs) crash tm))
     (updateE (record_candle xs (cc_symbol o1) (cc_bar o1)))))"

text \<open>\<open>sorted(completed, key=self.rank.__getitem__)\<close>\<close>

definition ranked_candles :: "session_externals \<Rightarrow> command \<Rightarrow> completed_candle list res" where
  "ranked_candles xs cmd =
     (let universe = xp_universe (xs_portfolio xs) in
      bindR (mapR (\<lambda>o1. if cc_symbol o1 \<in> set universe then Inr o1 else Inl KeyError) (cm_completed cmd)) (\<lambda>os.
      Inr (sort_key (\<lambda>o1. rank_of universe (cc_symbol o1)) os)))"

subsection \<open>Signals and entries\<close>

definition candle_of :: "command \<Rightarrow> string \<Rightarrow> bar res" where
  "candle_of cmd symbol = (case List.find (\<lambda>o1. cc_symbol o1 = symbol) (cm_completed cmd) of
     None \<Rightarrow> Inl KeyError | Some o1 \<Rightarrow> Inr (cc_bar o1))"

definition signal_refusal :: "instant \<Rightarrow> engine \<Rightarrow> string option" where
  "signal_refusal tm s = (if co_halted (en_portfolio s) then Some ''PAPER_HALT''
     else if en_cutoff s \<le> tm then Some ''ENTRY_CUTOFF'' else None)"

definition propose_signal :: "session_externals \<Rightarrow> instant \<Rightarrow> request \<Rightarrow> string \<Rightarrow> engine eff" where
  "propose_signal xs tm rq sig = readE (\<lambda>s.
     let reject = signal_refusal tm s; key = xs_sha xs (en_identifier s @ sig) in
     seqE (updateE (\<lambda>s. s\<lparr>en_signal_decisions := en_signal_decisions s @ [\<lparr>sd_timestamp = tm, sd_symbol = rq_symbol rq,
        sd_strategy = def_identifier (rq_definition rq), sd_signal = sig, sd_rejection = reject\<rparr>]\<rparr>))
     (seqE (session_emit xs key (Propose (rq_symbol rq) (def_identifier (rq_definition rq))
        (xt_row_hash (xp_paper (xs_portfolio xs)) (rq_qualification rq)) sig) tm)
     (readE (\<lambda>s.
        if reject \<noteq> None \<or> sig \<in> set (co_consumed (en_portfolio s))
        then session_emit xs key (Reject (Some (case reject of None \<Rightarrow> ''DUPLICATE_SIGNAL'' | Some t \<Rightarrow> t))) tm
        else updateE (\<lambda>s. s\<lparr>en_portfolio := (en_portfolio s)\<lparr>co_consumed := sig # co_consumed (en_portfolio s)\<rparr>,
               en_pending := AList.update key rq (en_pending s)\<rparr>)))))"

definition decide_signal :: "session_externals \<Rightarrow> command \<Rightarrow> request \<Rightarrow> engine eff" where
  "decide_signal xs cmd rq = readE (\<lambda>s. withR (entry_signal (history_of s (rq_symbol rq)) (rq_definition rq)) (\<lambda>go.
     if \<not> go then skipE
     else let xt = xp_paper (xs_portfolio xs) in
       withR (candle_of cmd (rq_symbol rq)) (\<lambda>b.
       withR (paper_event_of (xt_definition_hash xt) (xt_candle_json xt) (rq_symbol rq) (rq_definition rq) b (cm_at cmd)) (\<lambda>e.
       propose_signal xs (cm_at cmd) rq (pe_idempotency_key e)))))"

definition settle_pending :: "session_externals \<Rightarrow> command \<Rightarrow> string \<times> request \<Rightarrow> engine eff" where
  "settle_pending xs cmd p =
     (let key = fst p; rq = snd p; tm = cm_at cmd; offer = List.find (\<lambda>o1. op_symbol o1 = rq_symbol rq) (cm_openings cmd) in
      seqE (readE (\<lambda>s.
        case (if en_cutoff s \<le> tm \<or> co_halted (en_portfolio s) then None else offer) of
          None \<Rightarrow> seqE (session_emit xs key (Cancel ''CUTOFF_HALT_OR_MISSING_OPENING'') tm)
            (if tm < en_cutoff s \<and> offer = None then session_halt xs ''MISSING_ENTRY_OPENING'' tm else skipE)
        | Some o1 \<Rightarrow> on_portfolio (\<lambda>crash. enterE (xs_portfolio xs) crash key rq
            (prec40 (op_price o1 * prec40 (1 + slip_of (rq_settings rq)))) (set_quantity (rq_settings rq)) tm (en_control s))))
      (updateE (\<lambda>s. s\<lparr>en_pending := AList.delete key (en_pending s)\<rparr>)))"

subsection \<open>Reconciliation\<close>

definition reconcile :: "session_externals \<Rightarrow> instant \<Rightarrow> engine eff" where
  "reconcile xs tm =
     seqE (readE (\<lambda>s. if en_state s = HALTED then transition EOD_LIQUIDATION else skipE))
     (seqE (transition RECONCILING)
     (readE (\<lambda>s. withR (account_of (en_portfolio s)) (\<lambda>a.
       seqE (if co_halted (en_portfolio s) \<or> ac_positions a \<noteq> [] \<or> ac_reservations a \<noteq> [] then session_halt xs ''EOD_INCOMPLETE'' tm
             else transition COMPLETED)
         (readE (\<lambda>s. session_emit xs portfolio_key (Session_End (en_state s = COMPLETED)) tm))))))"

subsection \<open>A step and the close\<close>

definition begin_step :: "instant \<Rightarrow> engine eff" where
  "begin_step tm = readE (\<lambda>s.
     if en_cutoff s \<le> tm \<and> en_state s \<in> {SESSION_OPEN, RUNNING} then transition ENTRY_CUTOFF
     else if en_state s = SESSION_OPEN then transition RUNNING else skipE)"

definition trade_session :: "session_externals \<Rightarrow> command \<Rightarrow> engine eff" where
  "trade_session xs cmd = readE (\<lambda>s.
     let tm = cm_at cmd; closing = (cm_kind cmd = Close_Session) in
     case en_session s of
       None \<Rightarrow> raiseE (ValueError ''SESSION_NOT_OPEN'')
     | Some ses \<Rightarrow>
         seqE (checkE
           [(en_state s \<notin> {SESSION_OPEN, RUNNING, ENTRY_CUTOFF, HALTED}, ''SESSION_NOT_OPEN''),
            (\<not> (dse_start ses < tm \<and> tm \<le> dse_end ses), ''OUT_OF_SESSION''),
            (closing \<noteq> (tm = dse_end ses), ''CLOSE_BOUNDARY'')])
         (seqE (begin_step tm)
         (seqE (readE (\<lambda>s. withR (check_observations ses cmd s) (\<lambda>_. skipE)))
         (seqE (if closing then transition EOD_LIQUIDATION else skipE)
         (seqE (withR (ranked_candles xs cmd) (eachE (process_candle xs ses tm)))
         (seqE (readE (\<lambda>s. if co_halted (en_portfolio s) \<and> en_state s \<noteq> HALTED then transition HALTED else skipE))
         (seqE (eachE (decide_signal xs cmd) (en_requests s))
         (seqE (readE (\<lambda>s. eachE (settle_pending xs cmd) (en_pending s)))
         (if closing then reconcile xs tm else skipE)))))))))"

section \<open>Application of a command\<close>

definition command_body :: "session_externals \<Rightarrow> command \<Rightarrow> engine eff" where
  "command_body xs cmd = readE (\<lambda>s. seqE
     (checkE
       [(en_state s \<in> {COMPLETED, FAILED}, ''TERMINAL_SESSION''),
        (case en_clock s of None \<Rightarrow> False | Some t \<Rightarrow> cm_at cmd \<le> t, ''CLOCK_ROLLBACK_OR_DUPLICATE''),
        (xp_policy_hash (xs_portfolio xs) (en_policy s) \<noteq> sb_risk_hash (en_binding s)
          \<or> execution_fingerprint \<noteq> sb_execution_hash (en_binding s), ''POLICY_MUTATION'')])
     (case cm_kind cmd of
        Preflight \<Rightarrow> preflight xs cmd
      | Open_Session \<Rightarrow> open_session cmd
      | _ \<Rightarrow> trade_session xs cmd))"

definition recover :: "engine eff" where
  "recover = readE (\<lambda>s.
     if en_state s \<in> {HALTED, FAILED, COMPLETED} then raiseE (ValueError ''RECOVERY_REJECTED'')
     else seqE (transition RECOVERY_PENDING) (transition (en_state s)))"

definition latest :: "instant \<Rightarrow> engine \<Rightarrow> instant" where
  "latest tm s = (case en_clock s of None \<Rightarrow> tm | Some t \<Rightarrow> max tm t)"

definition session_last_hash :: "session_row list \<Rightarrow> string" where
  "session_last_hash rows = (if rows = [] then zero_hash else ro_current_hash (last rows))"

definition session_entry ::
  "session_externals \<Rightarrow> command \<Rightarrow> bool \<Rightarrow> nat \<Rightarrow> string option \<Rightarrow> instant \<Rightarrow> account \<Rightarrow> engine \<Rightarrow> session_row" where
  "session_entry xs cmd recovered start reason tm a s =
     (let body = \<lparr>ro_sequence = length (en_audit s), ro_session_id = en_identifier s, ro_trading_date = cf_trading_date (en_config s),
            ro_timestamp = tm, ro_command = cmd, ro_recovered = recovered, ro_state = en_state s, ro_transitions = en_transitions s,
            ro_calendar_hash = xs_calendar_hash xs (en_calendar s), ro_registry_hash = sb_registry (en_binding s),
            ro_qualifications = sb_qualifications (en_binding s), ro_datasets = sb_datasets (en_binding s),
            ro_risk_version = policy_version, ro_risk_hash = xp_policy_hash (xs_portfolio xs) (en_policy s),
            ro_execution_version = execution_version, ro_execution_hash = execution_fingerprint,
            ro_candle_ids = en_candle_ids s, ro_portfolio_events = drop start (co_events (en_portfolio s)), ro_account = a,
            ro_rejection = reason, ro_previous_hash = session_last_hash (en_audit s)\<rparr>
      in session_row_body.extend body \<lparr>ro_current_hash = xs_sha xs (xs_row_json xs body)\<rparr>)"

definition finish_command :: "session_externals \<Rightarrow> command \<Rightarrow> bool \<Rightarrow> nat \<Rightarrow> string option \<Rightarrow> engine \<Rightarrow> engine res" where
  "finish_command xs cmd recovered start reason s =
     (let tm = latest (cm_at cmd) s in
      bindR (checks [(journal_limit \<le> int (length (en_audit s)) \<or> journal_limit \<le> int (length (co_events (en_portfolio s))),
        ''SESSION_JOURNAL_LIMIT'')]) (\<lambda>_.
      bindR (account_of (en_portfolio s)) (\<lambda>a.
      Inr (s\<lparr>en_clock := Some tm, en_audit := en_audit s @ [session_entry xs cmd recovered start reason tm a s]\<rparr>))))"

definition session_apply :: "session_externals \<Rightarrow> command \<times> bool \<Rightarrow> engine \<Rightarrow> engine res" where
  "session_apply xs step s =
     (let cmd = fst step; recovered = snd step; start = length (co_events (en_portfolio s)) in
      if en_state s \<in> {COMPLETED, FAILED} then Inl (ValueError ''TERMINAL_SESSION'')
      else case (if recovered then recover else skipE) (s\<lparr>en_transitions := [], en_candle_ids := []\<rparr>) of
        (Some e, t) \<Rightarrow> Inl e
      | (None, t) \<Rightarrow>
          (case command_body xs cmd t of
             (None, u) \<Rightarrow> finish_command xs cmd recovered start None u
           | (Some (ValueError reason), u) \<Rightarrow>
               (case session_halt xs reason (latest (cm_at cmd) u) u of
                  (Some e, v) \<Rightarrow> Inl e
                | (None, v) \<Rightarrow> finish_command xs cmd recovered start (Some reason) v)
           | (Some e, u) \<Rightarrow> Inl e))"

end
