(* ===== verification/Statement_Safety.thy ===== *)
theory Statement_Safety
  imports Portfolio_Statements Portfolio_Books
begin

text \<open>
  What the coordinator's statements leave behind when they raise.  An emission fails in one of two ways: it has changed nothing,
  or it has left books whose account cannot be drawn (\<open>broken\<close>), after which every further emission and every account raises.
  The locale \<open>safe_writer\<close> carries an invariant of single emissions through \<open>halt\<close>, \<open>guard\<close> and \<open>enter\<close> on all paths.
\<close>

section \<open>A failed emission\<close>

definition broken :: "coordinator \<Rightarrow> bool" where
  "broken c \<longleftrightarrow> (\<forall>a. account_of c \<noteq> Inr a)"

text \<open>The order at a key is for a symbol that nobody owns, and the amount is reserved for it.\<close>

definition order_for :: "string \<Rightarrow> string \<Rightarrow> coordinator \<Rightarrow> bool" where
  "order_for key symbol c \<longleftrightarrow> map_option or_symbol (map_of (co_orders c) key) = Some symbol \<and> map_of (co_positions c) symbol = None"

definition fill_ready :: "string \<Rightarrow> portfolio_event \<Rightarrow> coordinator \<Rightarrow> bool" where
  "fill_ready key ev c \<longleftrightarrow> (\<forall>price tim quantity fees stop target. ev = Fill price tim quantity fees stop target \<longrightarrow>
     (\<exists>symbol. order_for key symbol c) \<and> map_of (co_reservations c) key = Some (prec40 (times40 price quantity + fees)))"

lemma fill_ready_simps [simp]: "order_state_of ev \<noteq> Some FILLED \<Longrightarrow> fill_ready key ev c"
  by (auto simp: fill_ready_def)

lemma maps_match_reserved:
  "maps_match orders positions reservations \<Longrightarrow> reservations k = None \<longleftrightarrow>
     \<not> (\<exists>r. orders k = Some r \<and> or_state r \<in> {RESERVED, ACCEPTED})"
  unfolding maps_match_def by blast

lemma move_order_symbol:
  assumes "move_order key ev tm c = Inr c1" and "order_state_of ev \<noteq> Some PROPOSED"
  shows "map_option or_symbol (map_of (co_orders c1) k) = map_option or_symbol (map_of (co_orders c) k)"
proof (cases "order_state_of ev")
  case None
  then show ?thesis using assms(1) by (simp add: move_order_None)
next
  case (Some s)
  from assms(1) Some obtain r where put: "c1 = put_order key r c"
    and old: "map_of (co_orders c) key = None \<and> s = PROPOSED \<or> (\<exists>r0. map_of (co_orders c) key = Some r0 \<and> r = r0\<lparr>or_state := s\<rparr> \<and> s \<noteq> PROPOSED)"
    by (rule move_order_SomeE)
  have "s \<noteq> PROPOSED" using Some assms(2) by simp
  with old obtain r0 where "map_of (co_orders c) key = Some r0" "r = r0\<lparr>or_state := s\<rparr>" by blast
  then show ?thesis by (simp add: put)
qed

lemma effect_symbol:
  assumes "effect key ev tm c = Inr c2"
  shows "map_option or_symbol (map_of (co_orders c2) k) = map_option or_symbol (map_of (co_orders c) k)"
  using assms
  by (cases ev) (auto simp: reserve_cash_def open_position_def close_position_def order_at_def bindR_Inr_iff Let_def
      split: if_splits option.splits)

lemma emit_symbol:
  assumes "portfolio_emit xp key ev tm c = Inr c'" and "order_state_of ev \<noteq> Some PROPOSED"
  shows "map_option or_symbol (map_of (co_orders c') k) = map_option or_symbol (map_of (co_orders c) k)"
proof -
  from assms(1) obtain a c1 c2 a' where m: "move_order key ev tm c = Inr c1" and e: "effect key ev tm c1 = Inr c2"
    and "c' = c2\<lparr>co_events := co_events c2 @ [journal_entry xp key ev tm (map_option or_state (map_of (co_orders c) key))
       (map_of (co_orders c2) key) a a' c]\<rparr>"
    by (rule portfolio_emitE)
  then show ?thesis using effect_symbol [OF e, of k] move_order_symbol [OF m assms(2), of k] by simp
qed

text \<open>After its move, the effect of an event cannot be refused.\<close>

lemma effect_total:
  assumes b: "books_match c" and m: "move_order key ev tm c = Inr c1" and f: "fill_ready key ev c"
  obtains c2 where "effect key ev tm c1 = Inr c2"
proof (cases "order_state_of ev")
  case None
  then show thesis using that by (cases ev) simp_all
next
  case (Some s)
  from m Some obtain r where put: "c1 = put_order key r c" and s: "or_state r = s"
    and t: "s \<in> order_transitions (map_option or_state (map_of (co_orders c) key))"
    and old: "map_of (co_orders c) key = None \<and> s = PROPOSED \<or> (\<exists>r0. map_of (co_orders c) key = Some r0 \<and> r = r0\<lparr>or_state := s\<rparr> \<and> s \<noteq> PROPOSED)"
    by (rule move_order_SomeE)
  have books: "maps_match (map_of (co_orders c)) (map_of (co_positions c)) (map_of (co_reservations c))"
    using b by (simp add: books_match_maps)
  show thesis
  proof (cases ev)
    case (Reserve amount quantity tim)
    then have "map_option or_state (map_of (co_orders c) key) = Some RISK_CHECKED" using t Some transition_sources(2) by simp
    then have "map_of (co_reservations c) key = None" using maps_match_reserved [OF books, of key] by auto
    then show thesis using that Reserve by (simp add: reserve_cash_def put)
  next
    case (Fill price tim quantity fees stop target)
    then have "map_of (co_positions c) (or_symbol r) = None" "map_of (co_reservations c) key = Some (prec40 (times40 price quantity + fees))"
      using f old Some by (auto simp: fill_ready_def order_for_def)
    then show thesis using that Fill by (simp add: open_position_def put checks.simps Let_def)
  next
    case (Close price fees reason)
    then have "map_option or_state (map_of (co_orders c) key) = Some EXIT_PENDING" using t Some transition_sources(6) by simp
    then obtain r0 where "map_of (co_orders c) key = Some r0" "or_state r0 = EXIT_PENDING" "or_symbol r = or_symbol r0"
      using old by auto
    then have "map_of (co_positions c) (or_symbol r) = Some key" by (simp add: maps_match_held [OF books])
    then show thesis using that Close by (simp add: close_position_def put checks.simps Let_def)
  qed (use that in simp_all)
qed

lemma failed_emit:
  assumes "books_match c" and "portfolio_emit xp key ev tm c = Inl e" and "fill_ready key ev c"
  shows "emit_left key ev tm c = c \<or> broken (emit_left key ev tm c)"
proof (cases "move_order key ev tm c")
  case (Inr c1)
  obtain c2 where c2: "effect key ev tm c1 = Inr c2" using assms(1) Inr assms(3) by (rule effect_total)
  show ?thesis
  proof (cases "account_of c2")
    case Inl: (Inl x)
    then show ?thesis using Inr c2 by (auto simp: emit_left_def broken_def split: sum.splits)
  next
    case acc: (Inr a)
    then show ?thesis using assms(2) Inr c2
      by (auto simp: portfolio_emit_def emit_left_def checks.simps bindR_def split: sum.splits if_splits)
  qed
qed (auto simp: emit_left_def split: sum.splits)

text \<open>A broken coordinator stays where it is.\<close>

lemma broken_emit: "broken c \<Longrightarrow> emitE xp crash key ev tm c = (Some e, c') \<Longrightarrow> c' = c"
  by (auto simp: broken_def emitE_def portfolio_emit_def emit_left_def bindR_def split: sum.splits if_splits)

lemma broken_emit_fails: "broken c \<Longrightarrow> emitE xp crash key ev tm c \<noteq> (None, c')"
  by (auto simp: broken_def emitE_def portfolio_emit_def bindR_def split: sum.splits if_splits)

section \<open>Invariants on all paths\<close>

locale safe_writer =
  fixes xp :: portfolio_externals and inv :: "coordinator \<Rightarrow> bool" and permitted :: "instant \<Rightarrow> bool"
  assumes emits: "inv c \<Longrightarrow> entering ev \<longrightarrow> \<not> co_halted c \<and> permitted tm \<Longrightarrow> is_reserve ev \<longrightarrow> exposed c < position_limit (co_policy c) \<Longrightarrow>
      portfolio_emit xp key ev tm c = Inr c' \<Longrightarrow> inv c'"
    and day: "inv c \<Longrightarrow> inv (c\<lparr>co_day := day\<rparr>)"
    and equity: "inv c \<Longrightarrow> inv (c\<lparr>co_day_equity := equity\<rparr>)"
    and books: "inv c \<Longrightarrow> books_match c"
begin

lemma leads_emit:
  assumes "\<And>c. P c \<Longrightarrow> inv c" and "\<And>c. P c \<Longrightarrow> entering ev \<longrightarrow> \<not> co_halted c \<and> permitted tm"
    and "\<And>c. P c \<Longrightarrow> is_reserve ev \<longrightarrow> exposed c < position_limit (co_policy c)" and "\<And>c. P c \<Longrightarrow> fill_ready key ev c"
    and "\<And>c c'. P c \<Longrightarrow> inv c' \<Longrightarrow> portfolio_emit xp key ev tm c = Inr c' \<Longrightarrow> Q c'"
  shows "leads P (emitE xp crash key ev tm) Q (\<lambda>e c. inv c \<or> broken c)"
proof (rule leadsI)
  fix c c' assume p: "P c" and "emitE xp crash key ev tm c = (None, c')"
  then have e: "portfolio_emit xp key ev tm c = Inr c'" by (auto simp: emitE_def split: sum.splits)
  show "Q c'" by (rule assms(5) [OF p emits [OF assms(1) [OF p] assms(2) [OF p] assms(3) [OF p] e] e])
next
  fix c e c' assume p: "P c" and f: "emitE xp crash key ev tm c = (Some e, c')"
  show "inv c' \<or> broken c'"
  proof (cases "portfolio_emit xp key ev tm c")
    case (Inl x)
    then have "c' = emit_left key ev tm c" using f by (simp add: emitE_def)
    then show ?thesis using failed_emit [OF books [OF assms(1) [OF p]] Inl assms(4) [OF p]] assms(1) [OF p] by auto
  next
    case (Inr d)
    then have "c' = d" using f by (simp add: emitE_def)
    then show ?thesis using emits [OF assms(1) [OF p] assms(2) [OF p] assms(3) [OF p] Inr] by simp
  qed
qed

lemma leads_plain:
  "\<not> entering ev \<Longrightarrow> leads inv (emitE xp crash key ev tm) inv (\<lambda>e c. inv c \<or> broken c)"
  by (rule leads_emit) (cases ev; simp)+

lemma leads_halt: "leads inv (haltE xp crash tm reason) (\<lambda>c. inv c \<and> co_halted c) (\<lambda>e c. inv c \<or> broken c)"
  unfolding haltE_def
proof (intro leads_intros)
  fix c assume "inv c" "\<not> co_halted c"
  show "leads (\<lambda>d. d = c \<and> inv d) (emitE xp crash portfolio_key (Halt (Some reason)) tm) (\<lambda>c. inv c \<and> co_halted c) (\<lambda>e c. inv c \<or> broken c)"
    by (rule leads_emit) (auto simp: portfolio_emit_frame(4))
qed simp

lemma leads_start_day: "leads inv (start_dayE tm) inv (\<lambda>e c. inv c \<or> broken c)"
  unfolding start_dayE_def
  by (intro leads_intros leads_seq [where R = inv]) (auto intro: day equity)

lemma leads_guard: "leads inv (guardE xp crash tm) inv (\<lambda>e c. inv c \<or> broken c)"
  unfolding guardE_def
proof (rule leads_seq [OF leads_start_day], intro leads_intros)
  fix c
  show "leads (\<lambda>d. d = c \<and> inv d) (haltE xp crash tm ''DAILY_LOSS_BREACH'') inv (\<lambda>e c. inv c \<or> broken c)"
    by (rule leads_weaken [OF leads_halt]) auto
qed auto

text \<open>The three emissions of an entry.\<close>

lemma leads_block:
  assumes "permitted tm"
  shows "leads (\<lambda>c. inv c \<and> \<not> co_halted c \<and> exposed c < position_limit (co_policy c) \<and> order_for key symbol c)
     (reserve_and_fillE xp crash key rq r price quantity tm cancel_signals) inv (\<lambda>e c. inv c \<or> broken c)"
proof -
  define held where "held amount c \<longleftrightarrow> inv c \<and> \<not> co_halted c \<and> order_for key symbol c \<and> map_of (co_reservations c) key = Some amount"
    for amount c
  have kept: "order_for key symbol c'" if "order_for key symbol c" "portfolio_emit xp key ev tm c = Inr c'" "is_reserve ev \<or> ev = Accept" for c c' ev
  proof -
    have "order_state_of ev \<noteq> Some PROPOSED" using that(3) by (cases ev) simp_all
    moreover have "co_positions c' = co_positions c"
      using that(2,3) by (elim portfolio_emitE; cases ev) (auto simp: reserve_cash_def move_order_frame split: if_splits)
    ultimately show ?thesis using that(1) emit_symbol [OF that(2)] by (simp add: order_for_def)
  qed
  have reserve: "leads (\<lambda>c. inv c \<and> \<not> co_halted c \<and> exposed c < position_limit (co_policy c) \<and> order_for key symbol c)
       (emitE xp crash key (Reserve amount quantity tim) tm) (held amount) (\<lambda>e c. inv c \<or> broken c)" for amount tim
  proof (rule leads_emit)
    fix c c' assume "inv c \<and> \<not> co_halted c \<and> exposed c < position_limit (co_policy c) \<and> order_for key symbol c" "inv c'"
      and e: "portfolio_emit xp key (Reserve amount quantity tim) tm c = Inr c'"
    moreover have "map_of (co_reservations c') key = Some amount"
      using e by (auto elim!: portfolio_emitE simp: reserve_cash_def update_conv' split: if_splits)
    ultimately show "held amount c'" using kept [OF _ e] portfolio_emit_frame(4) [OF e] by (simp add: held_def)
  qed (use assms in simp_all)
  have accept: "leads (held amount) (emitE xp crash key Accept tm) (held amount) (\<lambda>e c. inv c \<or> broken c)" for amount
  proof (rule leads_emit)
    fix c c' assume h: "held amount c" and "inv c'" and e: "portfolio_emit xp key Accept tm c = Inr c'"
    moreover have "co_reservations c' = co_reservations c"
      using e by (auto elim!: portfolio_emitE simp: move_order_frame)
    ultimately show "held amount c'" using kept [OF _ e] portfolio_emit_frame(4) [OF e] by (simp add: held_def)
  qed (use assms in \<open>simp_all add: held_def\<close>)
  have filled: "leads (held (prec40 (times40 price quantity + fee))) (emitE xp crash key (Fill price tim quantity fee stop target) tm) inv (\<lambda>e c. inv c \<or> broken c)"
    for fee tim stop target
    by (rule leads_emit) (use assms in \<open>auto simp: held_def fill_ready_def\<close>)
  have cancel: "leads (held amount) (emitE xp crash key (Cancel why) tm) inv (\<lambda>e c. inv c \<or> broken c)" for amount why
    by (rule leads_emit) (auto simp: held_def)
  show ?thesis
    unfolding reserve_and_fillE_def
    by (intro leads_with leads_seq [OF reserve] leads_if leads_seq [OF accept] filled cancel) simp_all
qed

lemma leads_enter:
  assumes "permitted tm"
  shows "leads inv (enterE xp crash key rq price quantity tm ct) inv (\<lambda>e c. inv c \<or> broken c)"
  unfolding enterE_def
proof (intro leads_intros)
  fix c r assume c: "inv c" and r: "order_at c key = Inr r" and p: "\<not> or_state r \<noteq> PROPOSED"
  have sym: "map_option or_symbol (map_of (co_orders c) key) = Some (or_symbol r)"
    using r by (auto simp: order_at_def split: option.splits)
  define mid where "mid d \<longleftrightarrow> inv d \<and> map_option or_symbol (map_of (co_orders d) key) = Some (or_symbol r)" for d
  let ?E = "\<lambda>(e :: exc) c. inv c \<or> broken c"
  have checked: "leads (\<lambda>d. d = c \<and> inv d) (emitE xp crash key Risk_Check tm) mid ?E"
  proof (rule leads_emit)
    fix d d' assume "d = c \<and> inv d" "inv d'" and e: "portfolio_emit xp key Risk_Check tm d = Inr d'"
    then show "mid d'" using sym emit_symbol [OF e, of key] by (simp add: mid_def)
  qed simp_all
  have rest: "leads mid (readE (\<lambda>c. case entry_refusal r tm c of
         Some reason \<Rightarrow> emitE xp crash key (Reject (Some reason)) tm
       | None \<Rightarrow>
           withR (remaining_exposure c r) (\<lambda>remaining.
           if bar_at (sr_bars (rq_series rq)) tm = None
           then seqE (haltE xp crash tm ''MISSING_ENTRY_DATA'') (emitE xp crash key (Reject (Some ''MISSING_ENTRY_DATA'')) tm)
           else withR (entry_size rq price quantity tm remaining c) (\<lambda>size.
             if size \<le> 0 then emitE xp crash key (Reject (Some ''CASH_EXPOSURE_LIQUIDITY_OR_RISK'')) tm
             else reserve_and_fillE xp crash key rq r price size tm (ct_cancel_signals ct))))) inv ?E"
  proof (intro leads_intros leads_seq [where R = inv])
    fix d size assume "mid d" "entry_refusal r tm d = None"
    then have "inv d \<and> \<not> co_halted d \<and> exposed d < position_limit (co_policy d) \<and> order_for key (or_symbol r) d"
      by (auto simp: mid_def entry_refusal_def exposed_def order_for_def Let_def split: if_splits)
    then show "leads (\<lambda>x. x = d \<and> mid x) (reserve_and_fillE xp crash key rq r price size tm (ct_cancel_signals ct)) inv ?E"
      by (intro leads_weaken [OF leads_block [OF assms, of key "or_symbol r"]]) auto
  next
    fix d
    show "leads (\<lambda>x. x = d \<and> mid x) (haltE xp crash tm ''MISSING_ENTRY_DATA'') inv ?E"
      by (rule leads_weaken [OF leads_halt]) (auto simp: mid_def)
  qed (auto simp: mid_def intro!: leads_weaken [OF leads_plain])
  show "leads (\<lambda>d. d = c \<and> inv d) (seqE (emitE xp crash key Risk_Check tm) (readE (\<lambda>c. case entry_refusal r tm c of
         Some reason \<Rightarrow> emitE xp crash key (Reject (Some reason)) tm
       | None \<Rightarrow>
           withR (remaining_exposure c r) (\<lambda>remaining.
           if bar_at (sr_bars (rq_series rq)) tm = None
           then seqE (haltE xp crash tm ''MISSING_ENTRY_DATA'') (emitE xp crash key (Reject (Some ''MISSING_ENTRY_DATA'')) tm)
           else withR (entry_size rq price quantity tm remaining c) (\<lambda>size.
             if size \<le> 0 then emitE xp crash key (Reject (Some ''CASH_EXPOSURE_LIQUIDITY_OR_RISK'')) tm
             else reserve_and_fillE xp crash key rq r price size tm (ct_cancel_signals ct)))))) inv ?E"
    by (rule leads_seq [OF checked rest])
qed auto

end

end
