(* ===== verification/Scheduler_Safety.thy ===== *)
theory Scheduler_Safety
  imports Scheduler Statement_Safety "HOL-Library.Sublist" "HOL-Library.Multiset"
begin

text \<open>
  The invariant of a session inside one command, on normal and on exceptional paths, and between commands.
\<close>

section \<open>The portfolio of a session\<close>

text \<open>
  All that is kept of the coordinator: journal, accounts, halts, entries only at permitted times, an unchanged binding, a
  journal that only grows, and, once \<open>h\<close> is known, a halt that stays.
\<close>

definition session_books ::
  "portfolio_externals \<Rightarrow> (instant \<Rightarrow> bool) \<Rightarrow> portfolio_binding \<Rightarrow> rat \<Rightarrow> journal_row list \<Rightarrow> bool \<Rightarrow> coordinator \<Rightarrow> bool" where
  "session_books xp permitted b x es h c \<longleftrightarrow> journal_inv xp c \<and> account_inv c \<and> halt_inv c
     \<and> (\<forall>e \<in> set (co_events c). entering (je_event e) \<longrightarrow> permitted (je_timestamp e))
     \<and> co_binding c = b \<and> co_opening c = x \<and> prefix es (co_events c) \<and> (h \<longrightarrow> co_halted c)"

lemma emit_row: "portfolio_emit xp key ev tm c = Inr c' \<Longrightarrow> \<exists>e. co_events c' = co_events c @ [e] \<and> je_event e = ev \<and> je_timestamp e = tm"
  by (auto elim!: portfolio_emitE simp: move_order_frame effect_frame)

interpretation session: safe_writer xp "session_books xp permitted b x es h" permitted for xp permitted b x es h
proof
  fix c c' ev key tm
  assume i: "session_books xp permitted b x es h c" and n: "entering ev \<longrightarrow> \<not> co_halted c \<and> permitted tm"
    and l: "is_reserve ev \<longrightarrow> exposed c < position_limit (co_policy c)" and e: "portfolio_emit xp key ev tm c = Inr c'"
  have j: "journal_inv xp c" and a: "account_inv c" and h: "halt_inv c" using i by (simp_all add: session_books_def)
  have "journal_inv xp c'" using j e by (rule emit_keeps_journal)
  moreover have "account_inv c'" by (rule accounts.emits [OF a _ l e]) (use n in blast)
  moreover have "halt_inv c'" by (rule halts.emits [OF h _ l e]) (use n in blast)
  ultimately show "session_books xp permitted b x es h c'"
  proof -
    obtain row where row: "co_events c' = co_events c @ [row]" "je_event row = ev" "je_timestamp row = tm" using emit_row [OF e] by blast
    assume "journal_inv xp c'" "account_inv c'" "halt_inv c'"
    then show ?thesis
      using i n portfolio_emit_frame(1,3,4) [OF e] row by (simp add: session_books_def)
  qed
qed (auto simp: session_books_def journal_inv_def account_inv_def halt_inv_def books_match_def exposed_def)

section \<open>Paths of the state machine\<close>

fun session_path :: "session_state \<Rightarrow> (session_state \<times> session_state) list \<Rightarrow> session_state \<Rightarrow> bool" where
  "session_path s [] t = (s = t)"
| "session_path s ((a, b) # es) t = (a = s \<and> a \<notin> {COMPLETED, FAILED} \<and> b \<in> allowed_states a \<and> b \<noteq> a \<and> session_path b es t)"

lemma session_path_append: "session_path s (es @ fs) u \<longleftrightarrow> (\<exists>t. session_path s es t \<and> session_path t fs u)"
  by (induction s es u rule: session_path.induct) auto

section \<open>Inside a command\<close>

text \<open>What a session is set up with; no command changes it.\<close>

definition session_setup ::
  "engine \<Rightarrow> request list \<times> (string \<times> request) list \<times> portfolio_policy \<times> control \<times> session_calendar \<times> session_config
     \<times> dated_session option \<times> session_binding \<times> string \<times> string option" where
  "session_setup s = (en_requests s, en_sources s, en_policy s, en_control s, en_calendar s, en_config s, en_session s, en_binding s,
     en_identifier s, en_crash s)"

text \<open>Entries are permitted after the start of the session and before the cutoff.\<close>

definition entry_window :: "engine \<Rightarrow> instant \<Rightarrow> bool" where
  "entry_window s tm \<longleftrightarrow> (\<exists>ses. en_session s = Some ses \<and> dse_start ses < tm \<and> tm < en_cutoff s)"

text \<open>The history of a symbol: the candles of its dataset from the start of the session on, without a gap, completed by \<open>tm\<close>.\<close>

definition candles_ok :: "dated_session option \<Rightarrow> (string \<times> request) list \<Rightarrow> instant option \<Rightarrow> string \<Rightarrow> bar list \<Rightarrow> bool" where
  "candles_ok session sources clock symbol bars \<longleftrightarrow> bars = [] \<or>
     (\<exists>ses rq tm. session = Some ses \<and> map_of sources symbol = Some rq \<and> clock = Some tm
        \<and> map bar_start bars = map (\<lambda>i. dse_start ses + int i * FIVE) [0..<length bars]
        \<and> set bars \<subseteq> set (sr_bars (rq_series rq)) \<and> (\<forall>b \<in> set bars. candle_end b \<le> tm))"

lemma candles_ok_Nil [simp]: "candles_ok session sources clock symbol []"
  by (simp add: candles_ok_def)

definition history_ok :: "instant option \<Rightarrow> engine \<Rightarrow> bool" where
  "history_ok clock s \<longleftrightarrow>
     (\<forall>symbol bars. map_of (en_history s) symbol = Some bars \<longrightarrow> candles_ok (en_session s) (en_sources s) clock symbol bars)"

text \<open>\<open>s0\<close> is the engine at the start of the command.\<close>

definition session_core :: "session_externals \<Rightarrow> engine \<Rightarrow> instant \<Rightarrow> engine \<Rightarrow> bool" where
  "session_core xs s0 tm s \<longleftrightarrow> session_setup s = session_setup s0 \<and> en_clock s = en_clock s0 \<and> en_audit s = en_audit s0
     \<and> session_path (en_state s0) (en_transitions s) (en_state s)
     \<and> session_books (xs_portfolio xs) (entry_window s0) (co_binding (en_portfolio s0)) (co_opening (en_portfolio s0))
         (co_events (en_portfolio s0)) (en_state s = HALTED) (en_portfolio s)
     \<and> history_ok (Some tm) s"

definition session_mid :: "session_externals \<Rightarrow> engine \<Rightarrow> instant \<Rightarrow> engine \<Rightarrow> bool" where
  "session_mid xs s0 tm s \<longleftrightarrow> session_core xs s0 tm s \<and> en_state s \<noteq> COMPLETED"

definition session_left :: "session_externals \<Rightarrow> engine \<Rightarrow> instant \<Rightarrow> exc \<Rightarrow> engine \<Rightarrow> bool" where
  "session_left xs s0 tm e s \<longleftrightarrow> session_core xs s0 tm s \<or> broken (en_portfolio s)"

lemma session_leftI: "session_core xs s0 tm s \<Longrightarrow> session_left xs s0 tm e s" "session_mid xs s0 tm s \<Longrightarrow> session_left xs s0 tm e s"
  by (simp_all add: session_left_def session_mid_def)

lemma leads_transition:
  assumes "\<And>s. P s \<Longrightarrow> session_core xs s0 tm s" and "\<And>s. P s \<Longrightarrow> st = HALTED \<Longrightarrow> co_halted (en_portfolio s)"
    and "\<And>s. session_core xs s0 tm (s\<lparr>en_transitions := en_transitions s @ [(en_state s, st)], en_state := st\<rparr>) \<Longrightarrow> P s \<Longrightarrow>
      en_state s \<noteq> COMPLETED \<Longrightarrow> Q (s\<lparr>en_transitions := en_transitions s @ [(en_state s, st)], en_state := st\<rparr>)"
  shows "leads P (transition st) Q (session_left xs s0 tm)"
proof -
  let ?f = "\<lambda>s. s\<lparr>en_transitions := en_transitions s @ [(en_state s, st)], en_state := st\<rparr>"
  have "session_core xs s0 tm (?f s)"
    if "P s" "en_state s \<notin> {COMPLETED, FAILED}" "\<not> (st \<notin> allowed_states (en_state s) \<or> st = en_state s)" for s
    using assms(1) [OF that(1)] assms(2) [OF that(1)] that(2,3)
    by (auto simp: session_core_def session_setup_def history_ok_def session_books_def session_path_append)
  then show ?thesis
    unfolding transition_def leads_def readE_def raiseE_def seqE_def updateE_def skipE_def
    using assms(1,3) by (auto intro: session_leftI)
qed

lemma leads_transition_mid:
  "st \<notin> {HALTED, COMPLETED} \<Longrightarrow> leads (session_mid xs s0 tm) (transition st) (session_mid xs s0 tm) (session_left xs s0 tm)"
  by (rule leads_transition) (auto simp: session_mid_def)

lemma leads_on_portfolio:
  assumes "\<And>h. leads (session_books (xs_portfolio xs) (entry_window s0) (co_binding (en_portfolio s0)) (co_opening (en_portfolio s0))
         (co_events (en_portfolio s0)) h) (f (en_crash s0))
       (\<lambda>c. session_books (xs_portfolio xs) (entry_window s0) (co_binding (en_portfolio s0)) (co_opening (en_portfolio s0))
         (co_events (en_portfolio s0)) h c \<and> R c)
       (\<lambda>e c. session_books (xs_portfolio xs) (entry_window s0) (co_binding (en_portfolio s0)) (co_opening (en_portfolio s0))
         (co_events (en_portfolio s0)) h c \<or> broken c)"
  shows "leads (session_core xs s0 tm) (on_portfolio f) (\<lambda>s. session_core xs s0 tm s \<and> R (en_portfolio s)) (session_left xs s0 tm)"
    and "leads (session_mid xs s0 tm) (on_portfolio f) (\<lambda>s. session_mid xs s0 tm s \<and> R (en_portfolio s)) (session_left xs s0 tm)"
proof -
  have c: "session_core xs s0 tm (s\<lparr>en_portfolio := c\<rparr>) \<longleftrightarrow> session_books (xs_portfolio xs) (entry_window s0) (co_binding (en_portfolio s0))
      (co_opening (en_portfolio s0)) (co_events (en_portfolio s0)) (en_state s = HALTED) c" if "session_core xs s0 tm s" for s c
    using that by (auto simp: session_core_def session_setup_def history_ok_def)
  have crash: "en_crash s = en_crash s0" if "session_core xs s0 tm s" for s using that by (simp add: session_core_def session_setup_def)
  have main: "case on_portfolio f s of (None, t) \<Rightarrow> session_core xs s0 tm t \<and> R (en_portfolio t) \<and> en_state t = en_state s
     | (Some e, t) \<Rightarrow> session_left xs s0 tm e t" if s: "session_core xs s0 tm s" for s
  proof -
    obtain e d where d: "f (en_crash s0) (en_portfolio s) = (e, d)" by (cases "f (en_crash s0) (en_portfolio s)")
    have b: "session_books (xs_portfolio xs) (entry_window s0) (co_binding (en_portfolio s0))
      (co_opening (en_portfolio s0)) (co_events (en_portfolio s0)) (en_state s = HALTED) (en_portfolio s)"
      using s by (simp add: session_core_def)
    show ?thesis
      using leadsD [OF assms b] d c [OF s]
      by (cases e) (auto simp: on_portfolio_def readE_def partE_def crash [OF s] session_left_def)
  qed
  show "leads (session_core xs s0 tm) (on_portfolio f) (\<lambda>s. session_core xs s0 tm s \<and> R (en_portfolio s)) (session_left xs s0 tm)"
    using main by (fastforce simp: leads_def split: prod.splits option.splits)
  show "leads (session_mid xs s0 tm) (on_portfolio f) (\<lambda>s. session_mid xs s0 tm s \<and> R (en_portfolio s)) (session_left xs s0 tm)"
    using main by (fastforce simp: leads_def session_mid_def split: prod.splits option.splits)
qed

lemma leads_session_emit:
  assumes "\<not> entering ev"
  shows "leads (session_mid xs s0 tm) (session_emit xs key ev t) (session_mid xs s0 tm) (session_left xs s0 tm)"
    and "leads (session_core xs s0 tm) (session_emit xs key ev t) (session_core xs s0 tm) (session_left xs s0 tm)"
  unfolding session_emit_def
  using leads_on_portfolio [where R = "\<lambda>_. True", OF leads_weaken [OF session.leads_plain [OF assms]]] by simp_all

lemma leads_session_guard:
  "leads (session_mid xs s0 tm) (on_portfolio (\<lambda>crash. guardE (xs_portfolio xs) crash t)) (session_mid xs s0 tm) (session_left xs s0 tm)"
  using leads_on_portfolio(2) [where R = "\<lambda>_. True", OF leads_weaken [OF session.leads_guard]] by simp

lemma leads_session_enter:
  assumes "entry_window s0 t"
  shows "leads (session_mid xs s0 tm) (on_portfolio (\<lambda>crash. enterE (xs_portfolio xs) crash key rq price quantity t ct)) (session_mid xs s0 tm)
     (session_left xs s0 tm)"
  using leads_on_portfolio(2) [where R = "\<lambda>_. True", OF leads_weaken [OF session.leads_enter [where permitted = "entry_window s0", OF assms]]] by simp

lemma leads_session_halt:
  "leads (session_core xs s0 tm) (session_halt xs reason t) (\<lambda>s. session_core xs s0 tm s \<and> en_state s = HALTED \<and> co_halted (en_portfolio s))
     (session_left xs s0 tm)"
  unfolding session_halt_def
proof (rule leads_seq)
  show "leads (session_core xs s0 tm) (on_portfolio (\<lambda>crash. haltE (xs_portfolio xs) crash t reason))
      (\<lambda>s. session_core xs s0 tm s \<and> co_halted (en_portfolio s)) (session_left xs s0 tm)"
    by (rule leads_on_portfolio(1)) (rule session.leads_halt)
  show "leads (\<lambda>s. session_core xs s0 tm s \<and> co_halted (en_portfolio s)) (readE (\<lambda>s. if en_state s \<noteq> HALTED then transition HALTED else skipE))
      (\<lambda>s. session_core xs s0 tm s \<and> en_state s = HALTED \<and> co_halted (en_portfolio s)) (session_left xs s0 tm)"
  proof (intro leads_intros)
    fix s show "leads (\<lambda>u. u = s \<and> session_core xs s0 tm u \<and> co_halted (en_portfolio u)) (transition HALTED)
        (\<lambda>s. session_core xs s0 tm s \<and> en_state s = HALTED \<and> co_halted (en_portfolio s)) (session_left xs s0 tm)"
      by (rule leads_transition) auto
  qed auto
qed

lemma leads_session_halt_mid:
  "leads (session_mid xs s0 tm) (session_halt xs reason t) (session_mid xs s0 tm) (session_left xs s0 tm)"
  by (rule leads_weaken [OF leads_session_halt]) (auto simp: session_mid_def)

text \<open>A triple for a statement that reads the state it starts in.\<close>

lemma leads_at: "leads P f Q E \<Longrightarrow> leads (\<lambda>s. s = s1 \<and> P s) f Q E"
  by (auto simp: leads_def)

lemma leads_exit_position:
  "leads (session_mid xs s0 tm) (exit_position xs ses t symbol b) (session_mid xs s0 tm) (session_left xs s0 tm)"
  unfolding exit_position_def
  by (intro leads_intros leads_seq [where R = "session_mid xs s0 tm"])
    (auto intro: session_leftI intro!: leads_at leads_session_emit leads_session_halt_mid)

section \<open>Candles\<close>

text \<open>A candle that continues the history of its symbol up to \<open>tm\<close>.\<close>

definition candle_fits :: "instant \<Rightarrow> engine \<Rightarrow> completed_candle \<Rightarrow> bool" where
  "candle_fits tm s o1 \<longleftrightarrow> (\<exists>ses rq. en_session s = Some ses \<and> map_of (en_sources s) (cc_symbol o1) = Some rq
     \<and> cc_bar o1 \<in> set (sr_bars (rq_series rq)) \<and> candle_end (cc_bar o1) \<le> tm
     \<and> bar_start (cc_bar o1) = (if history_of s (cc_symbol o1) = [] then dse_start ses else candle_end (last (history_of s (cc_symbol o1)))))"

lemma history_of_record:
  "history_of (record_candle xs symbol b s) k = (if k = symbol then history_of s symbol @ [b] else history_of s k)"
  by (simp add: record_candle_def history_of_def update_conv')

lemma record_candle_frame:
  "en_session (record_candle xs symbol b s) = en_session s" "en_sources (record_candle xs symbol b s) = en_sources s"
  by (simp_all add: record_candle_def)

lemma contiguous_snoc:
  assumes "map bar_start bars = map (\<lambda>i. t0 + int i * FIVE) [0..<length bars]"
    and "bar_start b = (if bars = [] then t0 else candle_end (last bars))"
  shows "map bar_start (bars @ [b]) = map (\<lambda>i. t0 + int i * FIVE) [0..<length (bars @ [b])]"
proof (cases "bars = []")
  case False
  have "bar_start (last bars) = t0 + int (length bars - 1) * FIVE"
    using arg_cong [OF assms(1), of last] False by (simp add: last_map)
  then have "bar_start b = t0 + int (length bars) * FIVE"
    using assms(2) False by (cases bars rule: rev_cases) (simp_all add: candle_end_def algebra_simps)
  then show ?thesis using assms(1) by simp
qed (use assms in simp)

lemma record_candle_mid:
  assumes "session_mid xs s0 tm s" and "candle_fits tm s o1"
  shows "session_mid xs s0 tm (record_candle xs (cc_symbol o1) (cc_bar o1) s)"
proof -
  let ?k = "cc_symbol o1" let ?bars = "history_of s ?k" let ?t = "record_candle xs ?k (cc_bar o1) s"
  from assms(2) obtain ses rq where ses: "en_session s = Some ses" and rq: "map_of (en_sources s) ?k = Some rq"
    and b: "cc_bar o1 \<in> set (sr_bars (rq_series rq))" "candle_end (cc_bar o1) \<le> tm"
      "bar_start (cc_bar o1) = (if ?bars = [] then dse_start ses else candle_end (last ?bars))"
    by (auto simp: candle_fits_def)
  have "candles_ok (en_session s) (en_sources s) (Some tm) ?k ?bars"
    using assms(1) by (auto simp: session_mid_def session_core_def history_ok_def history_of_def split: option.splits)
  then have old: "map bar_start ?bars = map (\<lambda>i. dse_start ses + int i * FIVE) [0..<length ?bars]" "set ?bars \<subseteq> set (sr_bars (rq_series rq))"
      "\<forall>x \<in> set ?bars. candle_end x \<le> tm"
    using ses rq by (auto simp: candles_ok_def)
  have "candles_ok (Some ses) (en_sources s) (Some tm) ?k (?bars @ [cc_bar o1])"
    unfolding candles_ok_def
    by (intro disjI2 exI [of _ ses] exI [of _ rq] exI [of _ tm] conjI contiguous_snoc old(1) b(3)) (use old b rq in auto)
  then have "history_ok (Some tm) ?t"
    using assms(1) ses by (auto simp: history_ok_def record_candle_def update_conv' session_mid_def session_core_def split: if_splits)
  then show ?thesis using assms(1) by (simp add: session_mid_def session_core_def session_setup_def record_candle_def)
qed

text \<open>The statements of the portfolio leave the histories alone.\<close>

lemma keeps_history:
  "leads (\<lambda>s. en_history s = H) (transition st) (\<lambda>s. en_history s = H) (\<lambda>e s. True)"
  "leads (\<lambda>s. en_history s = H) (on_portfolio f) (\<lambda>s. en_history s = H) (\<lambda>e s. True)"
  by (auto simp: transition_def on_portfolio_def leads_def readE_def raiseE_def seqE_def updateE_def skipE_def partE_def split: prod.splits option.splits)

lemma keeps_history_emit: "leads (\<lambda>s. en_history s = H) (session_emit xs key ev t) (\<lambda>s. en_history s = H) (\<lambda>e s. True)"
  unfolding session_emit_def by (rule keeps_history)

lemma keeps_history_halt: "leads (\<lambda>s. en_history s = H) (session_halt xs reason t) (\<lambda>s. en_history s = H) (\<lambda>e s. True)"
  unfolding session_halt_def
  by (intro leads_seq [where R = "\<lambda>s. en_history s = H"] leads_intros) (auto intro!: leads_at keeps_history)

lemma keeps_history_exit: "leads (\<lambda>s. en_history s = H) (exit_position xs ses t symbol b) (\<lambda>s. en_history s = H) (\<lambda>e s. True)"
  unfolding exit_position_def
  by (intro leads_intros leads_seq [where R = "\<lambda>s. en_history s = H"]) (auto intro!: leads_at keeps_history_emit keeps_history_halt)

lemma leads_process_candle:
  "leads (\<lambda>s. session_mid xs s0 tm s \<and> (\<forall>o2 \<in> set (o1 # os). candle_fits tm s o2) \<and> distinct (map cc_symbol (o1 # os)))
     (process_candle xs ses t o1)
     (\<lambda>s. session_mid xs s0 tm s \<and> (\<forall>o2 \<in> set os. candle_fits tm s o2) \<and> distinct (map cc_symbol os)) (session_left xs s0 tm)"
proof (rule leadsI)
  let ?P = "\<lambda>s. session_mid xs s0 tm s"
  let ?before = "seqE (exit_position xs ses t (cc_symbol o1) (cc_bar o1))
     (seqE (session_emit xs portfolio_key (Mark (cc_symbol o1) (bar_close (cc_bar o1))) t)
       (on_portfolio (\<lambda>crash. guardE (xs_portfolio xs) crash t)))"
  have split: "process_candle xs ses t o1 s = seqE ?before (updateE (record_candle xs (cc_symbol o1) (cc_bar o1))) s" for s
    by (simp add: process_candle_def seqE_def split: prod.splits option.splits)
  have mid: "leads ?P ?before ?P (session_left xs s0 tm)"
    by (intro leads_seq [where R = ?P] leads_exit_position leads_session_emit leads_session_guard) simp
  have hist: "leads (\<lambda>s. en_history s = H) ?before (\<lambda>s. en_history s = H) (\<lambda>e s. True)" for H
    by (intro leads_seq [where R = "\<lambda>s. en_history s = H"] keeps_history_exit keeps_history_emit keeps_history)
  fix s assume P: "?P s \<and> (\<forall>o2 \<in> set (o1 # os). candle_fits tm s o2) \<and> distinct (map cc_symbol (o1 # os))"
  {
    fix v assume "process_candle xs ses t o1 s = (None, v)"
    then obtain u where u: "?before s = (None, u)" and v: "v = record_candle xs (cc_symbol o1) (cc_bar o1) u"
      by (auto simp: split seqE_None updateE_def)
    have mu: "?P u" using leadsD(1) [OF mid _ u] P by blast
    have hu: "en_history u = en_history s" using leadsD(1) [OF hist _ u] by simp
    have "session_setup u = session_setup s" using mu P by (simp add: session_mid_def session_core_def)
    then have fu: "candle_fits tm u o2 = candle_fits tm s o2" for o2
      using hu by (simp add: candle_fits_def history_of_def session_setup_def)
    have "candle_fits tm v o2" if "o2 \<in> set os" for o2
    proof -
      have "cc_symbol o2 \<in> set (map cc_symbol os)" "cc_symbol o1 \<notin> set (map cc_symbol os)" using that P by simp_all
      then have "cc_symbol o2 \<noteq> cc_symbol o1" by metis
      then have "history_of v (cc_symbol o2) = history_of u (cc_symbol o2)" "en_session v = en_session u" "en_sources v = en_sources u"
        by (simp_all add: v history_of_record record_candle_frame)
      moreover have "candle_fits tm u o2" using that P fu by simp
      ultimately show ?thesis by (simp only: candle_fits_def)
    qed
    moreover have "?P v" using record_candle_mid [OF mu, of o1] P fu v by simp
    ultimately show "?P v \<and> (\<forall>o2 \<in> set os. candle_fits tm v o2) \<and> distinct (map cc_symbol os)" using P by simp
  }
  {
    fix e v assume "process_candle xs ses t o1 s = (Some e, v)"
    then have "?before s = (Some e, v)" by (auto simp: split seqE_def updateE_def split: prod.splits option.splits)
    then show "session_left xs s0 tm e v" using leadsD(2) [OF mid] P by blast
  }
qed

text \<open>A loop whose invariant depends on what is left of the list.\<close>

lemma leads_each_rest:
  assumes "\<And>x ys. leads (P (x # ys)) (f x) (P ys) E"
  shows "leads (P xs) (eachE f xs) (P []) E"
proof (induction xs)
  case (Cons x xs)
  then show ?case by (simp only: eachE.simps) (rule leads_seq [OF assms])
qed (simp add: leads_skip)

lemma leads_candles:
  assumes "\<And>s. P s \<Longrightarrow> session_mid xs s0 tm s \<and> (\<forall>o2 \<in> set (cm_completed cmd). candle_fits tm s o2) \<and> distinct (map cc_symbol (cm_completed cmd))"
  shows "leads P (withR (ranked_candles xs cmd) (eachE (process_candle xs ses t))) (session_mid xs s0 tm) (session_left xs s0 tm)"
proof (rule leads_with)
  fix e s assume "P s" then show "session_left xs s0 tm e s" using assms session_leftI by blast
next
  fix os assume "ranked_candles xs cmd = Inr os"
  then obtain zs where os: "os = sort_key (\<lambda>o1. rank_of (xp_universe (xs_portfolio xs)) (cc_symbol o1)) zs"
    and z: "mapR (\<lambda>o1. if cc_symbol o1 \<in> set (xp_universe (xs_portfolio xs)) then Inr o1 else Inl KeyError) (cm_completed cmd) = Inr zs"
    by (auto simp: ranked_candles_def bindR_Inr_iff Let_def)
  have "zs = cm_completed cmd"
    using z by (auto simp: mapR_Inr_list_all2 list_all2_conv_all_nth split: if_splits intro!: nth_equalityI)
  then have perm: "mset os = mset (cm_completed cmd)" using os by simp
  then have s: "set os = set (cm_completed cmd)" by (rule mset_eq_setD)
  have d: "distinct (map cc_symbol os) = distinct (map cc_symbol (cm_completed cmd))"
    using perm by (metis mset_eq_imp_distinct_iff mset_map)
  let ?P = "\<lambda>os s. session_mid xs s0 tm s \<and> (\<forall>o2 \<in> set os. candle_fits tm s o2) \<and> distinct (map cc_symbol os)"
  have "leads (?P os) (eachE (process_candle xs ses t) os) (?P []) (session_left xs s0 tm)"
    by (rule leads_each_rest) (rule leads_process_candle)
  then show "leads P (eachE (process_candle xs ses t) os) (session_mid xs s0 tm) (session_left xs s0 tm)"
    by (rule leads_weaken) (use assms s d in auto)
qed

lemma observations_fit:
  assumes "check_observations ses cmd s = Inr u" and "en_session s = Some ses" and "cm_at cmd \<le> tm"
  shows "(\<forall>o1 \<in> set (cm_completed cmd). candle_fits tm s o1) \<and> distinct (map cc_symbol (cm_completed cmd))"
proof -
  from assms(1) obtain us where d: "distinct (map cc_symbol (cm_completed cmd))"
    and us: "mapR (check_completed ses (cm_at cmd) s) (cm_completed cmd) = Inr us"
    by (auto simp: check_observations_def bindR_Inr_iff checks_Inr_iff)
  have "candle_fits tm s o1" if "o1 \<in> set (cm_completed cmd)" for o1
  proof -
    from us that obtain y where "check_completed ses (cm_at cmd) s o1 = Inr y" by (rule mapR_Inr_elem)
    then show ?thesis using assms(2,3)
      by (auto simp: check_completed_def candle_fits_def history_of_def checks_Inr_iff Let_def split: option.splits if_splits)
  qed
  then show ?thesis using d by blast
qed

section \<open>Signals, entries and the close\<close>

lemma leads_propose_signal:
  "leads (session_mid xs s0 tm) (propose_signal xs t rq sig) (session_mid xs s0 tm) (session_left xs s0 tm)"
proof -
  have 1: "session_mid xs s0 tm (s\<lparr>en_signal_decisions := ds\<rparr>) = session_mid xs s0 tm s" for s ds
    by (simp add: session_mid_def session_core_def session_setup_def history_ok_def)
  have 2: "session_mid xs s0 tm (s\<lparr>en_portfolio := (en_portfolio s)\<lparr>co_consumed := sigs\<rparr>, en_pending := ps\<rparr>) = session_mid xs s0 tm s" for s sigs ps
    by (simp add: session_mid_def session_core_def session_setup_def history_ok_def session_books_def journal_inv_def account_inv_def
        halt_inv_def books_match_def exposed_def)
  show ?thesis
    unfolding propose_signal_def
    by (intro leads_intros leads_seq [where R = "session_mid xs s0 tm"]) (auto simp: 1 2 intro!: leads_at leads_session_emit)
qed

lemma leads_decide_signal:
  "leads (session_mid xs s0 tm) (decide_signal xs cmd rq) (session_mid xs s0 tm) (session_left xs s0 tm)"
  unfolding decide_signal_def
  by (intro leads_intros) (auto intro: session_leftI intro!: leads_at leads_propose_signal)

lemma leads_settle_pending:
  assumes "\<exists>ses. en_session s0 = Some ses \<and> dse_start ses < cm_at cmd"
  shows "leads (session_mid xs s0 tm) (settle_pending xs cmd p) (session_mid xs s0 tm) (session_left xs s0 tm)"
proof -
  have 1: "session_mid xs s0 tm (s\<lparr>en_pending := ps\<rparr>) = session_mid xs s0 tm s" for s ps
    by (simp add: session_mid_def session_core_def session_setup_def history_ok_def)
  have w: "entry_window s0 (cm_at cmd)" if "session_mid xs s0 tm s" "\<not> en_cutoff s \<le> cm_at cmd" for s
    using assms that by (auto simp: entry_window_def session_mid_def session_core_def session_setup_def)
  show ?thesis
    unfolding settle_pending_def Let_def
  proof (intro leads_seq [where R = "session_mid xs s0 tm"] leads_intros)
    fix s o1 assume "session_mid xs s0 tm s"
      and "(if en_cutoff s \<le> cm_at cmd \<or> co_halted (en_portfolio s) then None
            else List.find (\<lambda>o1. op_symbol o1 = rq_symbol (snd p)) (cm_openings cmd)) = Some o1"
    then have "entry_window s0 (cm_at cmd)" using w by (auto split: if_splits)
    then show "leads (\<lambda>u. u = s \<and> session_mid xs s0 tm u) (on_portfolio (\<lambda>crash. enterE (xs_portfolio xs) crash (fst p) (snd p)
        (prec40 (op_price o1 * prec40 (1 + slip_of (rq_settings (snd p))))) (set_quantity (rq_settings (snd p))) (cm_at cmd) (en_control s)))
        (session_mid xs s0 tm) (session_left xs s0 tm)"
      by (intro leads_at leads_session_enter)
  qed (auto simp: 1 intro!: leads_at leads_session_emit leads_session_halt_mid)
qed

definition flat :: "engine \<Rightarrow> bool" where
  "flat s \<longleftrightarrow> \<not> co_halted (en_portfolio s) \<and> co_positions (en_portfolio s) = [] \<and> co_reservations (en_portfolio s) = []"

definition session_post :: "session_externals \<Rightarrow> engine \<Rightarrow> instant \<Rightarrow> engine \<Rightarrow> bool" where
  "session_post xs s0 tm s \<longleftrightarrow> session_core xs s0 tm s \<and> (en_state s = COMPLETED \<longrightarrow> flat s)"

lemma end_frame:
  assumes "portfolio_emit xp key (Session_End finished) t c = Inr c'"
  shows "co_positions c' = co_positions c" "co_reservations c' = co_reservations c" "co_halted c' = co_halted c"
  using assms by (auto elim!: portfolio_emitE simp: move_order_None)

lemma leads_session_end:
  "leads (session_post xs s0 tm) (session_emit xs portfolio_key (Session_End finished) t) (session_post xs s0 tm) (session_left xs s0 tm)"
proof -
  have "leads (\<lambda>s. en_state s = COMPLETED \<longrightarrow> flat s) (session_emit xs portfolio_key (Session_End finished) t)
      (\<lambda>s. en_state s = COMPLETED \<longrightarrow> flat s) (\<lambda>e s. True)"
    by (auto simp: leads_def session_emit_def on_portfolio_def readE_def partE_def emitE_def flat_def split: sum.splits dest: end_frame)
  from leads_conj [OF leads_session_emit(2) this] show ?thesis
    unfolding session_post_def by (rule leads_weaken) auto
qed

lemma account_flat:
  assumes "account_of c = Inr a" and "ac_positions a = []" and "ac_reservations a = []"
  shows "co_positions c = []" and "co_reservations c = []"
proof -
  from assms(1) obtain held where h: "held_orders c = Inr held" and a: "ac_positions a = sort_key fst held"
      "ac_reservations a = sort_key fst (co_reservations c)"
    by (auto simp: account_of_def bindR_Inr_iff Let_def)
  show "co_positions c = []" using held_orders_symbols [OF h] a(1) assms(2) by (metis length_0_conv length_map length_sort)
  show "co_reservations c = []" using a(2) assms(3) by (metis length_0_conv length_sort)
qed

lemma leads_reconcile:
  "leads (session_mid xs s0 tm) (reconcile xs t) (session_post xs s0 tm) (session_left xs s0 tm)"
  unfolding reconcile_def
proof (intro leads_seq [where R = "session_mid xs s0 tm"] leads_transition_mid)
  show "leads (session_mid xs s0 tm) (readE (\<lambda>s. if en_state s = HALTED then transition EOD_LIQUIDATION else skipE))
      (session_mid xs s0 tm) (session_left xs s0 tm)"
    by (intro leads_intros leads_at leads_transition_mid) auto
  show "leads (session_mid xs s0 tm) (readE (\<lambda>s. withR (account_of (en_portfolio s)) (\<lambda>a.
       seqE (if co_halted (en_portfolio s) \<or> ac_positions a \<noteq> [] \<or> ac_reservations a \<noteq> [] then session_halt xs ''EOD_INCOMPLETE'' t
             else transition COMPLETED)
         (readE (\<lambda>s. session_emit xs portfolio_key (Session_End (en_state s = COMPLETED)) t)))))
      (session_post xs s0 tm) (session_left xs s0 tm)"
  proof (rule leads_read, rule leads_with, rule session_leftI(2), rule conjunct2, assumption, rule leads_seq [where R = "session_post xs s0 tm"], rule leads_if)
    fix s a
    show "leads (\<lambda>u. u = s \<and> session_mid xs s0 tm u) (session_halt xs ''EOD_INCOMPLETE'' t) (session_post xs s0 tm) (session_left xs s0 tm)"
      by (rule leads_weaken [OF leads_session_halt]) (auto simp: session_mid_def session_post_def)
    show "leads (\<lambda>u. u = s \<and> session_mid xs s0 tm u) (transition COMPLETED) (session_post xs s0 tm) (session_left xs s0 tm)"
      if "account_of (en_portfolio s) = Inr a" "\<not> (co_halted (en_portfolio s) \<or> ac_positions a \<noteq> [] \<or> ac_reservations a \<noteq> [])"
      by (rule leads_transition) (use that account_flat [OF that(1)] in \<open>auto simp: session_mid_def session_post_def flat_def\<close>)
    show "leads (session_post xs s0 tm) (readE (\<lambda>s. session_emit xs portfolio_key (Session_End (en_state s = COMPLETED)) t))
        (session_post xs s0 tm) (session_left xs s0 tm)"
      by (intro leads_intros leads_at leads_session_end)
  qed
qed simp_all

section \<open>Commands\<close>

lemma mid_post: "session_mid xs s0 tm s \<Longrightarrow> session_post xs s0 tm s"
  by (simp add: session_mid_def session_post_def)

lemma leads_begin_step: "leads (session_mid xs s0 tm) (begin_step t) (session_mid xs s0 tm) (session_left xs s0 tm)"
  unfolding begin_step_def by (intro leads_intros leads_at leads_transition_mid) auto

lemma leads_trade_session:
  assumes "cm_at cmd \<le> tm"
  shows "leads (session_mid xs s0 tm) (trade_session xs cmd) (session_post xs s0 tm) (session_left xs s0 tm)"
proof -
  let ?M = "session_mid xs s0 tm" let ?L = "session_left xs s0 tm"
  let ?fit = "\<lambda>s. ?M s \<and> (\<forall>o2 \<in> set (cm_completed cmd). candle_fits tm s o2) \<and> distinct (map cc_symbol (cm_completed cmd))"
  have observed: "leads ?M (readE (\<lambda>s. withR (check_observations ses cmd s) (\<lambda>_. skipE))) ?fit ?L" if "en_session s0 = Some ses" for ses
  proof (intro leads_intros)
    fix s u v assume "?M s" "check_observations ses cmd s = Inr u" "v = s \<and> ?M v"
    moreover have "en_session s = Some ses" if "?M s"
      using that \<open>en_session s0 = Some ses\<close> by (simp add: session_mid_def session_core_def session_setup_def)
    ultimately show "?fit v" using observations_fit [OF _ _ assms] by blast
  qed (auto intro: session_leftI)
  have closing: "leads ?fit (if c then transition EOD_LIQUIDATION else skipE) ?fit ?L" for c
  proof (rule leads_if)
    have a: "leads ?fit (transition EOD_LIQUIDATION) ?M ?L" by (rule leads_weaken [OF leads_transition_mid]) auto
    have b: "leads ?fit (transition EOD_LIQUIDATION)
        (\<lambda>s. (\<forall>o2 \<in> set (cm_completed cmd). candle_fits tm s o2) \<and> distinct (map cc_symbol (cm_completed cmd))) (\<lambda>e s. True)"
      by (auto simp: leads_def transition_def readE_def raiseE_def seqE_def updateE_def skipE_def candle_fits_def history_of_def)
    from leads_conj [OF a b] show "leads ?fit (transition EOD_LIQUIDATION) ?fit ?L" by (rule leads_weaken) auto
  qed (auto intro: leads_skip)
  have halted: "leads ?M (readE (\<lambda>s. if co_halted (en_portfolio s) \<and> en_state s \<noteq> HALTED then transition HALTED else skipE)) ?M ?L"
  proof (intro leads_intros)
    fix s :: engine assume "co_halted (en_portfolio s) \<and> en_state s \<noteq> HALTED"
    then show "leads (\<lambda>u. u = s \<and> ?M u) (transition HALTED) ?M ?L" by (intro leads_transition) (auto simp: session_mid_def)
  qed auto
  show ?thesis
    unfolding trade_session_def Let_def
  proof (rule leads_read, rule leads_option)
    fix s show "leads (\<lambda>u. u = s \<and> ?M u) (raiseE (ValueError ''SESSION_NOT_OPEN'')) (session_post xs s0 tm) ?L"
      by (intro leads_intros) (auto intro: session_leftI)
  next
    fix s ses assume s: "?M s" "en_session s = Some ses"
    then have ses: "en_session s0 = Some ses" by (simp add: session_mid_def session_core_def session_setup_def)
    have checked: "leads (\<lambda>u. u = s \<and> ?M u) (checkE cs) (\<lambda>u. ?M u \<and> (\<forall>c \<in> set cs. \<not> fst c)) ?L" for cs
      by (intro leads_intros) (auto intro: session_leftI)
    let ?rest = "\<lambda>closing. seqE (begin_step (cm_at cmd))
         (seqE (readE (\<lambda>s. withR (check_observations ses cmd s) (\<lambda>_. skipE)))
         (seqE (if closing then transition EOD_LIQUIDATION else skipE)
         (seqE (withR (ranked_candles xs cmd) (eachE (process_candle xs ses (cm_at cmd))))
         (seqE (readE (\<lambda>s. if co_halted (en_portfolio s) \<and> en_state s \<noteq> HALTED then transition HALTED else skipE))
         (seqE (eachE (decide_signal xs cmd) (en_requests s))
         (seqE (readE (\<lambda>s. eachE (settle_pending xs cmd) (en_pending s)))
         (if closing then reconcile xs (cm_at cmd) else skipE)))))))"
    have run: "leads ?M (?rest c) (session_post xs s0 tm) ?L" if "dse_start ses < cm_at cmd" for c
    proof (rule leads_seq [OF leads_begin_step], rule leads_seq [OF observed [OF ses]], rule leads_seq [OF closing], rule leads_seq [where R = ?M],
        rule leads_candles, assumption, rule leads_seq [OF halted], rule leads_seq [where R = ?M], rule leads_each, rule leads_decide_signal,
        rule leads_seq [where R = ?M], rule leads_read, rule leads_at, rule leads_each, rule leads_settle_pending)
      show "\<exists>x. en_session s0 = Some x \<and> dse_start x < cm_at cmd" using ses that by blast
      show "leads ?M (if c then reconcile xs (cm_at cmd) else skipE) (session_post xs s0 tm) ?L"
        by (intro leads_if leads_reconcile leads_skip mid_post)
    qed
    show "leads (\<lambda>u. u = s \<and> ?M u) (seqE (checkE
           [(en_state s \<notin> {SESSION_OPEN, RUNNING, ENTRY_CUTOFF, HALTED}, ''SESSION_NOT_OPEN''),
            (\<not> (dse_start ses < cm_at cmd \<and> cm_at cmd \<le> dse_end ses), ''OUT_OF_SESSION''),
            ((cm_kind cmd = Close_Session) \<noteq> (cm_at cmd = dse_end ses), ''CLOSE_BOUNDARY'')]) (?rest (cm_kind cmd = Close_Session)))
        (session_post xs s0 tm) ?L"
    proof (rule leads_seq [OF checked])
      show "leads (\<lambda>u. ?M u \<and> (\<forall>c \<in> set [(en_state s \<notin> {SESSION_OPEN, RUNNING, ENTRY_CUTOFF, HALTED}, ''SESSION_NOT_OPEN''),
            (\<not> (dse_start ses < cm_at cmd \<and> cm_at cmd \<le> dse_end ses), ''OUT_OF_SESSION''),
            ((cm_kind cmd = Close_Session) \<noteq> (cm_at cmd = dse_end ses), ''CLOSE_BOUNDARY'')]. \<not> fst c)) (?rest (cm_kind cmd = Close_Session))
        (session_post xs s0 tm) ?L"
      proof (cases "dse_start ses < cm_at cmd")
        case True
        show ?thesis by (rule leads_weaken [OF run [OF True]]) simp_all
      next
        case False
        then show ?thesis by (intro leadsI) simp_all
      qed
    qed
  qed
qed

lemma leads_preflight: "leads (session_mid xs s0 tm) (preflight xs cmd) (session_post xs s0 tm) (session_left xs s0 tm)"
proof -
  have 1: "session_mid xs s0 tm (s\<lparr>en_gaps := gs\<rparr>) = session_mid xs s0 tm s" for s gs
    by (simp add: session_mid_def session_core_def session_setup_def history_ok_def)
  show ?thesis
    unfolding preflight_def
    by (intro leads_intros leads_seq [where R = "session_mid xs s0 tm"] leads_transition_mid
        leads_weaken [OF leads_transition_mid, of READY _ _ _ _ "session_post xs s0 tm"])
      (auto simp: 1 intro: session_leftI mid_post)
qed

lemma leads_open_session: "leads (session_mid xs s0 tm) (open_session cmd) (session_post xs s0 tm) (session_left xs s0 tm)"
  unfolding open_session_def
  by (intro leads_intros leads_seq [where R = "session_mid xs s0 tm"]
      leads_weaken [OF leads_transition_mid, of SESSION_OPEN _ _ _ _ "session_post xs s0 tm"])
    (auto intro: session_leftI mid_post)

lemma leads_command_body:
  assumes "cm_at cmd \<le> tm"
  shows "leads (session_mid xs s0 tm) (command_body xs cmd) (session_post xs s0 tm) (session_left xs s0 tm)"
  unfolding command_body_def
proof (intro leads_read leads_seq [where R = "session_mid xs s0 tm"])
  show "leads (session_mid xs s0 tm)
     (case cm_kind cmd of Preflight \<Rightarrow> preflight xs cmd | Open_Session \<Rightarrow> open_session cmd | _ \<Rightarrow> trade_session xs cmd)
     (session_post xs s0 tm) (session_left xs s0 tm)"
    by (cases "cm_kind cmd") (simp_all add: leads_preflight leads_open_session leads_trade_session assms)
qed (auto intro!: leads_check intro: session_leftI)

lemma leads_recover: "leads (session_mid xs s0 tm) recover (session_mid xs s0 tm) (session_left xs s0 tm)"
  unfolding recover_def
proof (intro leads_read leads_if leads_raise)
  fix s assume "session_mid xs s0 tm s" "en_state s \<notin> {HALTED, FAILED, COMPLETED}"
  then show "leads (\<lambda>u. u = s \<and> session_mid xs s0 tm u) (seqE (transition RECOVERY_PENDING) (transition (en_state s)))
      (session_mid xs s0 tm) (session_left xs s0 tm)"
    by (intro leads_at leads_seq [OF leads_transition_mid leads_transition_mid]) auto
qed (auto intro: session_leftI)

section \<open>Between commands\<close>

text \<open>The journal of the session: numbered rows, each bound to the one before by its hash, in the order of the clock.\<close>

definition audit_chained :: "session_externals \<Rightarrow> session_row list \<Rightarrow> bool" where
  "audit_chained xs rows \<longleftrightarrow> (\<forall>i < length rows. ro_sequence (rows ! i) = i \<and> ro_previous_hash (rows ! i) = session_last_hash (take i rows)
     \<and> ro_current_hash (rows ! i) = xs_sha xs (xs_row_json xs (session_row_body.truncate (rows ! i))))"

definition session_inv :: "session_externals \<Rightarrow> engine \<Rightarrow> engine \<Rightarrow> bool" where
  "session_inv xs s0 s \<longleftrightarrow> session_setup s = session_setup s0
     \<and> session_books (xs_portfolio xs) (entry_window s0) (co_binding (en_portfolio s0)) (co_opening (en_portfolio s0)) []
         (en_state s = HALTED) (en_portfolio s)
     \<and> history_ok (en_clock s) s \<and> (en_state s = COMPLETED \<longrightarrow> flat s)
     \<and> audit_chained xs (en_audit s) \<and> sorted (map ro_timestamp (en_audit s))
     \<and> en_clock s = (if en_audit s = [] then None else Some (ro_timestamp (last (en_audit s))))
     \<and> concat (map ro_portfolio_events (en_audit s)) = co_events (en_portfolio s)
     \<and> session_path CREATED (concat (map ro_transitions (en_audit s))) (en_state s)
     \<and> (\<forall>row \<in> set (en_audit s). ro_rejection row \<noteq> None \<longrightarrow> ro_state row = HALTED \<and> ac_halted (ro_account row))"

lemma audit_chained_snoc:
  "audit_chained xs (rows @ [row]) \<longleftrightarrow> audit_chained xs rows \<and> ro_sequence row = length rows \<and> ro_previous_hash row = session_last_hash rows
     \<and> ro_current_hash row = xs_sha xs (xs_row_json xs (session_row_body.truncate row))"
  by (auto simp: audit_chained_def nth_append less_Suc_eq)

lemma session_entry_fields [simp]:
  "ro_sequence (session_entry xs cmd recovered start reason tm a s) = length (en_audit s)"
  "ro_previous_hash (session_entry xs cmd recovered start reason tm a s) = session_last_hash (en_audit s)"
  "ro_current_hash (session_entry xs cmd recovered start reason tm a s)
     = xs_sha xs (xs_row_json xs (session_row_body.truncate (session_entry xs cmd recovered start reason tm a s)))"
  "ro_timestamp (session_entry xs cmd recovered start reason tm a s) = tm" "ro_state (session_entry xs cmd recovered start reason tm a s) = en_state s"
  "ro_transitions (session_entry xs cmd recovered start reason tm a s) = en_transitions s"
  "ro_portfolio_events (session_entry xs cmd recovered start reason tm a s) = drop start (co_events (en_portfolio s))"
  "ro_account (session_entry xs cmd recovered start reason tm a s) = a" "ro_rejection (session_entry xs cmd recovered start reason tm a s) = reason"
  "ro_recovered (session_entry xs cmd recovered start reason tm a s) = recovered" "ro_command (session_entry xs cmd recovered start reason tm a s) = cmd"
  by (simp_all add: session_entry_def Let_def session_row_body.defs)

lemma account_halted: "account_of c = Inr a \<Longrightarrow> ac_halted a = co_halted c"
  by (auto simp: account_of_def bindR_Inr_iff Let_def)

lemma candles_ok_later:
  "candles_ok session sources clock symbol bars \<Longrightarrow> (\<And>t. clock = Some t \<Longrightarrow> t \<le> tm) \<Longrightarrow> candles_ok session sources (Some tm) symbol bars"
  unfolding candles_ok_def by (elim disjE exE conjE) (auto intro: order_trans)

lemma latest_bounds: "cm_at cmd \<le> latest (cm_at cmd) s" "en_clock s = Some t \<Longrightarrow> t \<le> latest tm s"
  by (auto simp: latest_def split: option.splits)

lemma inv_start:
  assumes "session_inv xs s0 s" and "en_state s \<notin> {COMPLETED, FAILED}"
  shows "session_mid xs s (latest tm s) (s\<lparr>en_transitions := [], en_candle_ids := []\<rparr>)"
proof -
  have "entry_window s = entry_window s0"
    using assms(1) by (simp add: fun_eq_iff session_inv_def session_setup_def entry_window_def)
  moreover have "history_ok (Some (latest tm s)) s"
    using assms(1) latest_bounds(2) [of s _ tm] unfolding session_inv_def history_ok_def by (blast intro: candles_ok_later)
  ultimately show ?thesis
    using assms by (simp add: session_mid_def session_core_def session_inv_def session_setup_def session_books_def history_ok_def)
qed

lemma finish_keeps:
  assumes inv: "session_inv xs s0 s" and core: "session_core xs s (latest (cm_at cmd) s) u" and ended: "en_state u = COMPLETED \<longrightarrow> flat u"
    and why: "reason \<noteq> None \<longrightarrow> en_state u = HALTED \<and> co_halted (en_portfolio u)"
    and fin: "finish_command xs cmd recovered (length (co_events (en_portfolio s))) reason u = Inr s'"
  shows "session_inv xs s0 s'"
proof -
  let ?tm = "latest (cm_at cmd) s"
  have c: "en_clock u = en_clock s" "en_audit u = en_audit s" "session_setup u = session_setup s" using core by (simp_all add: session_core_def)
  have tm: "latest (cm_at cmd) u = ?tm" by (simp add: latest_def c)
  from fin obtain a where a: "account_of (en_portfolio u) = Inr a"
    and s': "s' = u\<lparr>en_clock := Some ?tm, en_audit := en_audit s @ [session_entry xs cmd recovered (length (co_events (en_portfolio s))) reason ?tm a u]\<rparr>"
    unfolding finish_command_def Let_def bindR_Inr_iff tm c(2) by blast
  let ?row = "session_entry xs cmd recovered (length (co_events (en_portfolio s))) reason ?tm a u"
  have w: "entry_window s = entry_window s0"
    using inv by (simp add: fun_eq_iff session_inv_def session_setup_def entry_window_def)
  have b: "session_books (xs_portfolio xs) (entry_window s0) (co_binding (en_portfolio s0)) (co_opening (en_portfolio s0)) []
      (en_state u = HALTED) (en_portfolio u)"
    using core inv by (simp add: session_core_def session_inv_def session_books_def w)
  have p: "prefix (co_events (en_portfolio s)) (co_events (en_portfolio u))" using core by (simp add: session_core_def session_books_def)
  have "concat (map ro_portfolio_events (en_audit s')) = co_events (en_portfolio u)"
    using inv p by (auto simp: s' session_inv_def prefix_def)
  moreover have "session_path CREATED (concat (map ro_transitions (en_audit s'))) (en_state u)"
    using inv core by (auto simp: s' session_inv_def session_core_def session_path_append)
  moreover have "sorted (map ro_timestamp (en_audit s'))"
  proof -
    have "ro_timestamp (last (en_audit s)) \<le> ?tm" if "en_audit s \<noteq> []"
      using that inv latest_bounds(2) [of s] by (simp add: session_inv_def)
    moreover have "r \<in> set (en_audit s) \<Longrightarrow> ro_timestamp r \<le> ro_timestamp (last (en_audit s))" for r
      using inv by (cases "en_audit s" rule: rev_cases) (auto simp: session_inv_def sorted_append)
    ultimately have "r \<in> set (en_audit s) \<Longrightarrow> ro_timestamp r \<le> ?tm" for r by (cases "en_audit s = []") force+
    then show ?thesis using inv by (simp add: s' session_inv_def sorted_append)
  qed
  moreover have "audit_chained xs (en_audit s')" using inv by (simp add: s' session_inv_def audit_chained_snoc c)
  moreover have "\<forall>row \<in> set (en_audit s'). ro_rejection row \<noteq> None \<longrightarrow> ro_state row = HALTED \<and> ac_halted (ro_account row)"
    using inv why account_halted [OF a] by (auto simp: s' session_inv_def)
  moreover have "history_ok (Some ?tm) s'" using core by (simp add: s' session_core_def history_ok_def)
  moreover have "session_setup s' = session_setup s0" using c inv by (simp add: s' session_setup_def session_inv_def)
  ultimately show ?thesis using b ended by (simp add: session_inv_def s' flat_def)
qed

lemma broken_halt:
  assumes "broken (en_portfolio u)" and "session_halt xs reason tm u = (None, v)"
  shows "broken (en_portfolio v)"
proof -
  from assms(2) obtain t where t: "on_portfolio (\<lambda>crash. haltE (xs_portfolio xs) crash tm reason) u = (None, t)"
    and v: "readE (\<lambda>s. if en_state s \<noteq> HALTED then transition HALTED else skipE) t = (None, v)"
    by (auto simp: session_halt_def seqE_None)
  have "en_portfolio t = en_portfolio u"
    using t assms(1) broken_emit_fails
    by (auto simp: on_portfolio_def readE_def partE_def haltE_def skipE_def split: prod.splits if_splits)
  moreover have "en_portfolio v = en_portfolio t"
    using v by (auto simp: transition_def readE_def seqE_def updateE_def raiseE_def skipE_def split: if_splits)
  ultimately show ?thesis using assms(1) by simp
qed

lemma apply_keeps:
  assumes inv: "session_inv xs s0 s" and app: "session_apply xs step s = Inr s'"
  shows "session_inv xs s0 s'"
proof -
  obtain cmd recovered where step: "step = (cmd, recovered)" by (cases step)
  let ?tm = "latest (cm_at cmd) s" let ?start = "length (co_events (en_portfolio s))"
  have st: "en_state s \<notin> {COMPLETED, FAILED}" using app by (auto simp: session_apply_def)
  have mid0: "session_mid xs s ?tm (s\<lparr>en_transitions := [], en_candle_ids := []\<rparr>)" using inv st by (rule inv_start)
  obtain t where t: "(if recovered then recover else skipE) (s\<lparr>en_transitions := [], en_candle_ids := []\<rparr>) = (None, t)"
    using app st by (auto simp: session_apply_def step Let_def split: prod.splits option.splits)
  have "leads (session_mid xs s ?tm) (if recovered then recover else skipE) (session_mid xs s ?tm) (session_left xs s ?tm)"
    by (intro leads_if leads_recover leads_skip)
  then have mid: "session_mid xs s ?tm t" using mid0 t by (rule leadsD(1))
  obtain e u where u: "command_body xs cmd t = (e, u)" by (cases "command_body xs cmd t")
  note body = leadsD [OF leads_command_body [OF latest_bounds(1) [of cmd s]] mid]
  show ?thesis
  proof (cases e)
    case None
    then have fin: "finish_command xs cmd recovered ?start None u = Inr s'"
      using app st t u by (simp add: session_apply_def step)
    have "session_post xs s ?tm u" using body(1) u None by simp
    then show ?thesis by (intro finish_keeps [OF inv _ _ _ fin]) (simp_all add: session_post_def)
  next
    case (Some x)
    then obtain reason where x: "x = ValueError reason"
      using app st t u by (cases x) (simp_all add: session_apply_def step)
    then obtain v where v: "session_halt xs reason (latest (cm_at cmd) u) u = (None, v)"
      and fin: "finish_command xs cmd recovered ?start (Some reason) v = Inr s'"
      using app st t u Some by (auto simp: session_apply_def step split: prod.splits option.splits)
    have "\<not> broken (en_portfolio v)" using fin by (auto simp: finish_command_def broken_def bindR_Inr_iff Let_def)
    then have "session_core xs s ?tm u" using body(2) u Some broken_halt [OF _ v] by (auto simp: session_left_def)
    then have "session_core xs s ?tm v \<and> en_state v = HALTED \<and> co_halted (en_portfolio v)" using v by (rule leadsD(1) [OF leads_session_halt])
    then show ?thesis by (intro finish_keeps [OF inv _ _ _ fin]) simp_all
  qed
qed

lemma session_keeps:
  assumes "session_inv xs s0 s0" and "foldR (session_apply xs) steps s0 = Inr s"
  shows "session_inv xs s0 s"
  using assms(2,1) by (rule foldR_invariant) (rule apply_keeps)

lemma inv_init: "session_inv xs (engine_of xs rqs p ct k cfg crash) (engine_of xs rqs p ct k cfg crash)"
proof -
  let ?s = "engine_of xs rqs p ct k cfg crash"
  obtain b i where c: "en_portfolio ?s = (coordinator_init (xs_portfolio xs) b)\<lparr>co_run_id := i\<rparr>"
    by (simp add: engine_of_def session_portfolio_def Let_def)
  have "session_books (xs_portfolio xs) (entry_window ?s) (co_binding (en_portfolio ?s)) (co_opening (en_portfolio ?s)) [] False (en_portfolio ?s)"
    using journal_inv_init [of "xs_portfolio xs" b] account_inv_init [of "xs_portfolio xs" b] halt_inv_init [of "xs_portfolio xs" b]
    unfolding c session_books_def
    by (simp add: journal_inv_def account_inv_def halt_inv_def books_match_def exposed_def) (simp add: coordinator_init_def Let_def)
  moreover have "history_ok None ?s"
  proof -
    have empty: "map_of (map (\<lambda>(s, rq). (s, [])) xs) k = Some bars \<Longrightarrow> bars = []" for xs :: "(string \<times> request) list" and k :: string and bars :: "bar list"
      by (induction xs) (auto split: if_splits)
    show ?thesis by (auto simp: history_ok_def engine_of_def Let_def dest!: empty)
  qed
  moreover have "en_state ?s = CREATED" "en_audit ?s = []" "en_clock ?s = None" by (simp_all add: engine_of_def Let_def)
  moreover have "co_events (en_portfolio ?s) = []" unfolding c by (simp add: coordinator_init_def Let_def)
  ultimately show ?thesis by (simp add: session_inv_def audit_chained_def)
qed

lemmas session_reached = session_keeps [OF inv_init]

end
