(* ===== verification/Scheduler_Samples.thy ===== *)
theory Scheduler_Samples
  imports Scheduler_Safety Portfolio_Results
begin

text \<open>Small sessions for the witnesses: one symbol with a qualified synthetic pair, and a session of one or of four candles.\<close>

section \<open>A qualified pair\<close>

definition sample_wins :: "five_trade list" where
  "sample_wins = concat (map (\<lambda>a. replicate 34 (sample_trade a 1)) (take 3 (rw_folds half_year)))"

declare sample_wins_def [code del]

definition win_metrics :: "int \<Rightarrow> five_metrics" where
  "win_metrics n = \<lparr>fm_trades = n, fm_wins = n, fm_losses = 0, fm_breakeven = 0, fm_win_rate = 1, fm_expectancy = 1, fm_net = of_int n,
     fm_net_return = prec40 (of_int n / 10000), fm_costs = 0, fm_drawdown = 0\<rparr>"

definition sample_qualification :: qualification where
  "sample_qualification = \<lparr>qf_qualified = True, qf_reasons = [], qf_out_of_sample = win_metrics 102,
     qf_folds = [win_metrics 34, win_metrics 34, win_metrics 34], qf_adjusted_wilson_lower = 1\<rparr>"

definition sample_summary :: summary where
  "sample_summary = \<lparr>sum_basic = win_metrics 102, sum_gross = 102, sum_average_return = None, sum_profit_factor = None,
     sum_average_holding_seconds = None, sum_exposure = 0, sum_max_consecutive_wins = 102, sum_max_consecutive_losses = 0,
     sum_confidence_95 = (0, 1)\<rparr>"

definition sample_qualified :: row where
  "sample_qualified = \<lparr>row_schema_version = ''Phase1417Qualification.v1'', row_run_id = [], row_software_hash = ''s'', row_calendar_hash = Some ''c'',
     row_corporate_action_policy = None, row_risk_policy_hash = ''r'', row_capital = 10000,
     row_result = \<lparr>pr_family_run_id = Some ''f'', pr_hypothesis_family_size = Some 13380, pr_symbol = ''S'', pr_strategy_id = S05,
       pr_strategy_version = ''1'', pr_strategy_hash = def_name sample_reclaim, pr_window = half_year, pr_policy_hash = ''p'', pr_dataset_hash = Some ''d'',
       pr_data_status = SYNTHETIC, pr_synthetic = Some True, pr_qualified = True, pr_reasons = [], pr_coverage = Some 1, pr_training = None,
       pr_validation = None, pr_holdout = Some sample_summary, pr_total = None, pr_qualification = Some sample_qualification,
       pr_trades = sample_wins\<rparr>\<rparr>"

text \<open>The gate recomputes the qualification from the trades.\<close>

lemma prec40_of_nat: "n < 10 ^ 40 \<Longrightarrow> prec40 (of_nat n) = of_nat n"
  using round_sig_representable [of "int n" 40 "of_nat n" 0] by simp

lemma sum_of_wins: "list_all (\<lambda>t. ft_net t = 1) ts \<Longrightarrow> m + length ts < 10 ^ 40 \<Longrightarrow>
    foldl (\<lambda>s x. prec40 (s + x)) (of_nat m) (map ft_net ts) = of_nat (m + length ts)"
proof (induction ts arbitrary: m)
  case (Cons t ts)
  have "prec40 (of_nat m + ft_net t) = of_nat (Suc m)" using Cons.prems prec40_of_nat [of "Suc m"] by (simp add: add.commute)
  then show ?case using Cons.IH [of "Suc m"] Cons.prems by simp
qed simp

lemma sum_of_free: "list_all (\<lambda>t. ft_fees t = 0) ts \<Longrightarrow> foldl (\<lambda>s x. prec40 (s + x)) 0 (map ft_fees ts) = 0"
  by (induction ts) (simp_all add: prec40_of_nat [of 0, simplified])

lemma equity_of_wins: "list_all (\<lambda>t. ft_net t = 1) ts \<Longrightarrow> 0 < m \<Longrightarrow> m + length ts < 10 ^ 40 \<Longrightarrow>
    foldR fm_step ts (of_nat m, of_nat m, 0) = Inr (of_nat (m + length ts), of_nat (m + length ts), 0)"
proof (induction ts arbitrary: m)
  case (Cons t ts)
  have "prec40 (of_nat m + ft_net t) = of_nat (Suc m)" using Cons.prems prec40_of_nat [of "Suc m"] by (simp add: add.commute)
  then have "fm_step t (of_nat m, of_nat m, 0) = Inr (of_nat (Suc m), of_nat (Suc m), 0)"
    by (simp add: fm_step_def Let_def div40_def max_def prec40_of_nat [of 0, simplified])
  then show ?case using Cons.IH [of "Suc m"] Cons.prems by simp
qed simp

lemma metrics_of_wins:
  assumes "list_all (\<lambda>t. ft_net t = 1 \<and> ft_fees t = 0) ts" and "ts \<noteq> []" and "length ts < 10 ^ 6"
  shows "five_metrics_of ts 10000 = Inr (win_metrics (int (length ts)))"
proof -
  have w: "list_all (\<lambda>t. ft_net t = 1) ts" "list_all (\<lambda>t. ft_fees t = 0) ts" using assms(1) by (simp_all add: list_all_iff)
  have f: "filter (\<lambda>t. 0 < ft_net t) ts = ts" "filter (\<lambda>t. ft_net t < 0) ts = []" "filter (\<lambda>t. ft_net t = 0) ts = []"
    using w(1) by (auto simp: list_all_iff filter_id_conv filter_empty_conv)
  have "foldR fm_step ts (10000, 10000, 0) = Inr (of_nat (10000 + length ts), of_nat (10000 + length ts), 0)"
    using equity_of_wins [OF w(1), of 10000] assms(3) by simp
  moreover have "sum40 (map ft_net ts) = of_nat (length ts)" using sum_of_wins [OF w(1), of 0] assms(3) by (simp add: sum40_def)
  moreover have "sum40 (map ft_fees ts) = 0" using sum_of_free [OF w(2)] by (simp add: sum40_def)
  ultimately show ?thesis
    using assms(2) by (simp add: five_metrics_of_def Let_def f div40_def win_metrics_def prec40_of_nat [of 1, simplified])
qed

lemma wins_between:
  "filter (entered_in a b) sample_wins = concat (map (\<lambda>c. if a \<le> c \<and> c < b then replicate 34 (sample_trade c 1) else []) (take 3 (rw_folds half_year)))"
proof -
  have "filter (entered_in a b) (replicate 34 (sample_trade c 1)) = (if a \<le> c \<and> c < b then replicate 34 (sample_trade c 1) else [])" for c
    by (auto simp: entered_in_def sample_trade_def intro!: filter_True filter_False)
  then show ?thesis by (simp add: sample_wins_def filter_concat comp_def)
qed

lemma sample_gate_passes: "numerical_gate (\<lambda>p n w. w) (\<lambda>p. ''p'') ''s'' sample_qualified = Inr True"
proof -
  let ?fs = "rw_folds half_year" let ?wins = "\<lambda>c. replicate 34 (sample_trade c 1)"
  have fs: "?fs = [combine_nse 20677 0, combine_nse 20695 0, combine_nse 20713 0, combine_nse 20732 0]" by (simp add: half_year_def)
  have wins: "sample_wins = ?wins (combine_nse 20677 0) @ ?wins (combine_nse 20695 0) @ ?wins (combine_nse 20713 0)"
    by (simp add: sample_wins_def fs)
  have days: "combine_nse d 0 < combine_nse d' 0 \<longleftrightarrow> d < d'" "combine_nse d 0 \<le> combine_nse d' 0 \<longleftrightarrow> d \<le> d'" for d d'
    by (simp_all add: combine_nse_def)
  have all: "filter (entered_in (combine_nse 20677 0) (combine_nse 20732 0)) sample_wins = sample_wins"
    by (simp add: wins_between fs days) (simp add: wins)
  have fold: "filter (entered_in (combine_nse 20677 0) (combine_nse 20695 0)) sample_wins = ?wins (combine_nse 20677 0)"
    "filter (entered_in (combine_nse 20695 0) (combine_nse 20713 0)) sample_wins = ?wins (combine_nse 20695 0)"
    "filter (entered_in (combine_nse 20713 0) (combine_nse 20732 0)) sample_wins = ?wins (combine_nse 20713 0)"
    by (simp_all add: wins_between fs days)
  have m: "five_metrics_of (?wins c) 10000 = Inr (win_metrics 34)" for c
    using metrics_of_wins [of "?wins c"] by (simp add: list_all_iff sample_trade_def)
  have m': "five_metrics_of sample_wins 10000 = Inr (win_metrics 102)"
    using metrics_of_wins [of sample_wins] by (simp add: list_all_iff sample_trade_def wins)
  have "qualify (\<lambda>p n w. w) sample_wins 10000 (rw_holdout_start half_year) ?fs full_family_policy = Inr sample_qualification"
    by (simp add: qualify_def fs half_year_def days checks.simps all fold m m' Let_def reasons_of_def weak_fold_def full_family_policy_def
        win_metrics_def sample_qualification_def)
  then show ?thesis
    by (simp add: numerical_gate_def sample_qualified_def Let_def sample_qualification_def absent_def)
qed

section \<open>The session\<close>

definition short_series :: "int \<Rightarrow> series" where
  "short_series n = sample_series\<lparr>sr_to := five_at n, sr_sessions := [\<lparr>dse_start = five_at 0, dse_end = five_at n\<rparr>],
     sr_bars := take (nat n) (sr_bars sample_series)\<rparr>"

definition session_request :: "int \<Rightarrow> request" where
  "session_request n = \<lparr>rq_qualification = sample_qualified, rq_data = flat_dataset\<lparr>pd_series := short_series n\<rparr>, rq_definition = sample_reclaim,
     rq_settings = sample_settings, rq_costs = sample_costs,
     rq_authorization = \<lparr>az_mode = SYNTHETIC_FIXTURE, az_enabled = True, az_evidence_hash = ''e'', az_qualification_hash = ''q'', az_risk_hash = ''r'',
       az_dataset_hash = replicate 64 CHR ''a'', az_valid_from = five_at 0, az_valid_to = five_at 4, az_partial_fills = False, az_paper_halt = False\<rparr>\<rparr>"

definition session_control :: control where
  "session_control = sample_control\<lparr>ct_policy_hash := risk_hash, ct_enabled := True\<rparr>"

definition session_day :: "int \<Rightarrow> session_calendar" where
  "session_day n = \<lparr>sc_version = ''1'', sc_source_hash = replicate 64 CHR ''a'', sc_sessions = [\<lparr>dse_start = five_at 0, dse_end = five_at n\<rparr>], sc_holidays = []\<rparr>"

definition session_settings :: "int \<Rightarrow> session_config" where
  "session_settings n = \<lparr>cf_name = ''n'', cf_trading_date = 20732, cf_cutoff = five_at n - 1, cf_authorization = ''e'', cf_prior_session_resolved = True,
     cf_risk_version = policy_version, cf_risk_hash = risk_hash, cf_execution_version = execution_version, cf_execution_hash = execution_hash\<rparr>"

definition session_world :: session_externals where
  "session_world = \<lparr>xs_portfolio = sample_portfolio\<lparr>xp_policy_hash := (\<lambda>p. risk_hash)\<rparr>, xs_calendar_hash = (\<lambda>k. ''k''), xs_registry_hash = ''g'',
     xs_universe_hash = ''u'', xs_software = [], xs_binding_json = (\<lambda>b. ''id''), xs_row_json = (\<lambda>r. [])\<rparr>"

definition session_start :: "int \<Rightarrow> engine" where
  "session_start n = engine_of session_world [session_request n] sample_limits session_control (session_day n) (session_settings n) None"

definition sample_command :: "command_kind \<Rightarrow> int \<Rightarrow> command" where
  "sample_command kind i = \<lparr>cm_kind = kind, cm_at = five_at i,
     cm_completed = (if kind \<in> {Step, Close_Session} then [\<lparr>cc_symbol = ''S'', cc_instrument_token = ''7'', cc_bar = sr_bars sample_series ! nat (i - 1),
       cc_complete = True\<rparr>] else []),
     cm_openings = (if kind = Step then [\<lparr>op_symbol = ''S'', op_instrument_token = ''7'', op_price = bar_open (sr_bars sample_series ! nat i)\<rparr>] else [])\<rparr>"

section \<open>Preflight\<close>

definition session_checked :: "int \<Rightarrow> engine" where
  "session_checked n = (session_start n)\<lparr>en_state := READY, en_transitions := [(CREATED, PREMARKET_CHECK), (PREMARKET_CHECK, READY)]\<rparr>"

definition session_prepared :: "int \<Rightarrow> engine res" where
  "session_prepared n = finish_command session_world (sample_command Preflight (- 1)) False 0 None (session_checked n)"

lemma short_series_fields [simp]:
  "sr_symbol (short_series n) = ''S''" "sr_from (short_series n) = five_at 0" "sr_to (short_series n) = five_at n" "sr_synthetic (short_series n)"
  "sr_corporate_actions_reviewed (short_series n)" "sr_sessions (short_series n) = [\<lparr>dse_start = five_at 0, dse_end = five_at n\<rparr>]"
  "sr_calendar_hash (short_series n) = replicate 64 CHR ''a''"
  by (simp_all add: short_series_def sample_series_def)

lemma session_start_setup:
  "en_requests (session_start n) = [session_request n]" "en_policy (session_start n) = sample_limits" "en_calendar (session_start n) = session_day n"
  "en_session (session_start n) = Some \<lparr>dse_start = five_at 0, dse_end = five_at n\<rparr>" "en_config (session_start n) = session_settings n"
  "en_control (session_start n) = session_control" "en_sources (session_start n) = [(''S'', session_request n)]"
proof -
  have "nse_date (five_at 0) = 20732" by code_simp
  moreover have "rq_symbol (session_request n) = ''S''" by (simp add: session_request_def)
  ultimately show "en_requests (session_start n) = [session_request n]" "en_policy (session_start n) = sample_limits" "en_calendar (session_start n) = session_day n"
  "en_session (session_start n) = Some \<lparr>dse_start = five_at 0, dse_end = five_at n\<rparr>" "en_config (session_start n) = session_settings n"
  "en_control (session_start n) = session_control" "en_sources (session_start n) = [(''S'', session_request n)]"
    by (simp_all add: session_start_def engine_of_def Let_def session_requests_def session_of_def session_day_def session_settings_def
        session_sources_def)
qed

lemma request_admitted:
  assumes "quality (short_series n) = ([], [])" and "five_at n \<le> five_at 4"
  shows "request_failures session_world (session_start n) (session_request n) = Inr []"
proof -
  have gate: "numerical_gate (xt_wilson_lower sample_externals) (xt_policy_hash sample_externals) (xt_software_hash sample_externals) sample_qualified = Inr True"
    using sample_gate_passes by (simp add: sample_externals_def)
  have "risk_gaps sample_risk = []" "five_at 0 < five_at 4" "combine_nse 20732 0 \<le> five_at 0"
    "List.find (\<lambda>d. def_identifier d = def_identifier sample_reclaim) registry = Some sample_reclaim" by code_simp+
  with gate assms show ?thesis
    unfolding request_failures_def session_start_setup
    by (simp add: session_request_def Let_def session_world_def sample_portfolio_def admission_def reasons_of_def
        sample_limits_def sample_qualified_def flat_dataset_def sample_externals_def half_year_def sample_settings_def sample_risk_def session_day_def)
qed

lemma session_readiness:
  assumes "quality (short_series n) = ([], [])" and "five_at n \<le> five_at 4" and "five_at 0 < five_at n - 1"
  shows "readiness session_world (session_start n) = Inr []"
proof -
  have "portfolio_gaps sample_limits [''S''] = []" by code_simp
  then show ?thesis
    using request_admitted [OF assms(1,2)] assms(3) execution_fingerprint_value
    by (simp add: readiness_def session_start_setup reasons_of_def session_day_def session_settings_def session_control_def sample_control_def
        policy_mismatch_def session_world_def sample_limits_def sorted_unique_def execution_hash_def)
qed

lemma session_preflight:
  assumes "quality (short_series n) = ([], [])" and "five_at n \<le> five_at 4" and "five_at 0 < five_at n - 1"
  shows "session_apply session_world (sample_command Preflight (- 1), False) (session_start n) = session_prepared n"
proof -
  have e: "en_state (session_start n) = CREATED" "en_transitions (session_start n) = []" "en_candle_ids (session_start n) = []" "en_clock (session_start n) = None"
    "en_crash (session_start n) = None" "en_gaps (session_start n) = []" "co_events (en_portfolio (session_start n)) = []"
    "sb_risk_hash (en_binding (session_start n)) = risk_hash" "sb_execution_hash (en_binding (session_start n)) = execution_fingerprint"
    by (simp_all add: session_start_def engine_of_def Let_def session_portfolio_def coordinator_init_def binding_of_session_def session_world_def)
  let ?checked = "(session_start n)\<lparr>en_candle_ids := [], en_transitions := [(CREATED, PREMARKET_CHECK)], en_state := PREMARKET_CHECK\<rparr>"
  have f: "request_failures session_world ?checked = request_failures session_world (session_start n)" by (simp add: fun_eq_iff request_failures_def cong: option.case_cong)
  have r: "readiness session_world ?checked = Inr []"
    using session_readiness [OF assms] by (simp add: readiness_def f policy_mismatch_def cong: option.case_cong)
  have c: "\<not> five_at 0 \<le> five_at (- 1)" by code_simp
  have "xp_policy_hash (xs_portfolio session_world) p = risk_hash" for p by (simp add: session_world_def)
  then have "command_body session_world (sample_command Preflight (- 1)) ((session_start n)\<lparr>en_transitions := [], en_candle_ids := []\<rparr>)
      = (None, session_checked n)"
    using e r c
    by (simp add: command_body_def sample_command_def preflight_def readE_def seqE_def checkE_def checks.simps skipE_def withR_def updateE_def raiseE_def
        transition_def allowed_states_def session_start_setup)
      (rule engine.equality, simp_all add: session_checked_def e)
  then show ?thesis using e by (simp add: session_apply_def session_prepared_def skipE_def)
qed

section \<open>Whole sessions\<close>

definition sample_steps :: "int \<Rightarrow> (command \<times> bool) list" where
  "sample_steps n = (if n = 1 then [(sample_command Open_Session 0, False), (sample_command Close_Session 1, False)]
     else [(sample_command Open_Session 0, False), (sample_command Step 1, False), (sample_command Step 2, True)])"

definition session_view :: "engine \<Rightarrow> session_state \<times> session_state list \<times> string option list \<times> order_state option list \<times> nat list" where
  "session_view s = (en_state s, map ro_state (en_audit s), map ro_rejection (en_audit s),
     map (\<lambda>e. order_state_of (je_event e)) (co_events (en_portfolio s)), map (\<lambda>(k, bars). length bars) (en_history s))"

end
