(* ===== verification/Scheduler_Results.thy ===== *)
theory Scheduler_Results
  imports Scheduler_Samples
begin

text \<open>
  What the session scheduler guarantees for every sequence of commands, accepted and rejected ones, from the invariant of
  \<open>Scheduler_Safety\<close>.  The witnesses are three sessions: one of one candle that completes, one of four candles in which an
  order is filled after a recovery, and one whose first command is out of turn.
\<close>

section \<open>Every sequence of commands\<close>

text \<open>
  C9: the session is a run of its state machine.  After any sequence of commands the transitions recorded in the rows of the
  journal, one row after the other, are a path of allowed transitions from \<open>CREATED\<close> to the present state; the rows are
  numbered, chained by their hashes and in the order of time; and the portfolio events of the rows are, together, the
  whole journal of the portfolio.
\<close>

theorem session_is_a_path:
  assumes "foldR (session_apply xs) steps (engine_of xs rqs p ct k cfg crash) = Inr s"
  shows "session_path CREATED (concat (map ro_transitions (en_audit s))) (en_state s)
    \<and> audit_chained xs (en_audit s) \<and> sorted (map ro_timestamp (en_audit s))
    \<and> concat (map ro_portfolio_events (en_audit s)) = co_events (en_portfolio s)"
  using session_reached [OF assms] by (simp add: session_inv_def)

text \<open>
  C10: entries are made in the session only.  Whatever the commands are, every reservation, acceptance and fill of the
  portfolio is later than the start of the session of the trading date and earlier than the cutoff, and none follows a halt;
  a session in the state \<open>PAPER_HALTED\<close> has a halted portfolio.
\<close>

theorem session_entries_in_window:
  assumes "foldR (session_apply xs) steps (engine_of xs rqs p ct k cfg crash) = Inr s"
  shows "(\<forall>e \<in> set (co_events (en_portfolio s)). order_state_of (je_event e) \<in> {Some RESERVED, Some ACCEPTED, Some FILLED} \<longrightarrow>
        (\<exists>ses. session_of k cfg = Some ses \<and> dse_start ses < je_timestamp e \<and> je_timestamp e < cf_cutoff cfg))
    \<and> (\<forall>before h rest e. co_events (en_portfolio s) = before @ h # rest \<and> is_halt (je_event h) \<and> e \<in> set rest \<longrightarrow>
        order_state_of (je_event e) \<notin> {Some RESERVED, Some ACCEPTED, Some FILLED})
    \<and> (en_state s = HALTED \<longrightarrow> co_halted (en_portfolio s))"
proof -
  let ?s0 = "engine_of xs rqs p ct k cfg crash"
  have b: "session_books (xs_portfolio xs) (entry_window ?s0) (co_binding (en_portfolio ?s0)) (co_opening (en_portfolio ?s0)) []
      (en_state s = HALTED) (en_portfolio s)"
    using session_reached [OF assms] by (simp add: session_inv_def)
  have w: "entry_window ?s0 tm \<longleftrightarrow> (\<exists>ses. session_of k cfg = Some ses \<and> dse_start ses < tm \<and> tm < cf_cutoff cfg)" for tm
    by (simp add: entry_window_def engine_of_def Let_def)
  have "order_state_of (je_event e) \<notin> {Some RESERVED, Some ACCEPTED, Some FILLED}"
    if "co_events (en_portfolio s) = before @ h # rest" "is_halt (je_event h)" "e \<in> set rest" for before h rest e
  proof -
    have "\<not> entering (je_event e)"
      using b that by (auto simp: session_books_def halt_inv_def quiet_after_halt_def sorted_wrt_append)
    then show ?thesis by (auto simp: entering_def)
  qed
  moreover have "\<exists>ses. session_of k cfg = Some ses \<and> dse_start ses < je_timestamp e \<and> je_timestamp e < cf_cutoff cfg"
    if "e \<in> set (co_events (en_portfolio s))" "order_state_of (je_event e) \<in> {Some RESERVED, Some ACCEPTED, Some FILLED}" for e
  proof -
    have "entering (je_event e)" using that(2) by (auto simp: entering_def)
    then show ?thesis using b that(1) w by (auto simp: session_books_def)
  qed
  ultimately show ?thesis using b by (auto simp: session_books_def)
qed

text \<open>
  C13: what the strategies see is the past.  The history of every symbol is a sequence of candles of the dataset bound to the
  symbol, without a gap from the start of the session on, each of them completed at the clock of the session.
\<close>

theorem session_histories_causal:
  assumes "foldR (session_apply xs) steps (engine_of xs rqs p ct k cfg crash) = Inr s" and "history_of s symbol \<noteq> []"
  shows "\<exists>ses rq tm. session_of k cfg = Some ses \<and> map_of (en_sources s) symbol = Some rq \<and> en_clock s = Some tm
    \<and> map bar_start (history_of s symbol) = map (\<lambda>i. dse_start ses + int i * FIVE) [0..<length (history_of s symbol)]
    \<and> set (history_of s symbol) \<subseteq> set (sr_bars (rq_series rq)) \<and> (\<forall>b \<in> set (history_of s symbol). candle_end b \<le> tm)"
proof -
  have inv: "session_inv xs (engine_of xs rqs p ct k cfg crash) s" using assms(1) by (rule session_reached)
  then have "en_session s = session_of k cfg" by (simp add: session_inv_def session_setup_def) (simp add: engine_of_def Let_def)
  moreover have "candles_ok (en_session s) (en_sources s) (en_clock s) symbol (history_of s symbol)"
    using inv by (auto simp: session_inv_def history_ok_def history_of_def split: option.splits)
  ultimately show ?thesis using assms(2) by (simp add: candles_ok_def)
qed

text \<open>
  C17: a command that fails halts the session.  Every row that records a rejection was written in the state \<open>PAPER_HALTED\<close> with
  a halted account, and the exception that was caught in the middle of a command leaves no damage: the portfolio's books still
  agree with its orders, its journal is still a legal hash chain, and every account it ever recorded is balanced.
\<close>

theorem rejected_commands_halt:
  assumes "foldR (session_apply xs) steps (engine_of xs rqs p ct k cfg crash) = Inr s"
  shows "(\<forall>row \<in> set (en_audit s). ro_rejection row \<noteq> None \<longrightarrow> ro_state row = HALTED \<and> ac_halted (ro_account row))
    \<and> books_match (en_portfolio s)
    \<and> journal_chained (xs_portfolio xs) (co_events (en_portfolio s))
    \<and> (\<forall>key. legal_path None (order_path key (co_events (en_portfolio s))))
    \<and> (\<forall>e \<in> set (co_events (en_portfolio s)). sound_account p (capital_of (pf_base p)) (je_account e))"
proof -
  let ?c0 = "en_portfolio (engine_of xs rqs p ct k cfg crash)"
  have inv: "session_inv xs (engine_of xs rqs p ct k cfg crash) s" using assms by (rule session_reached)
  have "co_policy ?c0 = p" "co_opening ?c0 = capital_of (pf_base p)"
    by (simp_all add: engine_of_def session_portfolio_def coordinator_init_def binding_of_session_def Let_def)
  moreover have "co_binding (en_portfolio s) = co_binding ?c0" "co_opening (en_portfolio s) = co_opening ?c0"
    using inv by (simp_all add: session_inv_def session_books_def)
  ultimately have "co_policy (en_portfolio s) = p" "co_opening (en_portfolio s) = capital_of (pf_base p)" by simp_all
  moreover have j: "journal_inv (xs_portfolio xs) (en_portfolio s)" and a: "account_inv (en_portfolio s)"
    using inv by (simp_all add: session_inv_def session_books_def)
  ultimately have "\<forall>e \<in> set (co_events (en_portfolio s)). sound_account p (capital_of (pf_base p)) (je_account e)" by (simp add: account_inv_def)
  then show ?thesis using inv j a by (simp add: session_inv_def journal_inv_def account_inv_def)
qed

text \<open>
  C20: a completed session is flat and final.  In the state \<open>COMPLETED\<close> the portfolio is not halted, holds no position and has
  reserved no cash, and every further command is refused.
\<close>

theorem completed_session_is_final:
  assumes "foldR (session_apply xs) steps (engine_of xs rqs p ct k cfg crash) = Inr s" and "en_state s = COMPLETED"
  shows "\<not> co_halted (en_portfolio s) \<and> co_positions (en_portfolio s) = [] \<and> co_reservations (en_portfolio s) = []
    \<and> session_apply xs (cmd, recovered) s = Inl (ValueError ''TERMINAL_SESSION'')"
  using session_reached [OF assms(1)] assms(2) by (simp add: session_inv_def flat_def session_apply_def)

section \<open>Sample sessions\<close>

lemma completing_session:
  "bindR (session_prepared 1) (\<lambda>s. bindR (foldR (session_apply session_world) (sample_steps 1) s) (\<lambda>s. Inr (session_view s)))
     = Inr (COMPLETED, [READY, SESSION_OPEN, COMPLETED], [None, None, None], [None, None], [1])"
  by code_simp

lemma trading_session:
  "bindR (session_prepared 4) (\<lambda>s. bindR (foldR (session_apply session_world) (sample_steps 4) s) (\<lambda>s. Inr (session_view s)))
     = Inr (RUNNING, [READY, SESSION_OPEN, RUNNING, RUNNING], [None, None, None, None],
         [None, None, Some PROPOSED, Some RISK_CHECKED, Some RESERVED, Some ACCEPTED, Some FILLED], [2])"
  by code_simp

lemma rejecting_session:
  "bindR (session_apply session_world (sample_command Open_Session 0, False) (session_start 1)) (\<lambda>s. Inr (session_view s))
     = Inr (HALTED, [HALTED], [Some ''INVALID_SESSION_TRANSITION:CREATED:SESSION_OPEN''], [None], [0])"
  by code_simp

text \<open>The sessions from their creation on.\<close>

lemma after_preflight:
  assumes "n \<in> {1, 4}"
    and "bindR (session_prepared n) (\<lambda>s. bindR (foldR (session_apply session_world) (sample_steps n) s) (\<lambda>s. Inr (session_view s))) = Inr v"
  obtains s where "foldR (session_apply session_world) ((sample_command Preflight (- 1), False) # sample_steps n)
      (engine_of session_world [session_request n] sample_limits session_control (session_day n) (session_settings n) None) = Inr s"
    and "session_view s = v"
proof -
  have q: "quality (short_series 1) = ([], [])" "quality (short_series 4) = ([], [])" by code_simp+
  have t: "five_at 1 \<le> five_at 4" "five_at 0 < five_at 1 - 1" "five_at 0 < five_at 4 - 1" by code_simp+
  have pre: "session_apply session_world (sample_command Preflight (- 1), False) (session_start n) = session_prepared n"
    using assms(1) q t by (intro session_preflight) auto
  from assms(2) obtain s1 s where s1: "session_prepared n = Inr s1" and s: "foldR (session_apply session_world) (sample_steps n) s1 = Inr s"
    and v: "session_view s = v"
    by (auto simp: bindR_Inr_iff)
  have "foldR (session_apply session_world) ((sample_command Preflight (- 1), False) # sample_steps n) (session_start n) = Inr s"
    using pre s1 s by simp
  then show thesis by (rule that [unfolded session_start_def [symmetric]]) (rule v)
qed

theorem session_is_a_path_witness:
  "\<exists>s. foldR (session_apply session_world) ((sample_command Preflight (- 1), False) # sample_steps 1)
      (engine_of session_world [session_request 1] sample_limits session_control (session_day 1) (session_settings 1) None) = Inr s
    \<and> map ro_state (en_audit s) = [READY, SESSION_OPEN, COMPLETED]
    \<and> session_path CREATED (concat (map ro_transitions (en_audit s))) (en_state s) \<and> audit_chained session_world (en_audit s)"
proof -
  obtain s where s: "foldR (session_apply session_world) ((sample_command Preflight (- 1), False) # sample_steps 1)
      (engine_of session_world [session_request 1] sample_limits session_control (session_day 1) (session_settings 1) None) = Inr s"
    and v: "session_view s = (COMPLETED, [READY, SESSION_OPEN, COMPLETED], [None, None, None], [None, None], [1])"
    by (rule after_preflight [OF _ completing_session]) simp_all
  from v have "map ro_state (en_audit s) = [READY, SESSION_OPEN, COMPLETED]" by (simp add: session_view_def)
  with s session_is_a_path [OF s] show ?thesis by (elim conjE, intro exI [of _ s] conjI)
qed

theorem session_entries_in_window_witness:
  "\<exists>s e. foldR (session_apply session_world) ((sample_command Preflight (- 1), False) # sample_steps 4)
      (engine_of session_world [session_request 4] sample_limits session_control (session_day 4) (session_settings 4) None) = Inr s
    \<and> e \<in> set (co_events (en_portfolio s)) \<and> order_state_of (je_event e) = Some FILLED
    \<and> je_timestamp e < cf_cutoff (session_settings 4)"
proof -
  obtain s where s: "foldR (session_apply session_world) ((sample_command Preflight (- 1), False) # sample_steps 4)
      (engine_of session_world [session_request 4] sample_limits session_control (session_day 4) (session_settings 4) None) = Inr s"
    and v: "session_view s = (RUNNING, [READY, SESSION_OPEN, RUNNING, RUNNING], [None, None, None, None],
         [None, None, Some PROPOSED, Some RISK_CHECKED, Some RESERVED, Some ACCEPTED, Some FILLED], [2])"
    by (rule after_preflight [OF _ trading_session]) simp_all
  from v have "Some FILLED \<in> set (map (\<lambda>e. order_state_of (je_event e)) (co_events (en_portfolio s)))" by (simp add: session_view_def)
  then obtain e where e: "e \<in> set (co_events (en_portfolio s))" "order_state_of (je_event e) = Some FILLED" by auto
  moreover have "je_timestamp e < cf_cutoff (session_settings 4)" using session_entries_in_window [OF s] e by auto
  ultimately show ?thesis using s by (intro exI [of _ s] exI [of _ e] conjI)
qed

theorem session_histories_causal_witness:
  "\<exists>s symbol ses. foldR (session_apply session_world) ((sample_command Preflight (- 1), False) # sample_steps 4)
      (engine_of session_world [session_request 4] sample_limits session_control (session_day 4) (session_settings 4) None) = Inr s
    \<and> session_of (session_day 4) (session_settings 4) = Some ses \<and> length (history_of s symbol) = 2
    \<and> map bar_start (history_of s symbol) = [dse_start ses, dse_start ses + FIVE]"
proof -
  obtain s where s: "foldR (session_apply session_world) ((sample_command Preflight (- 1), False) # sample_steps 4)
      (engine_of session_world [session_request 4] sample_limits session_control (session_day 4) (session_settings 4) None) = Inr s"
    and v: "session_view s = (RUNNING, [READY, SESSION_OPEN, RUNNING, RUNNING], [None, None, None, None],
         [None, None, Some PROPOSED, Some RISK_CHECKED, Some RESERVED, Some ACCEPTED, Some FILLED], [2])"
    by (rule after_preflight [OF _ trading_session]) simp_all
  from v obtain symbol bars where "en_history s = [(symbol, bars)]" "length bars = 2" by (auto simp: session_view_def)
  then have l: "length (history_of s symbol) = 2" by (simp add: history_of_def)
  then have "history_of s symbol \<noteq> []" by auto
  from session_histories_causal [OF s this] obtain ses where "session_of (session_day 4) (session_settings 4) = Some ses"
    "map bar_start (history_of s symbol) = map (\<lambda>i. dse_start ses + int i * FIVE) [0..<length (history_of s symbol)]" by blast
  with s l show ?thesis by (intro exI [of _ s] exI [of _ symbol] exI [of _ ses]) (simp add: upt_rec)
qed

theorem rejected_commands_halt_witness:
  "\<exists>s row. foldR (session_apply session_world) [(sample_command Open_Session 0, False)]
      (engine_of session_world [session_request 1] sample_limits session_control (session_day 1) (session_settings 1) None) = Inr s
    \<and> en_audit s = [row] \<and> ro_rejection row \<noteq> None \<and> ac_halted (ro_account row) \<and> books_match (en_portfolio s)"
proof -
  obtain s where a: "session_apply session_world (sample_command Open_Session 0, False) (session_start 1) = Inr s"
    and v: "session_view s = (HALTED, [HALTED], [Some ''INVALID_SESSION_TRANSITION:CREATED:SESSION_OPEN''], [None], [0])"
    using rejecting_session by (rule evaluatedE)
  then have s: "foldR (session_apply session_world) [(sample_command Open_Session 0, False)]
      (engine_of session_world [session_request 1] sample_limits session_control (session_day 1) (session_settings 1) None) = Inr s"
    by (simp add: session_start_def)
  from v obtain row where "en_audit s = [row]" "ro_rejection row \<noteq> None" by (auto simp: session_view_def)
  with s rejected_commands_halt [OF s] show ?thesis by (intro exI [of _ s] exI [of _ row]) simp
qed

theorem completed_session_is_final_witness:
  "\<exists>s. foldR (session_apply session_world) ((sample_command Preflight (- 1), False) # sample_steps 1)
      (engine_of session_world [session_request 1] sample_limits session_control (session_day 1) (session_settings 1) None) = Inr s
    \<and> en_state s = COMPLETED \<and> co_positions (en_portfolio s) = []
    \<and> session_apply session_world (sample_command Close_Session 1, False) s = Inl (ValueError ''TERMINAL_SESSION'')"
proof -
  obtain s where s: "foldR (session_apply session_world) ((sample_command Preflight (- 1), False) # sample_steps 1)
      (engine_of session_world [session_request 1] sample_limits session_control (session_day 1) (session_settings 1) None) = Inr s"
    and v: "session_view s = (COMPLETED, [READY, SESSION_OPEN, COMPLETED], [None, None, None], [None, None], [1])"
    by (rule after_preflight [OF _ completing_session]) simp_all
  have "en_state s = COMPLETED" using v by (simp add: session_view_def)
  with s completed_session_is_final [OF s this, of "sample_command Close_Session 1" False] show ?thesis by (elim conjE, intro exI [of _ s] conjI)
qed

end
