(* ===== verification/Scheduler_Run.thy ===== *)
theory Scheduler_Run
  imports Scheduler
begin

text \<open>
  \<open>Engine.output\<close> and \<open>run\<close> of \<open>phase1419/scheduler.py\<close>: a list of commands is applied to a fresh engine, every row is
  published to a journal or compared with the row that an earlier run has published there, and a session that has ended is
  summarised.  A run returns its result together with the directory it leaves.

  \<open>session.lock\<close> is created and removed by the run itself, so that its presence is only checked; a \<open>.pending\<close> file is what
  a process leaves that was killed inside of \<open>publish\<close>.  The reports are made outside of \<open>apply\<close>, in the default decimal
  context of 28 digits.  The JSON texts, and the flag that is read back from a row, are parameters; the fields of the summary
  that are constants of the source are left out.
\<close>

section \<open>Output\<close>

datatype session_report =
    Portfolio_Report report_value
  | Readiness_Report "string list" session_binding
  | Session_Events "session_row list"
  | Candle_Processing "(string \<times> nat) list"
  | Session_Signals "signal_decision list"
  | Session_Eod session_state bool account
  | Replay_Verification string string

definition default_digits :: nat where
  "default_digits = 28"

definition session_output :: "engine \<Rightarrow> (string \<times> session_report) list res" where
  "session_output s =
     bindR (portfolio_reports default_digits (en_portfolio s)) (\<lambda>rs.
     bindR (account_of (en_portfolio s)) (\<lambda>a.
     Inr (map (\<lambda>(n, v). (n, Portfolio_Report v)) rs @
       [(''readiness.json'', Readiness_Report (en_gaps s) (en_binding s)),
        (''session-events.json'', Session_Events (en_audit s)),
        (''candle-processing.json'', Candle_Processing (map (\<lambda>(symbol, bars). (symbol, length bars)) (en_history s))),
        (''session-signals.json'', Session_Signals (en_signal_decisions s)),
        (''session-eod.json'', Session_Eod (en_state s) (en_state s = COMPLETED) a),
        (''replay-verification.json'', Replay_Verification (en_identifier s) (session_last_hash (en_audit s)))])))"

record session_summary =
  ss_session_id :: string
  ss_state :: session_state
  ss_complete :: bool
  ss_account :: account
  ss_risk_version :: string
  ss_risk_hash :: string
  ss_execution_version :: string
  ss_execution_hash :: string
  ss_calendar_hash :: string
  ss_cutoff_hash :: string
  ss_reports :: "(string \<times> string) list"
  ss_final_hash :: string

datatype session_result =
    Checkpointed session_state account
  | Summarised session_summary

record run_world =
  rx_session :: session_externals
  rx_row_json :: "session_row \<Rightarrow> string"
  rx_recovered :: "string \<Rightarrow> bool res"
  rx_report_json :: "session_report \<Rightarrow> string"
  rx_summary_json :: "session_summary \<Rightarrow> string"
  rx_config_hash :: "session_config \<Rightarrow> string"

section \<open>The directory\<close>

record session_files =
  sf_plan :: "string option"
  sf_journal :: "(string \<times> string) list"
  sf_files :: "(string \<times> string) list"
  sf_lock :: bool
  sf_pending :: bool

definition session_summary_name :: string where
  "session_summary_name = ''summary.json''"

definition check_session_files :: "string \<Rightarrow> command list \<Rightarrow> bool \<Rightarrow> bool \<Rightarrow> session_files \<Rightarrow> unit res" where
  "check_session_files plan commands resume verify_only d =
     (let existing = sort_key fst (sf_journal d); n = length existing; finished = (map_of (sf_files d) session_summary_name \<noteq> None) in checks
       [(case sf_plan d of None \<Rightarrow> False | Some t \<Rightarrow> t \<noteq> plan, ''CHECKPOINT_BINDING_MISMATCH''),
        (finished \<and> \<not> verify_only, ''COMPLETED_OR_HALTED_SESSION_CANNOT_REOPEN''),
        (map fst existing \<noteq> map event_name [0..<n] \<or> length commands < n, ''CORRUPT_OR_MISSING_JOURNAL''),
        (existing \<noteq> [] \<and> \<not> resume \<and> \<not> verify_only, ''EXPLICIT_RECOVERY_REQUIRED''),
        (verify_only \<and> (n \<noteq> length commands \<or> \<not> finished), ''INCOMPLETE_REPLAY''),
        (sf_lock d \<or> sf_pending d, ''AMBIGUOUS_OWNER_OR_PENDING_WRITE'')])"

section \<open>The commands\<close>

definition row_limit :: int where
  "row_limit = 4 * 1024 * 1024"

definition journal_byte_limit :: int where
  "journal_byte_limit = 128 * 1024 * 1024"

text \<open>One command: whether it is a recovery, its row, and the bytes of the journal so far.\<close>

definition run_command ::
  "run_world \<Rightarrow> bool \<Rightarrow> (string \<times> string) list \<Rightarrow> nat \<Rightarrow> command \<Rightarrow> engine \<times> int \<Rightarrow> (engine \<times> int \<times> string) res" where
  "run_command w resume existing i cmd st =
     bindR (if i < length existing then rx_recovered w (snd (existing ! i)) else Inr (resume \<and> i = length existing \<and> 0 < i)) (\<lambda>recovered.
     bindR (session_apply (rx_session w) (cmd, recovered) (fst st)) (\<lambda>s.
     let raw = rx_row_json w (last (en_audit s)); bytes = snd st + int (length raw) in
     bindR (checks [(row_limit < int (length raw) \<or> journal_byte_limit < bytes, ''SESSION_JOURNAL_BYTE_LIMIT'')]) (\<lambda>_.
     Inr (s, bytes, raw))))"

fun session_loop ::
  "run_world \<Rightarrow> bool \<Rightarrow> bool \<Rightarrow> (string \<times> string) list \<Rightarrow> nat \<Rightarrow> command list \<Rightarrow> engine \<times> int \<Rightarrow> (string \<times> string) list
     \<Rightarrow> engine res \<times> (string \<times> string) list" where
  "session_loop w resume verify_only existing i [] st journal = (Inr (fst st), journal)"
| "session_loop w resume verify_only existing i (cmd # cmds) st journal =
     (case run_command w resume existing i cmd st of
        Inl e \<Rightarrow> (Inl e, journal)
      | Inr (s, bytes, raw) \<Rightarrow>
          (if i < length existing
           then if snd (existing ! i) \<noteq> raw then (Inl (ValueError ''JOURNAL_REPLAY_MISMATCH''), journal)
             else session_loop w resume verify_only existing (Suc i) cmds (s, bytes) journal
           else if verify_only then session_loop w resume verify_only existing (Suc i) cmds (s, bytes) journal
           else case publish (event_name i, raw) journal of
               Inl e \<Rightarrow> (Inl e, journal)
             | Inr journal' \<Rightarrow> session_loop w resume verify_only existing (Suc i) cmds (s, bytes) journal'))"

section \<open>The end of a run\<close>

definition session_summary_of :: "run_world \<Rightarrow> (string \<times> string) list \<Rightarrow> engine \<Rightarrow> session_summary res" where
  "session_summary_of w payloads s =
     bindR (account_of (en_portfolio s)) (\<lambda>a.
     Inr \<lparr>ss_session_id = en_identifier s, ss_state = en_state s, ss_complete = (en_state s = COMPLETED), ss_account = a,
          ss_risk_version = policy_version, ss_risk_hash = xp_policy_hash (xs_portfolio (rx_session w)) (en_policy s),
          ss_execution_version = execution_version, ss_execution_hash = execution_fingerprint,
          ss_calendar_hash = xs_calendar_hash (rx_session w) (en_calendar s), ss_cutoff_hash = rx_config_hash w (en_config s),
          ss_reports = map (\<lambda>p. (fst p, xs_sha (rx_session w) (snd p))) payloads, ss_final_hash = session_last_hash (en_audit s)\<rparr>)"

definition session_payloads :: "run_world \<Rightarrow> engine \<Rightarrow> (session_summary \<times> (string \<times> string) list) res" where
  "session_payloads w s =
     bindR (session_output s) (\<lambda>out.
     let payloads = map (\<lambda>(n, v). (n, rx_report_json w v)) out in
     bindR (checks [(byte_limit < sum_list (map (\<lambda>p. int (length (snd p))) payloads), ''REPORT_BUDGET'')]) (\<lambda>_.
     bindR (session_summary_of w payloads s) (\<lambda>su.
     Inr (su, payloads @ [(session_summary_name, rx_summary_json w su)]))))"

definition finish_session :: "run_world \<Rightarrow> bool \<Rightarrow> engine \<Rightarrow> session_files \<Rightarrow> session_result res \<times> session_files" where
  "finish_session w verify_only s d =
     (if en_state s \<notin> {COMPLETED, HALTED, FAILED}
      then if verify_only then (Inl (ValueError ''INCOMPLETE_REPLAY''), d)
        else (bindR (account_of (en_portfolio s)) (\<lambda>a. Inr (Checkpointed (en_state s) a)), d)
      else case session_payloads w s of
          Inl e \<Rightarrow> (Inl e, d)
        | Inr (su, payloads) \<Rightarrow>
            (if verify_only
             then (bindR (checks [(list_ex (\<lambda>p. map_of (sf_files d) (fst p) \<noteq> Some (snd p)) payloads, ''COMPLETED_REPORT_MISMATCH'')])
                 (\<lambda>_. Inr (Summarised su)), d)
             else case publish_all None payloads (sf_files d) of
                 (Inl e, files) \<Rightarrow> (Inl e, d\<lparr>sf_files := files\<rparr>)
               | (Inr _, files) \<Rightarrow> (Inr (Summarised su), d\<lparr>sf_files := files\<rparr>)))"

definition session_plan :: "run_world \<Rightarrow> engine \<Rightarrow> string" where
  "session_plan w s = xs_binding_json (rx_session w) (en_binding s)"

definition run_session ::
  "run_world \<Rightarrow> request list \<Rightarrow> portfolio_policy \<Rightarrow> control \<Rightarrow> session_calendar \<Rightarrow> session_config \<Rightarrow> command list \<Rightarrow> bool \<Rightarrow> bool
     \<Rightarrow> string option \<Rightarrow> session_files \<Rightarrow> session_result res \<times> session_files" where
  "run_session w rqs p ct k cfg commands resume verify_only crash d =
     (case bindR (checks [(commands = [] \<or> 1000 < int (length commands), ''COMMAND_BUDGET'')]) (\<lambda>_.
        bindR (engine_init (rx_session w) rqs p ct k cfg crash) (\<lambda>s.
        bindR (check_session_files (session_plan w s) commands resume verify_only d) (\<lambda>_. Inr s))) of
        Inl e \<Rightarrow> (Inl e, d)
      | Inr s \<Rightarrow>
          (let d1 = (if verify_only then d else d\<lparr>sf_plan := Some (session_plan w s)\<rparr>) in
           if crash = Some ''CREATED'' then (Inl (InterruptedError (crash_text ''CREATED'')), d1)
           else case session_loop w resume verify_only (sort_key fst (sf_journal d)) 0 commands (s, 0) (sf_journal d1) of
               (Inl e, journal) \<Rightarrow> (Inl e, d1\<lparr>sf_journal := journal\<rparr>)
             | (Inr s', journal) \<Rightarrow> finish_session w verify_only s' (d1\<lparr>sf_journal := journal\<rparr>)))"

end
