(* ===== verification/Scheduler_Replay.thy ===== *)
theory Scheduler_Replay
  imports Scheduler_Run Scheduler_Samples Portfolio_Recovery
begin

text \<open>
  Replay of sessions.  Whatever the run that ends a session started from, a fresh directory or the checkpoint of interrupted
  runs, a later \<open>verify_only\<close> run reproduces every row and every report from the commands alone.
\<close>

section \<open>Published files\<close>

lemma publish_keeps: "publish p files = Inr files' \<Longrightarrow> map_of files n = Some t \<Longrightarrow> map_of files' n = Some t"
  by (auto simp: publish_def map_add_def split: option.splits if_splits)

lemma publish_there: "publish p files = Inr files' \<Longrightarrow> map_of files' (fst p) = Some (snd p)"
  by (auto simp: publish_def map_add_def split: option.splits if_splits)

lemma publish_all_keeps: "publish_all stop ps files = (Inr u, files') \<Longrightarrow> map_of files n = Some t \<Longrightarrow> map_of files' n = Some t"
  by (induction stop ps files rule: publish_all.induct) (auto split: if_splits sum.splits dest: publish_keeps)

lemma publish_all_there: "publish_all stop ps files = (Inr u, files') \<Longrightarrow> p \<in> set ps \<Longrightarrow> map_of files' (fst p) = Some (snd p)"
  by (induction stop ps files rule: publish_all.induct)
    (auto split: if_splits sum.splits dest: publish_there publish_all_keeps)

section \<open>The loop\<close>

lemma applied_row: "session_apply xs (cmd, recovered) s = Inr s' \<Longrightarrow> ro_recovered (last (en_audit s')) = recovered"
  by (auto simp: session_apply_def finish_command_def bindR_Inr_iff Let_def split: if_splits prod.splits option.splits exc.splits)

lemma run_command_Inr:
  assumes "run_command w resume existing i cmd st = Inr (s, bytes, raw)"
  obtains recovered where "session_apply (rx_session w) (cmd, recovered) (fst st) = Inr s" "raw = rx_row_json w (last (en_audit s))"
    "bytes = snd st + int (length raw)" "int (length raw) \<le> row_limit" "bytes \<le> journal_byte_limit" "ro_recovered (last (en_audit s)) = recovered"
proof -
  from assms obtain recovered where a: "session_apply (rx_session w) (cmd, recovered) (fst st) = Inr s"
    and r: "raw = rx_row_json w (last (en_audit s))" "bytes = snd st + int (length raw)" "int (length raw) \<le> row_limit" "bytes \<le> journal_byte_limit"
    by (auto simp: run_command_def bindR_Inr_iff checks_Inr_iff Let_def)
  from a show thesis by (rule that) (use r applied_row [OF a] in simp_all)
qed

text \<open>A command whose row is in the journal is replayed with the flag that the row records.\<close>

lemma run_command_replayed:
  assumes "run_command w resume existing i cmd st = Inr (s, bytes, raw)" and "i < length existing'" and "snd (existing' ! i) = raw"
    and json: "\<And>row. int (length (rx_row_json w row)) \<le> row_limit \<Longrightarrow> rx_recovered w (rx_row_json w row) = Inr (ro_recovered row)"
  shows "run_command w resume' existing' i cmd st = Inr (s, bytes, raw)"
proof -
  from assms(1) obtain recovered where a: "session_apply (rx_session w) (cmd, recovered) (fst st) = Inr s" "raw = rx_row_json w (last (en_audit s))"
    "bytes = snd st + int (length raw)" "int (length raw) \<le> row_limit" "bytes \<le> journal_byte_limit" "ro_recovered (last (en_audit s)) = recovered"
    by (rule run_command_Inr)
  then have "rx_recovered w raw = Inr recovered" using json by simp
  then show ?thesis using a assms(2,3) by (simp add: run_command_def checks.simps Let_def)
qed

text \<open>The rows that are new to the journal, and what one of them adds to it.\<close>

lemma new_rows_Cons:
  "{(event_name (i + k), (raw # raws) ! k) |k. k < length (cmd # cmds) \<and> n \<le> i + k}
     = (if n \<le> i then {(event_name i, raw)} else {}) \<union> {(event_name (Suc i + k), raws ! k) |k. k < length cmds \<and> n \<le> Suc i + k}"
  (is "?A = ?B")
proof
  show "?A \<subseteq> ?B"
  proof
    fix x assume "x \<in> ?A"
    then obtain k where k: "x = (event_name (i + k), (raw # raws) ! k)" "k < length (cmd # cmds)" "n \<le> i + k" by blast
    then show "x \<in> ?B" by (cases k) auto
  qed
  show "?B \<subseteq> ?A"
  proof
    fix x assume "x \<in> ?B"
    then consider "x = (event_name i, raw)" "n \<le> i"
      | k where "x = (event_name (Suc i + k), raws ! k)" "k < length cmds" "n \<le> Suc i + k"
      by (auto split: if_splits)
    then show "x \<in> ?A"
    proof cases
      case 1
      then show ?thesis by (auto intro!: exI [of _ 0])
    next
      case (2 k)
      then show ?thesis by (auto intro!: exI [of _ "Suc k"])
    qed
  qed
qed

lemma published_next:
  assumes "fst ` set journal = event_name ` {0..<max i n}" and "distinct (map fst journal)"
    and "i < n \<Longrightarrow> journal1 = journal" and "n \<le> i \<Longrightarrow> publish (event_name i, raw) journal = Inr journal1"
  shows "journal1 = journal @ (if n \<le> i then [(event_name i, raw)] else [])"
    and "fst ` set journal1 = event_name ` {0..<max (Suc i) n}" and "distinct (map fst journal1)"
proof -
  have fresh: "event_name i \<notin> fst ` set journal" if "n \<le> i" unfolding assms(1) using that by auto
  then have "map_of journal (event_name i) = None" if "n \<le> i" using that by (simp add: map_of_eq_None_iff)
  then show j: "journal1 = journal @ (if n \<le> i then [(event_name i, raw)] else [])"
    using assms(3,4) by (cases "n \<le> i") (simp_all add: publish_def)
  show "fst ` set journal1 = event_name ` {0..<max (Suc i) n}"
    using assms(1) by (cases "n \<le> i") (simp_all add: j max_def atLeastLessThanSuc)
  show "distinct (map fst journal1)" using assms(2) fresh by (simp add: j)
qed

lemma loop_replayed:
  assumes "session_loop w resume False existing i cmds st journal = (Inr s', journal')"
    and "fst ` set journal = event_name ` {0..<max i (length existing)}" and "distinct (map fst journal)"
    and json: "\<And>row. int (length (rx_row_json w row)) \<le> row_limit \<Longrightarrow> rx_recovered w (rx_row_json w row) = Inr (ro_recovered row)"
  shows "\<exists>raws flags. length raws = length cmds \<and> length flags = length cmds
    \<and> foldR (session_apply (rx_session w)) (zip cmds flags) (fst st) = Inr s'
    \<and> (\<forall>k < length cmds. i + k < length existing \<longrightarrow> snd (existing ! (i + k)) = raws ! k)
    \<and> set journal' = set journal \<union> {(event_name (i + k), raws ! k) |k. k < length cmds \<and> length existing \<le> i + k}
    \<and> distinct (map fst journal')
    \<and> (\<forall>resume' existing' j. (\<forall>k < length cmds. i + k < length existing' \<and> snd (existing' ! (i + k)) = raws ! k) \<longrightarrow>
          session_loop w resume' True existing' i cmds st j = (Inr s', j))"
  using assms(1-3)
proof (induction cmds arbitrary: i st journal)
  case Nil
  then show ?case by auto
next
  case (Cons cmd cmds)
  from Cons.prems(1) obtain s bytes raw where rc: "run_command w resume existing i cmd st = Inr (s, bytes, raw)"
    by (auto split: sum.splits)
  obtain flag where flag: "session_apply (rx_session w) (cmd, flag) (fst st) = Inr s" using rc by (rule run_command_Inr)
  obtain journal1 where loop: "session_loop w resume False existing (Suc i) cmds (s, bytes) journal1 = (Inr s', journal')"
    and old: "i < length existing \<Longrightarrow> snd (existing ! i) = raw \<and> journal1 = journal"
    and new: "length existing \<le> i \<Longrightarrow> publish (event_name i, raw) journal = Inr journal1"
    using Cons.prems(1) rc by (auto split: if_splits sum.splits)
  have j1: "journal1 = journal @ (if length existing \<le> i then [(event_name i, raw)] else [])"
    and names: "fst ` set journal1 = event_name ` {0..<max (Suc i) (length existing)}" and d: "distinct (map fst journal1)"
    by (rule published_next [OF Cons.prems(2,3) old [THEN conjunct2] new], assumption+)+
  from Cons.IH [OF loop names d] obtain raws flags where ih: "length raws = length cmds" "length flags = length cmds"
    "foldR (session_apply (rx_session w)) (zip cmds flags) s = Inr s'"
    "\<forall>k < length cmds. Suc i + k < length existing \<longrightarrow> snd (existing ! (Suc i + k)) = raws ! k"
    "set journal' = set journal1 \<union> {(event_name (Suc i + k), raws ! k) |k. k < length cmds \<and> length existing \<le> Suc i + k}"
    "distinct (map fst journal')"
    "\<forall>resume' existing' j. (\<forall>k < length cmds. Suc i + k < length existing' \<and> snd (existing' ! (Suc i + k)) = raws ! k) \<longrightarrow>
          session_loop w resume' True existing' (Suc i) cmds (s, bytes) j = (Inr s', j)"
    by auto
  have "set journal1 = set journal \<union> (if length existing \<le> i then {(event_name i, raw)} else {})"
    by (simp add: j1)
  then have "set journal' = set journal \<union> {(event_name (i + k), (raw # raws) ! k) |k. k < length (cmd # cmds) \<and> length existing \<le> i + k}"
    unfolding new_rows_Cons ih(5) by simp
  moreover have "\<forall>k < length (cmd # cmds). i + k < length existing \<longrightarrow> snd (existing ! (i + k)) = (raw # raws) ! k"
    using old ih(4) by (auto simp: nth_Cons split: nat.splits)
  moreover have "session_loop w resume' True existing' i (cmd # cmds) st j = (Inr s', j)"
    if e: "\<forall>k < length (cmd # cmds). i + k < length existing' \<and> snd (existing' ! (i + k)) = (raw # raws) ! k" for resume' existing' j
  proof -
    have here: "i < length existing'" "snd (existing' ! i) = raw" using e [rule_format, of 0] by simp_all
    have "\<forall>k < length cmds. Suc i + k < length existing' \<and> snd (existing' ! (Suc i + k)) = raws ! k" using e by (auto dest: spec [of _ "Suc _"])
    then have "session_loop w resume' True existing' (Suc i) cmds (s, bytes) j = (Inr s', j)" using ih(7) by blast
    then show ?thesis using run_command_replayed [OF rc here json] here by simp
  qed
  ultimately show ?case
    using flag ih by (intro exI [of _ "raw # raws"] exI [of _ "flag # flags"]) simp
qed

section \<open>A run that ends its session\<close>

lemma ended_run:
  assumes "run_session w rqs p ct k cfg cmds resume False crash d = (Inr (Summarised su), d')"
  obtains s s' journal payloads files where "engine_init (rx_session w) rqs p ct k cfg crash = Inr s"
    "check_session_files (session_plan w s) cmds resume False d = Inr ()" "crash \<noteq> Some ''CREATED''"
    "checks [(cmds = [] \<or> 1000 < int (length cmds), ''COMMAND_BUDGET'')] = Inr ()"
    "session_loop w resume False (sort_key fst (sf_journal d)) 0 cmds (s, 0) (sf_journal d) = (Inr s', journal)"
    "en_state s' \<in> {COMPLETED, HALTED, FAILED}" "session_payloads w s' = Inr (su, payloads)" "publish_all None payloads (sf_files d) = (Inr (), files)"
    "d' = d\<lparr>sf_plan := Some (session_plan w s), sf_journal := journal, sf_files := files\<rparr>"
proof -
  from assms obtain s where s: "bindR (checks [(cmds = [] \<or> 1000 < int (length cmds), ''COMMAND_BUDGET'')]) (\<lambda>_.
        bindR (engine_init (rx_session w) rqs p ct k cfg crash) (\<lambda>s.
        bindR (check_session_files (session_plan w s) cmds resume False d) (\<lambda>_. Inr s))) = Inr s"
    unfolding run_session_def by (auto split: sum.splits)
  let ?d = "d\<lparr>sf_plan := Some (session_plan w s)\<rparr>"
  have c: "crash \<noteq> Some ''CREATED''" using assms s by (auto simp: run_session_def)
  with assms s obtain s' journal where loop: "session_loop w resume False (sort_key fst (sf_journal d)) 0 cmds (s, 0) (sf_journal d) = (Inr s', journal)"
    and fin: "finish_session w False s' (?d\<lparr>sf_journal := journal\<rparr>) = (Inr (Summarised su), d')"
    by (auto simp: run_session_def Let_def split: prod.splits sum.splits)
  from fin have st: "en_state s' \<in> {COMPLETED, HALTED, FAILED}"
    by (auto simp: finish_session_def bindR_Inr_iff split: if_splits)
  with fin obtain payloads files where "session_payloads w s' = Inr (su, payloads)" "publish_all None payloads (sf_files d) = (Inr (), files)"
    "d' = ?d\<lparr>sf_journal := journal, sf_files := files\<rparr>"
    by (auto simp: finish_session_def split: sum.splits prod.splits)
  with s c loop st that show thesis by (auto simp: bindR_Inr_iff)
qed

text \<open>The names of an accepted journal.\<close>

lemma accepted_journal:
  assumes "check_session_files plan cmds resume verify_only d = Inr ()"
  shows "fst ` set (sf_journal d) = event_name ` {0..<max 0 (length (sort_key fst (sf_journal d)))}" and "distinct (map fst (sf_journal d))"
    and "map fst (sort_key fst (sf_journal d)) = map event_name [0..<length (sort_key fst (sf_journal d))]"
    and "length (sort_key fst (sf_journal d)) \<le> length cmds"
proof -
  let ?E = "sort_key fst (sf_journal d)"
  show E: "map fst ?E = map event_name [0..<length ?E]" and "length ?E \<le> length cmds"
    using assms by (auto simp: check_session_files_def Let_def checks_Inr_iff)
  show "fst ` set (sf_journal d) = event_name ` {0..<max 0 (length ?E)}" using arg_cong [OF E, of set] by simp
  have "distinct (map fst ?E)" unfolding E by (simp add: distinct_map inj_on_def)
  then show "distinct (map fst (sf_journal d))" by (simp add: distinct_map)
qed

text \<open>The published journal, sorted by its names, is the journal of the rows.\<close>

lemma journal_sorted:
  assumes "set journal = {(event_name k, raws ! k) |k. k < length raws}" and "distinct (map fst journal)" and "length raws \<le> 10 ^ 6"
  shows "sort_key fst journal = map (\<lambda>k. (event_name k, raws ! k)) [0..<length raws]"
proof (rule map_sorted_distinct_set_unique [of fst])
  let ?R = "map (\<lambda>k. (event_name k, raws ! k)) [0..<length raws]"
  have names: "map fst ?R = map event_name [0..<length raws]" by simp
  show "set (sort_key fst journal) = set ?R" using assms(1) by auto
  show d: "distinct (map fst ?R)" unfolding names by (simp add: distinct_map inj_on_def)
  show "sorted (map fst ?R)" unfolding names using assms(3) by (rule event_names_sorted)
  show "distinct (map fst (sort_key fst journal))" using assms(2) by (simp add: distinct_map)
  show "inj_on fst (set (sort_key fst journal) \<union> set ?R)"
    using d \<open>set (sort_key fst journal) = set ?R\<close> unfolding distinct_map by (metis sup.idem)
qed simp

lemma summary_published:
  assumes "session_payloads w s = Inr (su, payloads)" and "publish_all None payloads files = (Inr (), files')"
  shows "map_of files' session_summary_name \<noteq> None" and "\<not> list_ex (\<lambda>p. map_of files' (fst p) \<noteq> Some (snd p)) payloads"
proof -
  have "(session_summary_name, rx_summary_json w su) \<in> set payloads" using assms(1) by (auto simp: session_payloads_def bindR_Inr_iff Let_def)
  from publish_all_there [OF assms(2) this] show "map_of files' session_summary_name \<noteq> None" by simp
  show "\<not> list_ex (\<lambda>p. map_of files' (fst p) \<noteq> Some (snd p)) payloads"
    using publish_all_there [OF assms(2)] by (auto simp: list_ex_iff)
qed

text \<open>
  C27: a session that has ended can be verified and not reopened.  Suppose a run ends a session, resumed or not, from whatever
  directory it found acceptable, and that the flag \<open>recovered\<close> of a row that is within the size limit can be read back from its JSON
  text.  Then a \<open>verify_only\<close> run over the same commands accepts the directory, computes the same summary and changes
  nothing, and every other run is refused and changes nothing.
\<close>

theorem ended_session_verifies:
  assumes run: "run_session w rqs p ct k cfg cmds resume False crash d = (Inr (Summarised su), d')"
    and json: "\<And>row. int (length (rx_row_json w row)) \<le> row_limit \<Longrightarrow> rx_recovered w (rx_row_json w row) = Inr (ro_recovered row)"
  shows "run_session w rqs p ct k cfg cmds resume' True crash d' = (Inr (Summarised su), d')
    \<and> run_session w rqs p ct k cfg cmds resume' False crash d' = (Inl (ValueError ''COMPLETED_OR_HALTED_SESSION_CANNOT_REOPEN''), d')"
proof -
  from run obtain s s' journal payloads files where init: "engine_init (rx_session w) rqs p ct k cfg crash = Inr s"
    and check: "check_session_files (session_plan w s) cmds resume False d = Inr ()" and c: "crash \<noteq> Some ''CREATED''"
    and budget: "checks [(cmds = [] \<or> 1000 < int (length cmds), ''COMMAND_BUDGET'')] = Inr ()"
    and loop: "session_loop w resume False (sort_key fst (sf_journal d)) 0 cmds (s, 0) (sf_journal d) = (Inr s', journal)"
    and st: "en_state s' \<in> {COMPLETED, HALTED, FAILED}" and pay: "session_payloads w s' = Inr (su, payloads)"
    and pub: "publish_all None payloads (sf_files d) = (Inr (), files)"
    and d': "d' = d\<lparr>sf_plan := Some (session_plan w s), sf_journal := journal, sf_files := files\<rparr>"
    by (rule ended_run)
  let ?E = "sort_key fst (sf_journal d)" let ?n = "length ?E" let ?N = "length cmds"
  have free: "\<not> sf_lock d" "\<not> sf_pending d" using check by (auto simp: check_session_files_def Let_def checks_Inr_iff)
  have N: "?N \<le> 10 ^ 6" using budget by (auto simp: checks_Inr_iff)
  note names = accepted_journal(1,2) [OF check] and E = accepted_journal(3,4) [OF check]
  from loop_replayed [OF loop names json] obtain raws where raws: "length raws = ?N"
    "\<forall>k < ?N. k < ?n \<longrightarrow> snd (?E ! k) = raws ! k"
    "set journal = set (sf_journal d) \<union> {(event_name k, raws ! k) |k. k < ?N \<and> ?n \<le> k}" "distinct (map fst journal)"
    "\<forall>resume' existing' j. (\<forall>k < ?N. k < length existing' \<and> snd (existing' ! k) = raws ! k) \<longrightarrow>
          session_loop w resume' True existing' 0 cmds (s, 0) j = (Inr s', j)"
    by auto
  have "set (sf_journal d) = set ?E" by simp
  also have "\<dots> = {?E ! k |k. k < ?n}" by (auto simp: set_conv_nth)
  also have "\<dots> = {(event_name k, raws ! k) |k. k < ?n}"
  proof -
    have "?E ! k = (event_name k, raws ! k)" if "k < ?n" for k
    proof -
      have "map fst ?E ! k = event_name k" unfolding E(1) using that by simp
      then show ?thesis using raws(2) that E(2) by (simp add: prod_eq_iff)
    qed
    then show ?thesis by (metis (no_types, lifting))
  qed
  finally have "set journal = {(event_name k, raws ! k) |k. k < length raws}" using raws(1,3) E(2) by auto
  then have R: "sort_key fst journal = map (\<lambda>k. (event_name k, raws ! k)) [0..<?N]"
    using journal_sorted [of journal raws, OF _ raws(4)] raws(1) N by simp
  have again: "session_loop w resume' True (sort_key fst journal) 0 cmds (s, 0) journal = (Inr s', journal)"
    using raws(5) by (simp add: R)
  note published = summary_published [OF pay pub]
  have "check_session_files (session_plan w s) cmds resume' True d' = Inr ()"
    using published(1) free R by (simp add: check_session_files_def d' checks.simps Let_def comp_def)
  moreover have j: "sf_journal d' = journal" "d'\<lparr>sf_journal := journal\<rparr> = d'" by (simp_all add: d')
  ultimately have "run_session w rqs p ct k cfg cmds resume' True crash d' = finish_session w True s' d'"
    using init budget c again by (simp add: run_session_def j)
  also have "\<dots> = (Inr (Summarised su), d')" using st pay published(2) by (simp add: finish_session_def d' checks.simps)
  finally have "run_session w rqs p ct k cfg cmds resume' True crash d' = (Inr (Summarised su), d')" .
  moreover have "check_session_files (session_plan w s) cmds resume' False d' = Inl (ValueError ''COMPLETED_OR_HALTED_SESSION_CANNOT_REOPEN'')"
    using published(1) by (simp add: check_session_files_def d' checks.simps Let_def)
  ultimately show ?thesis using init budget by (simp add: run_session_def)
qed

lemma flat_account:
  assumes "account_of c = Inr a" and "co_positions c = []" and "co_reservations c = []"
  shows "ac_positions a = []" and "ac_reservations a = []"
proof -
  from assms(1) obtain held where h: "held_orders c = Inr held" and a: "ac_positions a = sort_key fst held"
      "ac_reservations a = sort_key fst (co_reservations c)"
    by (auto simp: account_of_def bindR_Inr_iff Let_def)
  show "ac_positions a = []" using held_orders_symbols [OF h] a(1) assms(2) by simp
  show "ac_reservations a = []" using a(2) assms(3) by simp
qed

text \<open>
  C26: the summary tells the truth.  Every summary that a run returns is that of an engine which the given commands lead to, each
  applied as a recovery or not; a summary marked complete shows an account that is not halted, without positions and
  without reservations, and the summary of a session halted on paper shows a halted account.
\<close>

theorem summary_of_reached_session:
  assumes run: "run_session w rqs p ct k cfg cmds resume False crash d = (Inr (Summarised su), d')"
    and json: "\<And>row. int (length (rx_row_json w row)) \<le> row_limit \<Longrightarrow> rx_recovered w (rx_row_json w row) = Inr (ro_recovered row)"
  shows "(\<exists>flags s. length flags = length cmds
        \<and> foldR (session_apply (rx_session w)) (zip cmds flags) (engine_of (rx_session w) rqs p ct k cfg crash) = Inr s
        \<and> ss_state su = en_state s \<and> account_of (en_portfolio s) = Inr (ss_account su) \<and> ss_final_hash su = session_last_hash (en_audit s))
    \<and> (ss_complete su \<longrightarrow> \<not> ac_halted (ss_account su) \<and> ac_positions (ss_account su) = [] \<and> ac_reservations (ss_account su) = [])
    \<and> (ss_state su = HALTED \<longrightarrow> ac_halted (ss_account su))"
proof -
  from run obtain s s' journal payloads files where init: "engine_init (rx_session w) rqs p ct k cfg crash = Inr s"
    and check: "check_session_files (session_plan w s) cmds resume False d = Inr ()"
    and loop: "session_loop w resume False (sort_key fst (sf_journal d)) 0 cmds (s, 0) (sf_journal d) = (Inr s', journal)"
    and pay: "session_payloads w s' = Inr (su, payloads)"
    by (rule ended_run)
  have s: "s = engine_of (rx_session w) rqs p ct k cfg crash" using init by (auto simp: engine_init_def bindR_Inr_iff)
  obtain flags where flags: "length flags = length cmds" "foldR (session_apply (rx_session w)) (zip cmds flags) s = Inr s'"
    using loop_replayed [OF loop accepted_journal(1,2) [OF check] json] by auto
  have su: "ss_state su = en_state s'" "ss_complete su = (en_state s' = COMPLETED)" "account_of (en_portfolio s') = Inr (ss_account su)"
    "ss_final_hash su = session_last_hash (en_audit s')"
    using pay by (auto simp: session_payloads_def session_summary_of_def bindR_Inr_iff Let_def)
  have inv: "session_inv (rx_session w) (engine_of (rx_session w) rqs p ct k cfg crash) s'" using flags(2) unfolding s by (rule session_reached)
  have complete: "\<not> ac_halted (ss_account su) \<and> ac_positions (ss_account su) = [] \<and> ac_reservations (ss_account su) = []" if "en_state s' = COMPLETED"
  proof -
    have "flat s'" using inv that by (simp add: session_inv_def)
    then show ?thesis using flat_account [OF su(3)] account_halted [OF su(3)] by (simp add: flat_def)
  qed
  have "ac_halted (ss_account su)" if "en_state s' = HALTED"
    using inv that account_halted [OF su(3)] by (simp add: session_inv_def session_books_def)
  moreover have "\<exists>flags s. length flags = length cmds
      \<and> foldR (session_apply (rx_session w)) (zip cmds flags) (engine_of (rx_session w) rqs p ct k cfg crash) = Inr s
      \<and> ss_state su = en_state s \<and> account_of (en_portfolio s) = Inr (ss_account su) \<and> ss_final_hash su = session_last_hash (en_audit s)"
    using flags su unfolding s by (intro exI [of _ flags] exI [of _ s'] conjI)
  ultimately show ?thesis using complete su(1,2) by simp
qed

section \<open>A session that is verified\<close>

text \<open>The session of \<open>Scheduler_Samples\<close> in a universe of the full size; a first command out of turn halts it.\<close>

definition replay_session :: session_externals where
  "replay_session = session_world\<lparr>xs_portfolio := (xs_portfolio session_world)\<lparr>xp_universe := sample_universe\<rparr>\<rparr>"

definition replay_world :: run_world where
  "replay_world = \<lparr>rx_session = replay_session, rx_row_json = (\<lambda>row. if ro_recovered row then ''r'' else ''n''), rx_recovered = (\<lambda>t. Inr (t = ''r'')),
     rx_report_json = (\<lambda>v. []), rx_summary_json = (\<lambda>su. []), rx_config_hash = (\<lambda>cfg. [])\<rparr>"

definition fresh_files :: session_files where
  "fresh_files = \<lparr>sf_plan = None, sf_journal = [], sf_files = [], sf_lock = False, sf_pending = False\<rparr>"

lemma halted_session:
  "bindR (session_apply session_world (sample_command Open_Session 0, False) (session_start 1)) (\<lambda>s.
     bindR (session_output s) (\<lambda>out. bindR (account_of (en_portfolio s)) (\<lambda>a. Inr (en_state s)))) = Inr HALTED"
  by code_simp

text \<open>A command that opens a session does not look at the universe.\<close>

lemma emit_universe: "portfolio_emit (xp\<lparr>xp_universe := u\<rparr>) = portfolio_emit xp"
  by (simp add: fun_eq_iff portfolio_emit_def journal_entry_def)

lemma open_universe:
  "session_apply replay_session (sample_command Open_Session 0, recovered) = session_apply session_world (sample_command Open_Session 0, recovered)"
proof -
  have "emitE (xs_portfolio replay_session) = emitE (xs_portfolio session_world)"
    by (simp add: fun_eq_iff emitE_def emit_universe replay_session_def)
  then have h: "session_halt replay_session = session_halt session_world" by (intro ext) (simp add: session_halt_def haltE_def cong: if_cong)
  have b: "command_body replay_session (sample_command Open_Session 0) = command_body session_world (sample_command Open_Session 0)"
    by (simp add: command_body_def sample_command_def replay_session_def)
  have f: "finish_command replay_session = finish_command session_world"
    by (simp add: fun_eq_iff finish_command_def session_entry_def replay_session_def)
  show ?thesis by (rule ext) (unfold session_apply_def fst_conv snd_conv Let_def h b f, rule refl)
qed

lemma replay_start: "engine_init replay_session [session_request 1] sample_limits session_control (session_day 1) (session_settings 1) None = Inr (session_start 1)"
proof -
  have "int (length (sr_bars (rq_series (session_request 1)))) = 1" by code_simp
  moreover have "engine_of replay_session [session_request 1] sample_limits session_control (session_day 1) (session_settings 1) None = session_start 1"
    by (simp add: session_start_def engine_of_def replay_session_def session_requests_def binding_of_session_def session_portfolio_def coordinator_init_def Let_def)
  ultimately show ?thesis
    using sample_universe_ok
    by (simp add: engine_init_def check_engine_def checks.simps replay_session_def session_requests_def session_sources_def max_bars_def Let_def)
qed

lemma output_names:
  assumes "session_output s = Inr out"
  shows "distinct (map fst (map (\<lambda>(n, v). (n, f v)) out @ [(session_summary_name, raw)]))"
proof -
  from assms obtain rs where rs: "portfolio_reports default_digits (en_portfolio s) = Inr rs"
    and "map fst out = map fst rs @ [''readiness.json'', ''session-events.json'', ''candle-processing.json'', ''session-signals.json'', ''session-eod.json'',
      ''replay-verification.json'']"
    by (auto simp: session_output_def bindR_Inr_iff case_prod_beta)
  then show ?thesis using report_titles [OF rs] by (simp add: session_summary_name_def comp_def case_prod_beta)
qed

lemma halted_replay:
  obtains su d where "run_session replay_world [session_request 1] sample_limits session_control (session_day 1) (session_settings 1)
      [sample_command Open_Session 0] False False None fresh_files = (Inr (Summarised su), d)" and "ss_state su = HALTED"
proof -
  from halted_session obtain s out a where s: "session_apply session_world (sample_command Open_Session 0, False) (session_start 1) = Inr s"
    and out: "session_output s = Inr out" and a: "account_of (en_portfolio s) = Inr a" and h: "en_state s = HALTED"
    by (auto simp: bindR_Inr_iff)
  have step: "run_command replay_world False [] 0 (sample_command Open_Session 0) (session_start 1, 0) = Inr (s, 1, ''n'')"
    using s applied_row [OF s]
    by (simp add: run_command_def replay_world_def open_universe checks.simps row_limit_def journal_byte_limit_def Let_def)
  have sums: "sum_list (map (\<lambda>p. int (length (snd p))) (map (\<lambda>(n, v). (n, [] :: string)) xs)) = 0" for xs :: "(string \<times> session_report) list"
    by (induction xs) auto
  obtain su where su: "session_summary_of replay_world (map (\<lambda>(n, v). (n, [])) out) s = Inr su" "ss_state su = HALTED"
    using a h by (auto simp: session_summary_of_def)
  let ?payloads = "map (\<lambda>(n, v). (n, [] :: string)) out @ [(session_summary_name, [])]"
  have pay: "session_payloads replay_world s = Inr (su, ?payloads)"
    using out sums [of out] su by (simp add: session_payloads_def checks.simps byte_limit_def Let_def) (simp add: replay_world_def)
  have "publish_all None ?payloads [] = (Inr (), ?payloads)"
    using publish_all_prefix [of "[]" ?payloads None 0] output_names [OF out, of "\<lambda>v. [] :: string" "[]"] by simp
  moreover have w: "rx_session replay_world = replay_session" by (simp add: replay_world_def)
  ultimately have "finish_session replay_world False s d = (Inr (Summarised su), d\<lparr>sf_files := ?payloads\<rparr>)" if "sf_files d = []" for d
    using h pay that by (simp add: finish_session_def)
  then have "run_session replay_world [session_request 1] sample_limits session_control (session_day 1) (session_settings 1)
      [sample_command Open_Session 0] False False None fresh_files = (Inr (Summarised su), fresh_files
        \<lparr>sf_plan := Some (session_plan replay_world (session_start 1)), sf_journal := [(event_name 0, ''n'')], sf_files := ?payloads\<rparr>)"
    using replay_start step w
    by (simp add: run_session_def checks.simps check_session_files_def fresh_files_def Let_def publish_def)
  then show thesis using su(2) by (rule that)
qed

lemma replay_json:
  "int (length (rx_row_json replay_world row)) \<le> row_limit \<Longrightarrow> rx_recovered replay_world (rx_row_json replay_world row) = Inr (ro_recovered row)"
  by (simp add: replay_world_def)

theorem ended_session_verifies_witness:
  "\<exists>su d. run_session replay_world [session_request 1] sample_limits session_control (session_day 1) (session_settings 1)
      [sample_command Open_Session 0] False False None fresh_files = (Inr (Summarised su), d)
    \<and> run_session replay_world [session_request 1] sample_limits session_control (session_day 1) (session_settings 1)
      [sample_command Open_Session 0] False True None d = (Inr (Summarised su), d)"
proof -
  obtain su d where run: "run_session replay_world [session_request 1] sample_limits session_control (session_day 1) (session_settings 1)
      [sample_command Open_Session 0] False False None fresh_files = (Inr (Summarised su), d)" by (rule halted_replay)
  from ended_session_verifies [OF run replay_json, of False] run show ?thesis by (intro exI [of _ su] exI [of _ d]) simp
qed

theorem summary_of_reached_session_witness:
  "\<exists>su d. run_session replay_world [session_request 1] sample_limits session_control (session_day 1) (session_settings 1)
      [sample_command Open_Session 0] False False None fresh_files = (Inr (Summarised su), d) \<and> ss_state su = HALTED \<and> ac_halted (ss_account su)"
proof -
  obtain su d where run: "run_session replay_world [session_request 1] sample_limits session_control (session_day 1) (session_settings 1)
      [sample_command Open_Session 0] False False None fresh_files = (Inr (Summarised su), d)" and h: "ss_state su = HALTED" by (rule halted_replay)
  from summary_of_reached_session [OF run replay_json] run h show ?thesis by (intro exI [of _ su] exI [of _ d]) simp
qed

end
