(* ===== verification/Spec2Isabelle.thy ===== *)
theory Spec2Isabelle
  imports Backtest_Results Feature_Bounds Engine_Views Candidate_Behaviour Paper_Results Canonical_Results Portfolio_Recovery Scheduler_Results Scheduler_Replay
begin

text \<open>
  Verification of the research and paper-trading core of the strategy engine,
  \<open>src/apps/strategy-engine/src/strategy_engine\<close>.

  \<^bold>\<open>The program.\<close>  The strategy engine is an offline research program for intraday trading on the NSE.  Validated one-minute
  datasets (\<open>backtest/dataset.py\<close>) are composed into a corpus (\<open>backtest/corpus.py\<close>) and traded by a single-position engine
  (\<open>backtest/engine.py\<close>) under a dated cost schedule (\<open>backtest/costs.py\<close>).  Strategies (\<open>research/strategy.py\<close>,
  \<open>research/candidates.py\<close>) see only a completed session (\<open>research/features.py\<close>).  A second line of the program works on
  five-minute series: \<open>phase14/engine.py\<close> simulates and qualifies one strategy, \<open>phase1415\<close> replaces its entry rule by a
  registry of six frozen definitions and a causal executor and evaluates symbol and strategy pairs over declared windows,
  \<open>phase1417\<close> admits qualified pairs to a serialized paper simulation with a chained audit, and \<open>phase1418\<close> merges many such
  streams into one portfolio with reservations, limits, halts and a journal that survives interruption.  \<open>phase1419\<close> drives the
  strategies and the portfolio through one trading session by explicit commands, catching what goes wrong in them.

  \<^bold>\<open>Conventions.\<close>  A raise is the left side of a sum (\<open>'a res\<close>, theory \<open>Prelude\<close>); \<open>bindR\<close>, \<open>checks\<close>, \<open>foldR\<close> and \<open>mapR\<close> are
  sequencing, chains of guarded raises, loops and comprehensions.  A \<open>Decimal\<close> is its value, a rational number; every
  operation is followed by the rounding of its context (\<open>prec40\<close> of theory \<open>Decimals\<close> for the 40-digit context, \<open>exactly\<close> for the
  contexts that trap inexact results), so that what is proved holds of the rounded program.  Instants are microseconds, dates
  are day numbers, local time is the fixed offset of the exchange.  Python integers are \<open>int\<close>, texts are \<open>string\<close>, frozen
  models are records with a \<open>check_\<close> function for their validators, dictionaries whose order matters are association lists.

  \<^bold>\<open>Theories.\<close>
  \<^item> \<open>Prelude\<close>, \<open>Decimals\<close>, \<open>Decimal_Code\<close>, \<open>Texts\<close>: results and loops, decimal contexts and their code equations, SHA-256,
    numerals, decimal texts (C40), dates.
  \<^item> \<open>Dataset\<close>, \<open>Corpus\<close>, \<open>Costs\<close>: \<open>backtest/dataset.py\<close>, \<open>backtest/corpus.py\<close>, \<open>backtest/costs.py\<close> and the tariff of
    \<open>research/costs.py\<close>.
  \<^item> \<open>Backtest\<close>: \<open>backtest/engine.py\<close>, the loop body as \<open>sim_step\<close>, block by block.  \<open>Sessions\<close>, \<open>Backtest_Ledger\<close>,
    \<open>Backtest_Safety\<close> carry its invariants through the locale \<open>loop_invariant\<close>; \<open>Backtest_Results\<close> states C1 to C7: the ledger
    balances, which failures are possible, trades are intraday, the equity curve, every intent is resolved once, no look
    ahead, and the metrics.  \<open>Samples\<close> is a small corpus on which the witnesses run.
  \<^item> \<open>Features\<close> with \<open>Feature_Bounds\<close> (C8) and \<open>Engine_Views\<close> (C11): the features, their ranges under rounding, and that
    the engine only offers completed sessions.  \<open>Research_Strategies\<close> with \<open>Candidate_Behaviour\<close> (C12): the baselines and the
    two candidate hypotheses.
  \<^item> \<open>Five_Minute\<close>: \<open>phase14/engine.py\<close>.  \<open>Slot_Engine\<close> has the grid of slots and the locale \<open>slot_engine\<close> of loops over the slots
    of ordered sessions; \<open>Five_Minute_Results\<close> (C14 to C16, C18) interprets it on the engine and \<open>Executor_Results\<close> (C19, C21 to C24) on the
    executor of \<open>Session_Executor\<close> (\<open>phase1415/strategies.py\<close>, \<open>execution.py\<close>, \<open>paper.py\<close>).
  \<^item> \<open>Pair_Research\<close> with \<open>Pair_Results\<close> (C25): \<open>phase1415/research.py\<close>, the family policy of \<open>phase1415/hardening.py\<close>, and the
    status and numerical gate of \<open>phase1417/qualification.py\<close>.
  \<^item> \<open>Paper\<close> with \<open>Paper_Results\<close> (C28 to C32): \<open>phase1417/paper.py\<close>, sizing, audit, replay, admission and the run.
  \<^item> \<open>Canonical_Policy\<close> with \<open>Canonical_Results\<close> (C33): \<open>phase1418/canonical_policy.py\<close>.
  \<^item> \<open>Portfolio\<close> and \<open>Portfolio_Run\<close>: \<open>phase1418/portfolio.py\<close>.  \<open>Portfolio\<close> is the coordinator, from \<open>account_of\<close> and
    \<open>portfolio_emit\<close> to one action of the merged stream (\<open>portfolio_act\<close>); \<open>Portfolio_Run\<close> is admission of a batch, the simulation,
    the reports and the publication.  \<open>Coordinator\<close> has the frame of one emission and the locales \<open>portfolio_writer\<close> and
    \<open>portfolio_emitter\<close> that carry an invariant from emissions to runs; \<open>Portfolio_Books\<close> interprets them four times (books,
    journal, accounts, halts) and once for session ends; \<open>Portfolio_Results\<close> states C34 to C38, and \<open>Portfolio_Recovery\<close> C39:
    an interrupted run resumes to the same result.
  \<^item> \<open>Effects\<close> has statements that may raise and keep the state they leave, with triples for normal and exceptional ends;
    \<open>Portfolio_Statements\<close> writes the coordinator's methods as such statements and shows that they agree with the functions of
    \<open>Portfolio\<close>; \<open>Statement_Safety\<close> has the locale \<open>safe_writer\<close> that carries an invariant of the coordinator through
    them, also where they fail.  \<open>Sha_Eval\<close> evaluates the fingerprint of the execution policy.
  \<^item> \<open>Scheduler\<close> and \<open>Scheduler_Run\<close>: \<open>phase1419/scheduler.py\<close>, the engine with its commands (\<open>session_apply\<close>) and the run over a
    directory (\<open>run_session\<close>).  \<open>Scheduler_Safety\<close> proves the invariant of a session inside a command and between commands;
    \<open>Scheduler_Results\<close> states C9 (the state machine and the journal), C10 (entries in the window), C13 (causal histories), C17
    (a rejected command halts and leaves sound books) and C20 (a completed session is flat and final); \<open>Scheduler_Replay\<close> states
    C26 (the summary tells the truth) and C27 (an ended session verifies and cannot be reopened).  \<open>Scheduler_Samples\<close> has the
    sessions of the witnesses.

  \<^bold>\<open>Bounds and termination.\<close>  There is no fuel: every loop is structural recursion, a fold over a finite list, or a function with
  a measure (the sizing loop, the slots of a session, digits).  The bounds of the program are part of the model: 200000 audit
  rows and journal events, 30000 candles, 288 slots of a session, 6690 requests, 1000 commands, 256 MiB of output.

  \<^bold>\<open>Parameters.\<close>  What is computed outside of these sources is an argument: the strategy of the backtest engine, the Wilson bound
  (binary floating point), JSON texts and the fingerprints derived from them, the digest of the installed sources, the universe
  file, and in the audit and the journal also the hash function, since what is shown there holds of every function.  Properties
  with a condition on a parameter (that a plan which was published reads back as acceptable, C39; that the flag of a row reads back
  from its JSON, C26 and C27) name it as a hypothesis.

  \<^bold>\<open>Not modelled.\<close>  Readers and writers of files (JSON and CSV import, checkpoints, report export), the drivers that start runs
  from files (\<open>phase1415/jobs.py\<close>, \<open>phase1416/jobs.py\<close>), the coordination of several sessions (\<open>phase1420/multi.py\<close>), diagnostics and analytics over finished runs
  (\<open>research/diagnostics.py\<close>, \<open>research/continuity.py\<close>, \<open>phase1421\<close>, \<open>phase1424\<close>), the process supervision and the offline policy
  fixtures of the later phases, and the Java trading core.  Of the research protocol, \<open>research/walkforward.py\<close> and
  \<open>research/experiments.py\<close> are the next components.
\<close>

end
